(* ===== verification/Kdive_Prelude.thy ===== *)
theory Kdive_Prelude
  imports Complex_Main "HOL-Library.Sublist" "HOL-Library.Multiset"
begin

text \<open>
  Shared vocabulary of the development: the identifier and time types, the
  JSON documents kept in open-ended columns, sequencing of fallible code, and
  the generic facts on lists and results that the component theories rely on.

  Fallible code returns a sum whose left summand is the exception raised.
  Code that runs inside a database transaction returns the new database in the
  right summand, so an exception leaves the caller with the database it started
  from, which is the rollback.
\<close>

section \<open>Base types\<close>

type_synonym uuid = nat

type_synonym time = int  \<comment> \<open>microseconds since the epoch, UTC\<close>

abbreviation USEC :: int where "USEC \<equiv> 1000000"

datatype json =
    JNull
  | JBool bool
  | JInt int
  | JFloat rat
  | JStr string
  | JList "json list"
  | JObj "(string \<times> json) list"

text \<open>A Python \<open>dict.get\<close> on a JSON object.\<close>

fun json_get :: "string \<Rightarrow> json \<Rightarrow> json option" where
  "json_get k (JObj kvs) = map_of kvs k"
| "json_get k _ = None"


section \<open>Sequencing of fallible code\<close>

fun rbind :: "'e + 'a \<Rightarrow> ('a \<Rightarrow> 'e + 'b) \<Rightarrow> 'e + 'b" where
  "rbind (Inl e) f = Inl e"
| "rbind (Inr a) f = f a"

definition guard :: "bool \<Rightarrow> 'e \<Rightarrow> 'e + unit" where
  "guard b e = (if b then Inr () else Inl e)"

named_theorems result_simps \<open>rewriting of sequenced results\<close>

lemma rbind_Inr_iff [simp, result_simps]:
  "rbind m f = Inr y \<longleftrightarrow> (\<exists>x. m = Inr x \<and> f x = Inr y)"
  by (cases m) auto

lemma rbind_Inl_iff [result_simps]:
  "rbind m f = Inl e \<longleftrightarrow> m = Inl e \<or> (\<exists>x. m = Inr x \<and> f x = Inl e)"
  by (cases m) auto

lemma guard_Inr_iff [simp, result_simps]: "guard b e = Inr u \<longleftrightarrow> b"
  by (auto simp: guard_def)

lemma guard_Inl_iff [simp, result_simps]: "guard b e = Inl e' \<longleftrightarrow> \<not> b \<and> e' = e"
  by (auto simp: guard_def)

lemma guard_simps [simp]: "guard True e = Inr ()" "guard False e = Inl e"
  by (simp_all add: guard_def)

lemma rbind_assoc: "rbind (rbind m f) g = rbind m (\<lambda>x. rbind (f x) g)"
  by (cases m) auto

lemma rbind_cong [fundef_cong]:
  "m = m' \<Longrightarrow> (\<And>x. m' = Inr x \<Longrightarrow> f x = g x) \<Longrightarrow> rbind m f = rbind m' g"
  by (cases m') auto

text \<open>A comprehension over a fallible function: the first failure wins.\<close>

fun map_result :: "('a \<Rightarrow> 'e + 'b) \<Rightarrow> 'a list \<Rightarrow> 'e + 'b list" where
  "map_result f [] = Inr []"
| "map_result f (x # xs) = rbind (f x) (\<lambda>y. rbind (map_result f xs) (\<lambda>ys. Inr (y # ys)))"

lemma map_result_Inr_iff: "map_result f xs = Inr ys \<longleftrightarrow> list_all2 (\<lambda>x y. f x = Inr y) xs ys"
  by (induction xs arbitrary: ys) (auto simp: list_all2_Cons1)


section \<open>Lists\<close>

text \<open>The rows a query keeps, and their number.\<close>

definition count_rows :: "('a \<Rightarrow> bool) \<Rightarrow> 'a list \<Rightarrow> nat" where
  "count_rows P xs = length (filter P xs)"

lemma count_rows_simps [simp]:
  "count_rows P [] = 0"
  "count_rows P (x # xs) = (if P x then Suc (count_rows P xs) else count_rows P xs)"
  "count_rows P (xs @ ys) = count_rows P xs + count_rows P ys"
  by (simp_all add: count_rows_def)

lemma count_rows_mset: "count_rows P xs = size (filter_mset P (mset xs))"
  by (simp add: count_rows_def flip: mset_filter)

lemma distinct_mapD1: "distinct (map f xs) \<Longrightarrow> distinct xs"
  by (simp add: distinct_map)

lemma count_rows_map_le:
  "(\<And>x. x \<in> set xs \<Longrightarrow> P (f x) \<Longrightarrow> P x) \<Longrightarrow> count_rows P (map f xs) \<le> count_rows P xs"
  by (induction xs) (auto simp: le_SucI)

lemma count_rows_map_cong:
  "(\<And>x. x \<in> set xs \<Longrightarrow> P (f x) = P x) \<Longrightarrow> count_rows P (map f xs) = count_rows P xs"
  by (induction xs) auto

lemma count_rows_mono:
  "(\<And>x. x \<in> set xs \<Longrightarrow> P x \<Longrightarrow> Q x) \<Longrightarrow> count_rows P xs \<le> count_rows Q xs"
  by (induction xs) (auto simp: le_SucI)

lemma count_rows_zero_iff: "count_rows P xs = 0 \<longleftrightarrow> (\<forall>x\<in>set xs. \<not> P x)"
  by (induction xs) auto

lemma find_Some_in_set: "find P xs = Some x \<Longrightarrow> x \<in> set xs \<and> P x"
  by (induction xs) (auto split: if_splits)

lemma find_None_not_in: "find P xs = None \<Longrightarrow> x \<in> set xs \<Longrightarrow> \<not> P x"
  by (auto simp: find_None_iff)

end
