(* ===== verification/Domain_State.thy ===== *)
theory Domain_State
  imports Kdive_Prelude
begin

text \<open>
  The durable object lifecycles of \<open>kdive/domain/state.py\<close> with the guard
  table the repositories consult, and the failure taxonomy of
  \<open>kdive/domain/errors.py\<close>.  The contract of a lifecycle is the locale
  \<open>lifecycle\<close>, interpreted on each of the seven enums.
\<close>

section \<open>Errors\<close>

datatype ErrorCategory =
    CONFIGURATION_ERROR | MISSING_DEPENDENCY | BUILD_FAILURE | BOOT_TIMEOUT
  | READINESS_FAILURE | DEBUG_ATTACH_FAILURE | INFRASTRUCTURE_FAILURE | STALE_HANDLE
  | TRANSPORT_CONFLICT | NOT_IMPLEMENTED | NOT_FOUND | CONFLICT | ALLOCATION_DENIED
  | QUOTA_EXCEEDED | LEASE_EXPIRED | QUEUE_TIMEOUT | PROVISIONING_FAILURE
  | INSTALL_FAILURE | TRANSPORT_FAILURE | CONTROL_FAILURE | AUTHORIZATION_DENIED
  | CAPACITY_EXHAUSTED

text \<open>
  The exceptions the modelled code raises.  A categorized error keeps its
  category; message texts and detail dictionaries are not modelled.
\<close>

datatype exn =
    CategorizedError ErrorCategory
  | IllegalTransition
  | TypeError
  | ValueError
  | RuntimeError
  | OverflowError
  | DecimalOverflow
  | ObjectNotFound
  | UniqueViolation
  | ForeignKeyViolation
  | CheckViolation
  | NumericOutOfRange
  | PayloadValidationError
  | AttributeError
  | AuthError
  | RoleDenied
  | AuthorizationError
  | ProjectMembershipDenied
  | DestructiveOpDenied "string list"


section \<open>State enums\<close>

datatype ResourceStatus = AVAILABLE | DEGRADED | OFFLINE

datatype AllocationState =
  REQUESTED | GRANTED | ACTIVE | RELEASING | RELEASED | EXPIRED | FAILED

datatype SystemState =
  DEFINED | PROVISIONING | READY | REPROVISIONING | CRASHED | TORN_DOWN | FAILED

datatype InvestigationState = OPEN | ACTIVE | CLOSED | ABANDONED

datatype RunState = CREATED | RUNNING | SUCCEEDED | FAILED | CANCELED

datatype DebugSessionState = ATTACH | LIVE | DETACHED

datatype JobState = QUEUED | RUNNING | SUCCEEDED | FAILED | CANCELED

text \<open>A \<open>StrEnum\<close> member together with its class.\<close>

datatype StrEnum =
    ResourceSt ResourceStatus
  | AllocationSt AllocationState
  | SystemSt SystemState
  | InvestigationSt InvestigationState
  | RunSt RunState
  | DebugSessionSt DebugSessionState
  | JobSt JobState

datatype enum_class =
    ResourceStatusCls | AllocationStateCls | SystemStateCls | InvestigationStateCls
  | RunStateCls | DebugSessionStateCls | JobStateCls

fun type_of :: "StrEnum \<Rightarrow> enum_class" where
  "type_of (ResourceSt _) = ResourceStatusCls"
| "type_of (AllocationSt _) = AllocationStateCls"
| "type_of (SystemSt _) = SystemStateCls"
| "type_of (InvestigationSt _) = InvestigationStateCls"
| "type_of (RunSt _) = RunStateCls"
| "type_of (DebugSessionSt _) = DebugSessionStateCls"
| "type_of (JobSt _) = JobStateCls"


section \<open>The guard table\<close>

definition TRANSITIONS :: "(enum_class \<times> (StrEnum \<times> StrEnum list) list) list" where
  "TRANSITIONS =
   [(ResourceStatusCls,
      [(ResourceSt AVAILABLE, [ResourceSt DEGRADED, ResourceSt OFFLINE]),
       (ResourceSt DEGRADED, [ResourceSt AVAILABLE, ResourceSt OFFLINE]),
       (ResourceSt OFFLINE, [ResourceSt AVAILABLE, ResourceSt DEGRADED])]),
    (AllocationStateCls,
      [(AllocationSt AllocationState.REQUESTED,
          [AllocationSt AllocationState.GRANTED, AllocationSt AllocationState.RELEASED,
           AllocationSt AllocationState.FAILED]),
       (AllocationSt AllocationState.GRANTED,
          [AllocationSt AllocationState.ACTIVE, AllocationSt AllocationState.RELEASING,
           AllocationSt AllocationState.EXPIRED, AllocationSt AllocationState.FAILED]),
       (AllocationSt AllocationState.ACTIVE,
          [AllocationSt AllocationState.RELEASING, AllocationSt AllocationState.EXPIRED,
           AllocationSt AllocationState.FAILED]),
       (AllocationSt AllocationState.RELEASING,
          [AllocationSt AllocationState.RELEASED, AllocationSt AllocationState.FAILED]),
       (AllocationSt AllocationState.RELEASED, []),
       (AllocationSt AllocationState.EXPIRED, []),
       (AllocationSt AllocationState.FAILED, [])]),
    (SystemStateCls,
      [(SystemSt SystemState.DEFINED,
          [SystemSt SystemState.PROVISIONING, SystemSt SystemState.TORN_DOWN,
           SystemSt SystemState.FAILED]),
       (SystemSt SystemState.PROVISIONING,
          [SystemSt SystemState.READY, SystemSt SystemState.FAILED,
           SystemSt SystemState.TORN_DOWN]),
       (SystemSt SystemState.READY,
          [SystemSt SystemState.CRASHED, SystemSt SystemState.TORN_DOWN,
           SystemSt SystemState.REPROVISIONING, SystemSt SystemState.FAILED]),
       (SystemSt SystemState.REPROVISIONING,
          [SystemSt SystemState.READY, SystemSt SystemState.FAILED]),
       (SystemSt SystemState.CRASHED,
          [SystemSt SystemState.TORN_DOWN, SystemSt SystemState.FAILED]),
       (SystemSt SystemState.TORN_DOWN, []),
       (SystemSt SystemState.FAILED, [])]),
    (InvestigationStateCls,
      [(InvestigationSt InvestigationState.OPEN,
          [InvestigationSt InvestigationState.ACTIVE, InvestigationSt InvestigationState.CLOSED,
           InvestigationSt InvestigationState.ABANDONED]),
       (InvestigationSt InvestigationState.ACTIVE,
          [InvestigationSt InvestigationState.CLOSED, InvestigationSt InvestigationState.ABANDONED]),
       (InvestigationSt InvestigationState.CLOSED, []),
       (InvestigationSt InvestigationState.ABANDONED, [])]),
    (RunStateCls,
      [(RunSt RunState.CREATED, [RunSt RunState.RUNNING, RunSt RunState.CANCELED]),
       (RunSt RunState.RUNNING,
          [RunSt RunState.SUCCEEDED, RunSt RunState.FAILED, RunSt RunState.CANCELED]),
       (RunSt RunState.SUCCEEDED, []),
       (RunSt RunState.FAILED, []),
       (RunSt RunState.CANCELED, [])]),
    (DebugSessionStateCls,
      [(DebugSessionSt ATTACH, [DebugSessionSt LIVE, DebugSessionSt DETACHED]),
       (DebugSessionSt LIVE, [DebugSessionSt DETACHED]),
       (DebugSessionSt DETACHED, [])]),
    (JobStateCls,
      [(JobSt JobState.QUEUED, [JobSt JobState.RUNNING, JobSt JobState.CANCELED]),
       (JobSt JobState.RUNNING,
          [JobSt JobState.SUCCEEDED, JobSt JobState.FAILED, JobSt JobState.CANCELED,
           JobSt JobState.QUEUED]),
       (JobSt JobState.SUCCEEDED, []),
       (JobSt JobState.FAILED, []),
       (JobSt JobState.CANCELED, [])])]"

definition can_transition :: "StrEnum \<Rightarrow> StrEnum \<Rightarrow> exn + bool" where
  "can_transition frm to =
    (if type_of frm \<noteq> type_of to then Inl TypeError
     else case map_of TRANSITIONS (type_of frm) of
            None \<Rightarrow> Inl TypeError
          | Some table \<Rightarrow>
              (case map_of table frm of
                 None \<Rightarrow> Inl TypeError
               | Some successors \<Rightarrow> Inr (to \<in> set successors)))"

definition ensure_transition :: "StrEnum \<Rightarrow> StrEnum \<Rightarrow> exn + unit" where
  "ensure_transition frm to =
    rbind (can_transition frm to) (\<lambda>ok. guard ok IllegalTransition)"

text \<open>A sequence of states each step of which the guard admits.\<close>

definition guarded_path :: "('s \<Rightarrow> StrEnum) \<Rightarrow> 's list \<Rightarrow> bool" where
  "guarded_path tag xs =
    successively (\<lambda>s t. ensure_transition (tag s) (tag t) = Inr ()) xs"

text \<open>A state no transition leaves.\<close>

definition is_terminal :: "StrEnum \<Rightarrow> bool" where
  "is_terminal s =
    (case map_of TRANSITIONS (type_of s) of
       None \<Rightarrow> False
     | Some table \<Rightarrow> map_of table s = Some [])"


section \<open>The contract of a lifecycle\<close>

lemma ensure_transition_iff:
  "ensure_transition s t = Inr () \<longleftrightarrow> can_transition s t = Inr True"
  by (auto simp: ensure_transition_def)

lemmas guard_table_simps = can_transition_def ensure_transition_def TRANSITIONS_def is_terminal_def

lemma guard_row_known:
  "\<exists>table succs. map_of TRANSITIONS (type_of s) = Some table \<and> map_of table s = Some succs"
  by (cases s; rename_tac x; case_tac x; simp add: TRANSITIONS_def)

lemma guard_known:
  "type_of s = type_of t \<Longrightarrow> \<not> isl (can_transition s t)"
  using guard_row_known [of s] by (auto simp: can_transition_def)

lemma guard_irrefl: "can_transition s s = Inr False"
  by (cases s; rename_tac x; case_tac x; simp add: can_transition_def TRANSITIONS_def)

lemma guard_stuck:
  "type_of s = type_of t \<Longrightarrow> is_terminal s \<Longrightarrow> can_transition s t = Inr False"
  using guard_row_known [of s] by (auto simp: can_transition_def is_terminal_def)

lemmas lifecycle_laws = guard_known guard_irrefl guard_stuck

locale lifecycle =
  fixes tag :: "'s \<Rightarrow> StrEnum"
  assumes guard_total: "\<not> isl (can_transition (tag s) (tag t))"
    and guard_no_self: "can_transition (tag s) (tag s) = Inr False"
    and guard_terminal: "is_terminal (tag s) \<Longrightarrow> can_transition (tag s) (tag t) = Inr False"
begin

lemma ensure_outcome:
  "ensure_transition (tag s) (tag t) \<in> {Inr (), Inl IllegalTransition}"
  using guard_total [of s t]
  by (cases "can_transition (tag s) (tag t)") (auto simp: ensure_transition_def guard_def)

lemma ensure_rejects_self: "ensure_transition (tag s) (tag s) = Inl IllegalTransition"
  using guard_no_self [of s] by (simp add: ensure_transition_def)

lemma terminal_rejects:
  "is_terminal (tag s) \<Longrightarrow> ensure_transition (tag s) (tag t) = Inl IllegalTransition"
  using guard_terminal [of s t] by (simp add: ensure_transition_def)

lemma path_from_terminal:
  "guarded_path tag (s # xs) \<Longrightarrow> is_terminal (tag s) \<Longrightarrow> xs = []"
  by (cases xs) (auto simp: guarded_path_def terminal_rejects)

end

text \<open>A lifecycle that only moves forward: every step lowers a rank.\<close>

locale forward_lifecycle = lifecycle tag
  for tag :: "'s \<Rightarrow> StrEnum" +
  fixes rank :: "'s \<Rightarrow> nat"
  assumes guard_rank: "can_transition (tag s) (tag t) = Inr True \<Longrightarrow> rank t < rank s"
begin

lemma guarded_path_rank:
  "guarded_path tag (s # xs) \<Longrightarrow> t \<in> set xs \<Longrightarrow> rank t < rank s"
proof (induction xs arbitrary: s)
  case (Cons u us)
  then have "rank u < rank s" "guarded_path tag (u # us)"
    by (auto simp: guarded_path_def ensure_transition_iff guard_rank)
  with Cons show ?case by (fastforce dest: Cons.IH)
qed simp

lemma guarded_path_distinct: "guarded_path tag xs \<Longrightarrow> distinct xs"
proof (induction xs)
  case (Cons s xs)
  have "guarded_path tag xs"
    using Cons.prems by (cases xs) (auto simp: guarded_path_def)
  then show ?case
    using Cons guarded_path_rank by fastforce
qed simp

lemma guarded_path_length: "guarded_path tag (s # xs) \<Longrightarrow> length xs \<le> rank s"
proof (induction xs arbitrary: s)
  case (Cons u us)
  then have "rank u < rank s" "guarded_path tag (u # us)"
    by (auto simp: guarded_path_def ensure_transition_iff guard_rank)
  with Cons.IH [of u] show ?case by simp
qed simp

end

fun allocation_rank :: "AllocationState \<Rightarrow> nat" where
  "allocation_rank AllocationState.REQUESTED = 4"
| "allocation_rank AllocationState.GRANTED = 3"
| "allocation_rank AllocationState.ACTIVE = 2"
| "allocation_rank AllocationState.RELEASING = 1"
| "allocation_rank _ = 0"

fun investigation_rank :: "InvestigationState \<Rightarrow> nat" where
  "investigation_rank InvestigationState.OPEN = 2"
| "investigation_rank InvestigationState.ACTIVE = 1"
| "investigation_rank _ = 0"

fun run_rank :: "RunState \<Rightarrow> nat" where
  "run_rank RunState.CREATED = 2"
| "run_rank RunState.RUNNING = 1"
| "run_rank _ = 0"

fun debug_session_rank :: "DebugSessionState \<Rightarrow> nat" where
  "debug_session_rank ATTACH = 2"
| "debug_session_rank LIVE = 1"
| "debug_session_rank DETACHED = 0"

lemma allocation_rank_decreases:
  "can_transition (AllocationSt s) (AllocationSt t) = Inr True \<Longrightarrow> allocation_rank t < allocation_rank s"
  by (cases s; cases t; simp add: can_transition_def TRANSITIONS_def)

lemma investigation_rank_decreases:
  "can_transition (InvestigationSt s) (InvestigationSt t) = Inr True
    \<Longrightarrow> investigation_rank t < investigation_rank s"
  by (cases s; cases t; simp add: can_transition_def TRANSITIONS_def)

lemma run_rank_decreases:
  "can_transition (RunSt s) (RunSt t) = Inr True \<Longrightarrow> run_rank t < run_rank s"
  by (cases s; cases t; simp add: can_transition_def TRANSITIONS_def)

lemma debug_session_rank_decreases:
  "can_transition (DebugSessionSt s) (DebugSessionSt t) = Inr True
    \<Longrightarrow> debug_session_rank t < debug_session_rank s"
  by (cases s; cases t; simp add: can_transition_def TRANSITIONS_def)

interpretation resource_lc: lifecycle ResourceSt
  by unfold_locales (simp_all add: lifecycle_laws)

interpretation system_lc: lifecycle SystemSt
  by unfold_locales (simp_all add: lifecycle_laws)

interpretation job_lc: lifecycle JobSt
  by unfold_locales (simp_all add: lifecycle_laws)

interpretation allocation_lc: forward_lifecycle AllocationSt allocation_rank
  by unfold_locales (simp_all add: lifecycle_laws allocation_rank_decreases)

interpretation investigation_lc: forward_lifecycle InvestigationSt investigation_rank
  by unfold_locales (simp_all add: lifecycle_laws investigation_rank_decreases)

interpretation run_lc: forward_lifecycle RunSt run_rank
  by unfold_locales (simp_all add: lifecycle_laws run_rank_decreases)

interpretation debug_session_lc: forward_lifecycle DebugSessionSt debug_session_rank
  by unfold_locales (simp_all add: lifecycle_laws debug_session_rank_decreases)


section \<open>Properties\<close>

text \<open>
  C40. The allocation lifecycle is forward only: a sequence of states in which
  the guard admits every step never repeats a state and visits at most five.
\<close>

theorem allocation_lifetime_bounded:
  assumes "guarded_path AllocationSt xs"
  shows "distinct xs \<and> length xs \<le> 5"
proof (cases xs)
  case (Cons s ys)
  have "allocation_rank s \<le> 4" by (cases s) simp_all
  then show ?thesis
    using assms Cons allocation_lc.guarded_path_distinct allocation_lc.guarded_path_length [of s ys]
    by fastforce
qed simp

theorem allocation_lifetime_bounded_witness:
  "guarded_path AllocationSt [AllocationState.REQUESTED, AllocationState.GRANTED, AllocationState.ACTIVE,
     AllocationState.RELEASING, AllocationState.RELEASED] \<and>
   distinct [AllocationState.REQUESTED, AllocationState.GRANTED, AllocationState.ACTIVE,
     AllocationState.RELEASING, AllocationState.RELEASED] \<and>
   length [AllocationState.REQUESTED, AllocationState.GRANTED, AllocationState.ACTIVE,
     AllocationState.RELEASING, AllocationState.RELEASED] \<le> 5"
proof -
  let ?path = "[AllocationState.REQUESTED, AllocationState.GRANTED, AllocationState.ACTIVE,
     AllocationState.RELEASING, AllocationState.RELEASED]"
  have "guarded_path AllocationSt ?path" by (simp add: guarded_path_def guard_table_simps)
  then show ?thesis using allocation_lifetime_bounded by blast
qed

text \<open>
  The guard never fails on two states of one lifecycle and always fails with
  a type error across lifecycles; it admits no self transition and nothing
  leaves a terminal state.
\<close>

theorem ensure_transition_outcomes:
  "ensure_transition s t =
    (if type_of s \<noteq> type_of t then Inl TypeError
     else if s = t \<or> is_terminal s then Inl IllegalTransition
     else if can_transition s t = Inr True then Inr () else Inl IllegalTransition)"
proof (cases "type_of s = type_of t")
  case True
  then obtain b where b: "can_transition s t = Inr b"
    using guard_known [of s t] by (cases "can_transition s t") auto
  with True guard_irrefl [of s] guard_stuck [of s t] show ?thesis
    by (auto simp: ensure_transition_def guard_def)
qed (simp add: ensure_transition_def can_transition_def)

text \<open>
  Which states may fail directly: every live state of an allocation or a
  system, but of a run or a job only \<open>running\<close>: a \<open>created\<close> run and a \<open>queued\<close>
  job have no edge to \<open>failed\<close>.
\<close>

theorem failed_reachability:
  "(can_transition (AllocationSt a) (AllocationSt AllocationState.FAILED) = Inr True)
     = (\<not> is_terminal (AllocationSt a))
   \<and> (can_transition (SystemSt y) (SystemSt SystemState.FAILED) = Inr True)
     = (\<not> is_terminal (SystemSt y))
   \<and> (can_transition (RunSt r) (RunSt RunState.FAILED) = Inr True) = (r = RunState.RUNNING)
   \<and> (can_transition (JobSt j) (JobSt JobState.FAILED) = Inr True) = (j = JobState.RUNNING)"
proof (intro conjI)
  show "(can_transition (AllocationSt a) (AllocationSt AllocationState.FAILED) = Inr True)
     = (\<not> is_terminal (AllocationSt a))"
    by (cases a) (simp_all add: guard_table_simps)
  show "(can_transition (SystemSt y) (SystemSt SystemState.FAILED) = Inr True)
     = (\<not> is_terminal (SystemSt y))"
    by (cases y) (simp_all add: guard_table_simps)
qed ((cases r | cases j); simp add: guard_table_simps)+

end
