(* ===== verification/Pcie.thy ===== *)
theory Pcie
  imports Domain_State "HOL-Library.Multiset"
begin

text \<open>
  PCIe device matching, \<open>kdive/domain/pcie.py\<close>: the match-spec grammar, the
  resolution of one spec and of a multiset of specs, and Kuhn's augmenting-path
  matching.  The contract of the matcher (an answer is a distinct assignment,
  no answer means none exists) is the locale \<open>distinct_matcher\<close>.
\<close>

section \<open>Descriptors, claims and specs\<close>

record PCIeDescriptor =
  d_bdf :: string
  d_vendor_id :: string
  d_device_id :: string
  d_class_code :: string
  d_label :: string

record PCIeClaim =
  c_bdf :: string
  c_vendor_id :: string
  c_device_id :: string

datatype MatchOutcome = MATCHED | CONFIG | CAPACITY

datatype Kind = VENDOR_DEVICE | CLASS

record MatchSpec =
  ms_kind :: Kind
  ms_vendor_id :: "string option"
  ms_device_id :: "string option"
  ms_class_prefix :: "string option"

record SpecResolution =
  sr_outcome :: MatchOutcome
  sr_candidates :: "PCIeDescriptor list"

record MultisetResolution =
  mr_outcome :: MatchOutcome
  mr_devices :: "PCIeDescriptor list"

text \<open>
  The two regular expressions.  A trailing \<open>$\<close> also matches just before a final
  newline, and the match is anchored at the start only.
\<close>

definition is_hex :: "char \<Rightarrow> bool" where
  "is_hex c \<longleftrightarrow> c \<in> set ''0123456789abcdef''"

definition dollar :: "string \<Rightarrow> bool" where
  "dollar r \<longleftrightarrow> r = [] \<or> r = [CHR 0x0A]"

definition VENDOR_DEVICE_RE :: "string \<Rightarrow> bool" where
  "VENDOR_DEVICE_RE s \<longleftrightarrow>
    9 \<le> length s \<and> list_all is_hex (take 4 s) \<and> s ! 4 = CHR '':'' \<and>
    list_all is_hex (take 4 (drop 5 s)) \<and> dollar (drop 9 s)"

definition CLASS_RE :: "string \<Rightarrow> string option" where
  "CLASS_RE s =
    (if take 6 s = ''class='' then
       (let r = drop 6 s
        in if 2 \<le> length r \<and> list_all is_hex (take 2 r) \<and> dollar (drop 2 r) then Some (take 2 r)
           else if 4 \<le> length r \<and> list_all is_hex (take 4 r) \<and> dollar (drop 4 r) then Some (take 4 r)
           else None)
     else None)"

definition parse_match_spec :: "string \<Rightarrow> exn + MatchSpec" where
  "parse_match_spec spec =
    (if VENDOR_DEVICE_RE spec then
       Inr \<lparr>ms_kind = VENDOR_DEVICE,
            ms_vendor_id = Some (takeWhile (\<lambda>c. c \<noteq> CHR '':'') spec),
            ms_device_id = Some (tl (dropWhile (\<lambda>c. c \<noteq> CHR '':'') spec)),
            ms_class_prefix = None\<rparr>
     else case CLASS_RE spec of
            Some p \<Rightarrow> Inr \<lparr>ms_kind = CLASS, ms_vendor_id = None, ms_device_id = None,
                          ms_class_prefix = Some p\<rparr>
          | None \<Rightarrow> Inl (CategorizedError CONFIGURATION_ERROR))"

definition descriptor_matches :: "MatchSpec \<Rightarrow> PCIeDescriptor \<Rightarrow> bool" where
  "descriptor_matches spec d =
    (case ms_kind spec of
       VENDOR_DEVICE \<Rightarrow>
         Some (d_vendor_id d) = ms_vendor_id spec \<and> Some (d_device_id d) = ms_device_id spec
     | CLASS \<Rightarrow>
         prefix (case ms_class_prefix spec of None \<Rightarrow> '''' | Some p \<Rightarrow> p) (d_class_code d))"

definition resolve_spec ::
  "string \<Rightarrow> PCIeDescriptor list \<Rightarrow> PCIeClaim list \<Rightarrow> exn + SpecResolution" where
  "resolve_spec spec descriptors claims =
    rbind (parse_match_spec spec) (\<lambda>parsed.
      let matching = filter (descriptor_matches parsed) descriptors
      in if matching = [] then Inr \<lparr>sr_outcome = CONFIG, sr_candidates = []\<rparr>
         else let claimed = map c_bdf claims;
                  free = filter (\<lambda>d. d_bdf d \<notin> set claimed) matching
              in if free = [] then Inr \<lparr>sr_outcome = CAPACITY, sr_candidates = []\<rparr>
                 else Inr \<lparr>sr_outcome = MATCHED, sr_candidates = free\<rparr>)"


section \<open>Kuhn's matching\<close>

text \<open>
  The mutable part of \<open>_Matching\<close>; the specs, the available devices and the
  relation between them are arguments of the functions.
\<close>

record Matching =
  spec_to_device :: "nat \<rightharpoonup> nat"
  device_to_spec :: "nat \<rightharpoonup> nat"

definition assign_device :: "nat \<Rightarrow> nat \<Rightarrow> Matching \<Rightarrow> Matching" where
  "assign_device i j m =
    m\<lparr>device_to_spec := (device_to_spec m)(j \<mapsto> i),
      spec_to_device := (spec_to_device m)(i \<mapsto> j)\<rparr>"

text \<open>
  \<open>augment adj n i j m vis\<close> is the loop of \<open>_augment\<close> for spec \<open>i\<close> standing at
  device index \<open>j\<close> of \<open>n\<close>; \<open>adj i j\<close> says that device \<open>j\<close> satisfies spec \<open>i\<close>.
  It returns the flag, the matching and the visited set, which is shared by the
  nested calls.
\<close>

function augment ::
  "(nat \<Rightarrow> nat \<Rightarrow> bool) \<Rightarrow> nat \<Rightarrow> nat \<Rightarrow> nat \<Rightarrow> Matching \<Rightarrow> nat list \<Rightarrow> bool \<times> Matching \<times> nat list" where
  "augment adj n i j m vis =
    (if n \<le> j then (False, m, vis)
     else if j \<in> set vis \<or> \<not> adj i j then augment adj n i (Suc j) m vis
     else case device_to_spec m j of
            None \<Rightarrow> (True, assign_device i j m, j # vis)
          | Some ow \<Rightarrow>
              (case augment adj n ow 0 m (j # vis) of
                 (True, m', vis') \<Rightarrow> (True, assign_device i j m', vis')
               | (False, m', vis') \<Rightarrow> augment adj n i (Suc j) m' vis'))"
  by pat_completeness auto

lemma augment_visited:
  "augment_dom (adj, n, i, j, m, vis) \<Longrightarrow> set vis \<subseteq> set (snd (snd (augment adj n i j m vis)))"
proof (induction adj n i j m vis rule: augment.pinduct)
  case (1 adj n i j m vis)
  show ?case
  proof (cases "n \<le> j \<or> j \<in> set vis \<or> \<not> adj i j \<or> device_to_spec m j = None")
    case True
    then show ?thesis using 1 by (subst augment.psimps [OF 1(1)]) auto
  next
    case False
    then obtain ow where ow: "device_to_spec m j = Some ow" by auto
    obtain ok m' vis' where r: "augment adj n ow 0 m (j # vis) = (ok, m', vis')"
      by (cases "augment adj n ow 0 m (j # vis)")
    have "set (j # vis) \<subseteq> set vis'" using 1(3) [of ow] False ow r by auto
    then show ?thesis
      using 1(4) [of ow ok "(m', vis')" m' vis'] False ow r
      by (subst augment.psimps [OF 1(1)]) (auto split: bool.splits)
  qed
qed

lemma unvisited_decreases:
  fixes j n :: nat
  assumes "j < n" "j \<notin> set vis" "insert j (set vis) \<subseteq> set vis'"
  shows "card ({..<n} - set vis') < card ({..<n} - set vis)"
  by (rule psubset_card_mono) (use assms in auto)

termination augment
  apply (relation "measures [\<lambda>(adj, n, i, j, m, vis). card ({..<n} - set vis),
                             \<lambda>(adj, n, i, j, m, vis). n - j]")
     apply simp
    apply simp
  subgoal premises p for adj n i j m vis ow
  proof -
    have "card ({..<n} - set (j # vis)) < card ({..<n} - set vis)"
      using p by (intro unvisited_decreases) auto
    then show ?thesis by simp
  qed
  subgoal premises p for adj n i j m vis ow ok r m' vis'
  proof -
    have "insert j (set vis) \<subseteq> set vis'"
      using augment_visited [OF p(7)] p(4) [symmetric] p(6) [symmetric] by simp
    then have "card ({..<n} - set vis') < card ({..<n} - set vis)"
      using p(1,2) by (intro unvisited_decreases) auto
    then show ?thesis by simp
  qed
  done

declare augment.simps [simp del]

fun max_match_loop ::
  "(nat \<Rightarrow> nat \<Rightarrow> bool) \<Rightarrow> nat \<Rightarrow> nat list \<Rightarrow> Matching \<Rightarrow> Matching option" where
  "max_match_loop adj n [] m = Some m"
| "max_match_loop adj n (i # is) m =
    (case augment adj n i 0 m [] of
       (True, m', _) \<Rightarrow> max_match_loop adj n is m'
     | (False, _, _) \<Rightarrow> None)"

definition max_bipartite_match ::
  "MatchSpec list \<Rightarrow> PCIeDescriptor list \<Rightarrow> nat list option" where
  "max_bipartite_match specs available =
    map_option (\<lambda>m. map (\<lambda>i. the (spec_to_device m i)) [0..<length specs])
      (max_match_loop (\<lambda>i j. descriptor_matches (specs ! i) (available ! j)) (length available)
        [0..<length specs] \<lparr>spec_to_device = Map.empty, device_to_spec = Map.empty\<rparr>)"

definition resolve_multiset ::
  "string list \<Rightarrow> PCIeDescriptor list \<Rightarrow> PCIeClaim list \<Rightarrow> exn + MultisetResolution" where
  "resolve_multiset specs descriptors claims =
    rbind (map_result parse_match_spec specs) (\<lambda>parsed_specs.
      if list_ex (\<lambda>p. \<not> list_ex (descriptor_matches p) descriptors) parsed_specs
      then Inr \<lparr>mr_outcome = CONFIG, mr_devices = []\<rparr>
      else let claimed = map c_bdf claims;
               available = filter (\<lambda>d. d_bdf d \<notin> set claimed) descriptors
           in case max_bipartite_match parsed_specs available of
                None \<Rightarrow> Inr \<lparr>mr_outcome = CAPACITY, mr_devices = []\<rparr>
              | Some assignment \<Rightarrow>
                  Inr \<lparr>mr_outcome = MATCHED, mr_devices = map (\<lambda>i. available ! i) assignment\<rparr>)"


section \<open>Correctness of one augmentation\<close>

definition valid_matching :: "(nat \<Rightarrow> nat \<Rightarrow> bool) \<Rightarrow> nat \<Rightarrow> Matching \<Rightarrow> bool" where
  "valid_matching adj n m \<longleftrightarrow>
    (\<forall>i j. spec_to_device m i = Some j \<longleftrightarrow> device_to_spec m j = Some i) \<and>
    (\<forall>i j. spec_to_device m i = Some j \<longrightarrow> adj i j \<and> j < n)"

text \<open>
  \<open>m'\<close> with the device that spec \<open>i\<close> held in \<open>m\<close> given up: between a nested
  success and the assignment that follows it, that entry is stale.
\<close>

definition vacate :: "nat \<Rightarrow> Matching \<Rightarrow> Matching \<Rightarrow> Matching" where
  "vacate i m m' =
    (case spec_to_device m i of
       None \<Rightarrow> m'
     | Some d \<Rightarrow> m'\<lparr>device_to_spec := (device_to_spec m')(d := None)\<rparr>)"

lemma valid_matching_inverse:
  "valid_matching adj n m \<Longrightarrow> spec_to_device m i = Some j \<longleftrightarrow> device_to_spec m j = Some i"
  by (simp add: valid_matching_def)

lemma valid_matching_edge:
  "valid_matching adj n m \<Longrightarrow> spec_to_device m i = Some j \<Longrightarrow> adj i j \<and> j < n"
  by (simp add: valid_matching_def)

lemma valid_assign:
  assumes v: "valid_matching adj n m" and j: "device_to_spec m j = None" "adj i j" "j < n"
  shows "valid_matching adj n (vacate i m (assign_device i j m))"
proof -
  let ?m' = "vacate i m (assign_device i j m)"
  note inv = valid_matching_inverse [OF v]
  have s: "spec_to_device ?m' = (spec_to_device m)(i \<mapsto> j)"
    by (simp add: vacate_def assign_device_def split: option.splits)
  have d: "device_to_spec ?m' l = (if l = j then Some i else if spec_to_device m i = Some l then None
      else device_to_spec m l)" for l
    using j(1) inv [of i j] by (auto simp: vacate_def assign_device_def split: option.splits)
  have "spec_to_device ?m' k = Some l \<longleftrightarrow> device_to_spec ?m' l = Some k" for k l
    using inv [of k l] inv [of i l] inv [of k j] j(1) by (auto simp: s d)
  moreover have "spec_to_device ?m' k = Some l \<Longrightarrow> adj k l \<and> l < n" for k l
    using valid_matching_edge [OF v, of k l] j(2,3) by (auto simp: s split: if_splits)
  ultimately show ?thesis by (simp add: valid_matching_def)
qed

lemma augment_result_cases:
  assumes r: "augment adj n i j m vis = (ok, m', vis')"
  obtains (exhausted) "n \<le> j" "\<not> ok" "m' = m" "vis' = vis"
  | (skip) "j < n" "j \<in> set vis \<or> \<not> adj i j" "augment adj n i (Suc j) m vis = (ok, m', vis')"
  | (free) "j < n" "j \<notin> set vis" "adj i j" "device_to_spec m j = None" "ok"
      "m' = assign_device i j m" "vis' = j # vis"
  | (displaced) ow m1 where "j < n" "j \<notin> set vis" "adj i j" "device_to_spec m j = Some ow"
      "augment adj n ow 0 m (j # vis) = (True, m1, vis')" "ok" "m' = assign_device i j m1"
  | (blocked) ow m1 vis1 where "j < n" "j \<notin> set vis" "adj i j" "device_to_spec m j = Some ow"
      "augment adj n ow 0 m (j # vis) = (False, m1, vis1)"
      "augment adj n i (Suc j) m1 vis1 = (ok, m', vis')"
proof (cases "n \<le> j \<or> j \<in> set vis \<or> \<not> adj i j")
  case True
  then show ?thesis using r that(1,2) by (subst (asm) augment.simps) (auto split: if_splits)
next
  case F: False
  show ?thesis
  proof (cases "device_to_spec m j")
    case None
    then show ?thesis using r F that(3) by (subst (asm) augment.simps) auto
  next
    case (Some ow)
    obtain ok1 m1 vis1 where c: "augment adj n ow 0 m (j # vis) = (ok1, m1, vis1)"
      by (cases "augment adj n ow 0 m (j # vis)")
    show ?thesis
      using r F Some c that(4) [of ow m1] that(5) [of ow m1 vis1]
      by (subst (asm) augment.simps) (cases ok1; simp)
  qed
qed

lemma augment_frame:
  "augment adj n i j m vis = (ok, m', vis') \<Longrightarrow> set vis \<subseteq> set vis' \<and> (ok \<or> m' = m)"
proof (induction adj n i j m vis arbitrary: ok m' vis' rule: augment.induct)
  case (1 adj n i j m vis)
  from 1(4) show ?case
  proof (cases rule: augment_result_cases)
    case skip
    then show ?thesis using 1(1) by (simp add: not_le)
  next
    case (displaced ow m1)
    then show ?thesis using 1(2) [of ow True m1 vis'] by simp
  next
    case (blocked ow m1 vis1)
    then show ?thesis
      using 1(2) [of ow False m1 vis1] 1(3) [of ow False "(m1, vis1)" m1 vis1 ok m' vis'] by auto
  qed auto
qed

lemma augment_result_induct [consumes 1, case_names exhausted skip free displaced blocked]:
  assumes "augment adj n i j m vis = (ok, m', vis')"
    and "\<And>adj n i j m vis. n \<le> j \<Longrightarrow> P adj n i j m vis False m vis"
    and "\<And>adj n i j m vis ok m' vis'. j < n \<Longrightarrow> j \<in> set vis \<or> \<not> adj i j \<Longrightarrow>
          set vis \<subseteq> set vis' \<Longrightarrow> P adj n i (Suc j) m vis ok m' vis' \<Longrightarrow> P adj n i j m vis ok m' vis'"
    and "\<And>adj n i j m vis. j < n \<Longrightarrow> j \<notin> set vis \<Longrightarrow> adj i j \<Longrightarrow> device_to_spec m j = None \<Longrightarrow>
          P adj n i j m vis True (assign_device i j m) (j # vis)"
    and "\<And>adj n i j m vis ow m1 vis'. j < n \<Longrightarrow> j \<notin> set vis \<Longrightarrow> adj i j \<Longrightarrow> device_to_spec m j = Some ow \<Longrightarrow>
          P adj n ow 0 m (j # vis) True m1 vis' \<Longrightarrow> P adj n i j m vis True (assign_device i j m1) vis'"
    and "\<And>adj n i j m vis ow vis1 ok m' vis'. j < n \<Longrightarrow> j \<notin> set vis \<Longrightarrow> adj i j \<Longrightarrow>
          device_to_spec m j = Some ow \<Longrightarrow> P adj n ow 0 m (j # vis) False m vis1 \<Longrightarrow>
          insert j (set vis) \<subseteq> set vis1 \<Longrightarrow> set vis1 \<subseteq> set vis' \<Longrightarrow>
          P adj n i (Suc j) m vis1 ok m' vis' \<Longrightarrow> P adj n i j m vis ok m' vis'"
  shows "P adj n i j m vis ok m' vis'"
  using assms(1)
proof (induction adj n i j m vis arbitrary: ok m' vis' rule: augment.induct)
  case (1 adj n i j m vis)
  from 1(4) show ?case
  proof (cases rule: augment_result_cases)
    case exhausted
    then show ?thesis using assms(2) by simp
  next
    case skip
    then show ?thesis using 1(1) assms(3) augment_frame [OF skip(3)] by (simp add: not_le)
  next
    case free
    then show ?thesis using assms(4) by simp
  next
    case (displaced ow m1)
    then show ?thesis using 1(2) [of ow True m1 vis'] assms(5) by simp
  next
    case (blocked ow m1 vis1)
    have m1: "m1 = m" and vis1: "insert j (set vis) \<subseteq> set vis1"
      using augment_frame [OF blocked(5)] by auto
    have vis': "set vis1 \<subseteq> set vis'" using augment_frame [OF blocked(6)] by simp
    have "P adj n ow 0 m (j # vis) False m vis1" using blocked 1(2) [of ow] m1 by simp
    moreover have "P adj n i (Suc j) m vis1 ok m' vis'"
      using blocked 1(3) [of ow False "(m1, vis1)" m1 vis1] m1 by simp
    ultimately show ?thesis
      using blocked(1-4) vis1 vis'
      by (rule_tac assms(6) [where adj = adj and n = n and i = i and j = j and m = m and vis = vis
            and ow = ow and ?vis1.0 = vis1 and ok = ok and m' = m' and vis' = vis'])
  qed
qed

text \<open>A success extends the matched specs by \<open>i\<close> and touches no device visited before.\<close>

lemma augment_success:
  assumes "augment adj n i j m vis = (ok, m', vis')"
  shows "ok \<longrightarrow> valid_matching adj n m \<longrightarrow> set_option (spec_to_device m i) \<subseteq> set vis \<longrightarrow>
    valid_matching adj n (vacate i m m') \<and>
    dom (spec_to_device m') = insert i (dom (spec_to_device m)) \<and>
    (\<forall>v\<in>set vis. device_to_spec m' v = device_to_spec m v)"
  using assms
proof (induction rule: augment_result_induct)
  case (displaced adj n i j m vis ow m1 vis')
  show ?case
  proof (intro impI)
    assume v: "valid_matching adj n m" and e: "set_option (spec_to_device m i) \<subseteq> set vis"
    then have ow: "spec_to_device m ow = Some j"
      using displaced by (simp add: valid_matching_def)
    define N where "N = vacate ow m m1"
    have N: "valid_matching adj n N" "dom (spec_to_device m1) = dom (spec_to_device m)"
      "\<forall>v\<in>set (j # vis). device_to_spec m1 v = device_to_spec m v"
      using displaced v ow by (auto simp: N_def)
    have N_eq: "N = m1\<lparr>device_to_spec := (device_to_spec m1)(j := None)\<rparr>"
      using ow by (simp add: N_def vacate_def)
    have keep: "spec_to_device N i = spec_to_device m i"
    proof (cases "spec_to_device m i")
      case None
      then show ?thesis using N(2) by (auto simp: N_eq)
    next
      case (Some d)
      then have "d \<in> set vis" "device_to_spec m d = Some i"
        using e v by (auto simp: valid_matching_def)
      then have "device_to_spec N d = Some i" using N(3) displaced(2) by (auto simp: N_eq)
      then show ?thesis using N(1) Some by (simp add: valid_matching_def)
    qed
    have "valid_matching adj n (vacate i N (assign_device i j N))"
      using displaced N(1) by (intro valid_assign) (simp_all add: N_eq)
    moreover have "vacate i N (assign_device i j N) = vacate i m (assign_device i j m1)"
      using keep e displaced(2)
      by (auto simp: vacate_def assign_device_def N_eq split: option.splits)
    ultimately show "valid_matching adj n (vacate i m (assign_device i j m1)) \<and>
      dom (spec_to_device (assign_device i j m1)) = insert i (dom (spec_to_device m)) \<and>
      (\<forall>v\<in>set vis. device_to_spec (assign_device i j m1) v = device_to_spec m v)"
      using N displaced(2) by (auto simp: assign_device_def)
  qed
next
  case (blocked adj n i j m vis ow vis1 ok m' vis')
  then show ?case by auto
qed (auto simp: valid_assign [unfolded assign_device_def] assign_device_def)

text \<open>
  A failure leaves a set of visited devices that are all held, and from whose
  owners, and from \<open>i\<close>, no unvisited device can be reached.
\<close>

lemma augment_failure:
  assumes "augment adj n i j m vis = (ok, m', vis')"
  shows "\<not> ok \<longrightarrow>
    (\<forall>k. j \<le> k \<longrightarrow> k < n \<longrightarrow> adj i k \<longrightarrow> k \<in> set vis') \<and>
    (\<forall>v\<in>set vis' - set vis. \<exists>ow. device_to_spec m v = Some ow \<and>
        (\<forall>k<n. adj ow k \<longrightarrow> k \<in> set vis'))"
  using assms
proof (induction rule: augment_result_induct)
  case (skip adj n i j m vis ok m' vis')
  then have "k \<in> set vis'" if "\<not> ok" "j \<le> k" "k < n" "adj i k" for k
    using that by (cases "k = j") (auto simp: Suc_le_eq)
  with skip show ?case by blast
next
  case (blocked adj n i j m vis ow vis1 ok m' vis')
  have "\<exists>ow. device_to_spec m v = Some ow \<and> (\<forall>k<n. adj ow k \<longrightarrow> k \<in> set vis')"
    if v: "\<not> ok" "v \<in> set vis' - set vis" for v
  proof -
    consider "v = j" | "v \<in> set vis1 - set (j # vis)" | "v \<in> set vis' - set vis1"
      using v blocked(5,6) by auto
    then show ?thesis
    proof cases
      case 1
      moreover have "\<forall>k<n. adj ow k \<longrightarrow> k \<in> set vis1" using blocked(7) by simp
      ultimately show ?thesis using blocked(4,6) by auto
    next
      case 2
      with blocked(7) obtain ow' where
        "device_to_spec m v = Some ow'" "\<forall>k<n. adj ow' k \<longrightarrow> k \<in> set vis1"
        by (simp del: Diff_iff) metis
      then show ?thesis using blocked(6) by auto
    next
      case 3
      then show ?thesis using blocked(8) v(1) by simp
    qed
  qed
  moreover have "k \<in> set vis'" if "\<not> ok" "j \<le> k" "k < n" "adj i k" for k
    using that blocked by (cases "k = j") (auto simp: Suc_le_eq)
  ultimately show ?case by blast
qed auto


section \<open>Correctness of the matching\<close>

text \<open>A distinct assignment: one device index per spec, no index twice.\<close>

definition distinct_assignment :: "('s \<Rightarrow> 'd \<Rightarrow> bool) \<Rightarrow> 's list \<Rightarrow> 'd list \<Rightarrow> nat list \<Rightarrow> bool" where
  "distinct_assignment sat ss ds xs \<longleftrightarrow>
    distinct xs \<and> list_all2 (\<lambda>s x. x < length ds \<and> sat s (ds ! x)) ss xs"

lemma failed_augment_no_assignment:
  assumes v: "valid_matching adj n m" and d: "dom (spec_to_device m) = {..<i}"
    and f: "augment adj n i 0 m [] = (False, m', vis)"
    and inj: "inj_on f {..i}" and adj: "\<And>k. k \<le> i \<Longrightarrow> f k < n \<and> adj k (f k)"
  shows False
proof -
  let ?ow = "\<lambda>v. the (device_to_spec m v)" and ?V = "set vis"
  have closed: "k < n \<Longrightarrow> adj i k \<Longrightarrow> k \<in> ?V"
    "v \<in> ?V \<Longrightarrow> \<exists>ow. device_to_spec m v = Some ow \<and> (\<forall>k<n. adj ow k \<longrightarrow> k \<in> ?V)" for k v
    using augment_failure [OF f] by auto
  have held: "spec_to_device m (?ow v) = Some v" if "v \<in> ?V" for v
    using closed(2) [OF that] v by (auto simp: valid_matching_def)
  then have below: "?ow v < i" if "v \<in> ?V" for v
    using d that by (metis domI lessThan_iff)
  have "inj_on ?ow ?V"
    by (rule inj_onI) (metis held option.inject)
  then have "card (?ow ` ?V) = card ?V" by (rule card_image)
  moreover have "i \<notin> ?ow ` ?V" using below by blast
  ultimately have card: "card (insert i (?ow ` ?V)) = Suc (card ?V)" by simp
  have "insert i (?ow ` ?V) \<subseteq> {..i}" using below by (auto intro: less_imp_le)
  with inj have "inj_on f (insert i (?ow ` ?V))" by (rule inj_on_subset)
  moreover have le: "k \<in> insert i (?ow ` ?V) \<Longrightarrow> k \<le> i" for k
    using below by (auto intro: less_imp_le)
  moreover have "f k \<in> ?V" if "k \<in> insert i (?ow ` ?V)" for k
  proof (cases "k = i")
    case False
    with that obtain v where "v \<in> ?V" "k = ?ow v" by auto
    with closed(2) [of v] adj [of k] le [OF that] show ?thesis by auto
  qed (use closed(1) adj [of i] in auto)
  then have "f ` insert i (?ow ` ?V) \<subseteq> ?V" by blast
  ultimately have "card (insert i (?ow ` ?V)) \<le> card ?V"
    by (intro card_inj_on_le) auto
  with card show False by simp
qed

lemma max_match_loop_spec:
  assumes "valid_matching adj n m" "dom (spec_to_device m) = {..<a}"
  shows "case max_match_loop adj n [a..<a + k] m of
      Some m' \<Rightarrow> valid_matching adj n m' \<and> dom (spec_to_device m') = {..<a + k}
    | None \<Rightarrow> \<exists>i<a + k. \<forall>f. \<not> (inj_on f {..i} \<and> (\<forall>l\<le>i. f l < n \<and> adj l (f l)))"
  using assms
proof (induction k arbitrary: a m)
  case (Suc k)
  obtain ok m1 vis where r: "augment adj n a 0 m [] = (ok, m1, vis)"
    by (cases "augment adj n a 0 m []")
  have upt: "[a..<a + Suc k] = a # [Suc a..<a + Suc k]" by (rule upt_conv_Cons) simp
  show ?case
  proof (cases ok)
    case True
    have none: "spec_to_device m a = None" using Suc.prems(2) by (metis domI lessThan_iff nat_neq_iff option.exhaust)
    with augment_success [OF r] True Suc.prems
    have "valid_matching adj n m1" "dom (spec_to_device m1) = {..<Suc a}"
      by (auto simp: vacate_def)
    from Suc.IH [OF this, unfolded add_Suc_shift] show ?thesis
      unfolding upt using r True by (simp del: upt_Suc add_Suc_right)
  next
    case False
    with r have "augment adj n a 0 m [] = (False, m1, vis)" by simp
    then have "\<not> (inj_on f {..a} \<and> (\<forall>l\<le>a. f l < n \<and> adj l (f l)))" for f
      using failed_augment_no_assignment [OF Suc.prems, of m1 vis f] by auto
    then have "\<exists>i<a + Suc k. \<forall>f. \<not> (inj_on f {..i} \<and> (\<forall>l\<le>i. f l < n \<and> adj l (f l)))"
      by (intro exI [of _ a]) auto
    then show ?thesis
      unfolding upt using r False by simp
  qed
qed simp

lemma max_bipartite_match_sound:
  assumes "max_bipartite_match ss ds = Some xs"
  shows "distinct_assignment descriptor_matches ss ds xs"
proof -
  let ?adj = "\<lambda>i j. descriptor_matches (ss ! i) (ds ! j)"
  let ?m0 = "\<lparr>spec_to_device = Map.empty, device_to_spec = Map.empty\<rparr>"
  from assms obtain m where m: "max_match_loop ?adj (length ds) [0..<length ss] ?m0 = Some m"
    and xs: "xs = map (\<lambda>i. the (spec_to_device m i)) [0..<length ss]"
    by (auto simp: max_bipartite_match_def)
  have "valid_matching ?adj (length ds) ?m0" by (simp add: valid_matching_def)
  with max_match_loop_spec [of ?adj "length ds" ?m0 0 "length ss"] m
  have v: "valid_matching ?adj (length ds) m" and d: "dom (spec_to_device m) = {..<length ss}"
    by auto
  have def: "spec_to_device m i = Some (xs ! i)" if i: "i < length ss" for i
  proof -
    from d i obtain y where "spec_to_device m i = Some y" by blast
    with xs i show ?thesis by simp
  qed
  have "distinct xs"
    unfolding distinct_conv_nth using v def xs
    by (auto simp: valid_matching_def) (metis option.inject)
  moreover have "length xs = length ss" using xs by simp
  ultimately show ?thesis
    using v def by (auto simp: distinct_assignment_def list_all2_conv_all_nth valid_matching_def)
qed

lemma max_bipartite_match_complete:
  assumes "max_bipartite_match ss ds = None"
  shows "\<not> distinct_assignment descriptor_matches ss ds xs"
proof
  let ?adj = "\<lambda>i j. descriptor_matches (ss ! i) (ds ! j)"
  let ?m0 = "\<lparr>spec_to_device = Map.empty, device_to_spec = Map.empty\<rparr>"
  assume xs: "distinct_assignment descriptor_matches ss ds xs"
  have "valid_matching ?adj (length ds) ?m0" by (simp add: valid_matching_def)
  with max_match_loop_spec [of ?adj "length ds" ?m0 0 "length ss"] assms
  obtain i where i: "i < length ss"
    and no: "\<And>f. \<not> (inj_on f {..i} \<and> (\<forall>l\<le>i. f l < length ds \<and> ?adj l (f l)))"
    by (auto simp: max_bipartite_match_def split: option.splits)
  have "inj_on ((!) xs) {..i}" "\<forall>l\<le>i. xs ! l < length ds \<and> ?adj l (xs ! l)"
    using xs i
    by (auto simp: distinct_assignment_def list_all2_conv_all_nth inj_on_def nth_eq_iff_index_eq)
  with no [of "(!) xs"] show False by blast
qed


section \<open>The contract of a matcher\<close>

locale distinct_matcher =
  fixes sat :: "'s \<Rightarrow> 'd \<Rightarrow> bool" and assign :: "'s list \<Rightarrow> 'd list \<Rightarrow> nat list option"
  assumes sound: "assign ss ds = Some xs \<Longrightarrow> distinct_assignment sat ss ds xs"
    and complete: "assign ss ds = None \<Longrightarrow> \<not> distinct_assignment sat ss ds xs"
begin

lemma assign_iff: "assign ss ds \<noteq> None \<longleftrightarrow> (\<exists>xs. distinct_assignment sat ss ds xs)"
  using sound complete by (cases "assign ss ds") auto

lemma assignment_reorder:
  assumes "mset ss = mset ss'" "distinct_assignment sat ss ds xs"
  shows "\<exists>xs'. distinct_assignment sat ss' ds xs'"
proof -
  let ?R = "\<lambda>s x. x < length ds \<and> sat s (ds ! x)"
  from assms(2) have "list_all2 ?R ss xs" and d: "distinct xs"
    by (auto simp: distinct_assignment_def)
  from list_all2_reorder_left_invariance [OF this(1) assms(1) [symmetric]]
  obtain xs' where xs': "list_all2 ?R ss' xs'" "mset xs' = mset xs" by blast
  with d have "distinct xs'" using mset_eq_imp_distinct_iff by blast
  with xs' show ?thesis by (auto simp: distinct_assignment_def)
qed

lemma order_independent: "mset ss = mset ss' \<Longrightarrow> assign ss ds = None \<longleftrightarrow> assign ss' ds = None"
  using assign_iff assignment_reorder by metis

lemma assigned_devices:
  assumes "assign ss ds = Some xs"
  shows "list_all2 sat ss (map ((!) ds) xs)" and "set (map ((!) ds) xs) \<subseteq> set ds"
    and "distinct (map k ds) \<Longrightarrow> distinct (map k (map ((!) ds) xs))"
proof -
  have xs: "distinct xs" "list_all2 (\<lambda>s x. x < length ds \<and> sat s (ds ! x)) ss xs"
    using sound [OF assms] by (simp_all add: distinct_assignment_def)
  then show "list_all2 sat ss (map ((!) ds) xs)"
    by (auto simp: list_all2_conv_all_nth)
  have bound: "\<forall>x\<in>set xs. x < length ds"
    using xs(2) by (auto simp: list_all2_conv_all_nth in_set_conv_nth)
  then show "set (map ((!) ds) xs) \<subseteq> set ds" by auto
  assume k: "distinct (map k ds)"
  have "inj_on (\<lambda>x. k (ds ! x)) {x. x < length ds}"
    using k by (auto simp: inj_on_def distinct_conv_nth)
  then have "inj_on (\<lambda>x. k (ds ! x)) (set xs)" using bound by (auto intro: inj_on_subset)
  with xs(1) show "distinct (map k (map ((!) ds) xs))" by (simp add: distinct_map comp_def)
qed

end

interpretation kuhn: distinct_matcher descriptor_matches max_bipartite_match
  by unfold_locales (fact max_bipartite_match_sound max_bipartite_match_complete)+

definition free_devices :: "PCIeDescriptor list \<Rightarrow> PCIeClaim list \<Rightarrow> PCIeDescriptor list" where
  "free_devices descriptors claims = filter (\<lambda>d. d_bdf d \<notin> c_bdf ` set claims) descriptors"

lemma resolve_multiset_unfold:
  assumes "map_result parse_match_spec specs = Inr ps"
  shows "resolve_multiset specs descriptors claims =
    (if \<exists>p\<in>set ps. \<forall>d\<in>set descriptors. \<not> descriptor_matches p d
     then Inr \<lparr>mr_outcome = CONFIG, mr_devices = []\<rparr>
     else case max_bipartite_match ps (free_devices descriptors claims) of
            None \<Rightarrow> Inr \<lparr>mr_outcome = CAPACITY, mr_devices = []\<rparr>
          | Some xs \<Rightarrow> Inr \<lparr>mr_outcome = MATCHED,
                           mr_devices = map ((!) (free_devices descriptors claims)) xs\<rparr>)"
  using assms
  by (auto simp: resolve_multiset_def free_devices_def list_ex_iff Let_def split: option.splits)

lemma resolve_multiset_devices:
  assumes "resolve_multiset specs descriptors claims = Inr r" "mr_outcome r = MATCHED"
  shows "set (mr_devices r) \<subseteq> set (free_devices descriptors claims)"
    and "distinct (map d_bdf descriptors) \<Longrightarrow> distinct (map d_bdf (mr_devices r))"
    and "length (mr_devices r) = length specs"
proof -
  from assms(1) obtain ps where ps: "map_result parse_match_spec specs = Inr ps"
    by (auto simp: resolve_multiset_def)
  let ?free = "free_devices descriptors claims"
  from assms obtain xs where xs: "max_bipartite_match ps ?free = Some xs"
    and r: "mr_devices r = map ((!) ?free) xs"
    unfolding resolve_multiset_unfold [OF ps] by (auto split: if_splits option.splits)
  show "set (mr_devices r) \<subseteq> set ?free" using kuhn.assigned_devices(2) [OF xs] r by simp
  show "length (mr_devices r) = length specs"
    using kuhn.assigned_devices(1) [OF xs] ps r
    by (simp add: map_result_Inr_iff list_all2_lengthD)
  assume "distinct (map d_bdf descriptors)"
  then have "distinct (map d_bdf ?free)" by (simp add: free_devices_def distinct_map_filter)
  then show "distinct (map d_bdf (mr_devices r))"
    using kuhn.assigned_devices(3) [OF xs] r by simp
qed


section \<open>Properties\<close>

text \<open>
  C4. The multiset resolution is an exact distinct matching: for well-formed specs
  it reports \<open>CONFIG\<close> exactly when some spec matches no device of the host, and
  otherwise \<open>MATCHED\<close> exactly when one distinct free device per spec can be chosen;
  the devices returned with \<open>MATCHED\<close> are such a choice.
\<close>

theorem resolve_multiset_exact:
  assumes "map_result parse_match_spec specs = Inr ps"
  shows "\<exists>r. resolve_multiset specs descriptors claims = Inr r \<and>
    (mr_outcome r = CONFIG \<longleftrightarrow> (\<exists>p\<in>set ps. \<forall>d\<in>set descriptors. \<not> descriptor_matches p d)) \<and>
    (mr_outcome r = MATCHED \<longleftrightarrow>
      (\<exists>xs. distinct_assignment descriptor_matches ps (free_devices descriptors claims) xs)) \<and>
    (mr_outcome r = MATCHED \<longrightarrow>
      (\<exists>xs. distinct_assignment descriptor_matches ps (free_devices descriptors claims) xs \<and>
            mr_devices r = map ((!) (free_devices descriptors claims)) xs))"
proof (cases "\<exists>p\<in>set ps. \<forall>d\<in>set descriptors. \<not> descriptor_matches p d")
  case True
  then obtain p where p: "p \<in> set ps" "\<And>d. d \<in> set descriptors \<Longrightarrow> \<not> descriptor_matches p d" by blast
  have "\<not> distinct_assignment descriptor_matches ps (free_devices descriptors claims) xs" for xs
  proof
    assume "distinct_assignment descriptor_matches ps (free_devices descriptors claims) xs"
    then obtain x where "x < length (free_devices descriptors claims)"
      "descriptor_matches p (free_devices descriptors claims ! x)"
      using p(1) by (auto simp: distinct_assignment_def list_all2_conv_all_nth in_set_conv_nth)
    with p(2) nth_mem show False by (fastforce simp: free_devices_def)
  qed
  with True show ?thesis using resolve_multiset_unfold [OF assms] by simp
next
  case False
  show ?thesis
  proof (cases "max_bipartite_match ps (free_devices descriptors claims)")
    case None
    then show ?thesis
      using False kuhn.complete unfolding resolve_multiset_unfold [OF assms] by auto
  next
    case (Some xs)
    then show ?thesis
      using False kuhn.sound [OF Some] unfolding resolve_multiset_unfold [OF assms] by auto
  qed
qed

definition example_descriptors :: "PCIeDescriptor list" where
  "example_descriptors =
    [\<lparr>d_bdf = ''0000:01:00.0'', d_vendor_id = ''8086'', d_device_id = ''1572'',
      d_class_code = ''020000'', d_label = ''''\<rparr>,
     \<lparr>d_bdf = ''0000:02:00.0'', d_vendor_id = ''10de'', d_device_id = ''0001'',
      d_class_code = ''020000'', d_label = ''''\<rparr>]"

definition example_specs :: "MatchSpec list" where
  "example_specs =
    [\<lparr>ms_kind = CLASS, ms_vendor_id = None, ms_device_id = None, ms_class_prefix = Some ''02''\<rparr>,
     \<lparr>ms_kind = VENDOR_DEVICE, ms_vendor_id = Some ''8086'', ms_device_id = Some ''1572'',
      ms_class_prefix = None\<rparr>]"

theorem resolve_multiset_exact_witness:
  "\<exists>r. resolve_multiset [''class=02'', ''8086:1572''] example_descriptors [] = Inr r \<and>
    (mr_outcome r = MATCHED \<longleftrightarrow>
      (\<exists>xs. distinct_assignment descriptor_matches example_specs
              (free_devices example_descriptors []) xs))"
proof -
  have "map_result parse_match_spec [''class=02'', ''8086:1572''] = Inr example_specs"
    by code_simp
  from resolve_multiset_exact [OF this, of example_descriptors "[]"] show ?thesis by blast
qed

text \<open>
  C26. The outcome of the multiset resolution does not depend on the order in which
  the specs are listed.
\<close>

theorem resolve_multiset_order_independent:
  assumes "mset specs = mset specs'" and "resolve_multiset specs descriptors claims = Inr r"
  shows "\<exists>r'. resolve_multiset specs' descriptors claims = Inr r' \<and> mr_outcome r' = mr_outcome r"
proof -
  from assms(2) obtain ps where ps: "map_result parse_match_spec specs = Inr ps"
    by (auto simp: resolve_multiset_def)
  then have "list_all2 (\<lambda>s p. parse_match_spec s = Inr p) specs ps"
    by (simp add: map_result_Inr_iff)
  from list_all2_reorder_left_invariance [OF this assms(1) [symmetric]]
  obtain ps' where ps': "map_result parse_match_spec specs' = Inr ps'" "mset ps' = mset ps"
    by (auto simp: map_result_Inr_iff)
  then have "set ps' = set ps" by (metis set_mset_mset)
  with kuhn.order_independent [OF ps'(2), of "free_devices descriptors claims"] assms(2)
  show ?thesis
    unfolding resolve_multiset_unfold [OF ps] resolve_multiset_unfold [OF ps'(1)]
    by (auto split: if_splits option.splits)
qed

theorem resolve_multiset_order_independent_witness:
  "\<exists>r'. resolve_multiset [''8086:1572'', ''class=02''] example_descriptors [] = Inr r' \<and>
    mr_outcome r' = MATCHED"
proof -
  have "resolve_multiset [''class=02'', ''8086:1572''] example_descriptors [] =
    Inr \<lparr>mr_outcome = MATCHED,
         mr_devices = [example_descriptors ! 1, example_descriptors ! 0]\<rparr>"
    by code_simp
  from resolve_multiset_order_independent [OF _ this, of "[''8086:1572'', ''class=02'']"]
  show ?thesis by simp
qed

lemma VENDOR_DEVICE_RE_iff:
  "VENDOR_DEVICE_RE s \<longleftrightarrow>
    (\<exists>v d nl. length v = 4 \<and> length d = 4 \<and> list_all is_hex v \<and> list_all is_hex d \<and> dollar nl \<and>
      s = v @ CHR '':'' # d @ nl)" (is "_ \<longleftrightarrow> ?R")
proof
  assume a: "VENDOR_DEVICE_RE s"
  then have "s = take 4 s @ s ! 4 # drop 5 s"
    using id_take_nth_drop [of 4 s] by (simp add: VENDOR_DEVICE_RE_def)
  also have "drop 5 s = take 4 (drop 5 s) @ drop 9 s"
    using append_take_drop_id [of 4 "drop 5 s"] by (simp add: drop_drop)
  finally show ?R
    using a
    by (rule_tac exI [of _ "take 4 s"], rule_tac exI [of _ "take 4 (drop 5 s)"],
        rule_tac exI [of _ "drop 9 s"]) (auto simp: VENDOR_DEVICE_RE_def)

qed (auto simp: VENDOR_DEVICE_RE_def nth_append)

lemma CLASS_RE_iff:
  "CLASS_RE s = Some p \<longleftrightarrow>
    (length p = 2 \<or> length p = 4) \<and> list_all is_hex p \<and> (\<exists>nl. dollar nl \<and> s = ''class='' @ p @ nl)"
  (is "_ \<longleftrightarrow> ?R")
proof
  assume a: "CLASS_RE s = Some p"
  then have "take 6 s = ''class=''" by (auto simp: CLASS_RE_def split: if_splits)
  then have "s = ''class='' @ drop 6 s" by (metis append_take_drop_id)
  moreover from a have "(length p = 2 \<or> length p = 4) \<and> list_all is_hex p \<and>
      p = take (length p) (drop 6 s) \<and> dollar (drop (length p) (drop 6 s))"
    by (auto simp: CLASS_RE_def Let_def split: if_splits)
  moreover from this have "drop 6 s = p @ drop (length p) (drop 6 s)"
    by (metis append_take_drop_id)
  ultimately show ?R by metis
next
  assume ?R
  then obtain nl where s: "s = ''class='' @ p @ nl"
    and p: "length p = 2 \<or> length p = 4" "list_all is_hex p" "dollar nl" by blast
  from p(1) show "CLASS_RE s = Some p"
  proof
    assume "length p = 4"
    then have "\<not> dollar (drop 2 (p @ nl))"
      by (auto simp: dollar_def dest: arg_cong [of _ _ length])
    with p(2,3) \<open>length p = 4\<close> show ?thesis unfolding s by (simp add: CLASS_RE_def Let_def)
  next
    assume "length p = 2"
    with p(2,3) show ?thesis unfolding s by (simp add: CLASS_RE_def Let_def)
  qed
qed

lemma is_hex_not_colon: "\<not> is_hex CHR '':''"
  by (simp add: is_hex_def)

lemma hex_not_colon: "list_all is_hex v \<Longrightarrow> \<forall>c\<in>set v. c \<noteq> CHR '':''"
  using is_hex_not_colon by (auto simp: list_all_iff)

lemma VENDOR_DEVICE_RE_not_class: "VENDOR_DEVICE_RE s \<Longrightarrow> s \<noteq> ''class='' @ q"
  by (auto simp: VENDOR_DEVICE_RE_def is_hex_def)


definition vendor_device_spec :: "string \<Rightarrow> string \<Rightarrow> MatchSpec" where
  "vendor_device_spec v d =
    \<lparr>ms_kind = VENDOR_DEVICE, ms_vendor_id = Some v, ms_device_id = Some d, ms_class_prefix = None\<rparr>"

definition class_spec :: "string \<Rightarrow> MatchSpec" where
  "class_spec p =
    \<lparr>ms_kind = CLASS, ms_vendor_id = None, ms_device_id = None, ms_class_prefix = Some p\<rparr>"

lemma parse_vendor_device:
  assumes "length v = 4" "length d = 4" "list_all is_hex v" "list_all is_hex d" "dollar nl"
  shows "parse_match_spec (v @ CHR '':'' # d @ nl) = Inr (vendor_device_spec v (d @ nl))"
proof -
  have "VENDOR_DEVICE_RE (v @ CHR '':'' # d @ nl)"
    unfolding VENDOR_DEVICE_RE_iff using assms by blast
  then show ?thesis
    using hex_not_colon [OF assms(3)] by (simp add: parse_match_spec_def vendor_device_spec_def)
qed

lemma parse_class:
  assumes "length p = 2 \<or> length p = 4" "list_all is_hex p" "dollar nl"
  shows "parse_match_spec (''class='' @ p @ nl) = Inr (class_spec p)"
proof -
  have "CLASS_RE (''class='' @ p @ nl) = Some p"
    unfolding CLASS_RE_iff using assms by blast
  moreover have "\<not> VENDOR_DEVICE_RE (''class='' @ p @ nl)"
    using VENDOR_DEVICE_RE_not_class by blast
  ultimately show ?thesis by (simp only: parse_match_spec_def class_spec_def if_False option.case)
qed

text \<open>
  C38. The match-spec grammar: exactly \<open>4hex:4hex\<close> and \<open>class=\<close> with two or four hex
  digits are accepted, each also with one trailing newline, which a
  \<open>vendor:device\<close> spec keeps in its device id; everything else is a
  configuration error.
\<close>

theorem parse_match_spec_grammar:
  "parse_match_spec s = Inr m \<longleftrightarrow>
    (\<exists>v d nl. length v = 4 \<and> length d = 4 \<and> list_all is_hex v \<and> list_all is_hex d \<and> dollar nl \<and>
       s = v @ CHR '':'' # d @ nl \<and> m = vendor_device_spec v (d @ nl)) \<or>
    (\<exists>p nl. (length p = 2 \<or> length p = 4) \<and> list_all is_hex p \<and> dollar nl \<and>
       s = ''class='' @ p @ nl \<and> m = class_spec p)" (is "_ \<longleftrightarrow> ?V \<or> ?C")
proof
  assume p: "parse_match_spec s = Inr m"
  show "?V \<or> ?C"
  proof (cases "VENDOR_DEVICE_RE s")
    case True
    then obtain v d nl where s: "length v = 4" "length d = 4" "list_all is_hex v"
      "list_all is_hex d" "dollar nl" "s = v @ CHR '':'' # d @ nl"
      unfolding VENDOR_DEVICE_RE_iff by blast
    with parse_vendor_device [OF s(1-5)] p have "m = vendor_device_spec v (d @ nl)" by simp
    with s show ?thesis by blast
  next
    case False
    with p obtain q where "CLASS_RE s = Some q" "m = class_spec q"
      by (auto simp: parse_match_spec_def class_spec_def split: option.splits)
    then show ?thesis unfolding CLASS_RE_iff by blast
  qed
next
  assume "?V \<or> ?C"
  then show "parse_match_spec s = Inr m"
    using parse_vendor_device parse_class by blast
qed


text \<open>
  A \<open>vendor:device\<close> spec with a trailing newline is accepted but matches no
  device whose id has the canonical four characters, so it resolves to \<open>CONFIG\<close>
  on every host instead of being rejected as malformed.
\<close>

theorem newline_spec_matches_nothing:
  assumes "length v = 4" "length d = 4" "list_all is_hex v" "list_all is_hex d"
    and "list_all (\<lambda>x. length (d_device_id x) = 4) descriptors"
  shows "resolve_multiset [v @ CHR '':'' # d @ [CHR 0x0A]] descriptors claims =
    Inr \<lparr>mr_outcome = CONFIG, mr_devices = []\<rparr>"
proof -
  have "\<not> descriptor_matches (vendor_device_spec v (d @ [CHR 0x0A])) x"
    if "x \<in> set descriptors" for x
    using assms(2,5) that
    by (auto simp: descriptor_matches_def vendor_device_spec_def list_all_iff)
  then have "\<not> list_ex (descriptor_matches (vendor_device_spec v (d @ [CHR 0x0A]))) descriptors"
    by (auto simp: list_ex_iff)
  with parse_vendor_device [OF assms(1-4), of "[CHR 0x0A]"] show ?thesis
    by (simp add: resolve_multiset_def dollar_def)
qed

theorem newline_spec_matches_nothing_witness:
  "resolve_multiset [''8086:1572'' @ [CHR 0x0A]] example_descriptors [] =
    Inr \<lparr>mr_outcome = CONFIG, mr_devices = []\<rparr>"
  using newline_spec_matches_nothing [of "''8086''" "''1572''" example_descriptors "[]"]
  by (simp add: is_hex_def example_descriptors_def)

end
