(* ===== verification/Kdive_Models.thy ===== *)
theory Kdive_Models
  imports Pcie
begin

text \<open>
  The typed rows of \<open>kdive/domain/models.py\<close>.  The base classes \<open>DomainModel\<close>
  and \<open>_Attribution\<close> are record extensions, so the shared columns have one name;
  columns that several tables have with different types carry a prefix.  JSON
  columns hold \<open>json\<close> documents, \<open>numeric\<close> columns rationals.
\<close>

section \<open>Enums\<close>

datatype ResourceKind = LOCAL_LIBVIRT | FAULT_INJECT | REMOTE_LIBVIRT

datatype JobKind =
    PROVISION | REPROVISION | TEARDOWN | BUILD | INSTALL | BOOT | FORCE_CRASH | POWER
  | CAPTURE_VMCORE | IMAGE_BUILD

datatype ManagedBy = ByConfig | ByDiscovery | ByRuntime

datatype PowerAction = PowerOn | PowerOff | PowerCycle | PowerReset

datatype Sensitivity = SENSITIVE | REDACTED | QUARANTINED

datatype LedgerEventType = RESERVED | RECONCILED


section \<open>Rows\<close>

record DomainModel =
  oid :: uuid
  created_at :: time
  updated_at :: time

record AttributedModel = DomainModel +
  principal :: string
  agent_session :: "string option"
  project :: string

record JobAuthorizing =
  auth_principal :: string
  auth_agent_session :: "string option"
  auth_project :: string

record Resource = DomainModel +
  res_kind :: ResourceKind
  capabilities :: json
  pool :: string
  res_cost_class :: string
  res_status :: ResourceStatus
  host_uri :: string
  cordoned :: bool
  res_managed_by :: ManagedBy
  res_name :: "string option"
  owner_project :: "string option"
  affinity_allowlist :: "string list"
  res_lease_expires_at :: "time option"

record Allocation = AttributedModel +
  resource_id :: "uuid option"
  al_state :: AllocationState
  lease_expiry :: "time option"
  capability_scope :: json
  requested_vcpus :: "int option"
  requested_memory_gb :: "int option"
  requested_disk_gb :: "int option"
  al_shape :: "string option"
  active_started_at :: "time option"
  active_ended_at :: "time option"
  pcie_claim :: "PCIeClaim list"
  requested_pcie_specs :: "string list"
  requested_kind :: "ResourceKind option"
  requested_resource_id :: "uuid option"

record System = AttributedModel +
  allocation_id :: uuid
  sys_state :: SystemState
  provisioning_profile :: json
  target_fingerprint :: "string option"
  domain_name :: "string option"
  sys_shape :: "string option"

record Run = AttributedModel +
  investigation_id :: uuid
  system_id :: uuid
  run_state :: RunState
  build_profile :: json
  expected_boot_failure :: "json option"
  kernel_ref :: "string option"
  debuginfo_ref :: "string option"
  run_failure_category :: "ErrorCategory option"

record DebugSession = AttributedModel +
  ds_run_id :: uuid
  ds_state :: DebugSessionState
  transport :: string
  transport_handle :: "string option"
  worker_heartbeat_at :: "time option"

record Job = DomainModel +
  job_kind :: JobKind
  payload :: json
  job_state :: JobState
  attempt :: int
  max_attempts :: int
  worker_id :: "string option"
  job_lease_expires_at :: "time option"
  heartbeat_at :: "time option"
  result_ref :: "string option"
  job_error_category :: "ErrorCategory option"
  failure_context :: "(string \<times> string) list"
  authorizing :: JobAuthorizing
  dedup_key :: string

record CostClassCoefficient =
  cc_cost_class :: string
  coeff :: rat
  cc_updated_at :: time

record Budget =
  bud_project :: string
  limit_kcu :: rat
  spent_kcu :: rat
  bud_updated_at :: time

record Quota =
  quo_project :: string
  max_concurrent_allocations :: int
  max_concurrent_systems :: int
  max_pending_allocations :: int
  quo_updated_at :: time

record SystemShape =
  shape_name :: string
  shape_vcpus :: int
  shape_memory_mb :: int
  shape_disk_gb :: int
  shape_pcie_match :: "string option"
  shape_updated_at :: time

record LedgerEntry =
  le_id :: uuid
  le_ts :: time
  le_project :: string
  le_allocation_id :: uuid
  le_resource_id :: "uuid option"
  le_cost_class :: string
  event_type :: LedgerEventType
  kcu_delta :: rat
  le_note :: "string option"

end
