(* ===== verification/Authz.thy ===== *)
theory Authz
  imports Kdive_Models
begin

text \<open>
  Authorization: the project and platform roles of \<open>security/authz/rbac.py\<close>, the
  request context of \<open>security/authz/context.py\<close> built from verified token
  claims, and the three-check gate of \<open>security/authz/gate.py\<close>.
\<close>

section \<open>Roles\<close>

datatype Role = VIEWER | OPERATOR | ADMIN

fun RANK :: "Role \<Rightarrow> int" where
  "RANK VIEWER = 0"
| "RANK OPERATOR = 1"
| "RANK ADMIN = 2"

instantiation Role :: linorder
begin

definition less_eq_Role :: "Role \<Rightarrow> Role \<Rightarrow> bool" where
  "r \<le> s \<longleftrightarrow> RANK r \<le> RANK s"

definition less_Role :: "Role \<Rightarrow> Role \<Rightarrow> bool" where
  "r < s \<longleftrightarrow> RANK r < RANK s"

instance
proof
  fix r s :: Role
  show "r \<le> s \<Longrightarrow> s \<le> r \<Longrightarrow> r = s"
    by (cases r; cases s; simp add: less_eq_Role_def)
qed (auto simp: less_eq_Role_def less_Role_def)

end

datatype PlatformRole = PLATFORM_ADMIN | PLATFORM_OPERATOR | PLATFORM_AUDITOR

definition PLATFORM_IMPLIES :: "(PlatformRole \<times> PlatformRole list) list" where
  "PLATFORM_IMPLIES = [(PLATFORM_ADMIN, [PLATFORM_AUDITOR])]"

definition Role_of_value :: "string \<Rightarrow> Role option" where
  "Role_of_value v =
    map_of [(''viewer'', VIEWER), (''operator'', OPERATOR), (''admin'', ADMIN)] v"

definition PlatformRole_of_value :: "string \<Rightarrow> PlatformRole option" where
  "PlatformRole_of_value v =
    map_of [(''platform_admin'', PLATFORM_ADMIN), (''platform_operator'', PLATFORM_OPERATOR),
            (''platform_auditor'', PLATFORM_AUDITOR)] v"

fun Role_value :: "Role \<Rightarrow> string" where
  "Role_value VIEWER = ''viewer''"
| "Role_value OPERATOR = ''operator''"
| "Role_value ADMIN = ''admin''"


section \<open>Request context\<close>

record RequestContext =
  ctx_principal :: string
  ctx_agent_session :: "string option"
  ctx_projects :: "string list"
  ctx_roles :: "(string \<times> Role) list"
  ctx_platform_roles :: "PlatformRole list"
  ctx_client_id :: "string option"

fun role_entry :: "string \<times> json \<Rightarrow> exn + (string \<times> Role)" where
  "role_entry (p, JStr v) =
    (if p = '''' then Inl AuthError
     else case Role_of_value v of None \<Rightarrow> Inl AuthError | Some r \<Rightarrow> Inr (p, r))"
| "role_entry (p, _) = Inl AuthError"

definition roles_from_claims :: "json \<Rightarrow> exn + (string \<times> Role) list" where
  "roles_from_claims claims =
    (case json_get ''roles'' claims of
       None \<Rightarrow> Inr []
     | Some JNull \<Rightarrow> Inr []
     | Some (JObj kvs) \<Rightarrow> map_result role_entry kvs
     | Some _ \<Rightarrow> Inl AuthError)"

fun platform_role_entry :: "json \<Rightarrow> exn + PlatformRole" where
  "platform_role_entry (JStr v) =
    (case PlatformRole_of_value v of None \<Rightarrow> Inl AuthError | Some r \<Rightarrow> Inr r)"
| "platform_role_entry _ = Inl AuthError"

definition platform_roles_from_claims :: "json \<Rightarrow> exn + PlatformRole list" where
  "platform_roles_from_claims claims =
    (case json_get ''platform_roles'' claims of
       None \<Rightarrow> Inr []
     | Some JNull \<Rightarrow> Inr []
     | Some (JList vs) \<Rightarrow> map_result platform_role_entry vs
     | Some _ \<Rightarrow> Inl AuthError)"

text \<open>Python truthiness of a JSON value, as \<open>or\<close> uses it.\<close>

fun json_truthy :: "json \<Rightarrow> bool" where
  "json_truthy JNull = False"
| "json_truthy (JBool b) = b"
| "json_truthy (JInt i) = (i \<noteq> 0)"
| "json_truthy (JFloat f) = (f \<noteq> 0)"
| "json_truthy (JStr s) = (s \<noteq> '''')"
| "json_truthy (JList xs) = (xs \<noteq> [])"
| "json_truthy (JObj kvs) = (kvs \<noteq> [])"

fun project_entry :: "json \<Rightarrow> exn + string" where
  "project_entry (JStr p) = (if p = '''' then Inl AuthError else Inr p)"
| "project_entry _ = Inl AuthError"

definition claim_projects :: "json \<Rightarrow> exn + string list" where
  "claim_projects claims =
    (case json_get ''projects'' claims of
       None \<Rightarrow> Inr []
     | Some JNull \<Rightarrow> Inr []
     | Some (JList ps) \<Rightarrow> map_result project_entry ps
     | Some _ \<Rightarrow> Inl AuthError)"

definition claim_client_id :: "json \<Rightarrow> string option" where
  "claim_client_id claims =
    (case (case json_get ''azp'' claims of
             Some v \<Rightarrow> (if json_truthy v then Some v else json_get ''client_id'' claims)
           | None \<Rightarrow> json_get ''client_id'' claims) of
       Some (JStr c) \<Rightarrow> (if c = '''' then None else Some c)
     | _ \<Rightarrow> None)"

definition context_from_claims :: "json \<Rightarrow> exn + RequestContext" where
  "context_from_claims claims =
    (case json_get ''sub'' claims of
       Some (JStr subject) \<Rightarrow>
         rbind (guard (subject \<noteq> '''') AuthError) (\<lambda>_.
         rbind (case json_get ''agent_session'' claims of
                  None \<Rightarrow> Inr None
                | Some JNull \<Rightarrow> Inr None
                | Some (JStr s) \<Rightarrow> Inr (Some s)
                | Some _ \<Rightarrow> Inl AuthError) (\<lambda>agent_session.
         rbind (claim_projects claims) (\<lambda>projects.
         rbind (roles_from_claims claims) (\<lambda>roles.
         rbind (platform_roles_from_claims claims) (\<lambda>platform_roles.
           Inr \<lparr>ctx_principal = subject, ctx_agent_session = agent_session,
                ctx_projects = projects, ctx_roles = roles,
                ctx_platform_roles = platform_roles, ctx_client_id = claim_client_id claims\<rparr>)))))
     | _ \<Rightarrow> Inl AuthError)"

definition require_project :: "RequestContext \<Rightarrow> string \<Rightarrow> exn + string" where
  "require_project ctx p =
    (if p \<notin> set (ctx_projects ctx) then Inl ProjectMembershipDenied else Inr p)"


section \<open>Enforcement\<close>

definition require_role :: "RequestContext \<Rightarrow> string \<Rightarrow> Role \<Rightarrow> exn + unit" where
  "require_role ctx p role =
    (if p \<notin> set (ctx_projects ctx) then Inl AuthorizationError
     else case map_of (ctx_roles ctx) p of
            None \<Rightarrow> Inl RoleDenied
          | Some held \<Rightarrow> if RANK held < RANK role then Inl RoleDenied else Inr ())"

definition role_satisfies :: "PlatformRole \<Rightarrow> PlatformRole \<Rightarrow> bool" where
  "role_satisfies held role \<longleftrightarrow>
    held = role \<or> (case map_of PLATFORM_IMPLIES held of None \<Rightarrow> False | Some rs \<Rightarrow> role \<in> set rs)"

definition require_platform_role :: "RequestContext \<Rightarrow> PlatformRole \<Rightarrow> exn + unit" where
  "require_platform_role ctx role =
    (if list_ex (\<lambda>held. role_satisfies held role) (ctx_platform_roles ctx) then Inr ()
     else Inl AuthorizationError)"

fun JobKind_value :: "JobKind \<Rightarrow> string" where
  "JobKind_value PROVISION = ''provision''"
| "JobKind_value REPROVISION = ''reprovision''"
| "JobKind_value TEARDOWN = ''teardown''"
| "JobKind_value BUILD = ''build''"
| "JobKind_value INSTALL = ''install''"
| "JobKind_value BOOT = ''boot''"
| "JobKind_value FORCE_CRASH = ''force_crash''"
| "JobKind_value POWER = ''power''"
| "JobKind_value CAPTURE_VMCORE = ''capture_vmcore''"
| "JobKind_value IMAGE_BUILD = ''image_build''"

record DestructiveOp =
  op_kind :: JobKind
  profile_opt_in :: bool

definition scope_permits :: "Allocation \<Rightarrow> DestructiveOp \<Rightarrow> bool" where
  "scope_permits allocation op =
    (case json_get ''destructive_ops'' (capability_scope allocation) of
       Some (JList granted) \<Rightarrow> JStr (JobKind_value (op_kind op)) \<in> set granted
     | _ \<Rightarrow> False)"

definition missing_checks :: "RequestContext \<Rightarrow> Allocation \<Rightarrow> DestructiveOp \<Rightarrow> Role \<Rightarrow> string list" where
  "missing_checks ctx allocation op required_role =
    (if scope_permits allocation op then [] else [''capability_scope'']) @
    (case require_role ctx (project allocation) required_role of
       Inl _ \<Rightarrow> [Role_value required_role @ ''_role'']
     | Inr _ \<Rightarrow> []) @
    (if profile_opt_in op then [] else [''profile_opt_in''])"

definition assert_destructive_allowed ::
  "RequestContext \<Rightarrow> Allocation \<Rightarrow> DestructiveOp \<Rightarrow> Role \<Rightarrow> exn + unit" where
  "assert_destructive_allowed ctx allocation op required_role =
    (let missing = missing_checks ctx allocation op required_role
     in if missing \<noteq> [] then Inl (DestructiveOpDenied missing) else Inr ())"


section \<open>Properties\<close>

lemma require_role_exact:
  "require_role ctx p role =
    (if p \<notin> set (ctx_projects ctx) then Inl AuthorizationError
     else if \<exists>held. map_of (ctx_roles ctx) p = Some held \<and> role \<le> held then Inr ()
     else Inl RoleDenied)"
  by (auto simp: require_role_def less_eq_Role_def not_less split: option.splits)

text \<open>
  Platform roles are separated: a requirement is met only by holding that very
  role, except that an administrator also meets the auditor requirement.
\<close>

theorem require_platform_role_exact:
  "require_platform_role ctx role = Inr () \<longleftrightarrow>
    role \<in> set (ctx_platform_roles ctx) \<or>
    (role = PLATFORM_AUDITOR \<and> PLATFORM_ADMIN \<in> set (ctx_platform_roles ctx))"
  by (auto simp: require_platform_role_def list_ex_iff role_satisfies_def PLATFORM_IMPLIES_def
      split: if_splits)

text \<open>
  The destructive-operation gate opens exactly when the allocation's scope lists
  the operation, the caller holds the required role on the allocation's project
  and the profile opted in; it raises nothing but the denial.
\<close>

lemma destructive_gate_open:
  "assert_destructive_allowed ctx a op role = Inr () \<longleftrightarrow>
     scope_permits a op \<and> require_role ctx (project a) role = Inr () \<and> profile_opt_in op"
  by (auto simp: assert_destructive_allowed_def missing_checks_def Let_def split: sum.splits if_splits)

lemma destructive_gate_closed:
  "assert_destructive_allowed ctx a op role \<noteq> Inr () \<Longrightarrow>
     \<exists>missing. assert_destructive_allowed ctx a op role = Inl (DestructiveOpDenied missing)"
  by (auto simp: assert_destructive_allowed_def Let_def split: if_splits)

lemma role_entry_Inr_iff:
  "role_entry kv = Inr pr \<longleftrightarrow>
    fst pr = fst kv \<and> fst kv \<noteq> '''' \<and> (\<exists>v. snd kv = JStr v \<and> Role_of_value v = Some (snd pr))"
  by (cases kv; cases "snd kv") (auto split: option.splits)

text \<open>
  C39. Parsing the role claim is fail closed: it succeeds only when every entry is a
  non-empty project with a known role, the result lists exactly those grants, and
  any other entry makes the whole parse fail.
\<close>

theorem roles_from_claims_fail_closed:
  assumes "json_get ''roles'' claims = Some raw"
  shows "roles_from_claims claims = Inr roles \<longleftrightarrow>
    (raw = JNull \<and> roles = []) \<or>
    (\<exists>kvs. raw = JObj kvs \<and>
       list_all2 (\<lambda>kv pr. fst pr = fst kv \<and> fst kv \<noteq> '''' \<and>
         (\<exists>v. snd kv = JStr v \<and> Role_of_value v = Some (snd pr))) kvs roles)"
  using assms
  by (cases raw) (auto simp: roles_from_claims_def map_result_Inr_iff role_entry_Inr_iff)

theorem roles_from_claims_fail_closed_witness:
  "roles_from_claims (JObj [(''roles'', JObj [(''p'', JStr ''admin'')])]) = Inr [(''p'', ADMIN)] \<and>
   roles_from_claims (JObj [(''roles'', JObj [(''p'', JStr ''root'')])]) \<noteq> Inr [(''p'', ADMIN)]"
  using roles_from_claims_fail_closed
      [of "JObj [(''roles'', JObj [(''p'', JStr ''admin'')])]" "JObj [(''p'', JStr ''admin'')]" "[(''p'', ADMIN)]"]
    roles_from_claims_fail_closed
      [of "JObj [(''roles'', JObj [(''p'', JStr ''root'')])]" "JObj [(''p'', JStr ''root'')]" "[(''p'', ADMIN)]"]
  by (simp add: Role_of_value_def)

end
