(* ===== verification/Decimal_Arith.thy ===== *)
theory Decimal_Arith
  imports Domain_State "HOL-Library.Log_Nat"
begin

text \<open>
  The arithmetic of Python's \<open>decimal\<close> module and of \<open>float\<close> as the cost and
  lease code uses them.  A finite \<open>Decimal\<close> is its value, a rational; every
  context operation rounds the exact result to 28 significant digits, half to
  even, and traps overflow.  A \<open>float\<close> obtained by an integer true division is
  the exact quotient rounded to 53 significant bits.  Trailing zeros and the
  subnormal range of the context are not represented.
\<close>

section \<open>Rounding half to even\<close>

definition round_half_even :: "rat \<Rightarrow> int" where
  "round_half_even x =
    (let f = \<lfloor>x\<rfloor>; r = x - of_int f
     in if r < 1 / 2 then f
        else if r > 1 / 2 then f + 1
        else if even f then f else f + 1)"

definition nearest_even :: "rat \<Rightarrow> int \<Rightarrow> bool" where
  "nearest_even x n \<longleftrightarrow>
    \<bar>x - of_int n\<bar> < 1 / 2 \<or> (\<bar>x - of_int n\<bar> = 1 / 2 \<and> even n)"

lemma round_half_even_nearest: "nearest_even x (round_half_even x)"
proof -
  have "\<not> x < of_int \<lfloor>x\<rfloor>" "x < of_int \<lfloor>x\<rfloor> + 1" by linarith+
  then show ?thesis
    by (auto simp: nearest_even_def round_half_even_def Let_def abs_if)
qed

lemma nearest_even_unique:
  assumes "nearest_even x m" "nearest_even x n" shows "m = n"
proof (rule ccontr)
  assume "m \<noteq> n"
  moreover have "\<bar>rat_of_int m - of_int n\<bar> \<le> 1"
    using assms unfolding nearest_even_def abs_le_iff by linarith
  then have "\<bar>m - n\<bar> \<le> 1"
    by (metis of_int_1 of_int_abs of_int_diff of_int_le_iff)
  ultimately have mn: "m = n + 1 \<or> n = m + 1" by linarith
  then have "\<bar>x - of_int m\<bar> = 1 / 2 \<and> \<bar>x - of_int n\<bar> = 1 / 2"
    using assms unfolding nearest_even_def abs_if by (auto split: if_splits)
  with assms have "even m" "even n" by (auto simp: nearest_even_def)
  with mn show False by auto
qed

lemma round_half_even_eqI: "nearest_even x n \<Longrightarrow> round_half_even x = n"
  using nearest_even_unique round_half_even_nearest by blast

lemma round_half_even_of_int [simp]: "round_half_even (of_int n) = n"
  by (rule round_half_even_eqI) (simp add: nearest_even_def)

lemma round_half_even_0 [simp]: "round_half_even 0 = 0"
  using round_half_even_of_int [of 0] by simp

lemma round_half_even_numeral [simp]: "round_half_even (numeral n) = numeral n"
  using round_half_even_of_int [of "numeral n"] by simp

lemma round_half_even_minus: "round_half_even (- x) = - round_half_even x"
  by (rule round_half_even_eqI)
    (use round_half_even_nearest [of x] in \<open>auto simp: nearest_even_def abs_if split: if_splits\<close>)

lemma round_half_even_error: "\<bar>x - of_int (round_half_even x)\<bar> \<le> 1 / 2"
  using round_half_even_nearest [of x] by (auto simp: nearest_even_def)

lemma round_half_even_mono:
  assumes "x \<le> y" shows "round_half_even x \<le> round_half_even y"
proof (rule ccontr)
  assume "\<not> ?thesis"
  then have "rat_of_int (round_half_even y) + 1 \<le> of_int (round_half_even x)" by linarith
  then have "x = y"
    using assms round_half_even_error [of x] round_half_even_error [of y]
    unfolding abs_le_iff by linarith
  with \<open>\<not> ?thesis\<close> show False by simp
qed


section \<open>Rounding to significant digits\<close>

text \<open>The exponent \<open>e\<close> with \<open>b\<^sup>e \<le> x < b\<^sup>e\<^sup>+\<^sup>1\<close> of a positive rational.\<close>

definition ilog :: "nat \<Rightarrow> rat \<Rightarrow> int" where
  "ilog b x =
    (if 1 \<le> x then int (floorlog b (nat \<lfloor>x\<rfloor>)) - 1
     else - int (floorlog b (nat (\<lceil>1 / x\<rceil> - 1))))"

definition round_sig :: "nat \<Rightarrow> nat \<Rightarrow> rat \<Rightarrow> rat" where
  "round_sig b p x =
    (if x = 0 then 0
     else let u = of_nat b powi (ilog b \<bar>x\<bar> - int p + 1)
          in of_int (round_half_even (x / u)) * u)"

text \<open>The digit count over the integers, for evaluation.\<close>

function int_digits :: "int \<Rightarrow> int \<Rightarrow> int" where
  "int_digits b x = (if x \<le> 0 \<or> b \<le> 1 then 0 else 1 + int_digits b (x div b))"
  by pat_completeness auto
termination
  by (relation "measure (\<lambda>(b, x). nat x)") (auto intro: int_div_less_self)

declare int_digits.simps [simp del]

lemma int_digits_floorlog: "int_digits (int b) (int n) = int (floorlog b n)"
proof (induction n rule: less_induct)
  case (less n)
  show ?case
  proof (cases "0 < n \<and> 1 < b")
    case True
    then have "n div b < n" by simp
    from less [OF this] True show ?thesis
      by (simp add: int_digits.simps [of "int b" "int n"] compute_floorlog [of b n] flip: zdiv_int)
  qed (auto simp: int_digits.simps [of "int b" "int n"] compute_floorlog [of b n])
qed

lemma ilog_code [code]:
  "ilog b x =
    (if 1 \<le> x then int_digits (int b) \<lfloor>x\<rfloor> - 1 else - int_digits (int b) (\<lceil>1 / x\<rceil> - 1))"
proof -
  have "int_digits (int b) k = int (floorlog b (nat k))" for k
    using int_digits_floorlog [of b "nat k"]
    by (cases "0 \<le> k") (auto simp: int_digits.simps [of "int b" k] compute_floorlog [of b 0])
  then show ?thesis by (simp add: ilog_def)
qed

lemma ilog_bounds_ge1:
  assumes "1 < b" "1 \<le> x"
  shows "rat_of_nat b powi (ilog b x) \<le> x \<and> x < rat_of_nat b powi (ilog b x + 1)"
proof -
  let ?n = "nat \<lfloor>x\<rfloor>" and ?k = "floorlog b (nat \<lfloor>x\<rfloor>)"
  have n: "0 < ?n" using assms by simp
  then have k: "b ^ (?k - 1) \<le> ?n" "?n < b ^ ?k" "0 < ?k"
    using floorlog_bounds [of ?n b] assms floorlog_eq_zero_iff [of b ?n] by auto
  have "rat_of_nat (b ^ (?k - 1)) \<le> of_nat ?n" "rat_of_nat (?n + 1) \<le> of_nat (b ^ ?k)"
    using k by (simp_all only: of_nat_le_iff Suc_leI Suc_eq_plus1 [symmetric])
  moreover have "rat_of_nat ?n \<le> x" "x < rat_of_nat (?n + 1)"
    using assms by (simp_all add: of_nat_nat) linarith
  moreover have "int ?k - 1 = int (?k - 1)" using k by simp
  then have "rat_of_nat b powi (int ?k - 1) = of_nat (b ^ (?k - 1))"
    by (simp only: power_int_of_nat of_nat_power)
  ultimately have "rat_of_nat b powi (int ?k - 1) \<le> x" "x < rat_of_nat b ^ ?k"
    unfolding of_nat_power by linarith+
  then show ?thesis
    using assms k by (simp add: ilog_def)
qed

lemma ilog_bounds_lt1:
  assumes "1 < b" "0 < x" "x < 1"
  shows "rat_of_nat b powi (ilog b x) \<le> x \<and> x < rat_of_nat b powi (ilog b x + 1)"
proof -
  let ?n = "nat (\<lceil>1 / x\<rceil> - 1)"
  let ?k = "floorlog b ?n"
  have "1 < 1 / x" using assms by simp
  then have c: "1 < \<lceil>1 / x\<rceil>" by linarith
  then have n: "0 < ?n" by simp
  then have k: "b ^ (?k - 1) \<le> ?n" "?n < b ^ ?k" "0 < ?k"
    using floorlog_bounds [of ?n b] assms floorlog_eq_zero_iff [of b ?n] by auto
  have "rat_of_nat (b ^ (?k - 1)) \<le> of_nat ?n" "rat_of_nat (?n + 1) \<le> of_nat (b ^ ?k)"
    using k by (simp_all only: of_nat_le_iff Suc_leI Suc_eq_plus1 [symmetric])
  moreover have nn: "rat_of_nat ?n = of_int \<lceil>1 / x\<rceil> - 1"
    using c assms by (subst of_nat_nat) simp_all
  have "rat_of_nat ?n < 1 / x" "1 / x \<le> rat_of_nat (?n + 1)"
    unfolding of_nat_add nn by linarith+
  ultimately have "rat_of_nat b ^ (?k - 1) < 1 / x" "1 / x \<le> rat_of_nat b ^ ?k"
    by (simp_all only: of_nat_power)
  then have "x < 1 / rat_of_nat b ^ (?k - 1)" "1 / rat_of_nat b ^ ?k \<le> x"
    using assms by (simp_all add: field_simps)
  moreover have "- int ?k + 1 = - int (?k - 1)" using k by simp
  then have "rat_of_nat b powi (- int ?k + 1) = 1 / rat_of_nat b ^ (?k - 1)"
    by (simp only: power_int_minus power_int_of_nat inverse_eq_divide)
  moreover have "rat_of_nat b powi (- int ?k) = 1 / rat_of_nat b ^ ?k"
    by (simp only: power_int_minus power_int_of_nat inverse_eq_divide)
  moreover have "ilog b x = - int ?k" using assms by (simp add: ilog_def)
  ultimately show ?thesis by simp
qed

lemma ilog_bounds:
  "1 < b \<Longrightarrow> 0 < x \<Longrightarrow>
    rat_of_nat b powi (ilog b x) \<le> x \<and> x < rat_of_nat b powi (ilog b x + 1)"
  using ilog_bounds_ge1 ilog_bounds_lt1 by (meson not_le)

lemma round_sig_grid_exact:
  assumes b: "1 < b" and x: "x = of_int k * rat_of_nat b powi q" and k: "\<bar>k\<bar> < int b ^ p"
  shows "round_sig b p x = x"
proof (cases "x = 0")
  case False
  define e where "e = ilog b \<bar>x\<bar>"
  let ?B = "rat_of_nat b"
  have B: "0 < ?B" "?B \<noteq> 0" "1 < ?B" using b by auto
  have "?B powi e \<le> \<bar>x\<bar>" using ilog_bounds [OF b, of "\<bar>x\<bar>"] False by (simp add: e_def)
  also have "\<bar>x\<bar> = of_int \<bar>k\<bar> * ?B powi q"
    using B by (simp add: x abs_mult)
  also have "\<dots> < of_int (int b ^ p) * ?B powi q"
    using k B by (intro mult_strict_right_mono) (simp_all only: of_int_less_iff zero_less_power_int)
  also have "\<dots> = ?B powi (int p + q)"
    using B by (simp add: power_int_add power_int_of_nat)
  finally have lt: "?B powi e < ?B powi (int p + q)" .
  have "e < int p + q"
    using lt B power_int_increasing [of "int p + q" e ?B] by (cases "e < int p + q") auto
  then obtain d where d: "q = e - int p + 1 + int d"
    using zle_iff_zadd [of "e - int p + 1" q] by auto
  let ?u = "?B powi (e - int p + 1)"
  have "x / ?u = of_int k * ?B ^ d"
    using B by (simp add: x d power_int_add power_int_of_nat)
  then have "x / ?u = of_int (k * int b ^ d)" by simp
  then have "round_half_even (x / ?u) = k * int b ^ d"
    by (simp only: round_half_even_of_int)
  with \<open>x / ?u = of_int (k * int b ^ d)\<close> have "of_int (round_half_even (x / ?u)) * ?u = x / ?u * ?u"
    by simp
  then show ?thesis
    using B False by (simp add: round_sig_def Let_def e_def)
qed (simp add: round_sig_def)

lemma round_sig_minus: "round_sig b p (- x) = - round_sig b p x"
  by (simp add: round_sig_def Let_def round_half_even_minus)

lemma round_sig_binade:
  assumes b: "1 < b" and p: "0 < p" and x: "0 < x"
  shows "rat_of_nat b powi (ilog b x) \<le> round_sig b p x"
    and "round_sig b p x \<le> rat_of_nat b powi (ilog b x + 1)"
proof -
  let ?B = "rat_of_nat b" and ?e = "ilog b x"
  let ?u = "?B powi (?e - int p + 1)"
  have B: "0 < ?B" "?B \<noteq> 0" using b by auto
  have u: "0 < ?u" using B by simp
  have "?e - (?e - int p + 1) = int (p - 1)" "?e + 1 - (?e - int p + 1) = int p"
    using p by auto
  then have lo: "of_int (int b ^ (p - 1)) = ?B powi ?e / ?u"
    and hi: "of_int (int b ^ p) = ?B powi (?e + 1) / ?u"
    using power_int_diff [of ?B ?e "?e - int p + 1"] power_int_diff [of ?B "?e + 1" "?e - int p + 1"] B
    by (simp_all only: power_int_of_nat of_int_power of_int_of_nat_eq simp_thms)
  have "?B powi ?e / ?u \<le> x / ?u" "x / ?u \<le> ?B powi (?e + 1) / ?u"
    using ilog_bounds [OF b x] u by (auto intro: divide_right_mono)
  from this [THEN round_half_even_mono] have
    "int b ^ (p - 1) \<le> round_half_even (x / ?u)" "round_half_even (x / ?u) \<le> int b ^ p"
    unfolding lo [symmetric] hi [symmetric] by (simp_all only: round_half_even_of_int)
  then have "of_int (int b ^ (p - 1)) \<le> rat_of_int (round_half_even (x / ?u))"
    "rat_of_int (round_half_even (x / ?u)) \<le> of_int (int b ^ p)"
    by (simp_all only: of_int_le_iff)
  then have "?B powi ?e \<le> of_int (round_half_even (x / ?u)) * ?u"
    "of_int (round_half_even (x / ?u)) * ?u \<le> ?B powi (?e + 1)"
    unfolding lo hi using u by (simp_all add: pos_divide_le_eq pos_le_divide_eq)
  then show "?B powi ?e \<le> round_sig b p x" "round_sig b p x \<le> ?B powi (?e + 1)"
    using x by (simp_all add: round_sig_def Let_def)
qed

lemma ilog_mono:
  assumes "1 < b" "0 < x" "x \<le> y" shows "ilog b x \<le> ilog b y"
proof (rule ccontr)
  assume "\<not> ?thesis"
  then have "rat_of_nat b powi (ilog b y + 1) \<le> rat_of_nat b powi (ilog b x)"
    using assms by (intro power_int_increasing) auto
  then show False
    using ilog_bounds [of b x] ilog_bounds [of b y] assms by linarith
qed

lemma round_sig_mono_pos:
  assumes b: "1 < b" and p: "0 < p" and x: "0 < x" and xy: "x \<le> y"
  shows "round_sig b p x \<le> round_sig b p y"
proof (cases "ilog b x = ilog b y")
  case True
  let ?u = "rat_of_nat b powi (ilog b y - int p + 1)"
  have u: "0 < ?u" using b by simp
  then have "x / ?u \<le> y / ?u" using xy by (simp add: divide_right_mono)
  then have "rat_of_int (round_half_even (x / ?u)) \<le> of_int (round_half_even (y / ?u))"
    using round_half_even_mono by simp
  then show ?thesis
    using x xy True u by (auto simp: round_sig_def Let_def intro: mult_right_mono)
next
  case False
  then have "ilog b x + 1 \<le> ilog b y" using ilog_mono [OF b x xy] by simp
  then have "rat_of_nat b powi (ilog b x + 1) \<le> rat_of_nat b powi (ilog b y)"
    using b by (intro power_int_increasing) auto
  then show ?thesis
    using round_sig_binade [OF b p x] round_sig_binade [OF b p, of y] x xy by linarith
qed

lemma round_sig_nonneg:
  assumes "1 < b" "0 < p" "0 \<le> x" shows "0 \<le> round_sig b p x"
proof (cases "x = 0")
  case False
  then have "rat_of_nat b powi (ilog b x) \<le> round_sig b p x"
    using assms by (intro round_sig_binade) auto
  then show ?thesis
    by (rule order_trans [rotated]) simp
qed (simp add: round_sig_def)

lemma round_sig_pos:
  assumes "1 < b" "0 < p" "0 < x" shows "0 < round_sig b p x"
  using round_sig_binade(1) [OF assms]
  by (rule order_less_le_trans [rotated]) (use assms in simp)

lemma round_sig_mono:
  assumes b: "1 < b" and p: "0 < p" and xy: "x \<le> y"
  shows "round_sig b p x \<le> round_sig b p y"
proof -
  consider "0 < x" | "x \<le> 0" "0 \<le> y" | "y < 0" by linarith
  then show ?thesis
  proof cases
    case 1
    then show ?thesis by (rule round_sig_mono_pos [OF b p _ xy])
  next
    case 2
    then show ?thesis
      using round_sig_nonneg [OF b p, of "- x"] round_sig_nonneg [OF b p, of y]
      by (simp add: round_sig_minus)
  next
    case 3
    then show ?thesis
      using round_sig_mono_pos [OF b p, of "- y" "- x"] xy by (simp add: round_sig_minus)
  qed
qed


section \<open>The contract of a rounding\<close>

locale rounding =
  fixes rnd :: "rat \<Rightarrow> rat" and representable :: "rat \<Rightarrow> bool"
  assumes rnd_mono: "x \<le> y \<Longrightarrow> rnd x \<le> rnd y"
    and rnd_minus: "rnd (- x) = - rnd x"
    and rnd_exact: "representable x \<Longrightarrow> rnd x = x"
begin

lemma rnd_zero [simp]: "rnd 0 = 0"
  using rnd_minus [of 0] by simp

lemma rnd_nonneg: "0 \<le> x \<Longrightarrow> 0 \<le> rnd x"
  using rnd_mono [of 0 x] by simp

lemma rnd_nonpos: "x \<le> 0 \<Longrightarrow> rnd x \<le> 0"
  using rnd_mono [of x 0] by simp

lemma rnd_le_representable: "x \<le> y \<Longrightarrow> representable y \<Longrightarrow> rnd x \<le> y"
  using rnd_mono [of x y] rnd_exact by simp

lemma representable_le_rnd: "x \<le> y \<Longrightarrow> representable x \<Longrightarrow> x \<le> rnd y"
  using rnd_mono [of x y] rnd_exact by simp

end

definition sig_representable :: "nat \<Rightarrow> nat \<Rightarrow> rat \<Rightarrow> bool" where
  "sig_representable b p x \<longleftrightarrow>
    (\<exists>k q. x = of_int k * rat_of_nat b powi q \<and> \<bar>k\<bar> < int b ^ p)"

definition round_kcu :: "rat \<Rightarrow> rat" where
  "round_kcu x = of_int (round_half_even (x * 10000)) / 10000"

definition on_kcu_grid :: "rat \<Rightarrow> bool" where
  "on_kcu_grid x \<longleftrightarrow> x * 10000 \<in> \<int>"

interpretation dec_rnd: rounding "round_sig 10 28" "sig_representable 10 28"
  by unfold_locales
    (auto simp: round_sig_mono round_sig_minus round_sig_grid_exact sig_representable_def)

interpretation float_rnd: rounding "round_sig 2 53" "sig_representable 2 53"
  by unfold_locales
    (auto simp: round_sig_mono round_sig_minus round_sig_grid_exact sig_representable_def)

interpretation kcu_rnd: rounding round_kcu on_kcu_grid
proof
  fix x y :: rat
  show "round_kcu (- x) = - round_kcu x"
    by (simp add: round_kcu_def round_half_even_minus)
  show "round_kcu x \<le> round_kcu y" if "x \<le> y"
    using round_half_even_mono [of "x * 10000" "y * 10000"] that by (simp add: round_kcu_def divide_right_mono)
  show "round_kcu x = x" if grid: "on_kcu_grid x"
  proof -
    from grid obtain k where k: "x * 10000 = of_int k" by (auto simp: on_kcu_grid_def elim: Ints_cases)
    then show ?thesis by (simp add: round_kcu_def)
  qed
qed

lemma round_kcu_on_grid [simp, intro]: "on_kcu_grid (round_kcu x)"
  by (simp add: round_kcu_def on_kcu_grid_def)

lemma on_kcu_grid_arith [intro]:
  "on_kcu_grid 0"
  "on_kcu_grid x \<Longrightarrow> on_kcu_grid y \<Longrightarrow> on_kcu_grid (x + y)"
  "on_kcu_grid x \<Longrightarrow> on_kcu_grid y \<Longrightarrow> on_kcu_grid (x - y)"
  "on_kcu_grid x \<Longrightarrow> on_kcu_grid (- x)"
  by (auto simp: on_kcu_grid_def distrib_right left_diff_distrib)

lemma round_kcu_error: "\<bar>x - round_kcu x\<bar> \<le> 1 / 20000"
  using round_half_even_error [of "x * 10000"] by (auto simp: round_kcu_def abs_if split: if_splits)

lemma kcu_grid_representable:
  assumes "on_kcu_grid x" "\<bar>x\<bar> < 10 ^ 24"
  shows "sig_representable 10 28 x"
proof -
  from assms(1) obtain k where k: "x * 10000 = of_int k" by (auto simp: on_kcu_grid_def elim: Ints_cases)
  then have "x = of_int k * rat_of_nat 10 powi (- 4)" by (simp add: power_int_minus)
  moreover have "rat_of_int \<bar>k\<bar> < of_int (int 10 ^ 28)"
    using assms(2) by (simp add: k [symmetric] abs_mult)
  then have "\<bar>k\<bar> < int 10 ^ 28" by (simp only: of_int_less_iff)
  ultimately show ?thesis unfolding sig_representable_def by blast
qed


section \<open>Decimal context operations\<close>

definition DEC_LIMIT :: rat where
  "DEC_LIMIT = 10 ^ (999999 + 1)"

definition dec_ctx :: "rat \<Rightarrow> exn + rat" where
  "dec_ctx x =
    (let y = round_sig 10 28 x
     in if DEC_LIMIT \<le> \<bar>y\<bar> then Inl DecimalOverflow else Inr y)"

definition dec_add :: "rat \<Rightarrow> rat \<Rightarrow> exn + rat" where "dec_add x y = dec_ctx (x + y)"
definition dec_sub :: "rat \<Rightarrow> rat \<Rightarrow> exn + rat" where "dec_sub x y = dec_ctx (x - y)"
definition dec_mult :: "rat \<Rightarrow> rat \<Rightarrow> exn + rat" where "dec_mult x y = dec_ctx (x * y)"
definition dec_div :: "rat \<Rightarrow> rat \<Rightarrow> exn + rat" where "dec_div x y = dec_ctx (x / y)"

text \<open>\<open>int(d)\<close> of a decimal, towards zero.\<close>

definition dec_to_int :: "rat \<Rightarrow> int" where
  "dec_to_int x = (if 0 \<le> x then \<lfloor>x\<rfloor> else \<lceil>x\<rceil>)"

text \<open>\<open>timedelta.total_seconds()\<close> of a span in microseconds, a \<open>float\<close>.\<close>

definition total_seconds :: "int \<Rightarrow> rat" where
  "total_seconds us = round_sig 2 53 (of_int us / of_int USEC)"

lemma dec_ctx_Inr_iff: "dec_ctx x = Inr y \<longleftrightarrow> y = round_sig 10 28 x \<and> \<bar>y\<bar> < DEC_LIMIT"
  by (auto simp: dec_ctx_def Let_def)

lemma DEC_LIMIT_large: "10 ^ 1000 \<le> DEC_LIMIT"
  unfolding DEC_LIMIT_def by (rule power_increasing) simp_all

lemma less_DEC_LIMIT: "x \<le> 10 ^ 100 \<Longrightarrow> x < DEC_LIMIT"
proof -
  assume "x \<le> 10 ^ 100"
  also have "(10::rat) ^ 100 < 10 ^ 1000" by (rule power_strict_increasing) simp_all
  also note DEC_LIMIT_large
  finally show ?thesis .
qed

lemma dec_ctx_small:
  assumes "\<bar>x\<bar> \<le> 10 ^ 100" shows "dec_ctx x = Inr (round_sig 10 28 x)"
proof -
  have "sig_representable 10 28 (10 ^ 100)"
    unfolding sig_representable_def by (intro exI [of _ 1] exI [of _ 100]) simp
  then have "round_sig 10 28 \<bar>x\<bar> \<le> 10 ^ 100"
    using assms by (intro dec_rnd.rnd_le_representable)
  moreover have "\<bar>round_sig 10 28 x\<bar> = round_sig 10 28 \<bar>x\<bar>"
    using dec_rnd.rnd_nonneg [of x] dec_rnd.rnd_nonpos [of x] dec_rnd.rnd_minus [of x]
    by (cases "0 \<le> x") auto
  ultimately have "\<bar>round_sig 10 28 x\<bar> < DEC_LIMIT"
    by (simp only: less_DEC_LIMIT)
  then show ?thesis by (simp add: dec_ctx_def Let_def)
qed

lemma dec_ctx_code [code]:
  "dec_ctx x =
    (let y = round_sig 10 28 x
     in if \<bar>y\<bar> \<le> 10 ^ 100 then Inr y
        else if DEC_LIMIT \<le> \<bar>y\<bar> then Inl DecimalOverflow else Inr y)"
  using less_DEC_LIMIT [of "\<bar>round_sig 10 28 x\<bar>"] by (auto simp: dec_ctx_def Let_def)

lemma dec_ctx_nonneg: "dec_ctx x = Inr y \<Longrightarrow> 0 \<le> x \<Longrightarrow> 0 \<le> y"
  by (auto simp: dec_ctx_Inr_iff dec_rnd.rnd_nonneg)


section \<open>Dates and spans\<close>

definition DATETIME_MIN :: time where "DATETIME_MIN = - 62135596800000000"
definition DATETIME_MAX :: time where "DATETIME_MAX = 253402300799999999"

definition timedelta_seconds :: "int \<Rightarrow> exn + int" where
  "timedelta_seconds n =
    (if \<bar>n div 86400\<bar> > 999999999 then Inl OverflowError else Inr (n * USEC))"

definition datetime_add :: "time \<Rightarrow> int \<Rightarrow> exn + time" where
  "datetime_add t d =
    (if t + d < DATETIME_MIN \<or> DATETIME_MAX < t + d then Inl OverflowError else Inr (t + d))"


section \<open>Decimal literals\<close>

datatype dec = Fin rat | Inf bool | NaN

definition is_py_space :: "char \<Rightarrow> bool" where
  "is_py_space c \<longleftrightarrow>
    (of_char c :: nat) \<in> set [9, 10, 11, 12, 13, 28, 29, 30, 31, 32, 133, 160]"

definition py_strip :: "string \<Rightarrow> string" where
  "py_strip s = rev (dropWhile is_py_space (rev (dropWhile is_py_space s)))"

definition is_digit :: "char \<Rightarrow> bool" where
  "is_digit c \<longleftrightarrow> 48 \<le> (of_char c :: nat) \<and> (of_char c :: nat) \<le> 57"

definition digits_value :: "string \<Rightarrow> nat" where
  "digits_value ds = foldl (\<lambda>n c. 10 * n + (of_char c - 48)) 0 ds"

definition ascii_lower :: "char \<Rightarrow> char" where
  "ascii_lower c =
    (if 65 \<le> (of_char c :: nat) \<and> (of_char c :: nat) \<le> 90 then char_of (of_char c + 32 :: nat) else c)"

fun split_sign :: "string \<Rightarrow> int \<times> string" where
  "split_sign (CHR ''-'' # s) = (- 1, s)"
| "split_sign (CHR ''+'' # s) = (1, s)"
| "split_sign s = (1, s)"

fun parse_exponent :: "string \<Rightarrow> int option" where
  "parse_exponent [] = Some 0"
| "parse_exponent (c # s) =
    (let (sg, ds) = split_sign s
     in if ascii_lower c = CHR ''e'' \<and> ds \<noteq> [] \<and> list_all is_digit ds
        then Some (sg * int (digits_value ds)) else None)"

text \<open>The numeric branch: digits, an optional fraction, an optional exponent.\<close>

definition parse_numeral :: "int \<Rightarrow> string \<Rightarrow> dec option" where
  "parse_numeral sg s =
    (let ip = takeWhile is_digit s; r = dropWhile is_digit s;
         (fp, r') = (case r of CHR ''.'' # r1 \<Rightarrow> (takeWhile is_digit r1, dropWhile is_digit r1)
                     | _ \<Rightarrow> ([], r));
         coef = digits_value (ip @ fp)
     in if ip @ fp = [] then None
        else case parse_exponent r' of
            None \<Rightarrow> None
          | Some e \<Rightarrow>
              (let q = e - int (length fp);
                   adj = q + int (if coef = 0 then 1 else floorlog 10 coef) - 1
               in if adj > 999999999999999999 \<or> q < - 1999999999999999997 then None
                  else Some (Fin (of_int (sg * int coef) * 10 powi q))))"

definition dec_of_string :: "string \<Rightarrow> dec option" where
  "dec_of_string w =
    (let (sg, s) = split_sign (filter (\<lambda>c. c \<noteq> CHR ''_'') (py_strip w)); l = map ascii_lower s
     in if l = ''inf'' \<or> l = ''infinity'' then Some (Inf (sg < 0))
        else if take 3 l = ''nan'' \<and> list_all is_digit (drop 3 l) then Some NaN
        else if take 4 l = ''snan'' \<and> list_all is_digit (drop 4 l) then Some NaN
        else parse_numeral sg s)"

end
