(* ===== verification/Cost_Lease.thy ===== *)
theory Cost_Lease
  imports Decimal_Arith Kdive_Models
begin

text \<open>
  The pricing and lease rules: \<open>kdive/domain/cost.py\<close>, \<open>kdive/domain/lease.py\<close>,
  the configured bounds of \<open>services/allocation/lease_bounds.py\<close>, the sizing value
  types and the reuse predicate of \<open>kdive/domain/system_reuse.py\<close>.  A request's
  window is the text \<open>str(window)\<close> the parser reads.
\<close>

section \<open>Cost\<close>

abbreviation config_error :: exn where
  "config_error \<equiv> CategorizedError CONFIGURATION_ERROR"

definition W_CPU :: rat where "W_CPU = 1"
definition W_MEM :: rat where "W_MEM = 1 / 4"
definition INT32_MAX :: int where "INT32_MAX = 2 ^ 31 - 1"
definition MB_PER_GB :: int where "MB_PER_GB = 1024"

record Selector =
  sel_vcpus :: int
  sel_memory_gb :: int
  sel_cost_class :: string

definition quantize_kcu :: "rat \<Rightarrow> exn + rat" where
  "quantize_kcu value =
    (if 10 ^ 28 \<le> \<bar>round_half_even (value * 10000)\<bar> then Inl config_error
     else Inr (round_kcu value))"

definition rate :: "rat \<Rightarrow> int \<Rightarrow> int \<Rightarrow> exn + rat" where
  "rate c vcpus memory_gb =
    rbind (dec_mult W_CPU (of_int vcpus)) (\<lambda>cpu.
    rbind (dec_mult W_MEM (of_int memory_gb)) (\<lambda>mem.
    rbind (dec_add cpu mem) (\<lambda>size. dec_mult c size)))"

definition cost :: "rat \<Rightarrow> rat \<Rightarrow> exn + rat" where
  "cost rate_kcu_per_hr hours = dec_mult rate_kcu_per_hr hours"

definition parse_window_hours :: "string \<Rightarrow> exn + dec" where
  "parse_window_hours window =
    (case dec_of_string window of None \<Rightarrow> Inl config_error | Some d \<Rightarrow> Inr d)"

definition validate_size :: "Selector \<Rightarrow> exn + unit" where
  "validate_size selector =
    (if sel_vcpus selector < 1 then Inl config_error
     else if sel_memory_gb selector < 0 then Inl config_error
     else if sel_vcpus selector > INT32_MAX then Inl config_error
     else if sel_memory_gb selector > INT32_MAX then Inl config_error
     else Inr ())"

fun validate_window :: "dec \<Rightarrow> exn + unit" where
  "validate_window (Fin w) = (if w \<le> 0 then Inl config_error else Inr ())"
| "validate_window _ = Inl config_error"

definition resource_cap :: "Resource \<Rightarrow> string \<Rightarrow> exn + int" where
  "resource_cap resource key =
    (case json_get key (capabilities resource) of
       Some (JInt v) \<Rightarrow> if v < 0 then Inl config_error else Inr v
     | _ \<Rightarrow> Inl config_error)"

definition validate_against_resource :: "Selector \<Rightarrow> Resource \<Rightarrow> exn + unit" where
  "validate_against_resource selector resource =
    rbind (resource_cap resource ''vcpus'') (\<lambda>cap_vcpus.
    rbind (resource_cap resource ''memory_mb'') (\<lambda>cap_memory_mb.
    rbind (guard (\<not> sel_vcpus selector > cap_vcpus) config_error) (\<lambda>_.
    let requested_mb = sel_memory_gb selector * MB_PER_GB
    in guard (\<not> requested_mb > cap_memory_mb) config_error)))"

definition resolve_coeff :: "CostClassCoefficient list \<Rightarrow> string \<Rightarrow> exn + rat" where
  "resolve_coeff table cost_class =
    (case find (\<lambda>r. cc_cost_class r = cost_class) table of
       None \<Rightarrow> Inl config_error
     | Some r \<Rightarrow> Inr (coeff r))"


section \<open>Leases\<close>

record LeaseBounds =
  default_hours :: rat
  max_hours :: rat

definition DEFAULT_LEASE_BOUNDS :: LeaseBounds where
  "DEFAULT_LEASE_BOUNDS = \<lparr>default_hours = 4, max_hours = 24\<rparr>"

record LeaseExtension =
  added_hours :: rat
  new_expiry :: time

definition dec_value :: "dec \<Rightarrow> rat" where
  "dec_value d = (case d of Fin r \<Rightarrow> r | _ \<Rightarrow> 0)"

text \<open>A parsed and validated number of hours; validation leaves only finite ones.\<close>

definition positive_hours :: "string \<Rightarrow> exn + rat" where
  "positive_hours window =
    rbind (parse_window_hours window) (\<lambda>d.
    rbind (validate_window d) (\<lambda>_. Inr (dec_value d)))"

definition resolve_window_hours :: "LeaseBounds \<Rightarrow> string option \<Rightarrow> exn + rat" where
  "resolve_window_hours bounds window =
    (case window of
       None \<Rightarrow> Inr (default_hours bounds)
     | Some w \<Rightarrow> rbind (positive_hours w) (\<lambda>requested. Inr (min requested (max_hours bounds))))"

definition add_hours :: "time \<Rightarrow> rat \<Rightarrow> exn + time" where
  "add_hours t hours =
    rbind (dec_mult hours 3600) (\<lambda>seconds.
    rbind (timedelta_seconds (dec_to_int seconds)) (\<lambda>span. datetime_add t span))"

definition clamp_extension_hours ::
  "LeaseBounds \<Rightarrow> time \<Rightarrow> rat \<Rightarrow> time \<Rightarrow> exn + LeaseExtension" where
  "clamp_extension_hours bounds current_expiry requested_extend_hours now =
    rbind (add_hours now (max_hours bounds)) (\<lambda>ceiling.
    rbind (add_hours current_expiry requested_extend_hours) (\<lambda>target.
    let expiry = min target ceiling; base = max now current_expiry
    in if expiry \<le> base then Inr \<lparr>added_hours = 0, new_expiry = current_expiry\<rparr>
       else rbind (dec_div (total_seconds (expiry - base)) 3600) (\<lambda>hours.
              Inr \<lparr>added_hours = hours, new_expiry = expiry\<rparr>)))"

definition bound_from_config :: "string option \<Rightarrow> rat \<Rightarrow> exn + rat" where
  "bound_from_config raw fallback =
    (case raw of None \<Rightarrow> Inr fallback | Some s \<Rightarrow> positive_hours s)"

definition configured_lease_bounds :: "string option \<Rightarrow> string option \<Rightarrow> exn + LeaseBounds" where
  "configured_lease_bounds lease_default lease_max =
    rbind (bound_from_config lease_default (default_hours DEFAULT_LEASE_BOUNDS)) (\<lambda>d.
    rbind (bound_from_config lease_max (max_hours DEFAULT_LEASE_BOUNDS)) (\<lambda>m.
      Inr \<lparr>default_hours = d, max_hours = m\<rparr>))"


section \<open>Sizing and reuse\<close>

record AllocationSizing =
  sz_vcpu :: int
  sz_memory_mb :: int
  sz_disk_gb :: int

record ResolvedSizing =
  rs_vcpus :: int
  rs_memory_gb :: int
  rs_disk_gb :: int
  rs_pcie_match :: "string option"
  rs_shape :: "string option"

definition sizing_missing :: "json \<Rightarrow> string \<Rightarrow> bool" where
  "sizing_missing profile field = (json_get field profile \<in> {None, Some JNull})"

definition sizing_value :: "json \<Rightarrow> string \<Rightarrow> int option" where
  "sizing_value profile field =
    (case json_get field profile of Some (JInt v) \<Rightarrow> Some v | _ \<Rightarrow> None)"

definition concrete_sizing_from_mapping :: "json \<Rightarrow> exn + AllocationSizing" where
  "concrete_sizing_from_mapping profile =
    (let fields = [''vcpu'', ''memory_mb'', ''disk_gb'']
     in if list_ex (sizing_missing profile) fields then Inl config_error
        else case map (sizing_value profile) fields of
               [Some v, Some m, Some d] \<Rightarrow> Inr \<lparr>sz_vcpu = v, sz_memory_mb = m, sz_disk_gb = d\<rparr>
             | _ \<Rightarrow> Inl config_error)"

record ReuseRequirement =
  rq_vcpus :: "int option"
  rq_memory_gb :: "int option"
  rq_disk_gb :: "int option"
  rq_pcie :: "string list"

definition reuse_is_empty :: "ReuseRequirement \<Rightarrow> bool" where
  "reuse_is_empty req \<longleftrightarrow>
    rq_vcpus req = None \<and> rq_memory_gb req = None \<and> rq_disk_gb req = None \<and> rq_pcie req = []"

definition read_system_sizing :: "Allocation \<Rightarrow> System \<Rightarrow> exn + AllocationSizing" where
  "read_system_sizing alloc system =
    (case (requested_vcpus alloc, requested_memory_gb alloc, requested_disk_gb alloc) of
       (Some v, Some m, Some d) \<Rightarrow>
         Inr \<lparr>sz_vcpu = v, sz_memory_mb = m * MB_PER_GB, sz_disk_gb = d\<rparr>
     | _ \<Rightarrow> concrete_sizing_from_mapping (provisioning_profile system))"

definition parse_vendor_device_spec :: "string \<Rightarrow> exn + (string \<times> string)" where
  "parse_vendor_device_spec spec =
    rbind (parse_match_spec spec) (\<lambda>parsed.
      case (ms_vendor_id parsed, ms_device_id parsed) of
        (Some v, Some d) \<Rightarrow> Inr (v, d)
      | _ \<Rightarrow> Inl config_error)"

definition pcie_claims_contain_all :: "PCIeClaim list \<Rightarrow> string list \<Rightarrow> exn + bool" where
  "pcie_claims_contain_all claims specs =
    rbind (map_result parse_vendor_device_spec specs) (\<lambda>parsed.
      Inr (list_all (\<lambda>(v, d). list_ex (\<lambda>c. c_vendor_id c = v \<and> c_device_id c = d) claims) parsed))"

definition snapshot_satisfies ::
  "AllocationSizing \<Rightarrow> PCIeClaim list \<Rightarrow> ReuseRequirement \<Rightarrow> exn + bool" where
  "snapshot_satisfies sizing claims req =
    rbind (pcie_claims_contain_all claims (rq_pcie req)) (\<lambda>pcie_ok.
      if (case rq_vcpus req of None \<Rightarrow> False | Some v \<Rightarrow> sz_vcpu sizing < v) then Inr False
      else if (case rq_memory_gb req of None \<Rightarrow> False
               | Some m \<Rightarrow> sz_memory_mb sizing < m * MB_PER_GB) then Inr False
      else if (case rq_disk_gb req of None \<Rightarrow> False | Some d \<Rightarrow> sz_disk_gb sizing < d) then Inr False
      else Inr pcie_ok)"

section \<open>Facts on prices and windows\<close>

lemma quantize_kcu_Inr_iff:
  "quantize_kcu x = Inr y \<longleftrightarrow> y = round_kcu x \<and> \<bar>round_half_even (x * 10000)\<bar> < 10 ^ 28"
  by (auto simp: quantize_kcu_def not_le)

lemma quantize_small:
  assumes "\<bar>x\<bar> < 10 ^ 20" shows "quantize_kcu x = Inr (round_kcu x)"
proof -
  have "\<bar>x * 10000\<bar> < 10 ^ 24" using assms by (simp add: abs_mult)
  then have "\<bar>rat_of_int (round_half_even (x * 10000))\<bar> < of_int (10 ^ 28)"
    using round_half_even_error [of "x * 10000"] by (auto simp: abs_if split: if_splits)
  then have "\<bar>round_half_even (x * 10000)\<bar> < 10 ^ 28"
    by (simp only: of_int_less_iff flip: of_int_abs)
  then show ?thesis by (simp add: quantize_kcu_Inr_iff)
qed

lemma quantize_kcu_grid:
  assumes "on_kcu_grid x" "\<bar>x\<bar> < 10 ^ 24" shows "quantize_kcu x = Inr x"
proof -
  from assms(1) obtain k where k: "x * 10000 = of_int k"
    by (auto simp: on_kcu_grid_def elim: Ints_cases)
  have "\<bar>rat_of_int k\<bar> < of_int (10 ^ 28)"
    using assms(2) by (simp add: k [symmetric] abs_mult)
  then have "\<bar>k\<bar> < 10 ^ 28" by (simp only: of_int_less_iff flip: of_int_abs)
  then show ?thesis using assms(1) k by (simp add: quantize_kcu_Inr_iff kcu_rnd.rnd_exact)
qed

lemma int_representable: "\<bar>k\<bar> < 10 ^ 28 \<Longrightarrow> sig_representable 10 28 (of_int k)"
  unfolding sig_representable_def by (rule exI [of _ k], rule exI [of _ 0]) simp

lemma int_float_representable: "\<bar>k\<bar> < 2 ^ 53 \<Longrightarrow> sig_representable 2 53 (of_int k)"
  unfolding sig_representable_def by (rule exI [of _ k], rule exI [of _ 0]) simp

text \<open>The price of a size over a number of hours, as every pricing path computes it.\<close>


definition price :: "rat \<Rightarrow> int \<Rightarrow> int \<Rightarrow> rat \<Rightarrow> exn + rat" where
  "price c vcpus memory_gb hours =
    rbind (rate c vcpus memory_gb) (\<lambda>r. rbind (cost r hours) quantize_kcu)"

lemma rate_Inr:
  "rate c v m = Inr r \<Longrightarrow>
    r = round_sig 10 28 (c * round_sig 10 28
          (round_sig 10 28 (W_CPU * of_int v) + round_sig 10 28 (W_MEM * of_int m)))"
  by (auto simp: rate_def dec_mult_def dec_add_def dec_ctx_Inr_iff)

lemma rate_nonneg: "rate c v m = Inr r \<Longrightarrow> 0 \<le> c \<Longrightarrow> 0 \<le> v \<Longrightarrow> 0 \<le> m \<Longrightarrow> 0 \<le> r"
  by (drule rate_Inr) (simp add: dec_rnd.rnd_nonneg W_CPU_def W_MEM_def)

lemma rate_mono:
  assumes "rate c v m = Inr r" "rate c v' m' = Inr r'" "0 \<le> c" "v \<le> v'" "m \<le> m'"
  shows "r \<le> r'"
  unfolding rate_Inr [OF assms(1)] rate_Inr [OF assms(2)]
  by (intro dec_rnd.rnd_mono mult_left_mono add_mono) (use assms in \<open>auto simp: W_CPU_def W_MEM_def\<close>)

lemma price_Inr:
  assumes "price c v m h = Inr e"
  obtains r where "rate c v m = Inr r" "e = round_kcu (round_sig 10 28 (r * h))"
  using assms by (auto simp: price_def cost_def dec_mult_def dec_ctx_Inr_iff quantize_kcu_Inr_iff)

lemma price_on_grid: "price c v m h = Inr e \<Longrightarrow> on_kcu_grid e"
  by (auto elim!: price_Inr)

lemma price_nonneg:
  "price c v m h = Inr e \<Longrightarrow> 0 \<le> c \<Longrightarrow> 0 \<le> v \<Longrightarrow> 0 \<le> m \<Longrightarrow> 0 \<le> h \<Longrightarrow> 0 \<le> e"
  by (erule price_Inr) (auto intro!: kcu_rnd.rnd_nonneg dec_rnd.rnd_nonneg mult_nonneg_nonneg dest: rate_nonneg)

lemma validate_window_Inr: "validate_window d = Inr u \<Longrightarrow> 0 < dec_value d"
  by (cases d) (auto simp: dec_value_def split: if_splits)

lemma positive_hours_pos: "positive_hours w = Inr h \<Longrightarrow> 0 < h"
  by (auto simp: positive_hours_def dest: validate_window_Inr)


lemma size_representable:
  assumes "0 \<le> v" "v \<le> INT32_MAX" "0 \<le> m" "m \<le> INT32_MAX"
  shows "sig_representable 10 28 (of_int v)" "sig_representable 10 28 (of_int m / 4)"
    and "sig_representable 10 28 (of_int v + of_int m / 4)"
proof -
  have b: "v < 2147483648" "m < 2147483648" using assms by (auto simp: INT32_MAX_def)
  show "sig_representable 10 28 (of_int v)"
    unfolding sig_representable_def
    by (rule exI [of _ v], rule exI [of _ 0]) (use assms b in simp)
  show "sig_representable 10 28 (of_int m / 4)"
    unfolding sig_representable_def
    by (rule exI [of _ "m * 25"], rule exI [of _ "- 2"]) (use assms b in \<open>simp add: power_int_minus\<close>)
  show "sig_representable 10 28 (of_int v + of_int m / 4)"
    unfolding sig_representable_def
    by (rule exI [of _ "v * 100 + m * 25"], rule exI [of _ "- 2"])
      (use assms b in \<open>simp add: power_int_minus\<close>)
qed

lemma price_computes:

  assumes "0 \<le> v" "v \<le> INT32_MAX" "0 \<le> m" "m \<le> INT32_MAX"
    and "sig_representable 10 28 (c * (of_int v + of_int m / 4))"
    and "sig_representable 10 28 (c * (of_int v + of_int m / 4) * h)"
    and "\<bar>c * (of_int v + of_int m / 4)\<bar> < 10 ^ 20" "\<bar>c * (of_int v + of_int m / 4) * h\<bar> < 10 ^ 20"
  shows "price c v m h = Inr (round_kcu (c * (of_int v + of_int m / 4) * h))"
proof -
  let ?s = "of_int v + of_int m / 4 :: rat"
  have small: "\<bar>rat_of_int v\<bar> \<le> 10 ^ 100" "\<bar>rat_of_int m / 4\<bar> \<le> 10 ^ 100" "\<bar>?s\<bar> \<le> 10 ^ 100"
    using assms(1-4) by (auto simp: INT32_MAX_def abs_if)
  have "rate c v m = Inr (c * ?s)"
    using small assms(5,7) size_representable [OF assms(1-4)]
    by (simp add: rate_def dec_mult_def dec_add_def dec_ctx_small dec_rnd.rnd_exact W_CPU_def W_MEM_def)
  moreover have "cost (c * ?s) h = Inr (c * ?s * h)"
    using assms(6,8) by (simp add: cost_def dec_mult_def dec_ctx_small dec_rnd.rnd_exact)
  moreover have "quantize_kcu (c * ?s * h) = Inr (round_kcu (c * ?s * h))"
    using assms(8) quantize_small by blast
  ultimately show ?thesis by (simp add: price_def)
qed

section \<open>Properties\<close>

text \<open>
  C31. Pricing is exact up to one rounding: for a size in the persisted domain, when
  the rate and the product with the hours need no more than 28 digits, the price is
  the exact \<open>coeff * (vcpus + memory / 4) * hours\<close> rounded once, half to even, to
  four decimals.
\<close>

theorem price_exact:
  assumes "0 \<le> v" "v \<le> INT32_MAX" "0 \<le> m" "m \<le> INT32_MAX"
    and "sig_representable 10 28 (c * (of_int v + of_int m / 4))"
    and "sig_representable 10 28 (c * (of_int v + of_int m / 4) * h)"
    and "\<bar>c * (of_int v + of_int m / 4)\<bar> < 10 ^ 20" "\<bar>c * (of_int v + of_int m / 4) * h\<bar> < 10 ^ 20"
  shows "price c v m h = Inr (round_kcu (c * (of_int v + of_int m / 4) * h))"
  using assms by (rule price_computes)

theorem price_exact_witness: "price 1 4 8 4 = Inr (round_kcu 24)"

  using price_exact [of 4 8 1 4] int_representable [of 6] int_representable [of 24]
  by (simp add: INT32_MAX_def)

text \<open>
  C33. More never costs less: with a non-negative coefficient the price is
  non-negative and monotone in the vcpus, the memory and the hours, through every
  rounding on the way.
\<close>

theorem price_monotone:
  assumes "0 \<le> c" "0 \<le> v" "v \<le> v'" "0 \<le> m" "m \<le> m'" "0 \<le> h" "h \<le> h'"
    and "price c v m h = Inr e" "price c v' m' h' = Inr e'"
  shows "0 \<le> e \<and> e \<le> e'"
proof -
  obtain r where r: "rate c v m = Inr r" "e = round_kcu (round_sig 10 28 (r * h))"
    using assms(8) by (rule price_Inr)
  obtain r' where r': "rate c v' m' = Inr r'" "e' = round_kcu (round_sig 10 28 (r' * h'))"
    using assms(9) by (rule price_Inr)
  have "r \<le> r'" "0 \<le> r" using rate_mono [OF r(1) r'(1)] rate_nonneg [OF r(1)] assms by auto
  then have "r * h \<le> r' * h'" using assms by (intro mult_mono) auto
  then show ?thesis
    using r(2) r'(2) price_nonneg [OF assms(8)] assms
    by (auto intro!: kcu_rnd.rnd_mono dec_rnd.rnd_mono)
qed

theorem price_monotone_witness:
  "price 1 4 8 4 = Inr 24 \<and> price 1 8 16 8 = Inr 96 \<and> (0::rat) \<le> 24 \<and> (24::rat) \<le> 96"
proof -
  have "price 1 4 8 4 = Inr 24"
    using price_computes [of 4 8 1 4] int_representable [of 6] int_representable [of 24]
    by (simp add: INT32_MAX_def round_kcu_def)
  moreover have "price 1 8 16 8 = Inr 96"
    using price_computes [of 8 16 1 8] int_representable [of 12] int_representable [of 96]
    by (simp add: INT32_MAX_def round_kcu_def)
  ultimately have "price 1 4 8 4 = Inr 24 \<and> price 1 8 16 8 = Inr 96" ..
  then show ?thesis using price_monotone [of 1 4 8 8 16 4 8 24 96] by (intro conjI) simp_all
qed

lemma dec_mult_exact:
  "sig_representable 10 28 (x * y) \<Longrightarrow> \<bar>x * y\<bar> \<le> 10 ^ 100 \<Longrightarrow> dec_mult x y = Inr (x * y)"
  by (simp add: dec_mult_def dec_ctx_small dec_rnd.rnd_exact)

lemma add_hours_computes:
  assumes "h * 3600 = of_int s" "\<bar>s\<bar> < 10 ^ 13"
    and "DATETIME_MIN \<le> t + s * USEC" "t + s * USEC \<le> DATETIME_MAX"
  shows "add_hours t h = Inr (t + s * USEC)"
proof -
  have "\<bar>s\<bar> < 10 ^ 28" using assms(2) by simp
  then have "sig_representable 10 28 (rat_of_int s)" by (rule int_representable)
  moreover have "\<bar>rat_of_int s\<bar> < of_int (10 ^ 13)"
    using assms(2) by (simp only: of_int_less_iff flip: of_int_abs)
  then have "\<bar>rat_of_int s\<bar> \<le> 10 ^ 100" by (rule order_trans [OF less_imp_le]) simp
  ultimately have "dec_mult h 3600 = Inr (of_int s)"
    using dec_mult_exact [of h 3600] assms(1) by simp
  then show ?thesis
    using assms(2-4)
    by (auto simp: add_hours_def dec_to_int_def timedelta_seconds_def datetime_add_def abs_if
        split: if_splits)
qed

lemma total_seconds_computes: "\<bar>s\<bar> < 2 ^ 53 \<Longrightarrow> total_seconds (s * USEC) = of_int s"
  by (simp add: total_seconds_def float_rnd.rnd_exact int_float_representable)

lemma dec_div_computes:
  "x = y * 3600 \<Longrightarrow> sig_representable 10 28 y \<Longrightarrow> \<bar>y\<bar> \<le> 10 ^ 100 \<Longrightarrow> dec_div x 3600 = Inr y"
  by (simp add: dec_div_def dec_ctx_small dec_rnd.rnd_exact)

lemma add_hours_exact:
  assumes "h * 3600 = of_int s" "\<bar>s\<bar> < 10 ^ 28" "add_hours t h = Inr t'"
  shows "t' = t + s * USEC"
proof -
  have "\<bar>rat_of_int s\<bar> < of_int (10 ^ 28)" using assms(2) by (simp only: of_int_less_iff flip: of_int_abs)
  then have "\<bar>rat_of_int s\<bar> \<le> 10 ^ 100" by (rule order_trans [OF less_imp_le]) simp
  then have "dec_mult h 3600 = Inr (of_int s)"
    using dec_mult_exact [of h 3600] int_representable [OF assms(2)] assms(1) by simp
  then show ?thesis
    using assms(3) by (auto simp: add_hours_def dec_to_int_def timedelta_seconds_def datetime_add_def
        split: if_splits)
qed

lemma total_seconds_pos: "0 < d \<Longrightarrow> 0 < total_seconds d"
  by (simp add: total_seconds_def round_sig_pos)


lemma total_seconds_le:
  assumes "d \<le> s * USEC" "\<bar>s\<bar> < 2 ^ 53" shows "total_seconds d \<le> of_int s"
proof -
  have "rat_of_int d \<le> of_int (s * USEC)" using assms(1) by (simp only: of_int_le_iff)
  then have "of_int d / of_int USEC \<le> rat_of_int s" by simp
  then show ?thesis
    unfolding total_seconds_def by (rule float_rnd.rnd_le_representable) (rule int_float_representable [OF assms(2)])
qed

lemma dec_div_pos: "0 < x \<Longrightarrow> dec_div x 3600 = Inr y \<Longrightarrow> 0 < y"
  by (simp add: dec_div_def dec_ctx_Inr_iff round_sig_pos)

text \<open>
  C25. A renewal is clamped and billed within the cap: the new expiry is never earlier
  than the current one, an extension never reaches past now plus the maximum window,
  the billed hours lie between zero and the maximum, and they are zero exactly when
  the expiry does not move.
\<close>

theorem clamp_extension_bounds:
  assumes "max_hours b * 3600 = of_int s" "0 \<le> s" "s < 2 ^ 53"
    and "sig_representable 10 28 (max_hours b)"
    and "clamp_extension_hours b cur req now = Inr ext"
  shows "cur \<le> new_expiry ext \<and> 0 \<le> added_hours ext \<and> added_hours ext \<le> max_hours b \<and>
    (added_hours ext = 0 \<longleftrightarrow> new_expiry ext = cur) \<and>
    (new_expiry ext = cur \<or> new_expiry ext \<le> now + s * USEC)"
proof -
  obtain ceiling target where c: "add_hours now (max_hours b) = Inr ceiling"
    and e: "(if min target ceiling \<le> max now cur then Inr \<lparr>added_hours = 0, new_expiry = cur\<rparr>
       else rbind (dec_div (total_seconds (min target ceiling - max now cur)) 3600) (\<lambda>hours.
              Inr \<lparr>added_hours = hours, new_expiry = min target ceiling\<rparr>)) = Inr ext"
    using assms(5) by (auto simp: clamp_extension_hours_def Let_def)
  have ceiling: "ceiling = now + s * USEC"
    by (rule add_hours_exact [OF assms(1) _ c]) (use assms(2,3) in simp)
  have "0 \<le> max_hours b * 3600" using assms(1,2) by simp
  then have mh: "0 \<le> max_hours b" by (simp add: zero_le_mult_iff)
  show ?thesis
  proof (cases "min target ceiling \<le> max now cur")
    case True
    then show ?thesis using e mh by auto
  next
    case False
    let ?d = "min target ceiling - max now cur"
    from False e obtain hours where h: "dec_div (total_seconds ?d) 3600 = Inr hours"
      and ext: "ext = \<lparr>added_hours = hours, new_expiry = min target ceiling\<rparr>" by auto
    have "total_seconds ?d \<le> of_int s"
      using assms(2,3) ceiling by (intro total_seconds_le) auto
    then have "total_seconds ?d / 3600 \<le> max_hours b" using assms(1) by simp
    then have "hours \<le> max_hours b"
      using h assms(4) by (auto simp: dec_div_def dec_ctx_Inr_iff intro: dec_rnd.rnd_le_representable)
    moreover have "0 < hours"
      by (rule dec_div_pos [OF total_seconds_pos h]) (use False in linarith)

    ultimately show ?thesis using ext False ceiling by auto
  qed
qed

theorem clamp_extension_bounds_witness:
  "clamp_extension_hours DEFAULT_LEASE_BOUNDS 7200000000 3 3600000000 =
     Inr \<lparr>added_hours = 3, new_expiry = 18000000000\<rparr> \<and>
   (7200000000::time) \<le> 18000000000 \<and> (0::rat) \<le> 3 \<and> (3::rat) \<le> 24"
proof -
  have "add_hours 3600000000 24 = Inr 90000000000" "add_hours 7200000000 3 = Inr 18000000000"
    using add_hours_computes [of 24 86400 3600000000] add_hours_computes [of 3 10800 7200000000]
    by (simp_all add: DATETIME_MIN_def DATETIME_MAX_def)
  moreover have "dec_div (total_seconds 10800000000) 3600 = Inr 3"
    using total_seconds_computes [of 10800] int_representable [of 3]
    by (intro dec_div_computes) simp_all
  ultimately have c: "clamp_extension_hours DEFAULT_LEASE_BOUNDS 7200000000 3 3600000000 =
      Inr \<lparr>added_hours = 3, new_expiry = 18000000000\<rparr>"
    by (simp add: clamp_extension_hours_def DEFAULT_LEASE_BOUNDS_def)
  from clamp_extension_bounds [OF _ _ _ _ c, of 86400] show ?thesis
    using c int_representable [of 24] by (simp add: DEFAULT_LEASE_BOUNDS_def)
qed

text \<open>
  A renewal that asks for a very long extension is not clamped: the target date
  is computed before the clamp, and from about 2.4e10 hours on it raises an overflow
  error instead of returning the maximum window.
\<close>

theorem clamp_extension_overflow:
  assumes "add_hours now (max_hours b) = Inr cap" "25000000000 \<le> req" "req \<le> 10 ^ 90"
  shows "clamp_extension_hours b cur req now = Inl OverflowError"
proof -
  let ?y = "round_sig 10 28 (req * 3600)"
  have "req * 3600 \<le> 10 ^ 90 * 3600" using assms(3) by simp
  also have "\<dots> \<le> 10 ^ 100" by simp
  finally have "\<bar>req * 3600\<bar> \<le> 10 ^ 100" using assms(2) by simp
  then have m: "dec_mult req 3600 = Inr ?y" by (simp add: dec_mult_def dec_ctx_small)
  have "rat_of_int 90000000000000 \<le> ?y"
    using assms(2) by (intro dec_rnd.representable_le_rnd int_representable) simp_all
  then have "90000000000000 \<le> dec_to_int ?y" by (simp add: dec_to_int_def le_floor_iff)
  then have "timedelta_seconds (dec_to_int ?y) = Inl OverflowError"
    by (simp add: timedelta_seconds_def)
  then have "add_hours cur req = Inl OverflowError" by (simp add: add_hours_def m)
  then show ?thesis by (simp add: clamp_extension_hours_def assms(1))
qed

theorem clamp_extension_overflow_witness:
  "clamp_extension_hours DEFAULT_LEASE_BOUNDS 7200000000 (10 ^ 30) 3600000000 = Inl OverflowError"
proof -
  have "add_hours 3600000000 (max_hours DEFAULT_LEASE_BOUNDS) = Inr 90000000000"
    using add_hours_computes [of 24 86400 3600000000]
    by (simp add: DATETIME_MIN_def DATETIME_MAX_def DEFAULT_LEASE_BOUNDS_def)
  then show ?thesis by (rule clamp_extension_overflow) simp_all
qed

text \<open>
  A supplied window is parsed, positive and clamped to the maximum; an omitted
  window takes the default as configured, which is not clamped, so a configuration
  with a default above the maximum grants longer leases than the cap.
\<close>

theorem resolve_window_clamped:
  "(resolve_window_hours b (Some w) = Inr h \<longrightarrow>
     (\<exists>r. positive_hours w = Inr r \<and> 0 < r \<and> h \<le> r \<and> h \<le> max_hours b)) \<and>
   resolve_window_hours b None = Inr (default_hours b) \<and>
   (\<exists>b'. configured_lease_bounds (Some ''48'') None = Inr b' \<and>
         resolve_window_hours b' None = Inr 48 \<and> max_hours b' = 24)"
proof (intro conjI)
  show "resolve_window_hours b (Some w) = Inr h \<longrightarrow>
     (\<exists>r. positive_hours w = Inr r \<and> 0 < r \<and> h \<le> r \<and> h \<le> max_hours b)"
    by (auto simp: resolve_window_hours_def dest: positive_hours_pos)
  have "configured_lease_bounds (Some ''48'') None = Inr \<lparr>default_hours = 48, max_hours = 24\<rparr>"
    by code_simp
  then show "\<exists>b'. configured_lease_bounds (Some ''48'') None = Inr b' \<and>
         resolve_window_hours b' None = Inr 48 \<and> max_hours b' = 24"
    by (simp add: resolve_window_hours_def)
qed (simp add: resolve_window_hours_def)

theorem resolve_window_clamped_witness:
  "\<exists>r. positive_hours ''30'' = Inr r \<and> 0 < r \<and> 24 \<le> r"
proof -
  have "resolve_window_hours DEFAULT_LEASE_BOUNDS (Some ''30'') = Inr 24" by code_simp
  then show ?thesis using resolve_window_clamped [of DEFAULT_LEASE_BOUNDS "''30''" 24] by blast
qed

text \<open>
  Reuse is decided on the persisted snapshot: for well-formed \<open>vendor:device\<close>
  specs it holds exactly when every asserted size axis is at least as large and each
  spec has a claimed device; one claimed device satisfies any number of equal specs.
\<close>

theorem snapshot_satisfies_exact:
  assumes "map_result parse_vendor_device_spec (rq_pcie req) = Inr vds"
  shows "snapshot_satisfies sizing claims req = Inr
    ((\<forall>v\<in>set_option (rq_vcpus req). v \<le> sz_vcpu sizing) \<and>
     (\<forall>m\<in>set_option (rq_memory_gb req). m * MB_PER_GB \<le> sz_memory_mb sizing) \<and>
     (\<forall>d\<in>set_option (rq_disk_gb req). d \<le> sz_disk_gb sizing) \<and>
     set vds \<subseteq> (\<lambda>c. (c_vendor_id c, c_device_id c)) ` set claims)"
proof -
  have "list_all (\<lambda>(v, d). list_ex (\<lambda>c. c_vendor_id c = v \<and> c_device_id c = d) claims) vds
    \<longleftrightarrow> set vds \<subseteq> (\<lambda>c. (c_vendor_id c, c_device_id c)) ` set claims"
    by (auto simp: list_all_iff list_ex_iff image_iff split: prod.splits) metis
  with assms show ?thesis
    by (auto simp: snapshot_satisfies_def pcie_claims_contain_all_def split: option.splits)
qed

theorem snapshot_satisfies_exact_witness:
  "snapshot_satisfies \<lparr>sz_vcpu = 4, sz_memory_mb = 8192, sz_disk_gb = 20\<rparr>
     [\<lparr>c_bdf = ''0000:01:00.0'', c_vendor_id = ''8086'', c_device_id = ''1572''\<rparr>]
     \<lparr>rq_vcpus = Some 4, rq_memory_gb = Some 8, rq_disk_gb = None, rq_pcie = [''8086:1572'', ''8086:1572'']\<rparr>
   = Inr True"
proof -
  have "map_result parse_vendor_device_spec (rq_pcie \<lparr>rq_vcpus = Some 4, rq_memory_gb = Some 8,
      rq_disk_gb = None, rq_pcie = [''8086:1572'', ''8086:1572'']\<rparr>) =
    Inr [(''8086'', ''1572''), (''8086'', ''1572'')]" by code_simp
  from snapshot_satisfies_exact [OF this] show ?thesis by (simp add: MB_PER_GB_def)
qed

end
