(* ===== verification/Kdive_Db.thy ===== *)
theory Kdive_Db
  imports Authz Cost_Lease
begin

text \<open>
  The database: a record of tables, each a list of rows in insertion order, the
  repository operations of \<open>kdive/db/repositories.py\<close> over them, and the
  append-only audit log of \<open>security/audit.py\<close>.  The laws of a keyed table are
  the locale \<open>keyed_table\<close>.  \<open>db_clock\<close> is the database's \<open>now()\<close>; fresh
  identifiers are arguments, and a clash is the unique violation the database
  would raise.
\<close>

section \<open>Keyed tables\<close>

definition tbl_get :: "('r \<Rightarrow> 'k) \<Rightarrow> 'k \<Rightarrow> 'r list \<Rightarrow> 'r option" where
  "tbl_get key k t = find (\<lambda>r. key r = k) t"

definition tbl_insert :: "('r \<Rightarrow> 'k) \<Rightarrow> 'r \<Rightarrow> 'r list \<Rightarrow> exn + 'r list" where
  "tbl_insert key r t = (if key r \<in> key ` set t then Inl UniqueViolation else Inr (t @ [r]))"

definition tbl_update :: "('r \<Rightarrow> 'k) \<Rightarrow> 'k \<Rightarrow> ('r \<Rightarrow> 'r) \<Rightarrow> 'r list \<Rightarrow> 'r list" where
  "tbl_update key k f t = map (\<lambda>r. if key r = k then f r else r) t"

definition tbl_delete :: "('r \<Rightarrow> 'k) \<Rightarrow> 'k \<Rightarrow> 'r list \<Rightarrow> 'r list \<times> bool" where
  "tbl_delete key k t = (filter (\<lambda>r. key r \<noteq> k) t, count_rows (\<lambda>r. key r = k) t = 1)"

definition tbl_list_all :: "('r \<Rightarrow> 'k::linorder) \<Rightarrow> 'r list \<Rightarrow> 'r list" where
  "tbl_list_all key t = sort_key key t"

text \<open>
  \<open>ON CONFLICT (key) DO UPDATE\<close>: \<open>merge old new\<close> keeps the old row but for the
  update columns.
\<close>

definition tbl_upsert :: "('r \<Rightarrow> 'k) \<Rightarrow> ('r \<Rightarrow> 'r \<Rightarrow> 'r) \<Rightarrow> 'r \<Rightarrow> 'r list \<Rightarrow> 'r list" where
  "tbl_upsert key merge r t =
    (if key r \<in> key ` set t then tbl_update key (key r) (\<lambda>old. merge old r) t else t @ [r])"

text \<open>
  \<open>StatefulRepository.update_state\<close>: the guard on the stored state, then the
  write, which also has to pass the table's check constraint.
\<close>

definition update_state ::
  "('r \<Rightarrow> uuid) \<Rightarrow> ('r \<Rightarrow> 's) \<Rightarrow> ('s \<Rightarrow> StrEnum) \<Rightarrow> ('s \<Rightarrow> 'r \<Rightarrow> 'r) \<Rightarrow> ('r \<Rightarrow> bool) \<Rightarrow>
   uuid \<Rightarrow> 's \<Rightarrow> 'r list \<Rightarrow> exn + ('r list \<times> 'r)" where
  "update_state key get_state tag set_state check obj_id new_state t =
    (case tbl_get key obj_id t of
       None \<Rightarrow> Inl ObjectNotFound
     | Some row \<Rightarrow>
         rbind (ensure_transition (tag (get_state row)) (tag new_state)) (\<lambda>_.
         rbind (guard (check (set_state new_state row)) CheckViolation) (\<lambda>_.
           Inr (tbl_update key obj_id (set_state new_state) t, set_state new_state row))))"

locale keyed_table =
  fixes key :: "'r \<Rightarrow> 'k"
    and get :: "'k \<Rightarrow> 'r list \<Rightarrow> 'r option"
    and ins :: "'r \<Rightarrow> 'r list \<Rightarrow> exn + 'r list"
    and upd :: "'k \<Rightarrow> ('r \<Rightarrow> 'r) \<Rightarrow> 'r list \<Rightarrow> 'r list"
  assumes get_key: "get k t = Some r \<Longrightarrow> key r = k"
    and get_mem: "get k t = Some r \<Longrightarrow> r \<in> set t"
    and mem_get: "distinct (map key t) \<Longrightarrow> r \<in> set t \<Longrightarrow> get (key r) t = Some r"
    and get_none: "get k t = None \<Longrightarrow> r \<in> set t \<Longrightarrow> key r \<noteq> k"
    and ins_distinct: "distinct (map key t) \<Longrightarrow> ins r t = Inr t' \<Longrightarrow> distinct (map key t')"
    and ins_mset: "ins r t = Inr t' \<Longrightarrow> mset t' = add_mset r (mset t)"
    and upd_absent: "get k t = None \<Longrightarrow> upd k f t = t"
    and upd_mset: "distinct (map key t) \<Longrightarrow> get k t = Some r \<Longrightarrow>
      mset (upd k f t) = add_mset (f r) (mset t - {#r#})"
    and upd_keys: "(\<And>r. key (f r) = key r) \<Longrightarrow> map key (upd k f t) = map key t"
    and get_ins: "ins r t = Inr t' \<Longrightarrow> get k t' = (if k = key r then Some r else get k t)"
    and get_upd: "(\<And>r. key (f r) = key r) \<Longrightarrow>
      get k' (upd k f t) = (if k' = k then map_option f (get k t) else get k' t)"
begin

lemma ins_set: "ins r t = Inr t' \<Longrightarrow> set t' = insert r (set t)"
  using ins_mset [of r t t'] by (metis set_mset_add_mset_insert set_mset_mset)

lemma upd_mem:
  assumes "distinct (map key t)" "x \<in> set (upd k f t)" "get k t = Some r"
  shows "x = f r \<or> (x \<in> set t \<and> x \<noteq> r)"
proof -
  have d: "distinct t" using assms(1) by (rule distinct_mapD1)
  have "x \<in># add_mset (f r) (mset t - {#r#})"
    using assms upd_mset [OF assms(1,3), of f] by (metis set_mset_mset)
  then consider "x = f r" | "x \<in># mset t - {#r#}" by auto
  then show ?thesis
  proof cases
    case 2
    then have "x \<in> set t" by (metis in_diffD set_mset_mset)
    moreover have "x \<noteq> r"
      using 2 d get_mem [OF assms(3)] by (auto simp: distinct_count_atmost_1 in_diff_count)
    ultimately show ?thesis by simp
  qed simp
qed

text \<open>Sums and counts over a table change by the one row an operation touches.\<close>

lemma ins_sum: "ins r t = Inr t' \<Longrightarrow> sum_list (map g t') = sum_list (map g t) + (g r :: rat)"
  using ins_mset [of r t t']
  by (simp flip: sum_mset_sum_list add: add.commute)

lemma upd_split:
  assumes "distinct (map key t)" "get k t = Some r"
  obtains M where "mset t = add_mset r M" "\<And>f. mset (upd k f t) = add_mset (f r) M"
proof -
  have "r \<in># mset t" using get_mem [OF assms(2)] by simp
  then obtain M where M: "mset t = add_mset r M" by (blast dest: multi_member_split)
  with that [OF M] upd_mset [OF assms] show ?thesis by simp
qed

lemma upd_sum:
  assumes "distinct (map key t)" "get k t = Some r"
  shows "sum_list (map g (upd k f t)) = sum_list (map g t) - g r + (g (f r) :: rat)"
  using assms by (rule upd_split) (simp flip: sum_mset_sum_list)


lemma ins_count: "ins r t = Inr t' \<Longrightarrow> count_rows P t' = count_rows P t + (if P r then 1 else 0)"
  using ins_mset [of r t t'] by (simp add: count_rows_mset)

lemma upd_count:
  assumes "distinct (map key t)" "get k t = Some r"
  shows "count_rows P (upd k f t) + (if P r then 1 else 0) = count_rows P t + (if P (f r) then 1 else 0)"
  using assms by (rule upd_split) (simp add: count_rows_mset)

end

text \<open>The table operations satisfy the laws, for every choice of the key column.\<close>

lemma tbl_get_update:
  assumes "\<And>r. key (f r) = key r"
  shows "tbl_get key k' (tbl_update key k f t) =
    (if k' = k then map_option f (tbl_get key k t) else tbl_get key k' t)"
  using assms by (induction t) (auto simp: tbl_get_def tbl_update_def)

lemma tbl_get_insert:
  assumes "tbl_insert key r t = Inr t'"
  shows "tbl_get key k t' = (if k = key r then Some r else tbl_get key k t)"
proof -
  have t': "t' = t @ [r]" and new: "key r \<notin> key ` set t"
    using assms by (auto simp: tbl_insert_def split: if_splits)
  have "find (\<lambda>x. key x = k) (t @ [r]) =
      (case find (\<lambda>x. key x = k) t of None \<Rightarrow> if key r = k then Some r else None | Some x \<Rightarrow> Some x)"
    by (induction t) auto
  moreover have "find (\<lambda>x. key x = key r) t = None"
    unfolding find_None_iff using new by (metis imageI)
  ultimately show ?thesis by (auto simp: t' tbl_get_def split: option.splits)
qed

lemma tbl_update_mset:
  assumes "distinct (map key t)" "tbl_get key k t = Some r"
  shows "mset (tbl_update key k f t) = add_mset (f r) (mset t - {#r#})"
  using assms
proof (induction t)
  case (Cons x t)
  show ?case
  proof (cases "key x = k")
    case True
    then have "\<forall>y\<in>set t. key y \<noteq> k" using Cons.prems(1) by (metis distinct.simps(2) imageI list.set_map list.simps(9))
    then have "tbl_update key k f t = t" by (simp add: tbl_update_def map_idI)
    then show ?thesis using True Cons.prems(2) by (simp add: tbl_get_def tbl_update_def)
  next
    case False
    then have "tbl_get key k t = Some r" using Cons.prems(2) by (simp add: tbl_get_def)
    then have "r \<in># mset t" by (auto simp: tbl_get_def dest: find_Some_in_set)
    then show ?thesis
      using False Cons by (auto simp: tbl_get_def tbl_update_def dest!: multi_member_split)
  qed
qed (simp add: tbl_get_def)

interpretation tbl: keyed_table key "tbl_get key" "tbl_insert key" "tbl_update key"
  for key :: "'r \<Rightarrow> 'k"
proof unfold_locales
  show "tbl_get key k t = Some r \<Longrightarrow> key r = k" for k t r
    by (auto simp: tbl_get_def dest: find_Some_in_set)
  show "tbl_get key k t = Some r \<Longrightarrow> r \<in> set t" for k t r
    by (auto simp: tbl_get_def dest: find_Some_in_set)
  show "distinct (map key t) \<Longrightarrow> r \<in> set t \<Longrightarrow> tbl_get key (key r) t = Some r" for t r
    by (induction t) (force simp: tbl_get_def)+
  show "tbl_get key k t = None \<Longrightarrow> r \<in> set t \<Longrightarrow> key r \<noteq> k" for k t r
    by (auto simp: tbl_get_def find_None_iff)
  show "distinct (map key t) \<Longrightarrow> tbl_insert key r t = Inr t' \<Longrightarrow> distinct (map key t')" for r t t'
    by (auto simp: tbl_insert_def split: if_splits)
  show "tbl_insert key r t = Inr t' \<Longrightarrow> mset t' = add_mset r (mset t)" for r t t'
    by (auto simp: tbl_insert_def split: if_splits)
  show "tbl_get key k t = None \<Longrightarrow> tbl_update key k f t = t" for k f t
    by (auto simp: tbl_get_def tbl_update_def find_None_iff intro: map_idI)
  show "(\<And>r. key (f r) = key r) \<Longrightarrow> map key (tbl_update key k f t) = map key t" for f k t
    by (auto simp: tbl_update_def)
qed (fact tbl_update_mset tbl_get_insert tbl_get_update)+


section \<open>Tables\<close>

record IdempotencyKey =
  ik_key :: string
  ik_principal :: string
  ik_project :: string
  ik_kind :: string
  ik_allocation_id :: uuid
  ik_created_at :: time

record AuditRow =
  au_ts :: time
  au_principal :: string
  au_agent_session :: "string option"
  au_project :: string
  au_tool :: string
  au_object_kind :: "string option"
  au_object_id :: "uuid option"
  au_transition :: string
  au_reason :: "string option"

record PlatformAuditRow =
  pa_ts :: time
  pa_principal :: string
  pa_agent_session :: "string option"
  pa_platform_role :: "string option"
  pa_tool :: string
  pa_scope :: string
  pa_actor :: string

record RunStep =
  rs_run_id :: uuid
  rs_step :: string
  rs_state :: string
  rs_result :: json
  rs_updated_at :: time

datatype BuildHostKind = LOCAL | SSH | EPHEMERAL_LIBVIRT

datatype BuildHostState = READY | UNREACHABLE

record BuildHost =
  bh_id :: uuid
  bh_name :: string
  bh_kind :: BuildHostKind
  bh_address :: "string option"
  bh_ssh_credential_ref :: "string option"
  bh_base_image_volume :: "string option"
  bh_workspace_root :: string
  max_concurrent :: int
  bh_enabled :: bool
  bh_state :: BuildHostState
  bh_managed_by :: ManagedBy

record BuildHostLease =
  bl_run_id :: uuid
  bl_build_host_id :: uuid

record Artifact = DomainModel +
  art_owner_kind :: string
  art_owner_id :: uuid
  object_key :: string
  etag :: string
  sensitivity :: Sensitivity
  retention_class :: string

record UploadManifestRow =
  um_owner_kind :: string
  um_owner_id :: uuid
  um_prefix :: string
  um_manifest :: json
  um_deadline :: time

record Db =
  db_clock :: time
  resources :: "Resource list"
  allocations :: "Allocation list"
  systems :: "System list"
  runs :: "Run list"
  debug_sessions :: "DebugSession list"
  jobs :: "Job list"
  cost_class_coefficients :: "CostClassCoefficient list"
  budgets :: "Budget list"
  quotas :: "Quota list"
  system_shapes :: "SystemShape list"
  ledger :: "LedgerEntry list"
  idempotency_keys :: "IdempotencyKey list"
  audit_log :: "AuditRow list"
  platform_audit_log :: "PlatformAuditRow list"
  run_steps :: "RunStep list"
  build_hosts :: "BuildHost list"
  build_host_leases :: "BuildHostLease list"
  queue_paused :: bool
  artifacts :: "Artifact list"
  upload_manifests :: "UploadManifestRow list"



section \<open>Repositories\<close>

text \<open>
  The \<open>set_updated_at\<close> trigger: an update that changes the row stamps the
  database time.
\<close>

definition touch :: "time \<Rightarrow> ('r DomainModel_scheme \<Rightarrow> 'r DomainModel_scheme) \<Rightarrow>
  'r DomainModel_scheme \<Rightarrow> 'r DomainModel_scheme" where
  "touch clk f r = (if f r = r then r else (f r)\<lparr>updated_at := clk\<rparr>)"

definition server_generated :: "time \<Rightarrow> 'r DomainModel_scheme \<Rightarrow> 'r DomainModel_scheme" where
  "server_generated clk r = r\<lparr>created_at := clk, updated_at := clk\<rparr>"

definition int4 :: "int option \<Rightarrow> bool" where
  "int4 v = (case v of None \<Rightarrow> True | Some i \<Rightarrow> - (2 ^ 31) \<le> i \<and> i \<le> INT32_MAX)"

definition fk :: "('r \<Rightarrow> 'k) \<Rightarrow> 'r list \<Rightarrow> 'k option \<Rightarrow> bool" where
  "fk key t v = (case v of None \<Rightarrow> True | Some k \<Rightarrow> k \<in> key ` set t)"

text \<open>The check constraints of \<open>allocations\<close>, and the foreign keys of a new row.\<close>

definition allocations_check :: "Allocation \<Rightarrow> bool" where
  "allocations_check a \<longleftrightarrow>
    (resource_id a \<noteq> None \<or>
     al_state a \<in> {AllocationState.REQUESTED, AllocationState.RELEASED, AllocationState.FAILED}) \<and>
    (case requested_disk_gb a of None \<Rightarrow> True | Some d \<Rightarrow> 0 < d)"

definition ALLOCATIONS_insert :: "Allocation \<Rightarrow> Db \<Rightarrow> exn + (Db \<times> Allocation)" where
  "ALLOCATIONS_insert a db =
    (let row = server_generated (db_clock db) a in
     rbind (guard (int4 (requested_vcpus a) \<and> int4 (requested_memory_gb a) \<and>
                   int4 (requested_disk_gb a)) NumericOutOfRange) (\<lambda>_.
     rbind (guard (allocations_check row) CheckViolation) (\<lambda>_.
     rbind (tbl_insert oid row (allocations db)) (\<lambda>t.
     rbind (guard (fk oid (resources db) (resource_id a) \<and>
                   fk oid (resources db) (requested_resource_id a)) ForeignKeyViolation) (\<lambda>_.
       Inr (db\<lparr>allocations := t\<rparr>, row))))))"

definition ALLOCATIONS_get :: "uuid \<Rightarrow> Db \<Rightarrow> Allocation option" where
  "ALLOCATIONS_get k db = tbl_get oid k (allocations db)"

definition ALLOCATIONS_update_state ::
  "uuid \<Rightarrow> AllocationState \<Rightarrow> Db \<Rightarrow> exn + (Db \<times> Allocation)" where
  "ALLOCATIONS_update_state k s db =
    rbind (update_state oid al_state AllocationSt
             (\<lambda>s. touch (db_clock db) (al_state_update (\<lambda>_. s))) allocations_check k s (allocations db))
      (\<lambda>(t, row). Inr (db\<lparr>allocations := t\<rparr>, row))"

definition SYSTEMS_insert :: "System \<Rightarrow> Db \<Rightarrow> exn + (Db \<times> System)" where
  "SYSTEMS_insert s db =
    (let row = server_generated (db_clock db) s in
     rbind (tbl_insert oid row (systems db)) (\<lambda>t.
     rbind (guard (fk oid (allocations db) (Some (allocation_id s))) ForeignKeyViolation) (\<lambda>_.
       Inr (db\<lparr>systems := t\<rparr>, row))))"

definition SYSTEMS_get :: "uuid \<Rightarrow> Db \<Rightarrow> System option" where
  "SYSTEMS_get k db = tbl_get oid k (systems db)"

definition SYSTEMS_update_state :: "uuid \<Rightarrow> SystemState \<Rightarrow> Db \<Rightarrow> exn + (Db \<times> System)" where
  "SYSTEMS_update_state k s db =
    rbind (update_state oid sys_state SystemSt
             (\<lambda>s. touch (db_clock db) (sys_state_update (\<lambda>_. s))) (\<lambda>_. True) k s (systems db))
      (\<lambda>(t, row). Inr (db\<lparr>systems := t\<rparr>, row))"

definition RUNS_update_state :: "uuid \<Rightarrow> RunState \<Rightarrow> Db \<Rightarrow> exn + (Db \<times> Run)" where
  "RUNS_update_state k s db =
    rbind (update_state oid run_state RunSt
             (\<lambda>s. touch (db_clock db) (run_state_update (\<lambda>_. s))) (\<lambda>_. True) k s (runs db))
      (\<lambda>(t, row). Inr (db\<lparr>runs := t\<rparr>, row))"

definition DEBUG_SESSIONS_update_state ::
  "uuid \<Rightarrow> DebugSessionState \<Rightarrow> Db \<Rightarrow> exn + (Db \<times> DebugSession)" where
  "DEBUG_SESSIONS_update_state k s db =
    rbind (update_state oid ds_state DebugSessionSt
             (\<lambda>s. touch (db_clock db) (ds_state_update (\<lambda>_. s))) (\<lambda>_. True) k s (debug_sessions db))
      (\<lambda>(t, row). Inr (db\<lparr>debug_sessions := t\<rparr>, row))"

definition LEDGER_insert :: "LedgerEntry \<Rightarrow> Db \<Rightarrow> exn + Db" where
  "LEDGER_insert e db =
    (let row = e\<lparr>le_ts := db_clock db\<rparr> in
     rbind (tbl_insert le_id row (ledger db)) (\<lambda>t.
     rbind (guard (fk oid (allocations db) (Some (le_allocation_id e)) \<and>
                   fk oid (resources db) (le_resource_id e)) ForeignKeyViolation) (\<lambda>_.
       Inr (db\<lparr>ledger := t\<rparr>))))"

text \<open>
  The natural-key repositories.  A budget upsert rewrites only the limit, the
  others every non-key column.
\<close>

definition BUDGETS_upsert :: "Budget \<Rightarrow> Db \<Rightarrow> Db" where
  "BUDGETS_upsert b db = db\<lparr>budgets := tbl_upsert bud_project
    (\<lambda>old new. if limit_kcu old = limit_kcu new then old
       else old\<lparr>limit_kcu := limit_kcu new, bud_updated_at := db_clock db\<rparr>)
    (b\<lparr>bud_updated_at := db_clock db\<rparr>) (budgets db)\<rparr>"

definition QUOTAS_upsert :: "Quota \<Rightarrow> Db \<Rightarrow> exn + Db" where
  "QUOTAS_upsert q db =
    rbind (guard (int4 (Some (max_concurrent_allocations q)) \<and> int4 (Some (max_concurrent_systems q)) \<and>
                  int4 (Some (max_pending_allocations q))) NumericOutOfRange) (\<lambda>_.
    Inr (db\<lparr>quotas := tbl_upsert quo_project
    (\<lambda>old new. if old = new\<lparr>quo_updated_at := quo_updated_at old\<rparr> then old else new)
    (q\<lparr>quo_updated_at := db_clock db\<rparr>) (quotas db)\<rparr>))"

definition COST_CLASS_COEFFICIENTS_upsert :: "CostClassCoefficient \<Rightarrow> Db \<Rightarrow> Db" where
  "COST_CLASS_COEFFICIENTS_upsert c db = db\<lparr>cost_class_coefficients := tbl_upsert cc_cost_class
    (\<lambda>old new. if coeff old = coeff new then old else new)
    (c\<lparr>cc_updated_at := db_clock db\<rparr>) (cost_class_coefficients db)\<rparr>"


section \<open>Audit\<close>

record AuditEvent =
  ev_tool :: string
  ev_object_kind :: string
  ev_object_id :: uuid
  ev_transition :: string
  ev_project :: string

record DenialEvent =
  de_principal :: string
  de_agent_session :: "string option"
  de_project :: string
  de_tool :: string
  de_reason :: string

record PlatformAuditEvent =
  pe_tool :: string
  pe_scope :: string
  pe_platform_role :: "string option"
  pe_actor :: string

text \<open>The digest of the arguments is not modelled.\<close>

definition record_system :: "string \<Rightarrow> string option \<Rightarrow> AuditEvent \<Rightarrow> Db \<Rightarrow> Db" where
  "record_system who session event db = db\<lparr>audit_log := audit_log db @
    [\<lparr>au_ts = db_clock db, au_principal = who, au_agent_session = session,
      au_project = ev_project event, au_tool = ev_tool event,
      au_object_kind = Some (ev_object_kind event), au_object_id = Some (ev_object_id event),
      au_transition = ev_transition event, au_reason = None\<rparr>]\<rparr>"

definition audit_record :: "RequestContext \<Rightarrow> AuditEvent \<Rightarrow> Db \<Rightarrow> exn + Db" where
  "audit_record ctx event db =
    rbind (guard (ev_project event \<in> set (ctx_projects ctx)) AuthError) (\<lambda>_.
      Inr (db\<lparr>audit_log := audit_log db @
        [\<lparr>au_ts = db_clock db, au_principal = ctx_principal ctx,
          au_agent_session = ctx_agent_session ctx,
          au_project = ev_project event, au_tool = ev_tool event,
          au_object_kind = Some (ev_object_kind event), au_object_id = Some (ev_object_id event),
          au_transition = ev_transition event, au_reason = None\<rparr>]\<rparr>))"

definition record_denial :: "DenialEvent \<Rightarrow> Db \<Rightarrow> Db" where
  "record_denial event db = db\<lparr>audit_log := audit_log db @
    [\<lparr>au_ts = db_clock db, au_principal = de_principal event,
      au_agent_session = de_agent_session event, au_project = de_project event,
      au_tool = de_tool event, au_object_kind = None, au_object_id = None,
      au_transition = ''denied'', au_reason = Some (de_reason event)\<rparr>]\<rparr>"

definition record_platform :: "string \<Rightarrow> string option \<Rightarrow> PlatformAuditEvent \<Rightarrow> Db \<Rightarrow> Db" where
  "record_platform who session event db =
    db\<lparr>platform_audit_log := platform_audit_log db @
    [\<lparr>pa_ts = db_clock db, pa_principal = who, pa_agent_session = session,
      pa_platform_role = pe_platform_role event, pa_tool = pe_tool event,
      pa_scope = pe_scope event, pa_actor = pe_actor event\<rparr>]\<rparr>"



section \<open>Facts on the repositories\<close>

lemma touch_proj:
  assumes "\<And>r c. g (r\<lparr>updated_at := c\<rparr>) = g r"
  shows "g (touch clk f r) = g (f r)"
  using assms by (simp add: touch_def)

lemma touch_oid [simp]: "oid (touch clk f r) = oid (f r)"
  by (rule touch_proj) simp

lemma touch_created_at [simp]: "created_at (touch clk f r) = created_at (f r)"
  by (rule touch_proj) simp

lemma touch_allocation [simp]:
  "al_state (touch clk f r) = al_state (f r)"
  "resource_id (touch clk f r) = resource_id (f r)"
  "lease_expiry (touch clk f r) = lease_expiry (f r)"
  "project (touch clk f r) = project (f r)"
  "principal (touch clk f r) = principal (f r)"
  "capability_scope (touch clk f r) = capability_scope (f r)"
  "requested_disk_gb (touch clk f r) = requested_disk_gb (f r)"
  "requested_vcpus (touch clk f r) = requested_vcpus (f r)"
  "requested_memory_gb (touch clk f r) = requested_memory_gb (f r)"
  "active_started_at (touch clk f r) = active_started_at (f r)"
  "active_ended_at (touch clk f r) = active_ended_at (f r)"
  "pcie_claim (touch clk f r) = pcie_claim (f r)"
  by (rule touch_proj, simp)+

lemma touch_system [simp]:
  "sys_state (touch clk f r) = sys_state (f r)"
  "allocation_id (touch clk f r) = allocation_id (f r)"
  by (rule touch_proj, simp)+

lemma server_generated_sel [simp]:
  "oid (server_generated clk r) = oid r"
  "created_at (server_generated clk r) = clk"
  by (simp_all add: server_generated_def)

lemma server_generated_allocation [simp]:
  "al_state (server_generated clk r) = al_state r"
  "resource_id (server_generated clk r) = resource_id r"
  "project (server_generated clk r) = project r"
  "principal (server_generated clk r) = principal r"
  "lease_expiry (server_generated clk r) = lease_expiry r"
  "capability_scope (server_generated clk r) = capability_scope r"
  "requested_disk_gb (server_generated clk r) = requested_disk_gb r"
  "requested_vcpus (server_generated clk r) = requested_vcpus r"
  "requested_memory_gb (server_generated clk r) = requested_memory_gb r"
  "active_started_at (server_generated clk r) = active_started_at r"
  "active_ended_at (server_generated clk r) = active_ended_at r"
  "pcie_claim (server_generated clk r) = pcie_claim r"
  by (simp_all add: server_generated_def)

lemma ALLOCATIONS_insert_Inr:
  "ALLOCATIONS_insert a db = Inr (db', row) \<longleftrightarrow>
    row = server_generated (db_clock db) a \<and> db' = db\<lparr>allocations := allocations db @ [row]\<rparr> \<and>
    oid a \<notin> oid ` set (allocations db) \<and> allocations_check row \<and>
    int4 (requested_vcpus a) \<and> int4 (requested_memory_gb a) \<and> int4 (requested_disk_gb a) \<and>
    fk oid (resources db) (resource_id a) \<and> fk oid (resources db) (requested_resource_id a)"
  by (auto simp: ALLOCATIONS_insert_def Let_def tbl_insert_def)

lemma update_state_Inr:
  "update_state key get_state tag set_state check k s t = Inr (t', row') \<longleftrightarrow>
    (\<exists>row. tbl_get key k t = Some row \<and> can_transition (tag (get_state row)) (tag s) = Inr True \<and>
       row' = set_state s row \<and> check row' \<and> t' = tbl_update key k (set_state s) t)"
  by (auto simp: update_state_def ensure_transition_def split: option.splits if_splits)

lemma ALLOCATIONS_update_state_Inr:
  "ALLOCATIONS_update_state k s db = Inr (db', row') \<longleftrightarrow>
    (\<exists>row. ALLOCATIONS_get k db = Some row \<and>
       can_transition (AllocationSt (al_state row)) (AllocationSt s) = Inr True \<and>
       row' = touch (db_clock db) (al_state_update (\<lambda>_. s)) row \<and> allocations_check row' \<and>
       db' = db\<lparr>allocations := tbl_update oid k (touch (db_clock db) (al_state_update (\<lambda>_. s)))
                                 (allocations db)\<rparr>)"
  by (auto simp: ALLOCATIONS_update_state_def ALLOCATIONS_get_def update_state_Inr)



section \<open>Properties\<close>

text \<open>What a repository promises: a finite map from keys to rows.\<close>

definition repo_abs :: "('r \<Rightarrow> 'k) \<Rightarrow> 'r list \<Rightarrow> 'k \<Rightarrow> 'r option" where
  "repo_abs key t = (\<lambda>k. tbl_get key k t)"

lemma tbl_get_None_iff: "tbl_get key k t = None \<longleftrightarrow> k \<notin> key ` set t"
  by (auto simp: tbl_get_def find_None_iff image_iff)

lemma tbl_get_filter:
  "tbl_get key k' (filter (\<lambda>r. key r \<noteq> k) t) = (if k' = k then None else tbl_get key k' t)"
  by (induction t) (auto simp: tbl_get_def)

lemma count_key:
  "distinct (map key t) \<Longrightarrow> count_rows (\<lambda>r. key r = k) t = (if k \<in> key ` set t then 1 else 0)"
  by (induction t) (auto simp: count_rows_zero_iff)

lemma tbl_update_key_cong:
  "(\<And>r. key r = k \<Longrightarrow> f r = g r) \<Longrightarrow> tbl_update key k f t = tbl_update key k g t"
  by (auto simp: tbl_update_def)

lemma tbl_get_append: "k \<notin> key ` set t \<Longrightarrow> key r = k \<Longrightarrow>
    tbl_get key k' (t @ [r]) = (if k' = k then Some r else tbl_get key k' t)"
  using tbl_get_insert [of key r t "t @ [r]"] by (simp add: tbl_insert_def)

lemma repo_abs_upsert:
  assumes "\<And>old new. key (merge old new) = key old"
  shows "repo_abs key (tbl_upsert key merge r t) =
    (repo_abs key t)(key r \<mapsto> (case repo_abs key t (key r) of None \<Rightarrow> r | Some old \<Rightarrow> merge old r))"
proof
  fix k show "repo_abs key (tbl_upsert key merge r t) k =
    ((repo_abs key t)(key r \<mapsto> (case repo_abs key t (key r) of None \<Rightarrow> r | Some old \<Rightarrow> merge old r))) k"
  proof (cases "key r \<in> key ` set t")
    case True
    then have "tbl_get key (key r) t \<noteq> None" by (simp add: tbl_get_None_iff)
    then show ?thesis using True assms
      by (auto simp: repo_abs_def tbl_upsert_def tbl_get_update)
  next
    case False
    then have "tbl_get key (key r) t = None" by (simp add: tbl_get_None_iff)
    then show ?thesis using False by (simp add: repo_abs_def tbl_upsert_def tbl_get_append)
  qed
qed

lemma map_sum_rbind: "map_sum id h (rbind m f) = rbind m (\<lambda>x. map_sum id h (f x))"
  by (cases m) auto

lemma repo_abs_update_state:
  assumes "\<And>s r. key (set_state s r) = key r"
  shows "map_sum id (\<lambda>(t', row). (repo_abs key t', row))
        (update_state key get_state tag set_state check k s t) =
      (case repo_abs key t k of
         None \<Rightarrow> Inl ObjectNotFound
       | Some row \<Rightarrow> rbind (ensure_transition (tag (get_state row)) (tag s)) (\<lambda>_.
           rbind (guard (check (set_state s row)) CheckViolation) (\<lambda>_.
             Inr ((repo_abs key t)(k \<mapsto> set_state s row), set_state s row))))"
proof -
  have "repo_abs key (tbl_update key k (set_state s) t) = (repo_abs key t)(k \<mapsto> set_state s row)"
    if "tbl_get key k t = Some row" for row
    using that assms by (auto simp: repo_abs_def tbl_get_update)
  then show ?thesis
    by (auto simp: repo_abs_def update_state_def map_sum_rbind split: option.split)
qed

text \<open>
  The repositories implement a map from keys to rows.  An insert fails exactly on
  a taken key and otherwise adds one binding; a delete removes one binding and
  reports whether there was one; an upsert binds the key to the new row or to the
  merge with the old one; a state update fails on a missing key, fails on an edge
  the guard rejects, and otherwise rebinds the key to the row with the new state.
  No operation changes another key.
\<close>

lemma repository_refines_map:
  assumes "distinct (map key t)"
    and "\<And>old new. key (merge old new) = key old" "\<And>s r. key (set_state s r) = key r"
  shows "(tbl_insert key r t = Inl UniqueViolation \<longleftrightarrow> repo_abs key t (key r) \<noteq> None) \<and>
    (repo_abs key t (key r) = None \<longrightarrow>
      (\<exists>t'. tbl_insert key r t = Inr t' \<and> repo_abs key t' = (repo_abs key t)(key r \<mapsto> r))) \<and>
    repo_abs key (fst (tbl_delete key k t)) = (repo_abs key t)(k := None) \<and>
    (snd (tbl_delete key k t) \<longleftrightarrow> repo_abs key t k \<noteq> None) \<and>
    repo_abs key (tbl_upsert key merge r t) =
      (repo_abs key t)(key r \<mapsto> (case repo_abs key t (key r) of None \<Rightarrow> r | Some old \<Rightarrow> merge old r)) \<and>
    map_sum id (\<lambda>(t', row). (repo_abs key t', row))
        (update_state key get_state tag set_state check k s t) =
      (case repo_abs key t k of
         None \<Rightarrow> Inl ObjectNotFound
       | Some row \<Rightarrow> rbind (ensure_transition (tag (get_state row)) (tag s)) (\<lambda>_.
           rbind (guard (check (set_state s row)) CheckViolation) (\<lambda>_.
             Inr ((repo_abs key t)(k \<mapsto> set_state s row), set_state s row))))"
proof (intro conjI)
  show "tbl_insert key r t = Inl UniqueViolation \<longleftrightarrow> repo_abs key t (key r) \<noteq> None"
    by (simp add: tbl_insert_def repo_abs_def tbl_get_None_iff)
  show "repo_abs key t (key r) = None \<longrightarrow>
      (\<exists>t'. tbl_insert key r t = Inr t' \<and> repo_abs key t' = (repo_abs key t)(key r \<mapsto> r))"
    by (auto simp: tbl_insert_def repo_abs_def tbl_get_None_iff tbl_get_append fun_eq_iff)
  show "repo_abs key (fst (tbl_delete key k t)) = (repo_abs key t)(k := None)"
    by (auto simp: repo_abs_def tbl_delete_def tbl_get_filter)
  show "snd (tbl_delete key k t) \<longleftrightarrow> repo_abs key t k \<noteq> None"
    using assms(1) by (simp add: repo_abs_def tbl_delete_def count_key tbl_get_None_iff)
qed (rule repo_abs_upsert repo_abs_update_state; rule assms)+

end
