(* ===== verification/Ledger.thy ===== *)
theory Ledger
  imports Kdive_Db
begin

text \<open>
  The metering ledger of \<open>services/accounting/ledger.py\<close>: reservation at grant,
  reconciliation at release, the billing interval, and the usage rollups.  SQL
  aggregates over \<open>numeric\<close> are exact sums; arithmetic the Python code does on
  \<open>Decimal\<close> goes through the 28-digit context.  \<open>GROUP BY\<close> lists its groups in
  the order of their first row.
\<close>

section \<open>Writers\<close>

definition ledger_cost_class :: "Allocation \<Rightarrow> Db \<Rightarrow> exn + string" where
  "ledger_cost_class allocation db =
    (case resource_id allocation of
       None \<Rightarrow> Inl config_error
     | Some r \<Rightarrow>
         (case tbl_get oid r (resources db) of
            None \<Rightarrow> Inl config_error
          | Some res \<Rightarrow> Inr (res_cost_class res)))"

definition has_budget :: "string \<Rightarrow> Db \<Rightarrow> bool" where
  "has_budget p db = (tbl_get bud_project p (budgets db) \<noteq> None)"

definition charge :: "time \<Rightarrow> rat \<Rightarrow> Budget \<Rightarrow> Budget" where
  "charge clk d b = (if d = 0 then b else b\<lparr>spent_kcu := spent_kcu b + d, bud_updated_at := clk\<rparr>)"

definition apply_to_spent :: "string \<Rightarrow> rat \<Rightarrow> Db \<Rightarrow> exn + Db" where
  "apply_to_spent p delta db =
    rbind (guard (has_budget p db) config_error) (\<lambda>_.
      Inr (db\<lparr>budgets := tbl_update bud_project p
        (charge (db_clock db) delta) (budgets db)\<rparr>))"

definition write_delta :: "uuid \<Rightarrow> Allocation \<Rightarrow> LedgerEventType \<Rightarrow> rat \<Rightarrow> Db \<Rightarrow> exn + Db" where
  "write_delta entry_id allocation et delta db =
    rbind (ledger_cost_class allocation db) (\<lambda>cost_class.
    rbind (LEDGER_insert
      \<lparr>le_id = entry_id, le_ts = created_at allocation, le_project = project allocation,
       le_allocation_id = oid allocation, le_resource_id = resource_id allocation,
       le_cost_class = cost_class, event_type = et, kcu_delta = delta, le_note = None\<rparr> db)
      (apply_to_spent (project allocation) delta))"

definition reserve :: "uuid \<Rightarrow> Allocation \<Rightarrow> rat \<Rightarrow> Db \<Rightarrow> exn + Db" where
  "reserve entry_id allocation estimate db =
    rbind (quantize_kcu estimate) (\<lambda>delta. write_delta entry_id allocation RESERVED delta db)"

definition sum_ledger :: "(LedgerEntry \<Rightarrow> bool) \<Rightarrow> Db \<Rightarrow> rat" where
  "sum_ledger P db = sum_list (map kcu_delta (filter P (ledger db)))"

definition reserved_sum :: "uuid \<Rightarrow> Db \<Rightarrow> rat" where
  "reserved_sum alloc_id db =
    sum_ledger (\<lambda>e. le_allocation_id e = alloc_id \<and> event_type e = RESERVED) db"

definition active_hours :: "Allocation \<Rightarrow> exn + rat" where
  "active_hours allocation =
    (case (active_started_at allocation, active_ended_at allocation) of
       (Some s, Some e) \<Rightarrow> dec_div (total_seconds (e - s)) 3600
     | _ \<Rightarrow> Inr 0)"

definition actual_cost :: "Allocation \<Rightarrow> Db \<Rightarrow> exn + rat" where
  "actual_cost allocation db =
    rbind (active_hours allocation) (\<lambda>hours.
    if hours = 0 then Inr 0
    else (case (requested_vcpus allocation, requested_memory_gb allocation) of
            (Some v, Some m) \<Rightarrow>
              rbind (ledger_cost_class allocation db) (\<lambda>cost_class.
              rbind (resolve_coeff (cost_class_coefficients db) cost_class) (\<lambda>c.
              rbind (rate c v m) (\<lambda>rate_kcu_per_hr. cost rate_kcu_per_hr hours)))
          | _ \<Rightarrow> Inl config_error))"

definition reconcile :: "uuid \<Rightarrow> Allocation \<Rightarrow> Db \<Rightarrow> exn + (Db \<times> rat)" where
  "reconcile entry_id allocation db =
    (if \<not> has_budget (project allocation) db then Inr (db, 0)
     else
       rbind (actual_cost allocation db) (\<lambda>actual.
       rbind (dec_sub actual (reserved_sum (oid allocation) db)) (\<lambda>diff.
       rbind (quantize_kcu diff) (\<lambda>delta.
       rbind (write_delta entry_id allocation RECONCILED delta db) (\<lambda>db'.
         Inr (db', delta))))))"

definition stamp_active_ended :: "Allocation \<Rightarrow> time \<Rightarrow> Db \<Rightarrow> Db \<times> Allocation" where
  "stamp_active_ended allocation ended_at db =
    (case ALLOCATIONS_get (oid allocation) db of
       None \<Rightarrow> (db, allocation)
     | Some row \<Rightarrow>
         (case active_started_at row of
            None \<Rightarrow> (db, allocation)
          | Some started \<Rightarrow>
              (db\<lparr>allocations := tbl_update oid (oid allocation)
                   (touch (db_clock db) (active_ended_at_update (\<lambda>_. Some ended_at))) (allocations db)\<rparr>,
               allocation\<lparr>active_started_at := Some started, active_ended_at := Some ended_at\<rparr>)))"


section \<open>Rollups\<close>

record ProjectUsage =
  us_spent_kcu :: rat
  us_budget_remaining :: rat
  us_by_cost_class :: "(string \<times> rat) list"
  us_shared_kcu :: rat

record RollupRow =
  ro_project :: string
  ro_principal :: "string option"
  ro_reserved :: rat
  ro_reconciled :: rat
  ro_variance :: rat

record Report =
  rp_rows :: "RollupRow list"
  rp_total :: RollupRow

definition budget_totals :: "string \<Rightarrow> Db \<Rightarrow> rat \<times> rat" where
  "budget_totals p db =
    (case tbl_get bud_project p (budgets db) of
       None \<Rightarrow> (0, 0)
     | Some b \<Rightarrow> (spent_kcu b, limit_kcu b))"

definition by_cost_class :: "string \<Rightarrow> Db \<Rightarrow> exn + (string \<times> rat) list" where
  "by_cost_class p db =
    map_result (\<lambda>c. rbind (quantize_kcu (sum_ledger (\<lambda>e. le_project e = p \<and> le_cost_class e = c) db))
                      (\<lambda>v. Inr (c, v)))
      (remdups (map le_cost_class (filter (\<lambda>e. le_project e = p) (ledger db))))"

text \<open>The distinct investigations of the Runs on an allocation's Systems.\<close>

definition investigations_of :: "Db \<Rightarrow> uuid \<Rightarrow> uuid list" where
  "investigations_of db alloc_id =
    remdups (map investigation_id
      (concat (map (\<lambda>s. filter (\<lambda>r. system_id r = oid s) (runs db))
                 (filter (\<lambda>s. allocation_id s = alloc_id) (systems db)))))"

definition shared_kcu :: "string \<Rightarrow> Db \<Rightarrow> exn + rat" where
  "shared_kcu p db =
    quantize_kcu (sum_ledger
      (\<lambda>e. le_project e = p \<and> length (investigations_of db (le_allocation_id e)) > 1) db)"

definition usage :: "string \<Rightarrow> Db \<Rightarrow> exn + ProjectUsage" where
  "usage p db =
    (case budget_totals p db of
       (spent, limit) \<Rightarrow>
         rbind (by_cost_class p db) (\<lambda>by_class.
         rbind (shared_kcu p db) (\<lambda>shared.
         rbind (dec_sub limit spent) (\<lambda>diff.
         rbind (quantize_kcu diff) (\<lambda>remaining.
           Inr \<lparr>us_spent_kcu = spent, us_budget_remaining = remaining,
                us_by_cost_class = by_class, us_shared_kcu = shared\<rparr>)))))"

definition usage_for_investigation :: "uuid \<Rightarrow> Db \<Rightarrow> exn + rat" where
  "usage_for_investigation iid db =
    quantize_kcu (sum_ledger (\<lambda>e. investigations_of db (le_allocation_id e) = [iid]) db)"

text \<open>
  The report.  A group key is the project, with the principal of the row's
  allocation when the report is grouped by principal; the join drops a row whose
  allocation is missing.
\<close>

definition in_window :: "(time option \<times> time option) option \<Rightarrow> LedgerEntry \<Rightarrow> bool" where
  "in_window window e =
    (case window of
       None \<Rightarrow> True
     | Some (start, end_) \<Rightarrow>
         (case start of None \<Rightarrow> True | Some s \<Rightarrow> s \<le> le_ts e) \<and>
         (case end_ of None \<Rightarrow> True | Some t \<Rightarrow> le_ts e < t))"

definition group_key :: "bool \<Rightarrow> Db \<Rightarrow> LedgerEntry \<Rightarrow> (string \<times> string option) option" where
  "group_key by_principal db e =
    (if by_principal then
       map_option (\<lambda>a. (le_project e, Some (principal a))) (ALLOCATIONS_get (le_allocation_id e) db)
     else Some (le_project e, None))"

definition report_groups ::
  "string list \<Rightarrow> bool \<Rightarrow> (time option \<times> time option) option \<Rightarrow> Db \<Rightarrow> (string \<times> string option) list" where
  "report_groups projects by_principal window db =
    remdups (List.map_filter (\<lambda>e. if le_project e \<in> set projects \<and> in_window window e
                                  then group_key by_principal db e else None) (ledger db))"

definition report_sum ::
  "string list \<Rightarrow> bool \<Rightarrow> (time option \<times> time option) option \<Rightarrow> Db \<Rightarrow>
   LedgerEventType \<Rightarrow> string \<times> string option \<Rightarrow> rat" where
  "report_sum projects by_principal window db et g =
    sum_ledger (\<lambda>e. le_project e \<in> set projects \<and> in_window window e \<and>
                    group_key by_principal db e = Some g \<and> event_type e = et) db"

definition report_row :: "rat \<Rightarrow> rat \<Rightarrow> string \<times> string option \<Rightarrow> exn + RollupRow" where
  "report_row raw_reserved raw_reconciled g =
    rbind (quantize_kcu raw_reserved) (\<lambda>reserved.
    rbind (quantize_kcu raw_reconciled) (\<lambda>reconciled.
    rbind (dec_sub reconciled reserved) (\<lambda>diff.
    rbind (quantize_kcu diff) (\<lambda>variance.
      Inr \<lparr>ro_project = fst g, ro_principal = snd g, ro_reserved = reserved,
           ro_reconciled = reconciled, ro_variance = variance\<rparr>))))"

definition report_rows ::
  "string list \<Rightarrow> bool \<Rightarrow> (time option \<times> time option) option \<Rightarrow> Db \<Rightarrow> exn + RollupRow list" where
  "report_rows projects by_principal window db =
    map_result (\<lambda>g. report_row (report_sum projects by_principal window db RESERVED g)
                               (report_sum projects by_principal window db RECONCILED g) g)
      (report_groups projects by_principal window db)"

text \<open>Python's \<open>sum(xs, Decimal(0))\<close>.\<close>

fun dec_sum :: "rat \<Rightarrow> rat list \<Rightarrow> exn + rat" where
  "dec_sum acc [] = Inr acc"
| "dec_sum acc (x # xs) = rbind (dec_add acc x) (\<lambda>acc'. dec_sum acc' xs)"

definition zero_total :: "exn + RollupRow" where
  "zero_total =
    rbind (quantize_kcu 0) (\<lambda>zero.
      Inr \<lparr>ro_project = ''*'', ro_principal = None, ro_reserved = zero,
           ro_reconciled = zero, ro_variance = zero\<rparr>)"

definition total_of :: "RollupRow list \<Rightarrow> exn + RollupRow" where
  "total_of rows =
    rbind (dec_sum 0 (map ro_reserved rows)) (\<lambda>reserved.
    rbind (dec_sum 0 (map ro_reconciled rows)) (\<lambda>reconciled.
    rbind (quantize_kcu reserved) (\<lambda>q_reserved.
    rbind (quantize_kcu reconciled) (\<lambda>q_reconciled.
    rbind (dec_sub reconciled reserved) (\<lambda>diff.
    rbind (quantize_kcu diff) (\<lambda>variance.
      Inr \<lparr>ro_project = ''*'', ro_principal = None, ro_reserved = q_reserved,
           ro_reconciled = q_reconciled, ro_variance = variance\<rparr>))))))"

definition report ::
  "string list \<Rightarrow> bool \<Rightarrow> (time option \<times> time option) option \<Rightarrow> Db \<Rightarrow> exn + Report" where
  "report projects by_principal window db =
    (if projects = [] then rbind zero_total (\<lambda>t. Inr \<lparr>rp_rows = [], rp_total = t\<rparr>)
     else rbind (report_rows projects by_principal window db) (\<lambda>rows.
          rbind (total_of rows) (\<lambda>t. Inr \<lparr>rp_rows = rows, rp_total = t\<rparr>)))"



section \<open>Facts on sums\<close>

lemma sum_ledger_append:
  "ledger db' = ledger db @ [e] \<Longrightarrow>
     sum_ledger P db' = sum_ledger P db + (if P e then kcu_delta e else 0)"
  by (simp add: sum_ledger_def)

lemma sum_ledger_same: "ledger db' = ledger db \<Longrightarrow> sum_ledger P db' = sum_ledger P db"
  by (simp add: sum_ledger_def)

lemma sum_ledger_cong:
  "(\<And>e. e \<in> set (ledger db) \<Longrightarrow> P e = Q e) \<Longrightarrow> sum_ledger P db = sum_ledger Q db"
  unfolding sum_ledger_def by (metis (mono_tags, lifting) filter_cong)

lemma sum_ledger_none: "(\<And>e. e \<in> set (ledger db) \<Longrightarrow> \<not> P e) \<Longrightarrow> sum_ledger P db = 0"
  by (simp add: sum_ledger_def filter_empty_conv)

lemma sum_list_on_grid:
  "(\<And>x. x \<in> set xs \<Longrightarrow> on_kcu_grid x) \<Longrightarrow> on_kcu_grid (sum_list xs)"
  by (induction xs) auto

definition ledger_on_grid :: "Db \<Rightarrow> bool" where
  "ledger_on_grid db = list_all (\<lambda>e. on_kcu_grid (kcu_delta e)) (ledger db)"

definition ledger_volume :: "Db \<Rightarrow> rat" where
  "ledger_volume db = sum_list (map (\<lambda>e. \<bar>kcu_delta e\<bar>) (ledger db))"

lemma sum_ledger_on_grid: "ledger_on_grid db \<Longrightarrow> on_kcu_grid (sum_ledger P db)"
  unfolding sum_ledger_def by (rule sum_list_on_grid) (auto simp: ledger_on_grid_def list_all_iff)

lemma abs_sum_filter_le: "\<bar>sum_list (map f (filter P xs))\<bar> \<le> sum_list (map (\<lambda>x. \<bar>f x :: rat\<bar>) xs)"
  by (induction xs) auto

lemma sum_ledger_bound: "\<bar>sum_ledger P db\<bar> \<le> ledger_volume db"
  unfolding sum_ledger_def ledger_volume_def by (rule abs_sum_filter_le)

text \<open>Summing group by group visits every keyed row once.\<close>

lemma sum_over_groups:
  assumes "distinct gs" "\<And>e. e \<in> set xs \<Longrightarrow> P e \<Longrightarrow> \<exists>g\<in>set gs. k e = Some g"
  shows "sum_list (map (\<lambda>g. sum_list (map f (filter (\<lambda>e. P e \<and> k e = Some g) xs))) gs) =
    sum_list (map (f :: _ \<Rightarrow> rat) (filter P xs))"
  using assms(2)
proof (induction xs)
  case (Cons e xs)
  have one: "sum_list (map (\<lambda>g. if k e = Some g then v else 0) gs) =
      (if \<exists>g\<in>set gs. k e = Some g then v else (0::rat))" for v
    using assms(1) by (induction gs) auto
  have "sum_list (map (\<lambda>g. sum_list (map f (filter (\<lambda>e. P e \<and> k e = Some g) (e # xs)))) gs) =
      sum_list (map (\<lambda>g. (if k e = Some g then (if P e then f e else 0) else 0) +
        sum_list (map f (filter (\<lambda>e. P e \<and> k e = Some g) xs))) gs)"
    by (rule arg_cong [where f = sum_list], rule map_cong) auto
  also have "\<dots> = (if P e then f e else 0) + sum_list (map f (filter P xs))"
    using Cons by (simp add: sum_list_addf one)
  finally show ?case by simp
qed simp


section \<open>Facts on the writers\<close>

lemma charge_sel [simp]:
  "bud_project (charge clk d b) = bud_project b"
  "spent_kcu (charge clk d b) = spent_kcu b + d"
  "limit_kcu (charge clk d b) = limit_kcu b"
  by (simp_all add: charge_def)

lemma write_delta_Inr:
  assumes "write_delta lid al et d db = Inr db'"
  obtains e where "le_id e = lid" "le_project e = project al" "le_allocation_id e = oid al"
    "event_type e = et" "kcu_delta e = d" "le_ts e = db_clock db" "lid \<notin> le_id ` set (ledger db)"
    "has_budget (project al) db" "oid al \<in> oid ` set (allocations db)"
    "db' = db\<lparr>ledger := ledger db @ [e],
              budgets := tbl_update bud_project (project al) (charge (db_clock db) d) (budgets db)\<rparr>"
proof -
  obtain cc where cc: "ledger_cost_class al db = Inr cc" using assms by (auto simp: write_delta_def)
  let ?e = "\<lparr>le_id = lid, le_ts = db_clock db, le_project = project al,
       le_allocation_id = oid al, le_resource_id = resource_id al,
       le_cost_class = cc, event_type = et, kcu_delta = d, le_note = None\<rparr>"
  have "lid \<notin> le_id ` set (ledger db) \<and> has_budget (project al) db \<and>
    oid al \<in> oid ` set (allocations db) \<and>
    db' = db\<lparr>ledger := ledger db @ [?e],
              budgets := tbl_update bud_project (project al) (charge (db_clock db) d) (budgets db)\<rparr>"
    using assms cc
    by (auto simp: write_delta_def LEDGER_insert_def apply_to_spent_def Let_def tbl_insert_def
        has_budget_def fk_def split: if_splits)
  with that [of ?e] show thesis by simp
qed

lemma reconcile_Inr:
  assumes "reconcile lid al db = Inr (db', d)"
  obtains (unmetered) "\<not> has_budget (project al) db" "db' = db" "d = 0"
  | (metered) actual diff where "has_budget (project al) db" "actual_cost al db = Inr actual"
      "dec_sub actual (reserved_sum (oid al) db) = Inr diff" "quantize_kcu diff = Inr d"
      "write_delta lid al RECONCILED d db = Inr db'"
  using assms by (auto simp: reconcile_def split: if_splits)

text \<open>
  The running total and the ledger agree: each budget row's spend is the sum of
  its project's ledger rows, and only budgeted projects have ledger rows.
\<close>

definition balanced :: "Db \<Rightarrow> bool" where
  "balanced db \<longleftrightarrow> distinct (map bud_project (budgets db)) \<and>
    list_all (\<lambda>b. spent_kcu b = sum_ledger (\<lambda>e. le_project e = bud_project b) db) (budgets db) \<and>
    list_all (\<lambda>e. le_project e \<in> bud_project ` set (budgets db)) (ledger db)"

lemma write_delta_balanced:
  assumes "balanced db" "write_delta lid al et d db = Inr db'"
  shows "balanced db'"
proof -
  obtain e where e: "le_project e = project al" "kcu_delta e = d" "has_budget (project al) db"
      and db': "db' = db\<lparr>ledger := ledger db @ [e],
              budgets := tbl_update bud_project (project al) (charge (db_clock db) d) (budgets db)\<rparr>"
    using assms(2) by (rule write_delta_Inr)
  have l: "ledger db' = ledger db @ [e]" by (simp add: db')
  have b: "budgets db' = tbl_update bud_project (project al) (charge (db_clock db) d) (budgets db)"
    by (simp add: db')
  have keys: "map bud_project (budgets db') = map bud_project (budgets db)"
    unfolding b by (rule tbl.upd_keys) simp
  then have "bud_project ` set (budgets db') = bud_project ` set (budgets db)" by (metis list.set_map)
  moreover have "project al \<in> bud_project ` set (budgets db)"
    using e(3) by (auto simp: has_budget_def tbl_get_None_iff)
  moreover have "spent_kcu b' = sum_ledger (\<lambda>e. le_project e = bud_project b') db'"
    if b': "b' \<in> set (budgets db')" for b'
  proof -
    obtain b where b: "b \<in> set (budgets db)"
        "b' = (if bud_project b = project al then charge (db_clock db) d b else b)"
      using b' unfolding b tbl_update_def by auto
    then have p: "bud_project b' = bud_project b" by simp
    have "spent_kcu b = sum_ledger (\<lambda>e. le_project e = bud_project b) db"
      using assms(1) b(1) by (simp add: balanced_def list_all_iff)
    then show ?thesis unfolding p sum_ledger_append [OF l] using b(2) e(1,2) by simp
  qed
  ultimately show ?thesis
    using assms(1) keys e(1) l by (auto simp: balanced_def list_all_iff)
qed

lemma reserve_balanced: "balanced db \<Longrightarrow> reserve lid al x db = Inr db' \<Longrightarrow> balanced db'"
  by (auto simp: reserve_def intro: write_delta_balanced)

lemma reconcile_balanced: "balanced db \<Longrightarrow> reconcile lid al db = Inr (db', d) \<Longrightarrow> balanced db'"
  by (erule reconcile_Inr) (auto intro: write_delta_balanced)

lemma balanced_cong:
  "ledger db' = ledger db \<Longrightarrow> budgets db' = budgets db \<Longrightarrow> balanced db' = balanced db"
  by (simp add: balanced_def sum_ledger_def)



section \<open>Settlement\<close>

lemma round_sig_error:
  assumes "1 < b" "\<bar>x\<bar> < rat_of_nat b powi e"
  shows "\<bar>x - round_sig b p x\<bar> \<le> rat_of_nat b powi (e - int p) / 2"
proof (cases "x = 0")
  case False
  let ?u = "rat_of_nat b powi (ilog b \<bar>x\<bar> - int p + 1)"
  have b: "1 < rat_of_nat b" using assms(1) by simp
  have u: "0 < ?u" using b by (simp add: zero_less_power_int)
  have "rat_of_nat b powi ilog b \<bar>x\<bar> < rat_of_nat b powi e"
    using ilog_bounds [OF assms(1), of "\<bar>x\<bar>"] False assms(2) by simp
  then have "ilog b \<bar>x\<bar> < e"
    using power_int_increasing [of e "ilog b \<bar>x\<bar>" "rat_of_nat b"] b by (meson less_imp_le not_le)
  then have le: "?u \<le> rat_of_nat b powi (e - int p)"
    by (intro power_int_increasing) (use b in auto)
  have "x - n * w = (x / w - n) * w" if "0 < w" for n w :: rat
    using that by (simp add: left_diff_distrib)
  from this [OF u] have "\<bar>x - round_sig b p x\<bar> = \<bar>x / ?u - of_int (round_half_even (x / ?u))\<bar> * ?u"
    using False u by (simp add: round_sig_def Let_def abs_mult del: left_diff_distrib)
  also have "\<dots> \<le> 1 / 2 * ?u"
    by (rule mult_right_mono [OF round_half_even_error]) (use u in simp)
  also have "\<dots> \<le> rat_of_nat b powi (e - int p) / 2" using le by simp
  finally show ?thesis .
qed (simp add: round_sig_def)

definition alloc_charge :: "uuid \<Rightarrow> Db \<Rightarrow> rat" where
  "alloc_charge alloc_id db = sum_ledger (\<lambda>e. le_allocation_id e = alloc_id) db"

text \<open>No reconciliation has been written for the allocation yet.\<close>

definition unreconciled :: "uuid \<Rightarrow> Db \<Rightarrow> bool" where
  "unreconciled alloc_id db =
    list_all (\<lambda>e. le_allocation_id e = alloc_id \<longrightarrow> event_type e = RESERVED) (ledger db)"

lemma unreconciled_charge: "unreconciled a db \<Longrightarrow> alloc_charge a db = reserved_sum a db"
  unfolding alloc_charge_def reserved_sum_def
  by (rule sum_ledger_cong) (auto simp: unreconciled_def list_all_iff)

lemma reconcile_charge:
  assumes "reconcile lid al db = Inr (db', d)" "unreconciled (oid al) db"
  shows "alloc_charge (oid al) db' = reserved_sum (oid al) db + d"
  using assms(1)
proof (cases rule: reconcile_Inr)
  case unmetered
  then show ?thesis using unreconciled_charge [OF assms(2)] by simp
next
  case metered
  obtain e where "le_allocation_id e = oid al" "kcu_delta e = d" "ledger db' = ledger db @ [e]"
    using metered(5) by (rule write_delta_Inr) (simp add: that)
  then show ?thesis
    using unreconciled_charge [OF assms(2)] by (simp add: alloc_charge_def sum_ledger_append)
qed

lemma reconcile_diff:
  assumes "dec_sub x y = Inr diff" "\<bar>x\<bar> \<le> 10 ^ 20" "\<bar>y\<bar> \<le> 10 ^ 20" "quantize_kcu diff = Inr d"
  shows "\<bar>x - y - d\<bar> \<le> 1 / 10000"
proof -
  have "\<bar>x - y\<bar> < rat_of_nat 10 powi 21"
    using assms(2,3) by (auto simp: power_int_def abs_if split: if_splits)
  then have "\<bar>(x - y) - round_sig 10 28 (x - y)\<bar> \<le> rat_of_nat 10 powi (21 - int 28) / 2"
    by (rule round_sig_error [rotated]) simp
  moreover have "rat_of_nat 10 powi (21 - int 28) \<le> 1 / 20000"
    by (simp add: power_int_def power_divide)
  moreover have "diff = round_sig 10 28 (x - y)" "d = round_kcu diff"
    using assms(1,4) by (auto simp: dec_sub_def dec_ctx_Inr_iff quantize_kcu_Inr_iff)
  ultimately show ?thesis using round_kcu_error [of diff] by (simp add: abs_if split: if_splits)
qed



section \<open>Rollup arithmetic\<close>

lemma dec_ctx_grid: "on_kcu_grid x \<Longrightarrow> \<bar>x\<bar> < 10 ^ 24 \<Longrightarrow> dec_ctx x = Inr x"
  by (simp add: dec_ctx_small dec_rnd.rnd_exact kcu_grid_representable)

lemma dec_sum_exact:
  assumes "on_kcu_grid acc" "\<And>x. x \<in> set xs \<Longrightarrow> on_kcu_grid x"
    and "\<bar>acc\<bar> + sum_list (map abs xs) < 10 ^ 24"
  shows "dec_sum acc xs = Inr (acc + sum_list xs)"
  using assms
proof (induction xs arbitrary: acc)
  case (Cons x xs)
  have pos: "0 \<le> sum_list (map abs xs)" by (rule sum_list_nonneg) auto
  have "dec_add acc x = Inr (acc + x)"
    unfolding dec_add_def by (rule dec_ctx_grid) (use Cons.prems pos in auto)
  moreover have "dec_sum (acc + x) xs = Inr (acc + x + sum_list xs)"
    by (rule Cons.IH) (use Cons.prems in auto)
  ultimately show ?case by simp
qed simp

lemma map_result_all: "(\<And>x. x \<in> set xs \<Longrightarrow> f x = Inr (h x)) \<Longrightarrow> map_result f xs = Inr (map h xs)"
  by (induction xs) auto

text \<open>
  A ledger whose deltas are on the four-decimal grid, whose total volume is in the
  decimal range and whose rows join their allocations.
\<close>

definition rollup_ok :: "Db \<Rightarrow> bool" where
  "rollup_ok db \<longleftrightarrow> ledger_on_grid db \<and> ledger_volume db < 10 ^ 24 \<and>
    list_all (\<lambda>e. le_allocation_id e \<in> oid ` set (allocations db)) (ledger db)"

definition report_scope ::
  "string list \<Rightarrow> (time option \<times> time option) option \<Rightarrow> LedgerEventType \<Rightarrow> LedgerEntry \<Rightarrow> bool" where
  "report_scope projects window et e \<longleftrightarrow>
    le_project e \<in> set projects \<and> in_window window e \<and> event_type e = et"

lemma report_sum_scope:
  "report_sum projects bp window db et g =
    sum_list (map kcu_delta (filter (\<lambda>e. report_scope projects window et e \<and> group_key bp db e = Some g) (ledger db)))"
  unfolding report_sum_def sum_ledger_def report_scope_def by (metis (lifting))

lemma group_key_covers:
  assumes "rollup_ok db" "e \<in> set (ledger db)" "report_scope projects window et e"
  shows "\<exists>g\<in>set (report_groups projects bp window db). group_key bp db e = Some g"
proof -
  have "ALLOCATIONS_get (le_allocation_id e) db \<noteq> None"
    using assms(1,2) by (auto simp: rollup_ok_def list_all_iff ALLOCATIONS_get_def tbl_get_None_iff)
  then obtain g where "group_key bp db e = Some g" by (cases bp) (auto simp: group_key_def)
  then show ?thesis
    using assms(2,3) by (force simp: report_groups_def List.map_filter_def report_scope_def image_iff)
qed

lemma report_partition:
  assumes "rollup_ok db"
  shows "sum_list (map (\<lambda>g. sum_list (map f (filter (\<lambda>e. report_scope projects window et e \<and>
        group_key bp db e = Some g) (ledger db)))) (report_groups projects bp window db)) =
      sum_list (map (f :: _ \<Rightarrow> rat) (filter (report_scope projects window et) (ledger db)))"
proof (rule sum_over_groups)
  show "distinct (report_groups projects bp window db)" by (simp add: report_groups_def)
qed (rule group_key_covers [OF assms])

lemma abs_sum_le: "\<bar>sum_list (map f xs)\<bar> \<le> sum_list (map (\<lambda>x. \<bar>f x :: rat\<bar>) xs)"
  by (induction xs) auto

lemma disjoint_volume:
  assumes "\<And>e. \<not> (P e \<and> Q e)"
  shows "sum_list (map (\<lambda>e. \<bar>kcu_delta e\<bar>) (filter P xs)) + sum_list (map (\<lambda>e. \<bar>kcu_delta e\<bar>) (filter Q xs))
    \<le> sum_list (map (\<lambda>e. \<bar>kcu_delta e\<bar>) xs)"
proof (induction xs)
  case (Cons e xs)
  then show ?case using assms [of e] by auto
qed simp

lemma disjoint_sums:
  assumes "\<And>e. \<not> (P e \<and> Q e)"
  shows "\<bar>sum_ledger P db\<bar> + \<bar>sum_ledger Q db\<bar> \<le> ledger_volume db"
  unfolding sum_ledger_def ledger_volume_def
  by (rule order_trans [OF add_mono [OF abs_sum_le abs_sum_le] disjoint_volume]) (rule assms)


definition exact_row ::
  "string list \<Rightarrow> bool \<Rightarrow> (time option \<times> time option) option \<Rightarrow> Db \<Rightarrow> string \<times> string option \<Rightarrow> RollupRow" where
  "exact_row projects bp window db g =
    \<lparr>ro_project = fst g, ro_principal = snd g,
     ro_reserved = report_sum projects bp window db RESERVED g,
     ro_reconciled = report_sum projects bp window db RECONCILED g,
     ro_variance = report_sum projects bp window db RECONCILED g - report_sum projects bp window db RESERVED g\<rparr>"

definition exact_total ::
  "string list \<Rightarrow> (time option \<times> time option) option \<Rightarrow> Db \<Rightarrow> RollupRow" where
  "exact_total projects window db =
    \<lparr>ro_project = ''*'', ro_principal = None,
     ro_reserved = sum_ledger (report_scope projects window RESERVED) db,
     ro_reconciled = sum_ledger (report_scope projects window RECONCILED) db,
     ro_variance = sum_ledger (report_scope projects window RECONCILED) db
       - sum_ledger (report_scope projects window RESERVED) db\<rparr>"

lemma kcu_exact:
  assumes "on_kcu_grid x" "on_kcu_grid y" "\<bar>x\<bar> + \<bar>y\<bar> < 10 ^ 24"
  shows "quantize_kcu x = Inr x" "dec_sub y x = Inr (y - x)" "quantize_kcu (y - x) = Inr (y - x)"
proof -
  have "\<bar>x\<bar> < 10 ^ 24" "\<bar>y - x\<bar> < 10 ^ 24" using assms(3) by (auto simp: abs_if split: if_splits)
  then show "quantize_kcu x = Inr x" "dec_sub y x = Inr (y - x)" "quantize_kcu (y - x) = Inr (y - x)"
    using assms(1,2) by (auto simp: dec_sub_def intro!: quantize_kcu_grid dec_ctx_grid on_kcu_grid_arith)
qed

lemma report_row_exact:
  assumes "rollup_ok db"
  shows "report_row (report_sum projects bp window db RESERVED g)
      (report_sum projects bp window db RECONCILED g) g = Inr (exact_row projects bp window db g)"
proof -
  have "\<bar>report_sum projects bp window db RESERVED g\<bar> + \<bar>report_sum projects bp window db RECONCILED g\<bar>
      \<le> ledger_volume db"
    unfolding report_sum_def by (rule disjoint_sums) auto
  then have b: "\<bar>report_sum projects bp window db RESERVED g\<bar> + \<bar>report_sum projects bp window db RECONCILED g\<bar>
      < 10 ^ 24" using assms by (simp add: rollup_ok_def)
  have g: "on_kcu_grid (report_sum projects bp window db et g)" for et
    unfolding report_sum_def using assms by (intro sum_ledger_on_grid) (simp add: rollup_ok_def)
  show ?thesis
    using kcu_exact [OF g g b] kcu_exact(1) [OF g g, of RECONCILED RESERVED] b
    by (simp add: report_row_def exact_row_def add.commute)
qed

lemma group_sums_exact:
  assumes "rollup_ok db"
  shows "dec_sum 0 (map (report_sum projects bp window db et) (report_groups projects bp window db)) =
    Inr (sum_ledger (report_scope projects window et) db)"
proof -
  let ?gs = "report_groups projects bp window db"
  have "sum_list (map (\<lambda>g. \<bar>report_sum projects bp window db et g\<bar>) ?gs) \<le>
      sum_list (map (\<lambda>g. sum_list (map (\<lambda>e. \<bar>kcu_delta e\<bar>) (filter (\<lambda>e. report_scope projects window et e \<and>
        group_key bp db e = Some g) (ledger db)))) ?gs)"
    unfolding report_sum_scope by (rule sum_list_mono) (rule abs_sum_le)
  also have "\<dots> = sum_list (map (\<lambda>e. \<bar>kcu_delta e\<bar>) (filter (report_scope projects window et) (ledger db)))"
    using assms by (rule report_partition)
  also have "\<dots> \<le> ledger_volume db"
    using disjoint_volume [of "report_scope projects window et" "\<lambda>_. False" "ledger db"]
    by (simp add: ledger_volume_def)
  finally have "sum_list (map (\<lambda>g. \<bar>report_sum projects bp window db et g\<bar>) ?gs) < 10 ^ 24"
    using assms by (simp add: rollup_ok_def)
  then have "dec_sum 0 (map (report_sum projects bp window db et) ?gs) =
      Inr (0 + sum_list (map (report_sum projects bp window db et) ?gs))"
    using assms by (intro dec_sum_exact)
      (auto simp: comp_def report_sum_def rollup_ok_def intro!: sum_ledger_on_grid on_kcu_grid_arith)
  then show ?thesis
    using report_partition [OF assms, of kcu_delta projects window et bp]
    by (simp add: report_sum_scope [abs_def] sum_ledger_def)
qed



section \<open>Properties\<close>

lemma LEDGER_insert_ok:
  assumes "fk oid (allocations db) (Some (le_allocation_id e))" "fk oid (resources db) (le_resource_id e)"
    and "le_id e \<notin> le_id ` set (ledger db)"
  shows "LEDGER_insert e db = Inr (db\<lparr>ledger := ledger db @ [e\<lparr>le_ts := db_clock db\<rparr>]\<rparr>)"
proof -
  have "tbl_insert le_id (e\<lparr>le_ts := db_clock db\<rparr>) (ledger db) =
      Inr (ledger db @ [e\<lparr>le_ts := db_clock db\<rparr>])"
    unfolding tbl_insert_def using assms(3) by simp
  then show ?thesis unfolding LEDGER_insert_def Let_def using assms(1,2) by simp
qed

lemma write_delta_total:
  assumes "has_budget (project al) db" "resource_id al = Some r" "tbl_get oid r (resources db) = Some res"
    and "oid al \<in> oid ` set (allocations db)" "lid \<notin> le_id ` set (ledger db)"
  shows "\<exists>db'. write_delta lid al et d db = Inr db'"
proof -
  have r: "fk oid (resources db) (Some r)"
    using tbl_get_None_iff [of oid r "resources db"] assms(3) by (simp add: fk_def)
  have a: "fk oid (allocations db) (Some (oid al))" unfolding fk_def using assms(4) by simp
  have cls: "ledger_cost_class al db = Inr (res_cost_class res)"
    unfolding ledger_cost_class_def using assms(2,3) by simp
  have bud: "has_budget (project al) (db\<lparr>ledger := x\<rparr>)" for x
    using assms(1) by (simp add: has_budget_def)
  show ?thesis
    unfolding write_delta_def cls rbind.simps apply_to_spent_def
    using assms(2,5) r a bud by (subst LEDGER_insert_ok) simp_all
qed

lemma reconcile_never_active:
  assumes "active_started_at al = None" "has_budget (project al) db" "unreconciled (oid al) db"
    and "resource_id al = Some r" "tbl_get oid r (resources db) = Some res"
    and "oid al \<in> oid ` set (allocations db)" "lid \<notin> le_id ` set (ledger db)"
    and "ledger_on_grid db" "\<bar>reserved_sum (oid al) db\<bar> < 10 ^ 24"
  shows "\<exists>db'. reconcile lid al db = Inr (db', - reserved_sum (oid al) db) \<and>
    alloc_charge (oid al) db' = 0 \<and>
    fst (budget_totals (project al) db') = fst (budget_totals (project al) db) - reserved_sum (oid al) db"
proof -
  let ?R = "reserved_sum (oid al) db"
  have g: "on_kcu_grid ?R" unfolding reserved_sum_def by (rule sum_ledger_on_grid [OF assms(8)])
  have q: "dec_sub 0 ?R = Inr (- ?R)" "quantize_kcu (- ?R) = Inr (- ?R)"
    using kcu_exact(2,3) [OF g, of 0] assms(9) by (auto intro: on_kcu_grid_arith)
  have actual: "actual_cost al db = Inr 0" by (simp add: actual_cost_def active_hours_def assms(1))
  obtain b where b: "tbl_get bud_project (project al) (budgets db) = Some b"
    using assms(2) by (auto simp: has_budget_def)
  obtain db' where w: "write_delta lid al RECONCILED (- ?R) db = Inr db'"
    using write_delta_total [OF assms(2,4-7)] by blast
  have rec: "reconcile lid al db = Inr (db', - ?R)"
    using assms(2) q actual w by (simp add: reconcile_def)
  moreover have "alloc_charge (oid al) db' = 0"
    using reconcile_charge [OF rec assms(3)] by simp
  moreover have "fst (budget_totals (project al) db') = fst (budget_totals (project al) db) - ?R"
    using w by (rule write_delta_Inr) (simp add: budget_totals_def tbl_get_update b)
  ultimately show ?thesis by blast
qed

text \<open>A small database: one host, one project with a budget, one allocation holding a reservation.\<close>

definition empty_db :: Db where
  "empty_db = \<lparr>db_clock = 0, resources = [], allocations = [], systems = [], runs = [], debug_sessions = [],
    jobs = [], cost_class_coefficients = [\<lparr>cc_cost_class = ''local'', coeff = 1, cc_updated_at = 0\<rparr>],
    budgets = [], quotas = [], system_shapes = [], ledger = [], idempotency_keys = [], audit_log = [],
    platform_audit_log = [], run_steps = [], build_hosts = [], build_host_leases = [], queue_paused = False,
    artifacts = [], upload_manifests = []\<rparr>"

definition example_host :: Resource where
  "example_host = \<lparr>oid = 1, created_at = 0, updated_at = 0, res_kind = LOCAL_LIBVIRT,
    capabilities = JObj [(''vcpus'', JInt 16), (''memory_mb'', JInt 65536), (''concurrent_allocation_cap'', JInt 2)],
    pool = ''lab'', res_cost_class = ''local'', res_status = AVAILABLE, host_uri = ''qemu'', cordoned = False,
    res_managed_by = ByConfig, res_name = None, owner_project = None, affinity_allowlist = [],
    res_lease_expires_at = None\<rparr>"

definition example_alloc :: Allocation where
  "example_alloc = \<lparr>oid = 10, created_at = 0, updated_at = 0, principal = ''alice'', agent_session = None,
    project = ''kernel'', resource_id = Some 1, al_state = AllocationState.GRANTED, lease_expiry = Some 14400000000,
    capability_scope = JObj [], requested_vcpus = Some 4, requested_memory_gb = Some 8, requested_disk_gb = None,
    al_shape = None, active_started_at = None, active_ended_at = None, pcie_claim = [], requested_pcie_specs = [],
    requested_kind = None, requested_resource_id = None\<rparr>"

definition example_reserved :: LedgerEntry where
  "example_reserved = \<lparr>le_id = 100, le_ts = 0, le_project = ''kernel'', le_allocation_id = 10,
    le_resource_id = Some 1, le_cost_class = ''local'', event_type = RESERVED, kcu_delta = 24, le_note = None\<rparr>"

definition example_db :: Db where
  "example_db = empty_db\<lparr>resources := [example_host], allocations := [example_alloc],
    budgets := [\<lparr>bud_project = ''kernel'', limit_kcu = 100, spent_kcu = 24, bud_updated_at = 0\<rparr>],
    quotas := [\<lparr>quo_project = ''kernel'', max_concurrent_allocations = 2, max_concurrent_systems = 2,
                max_pending_allocations = 1, quo_updated_at = 0\<rparr>],
    ledger := [example_reserved]\<rparr>"

lemmas example_defs = example_db_def empty_db_def example_host_def example_alloc_def example_reserved_def

text \<open>
  C27. Reconciliation settles the allocation at its actual cost: once it has run on an
  allocation of a metered project with no earlier reconciliation, all the
  allocation's ledger rows together sum to \<open>rate * active hours\<close>, up to a tenth of a
  milli-kcu, however many reservations and renewals were written.
\<close>

theorem reconcile_settles:
  assumes "reconcile lid al db = Inr (db', d)" "has_budget (project al) db" "unreconciled (oid al) db"
    and "actual_cost al db = Inr actual" "\<bar>actual\<bar> \<le> 10 ^ 20" "\<bar>reserved_sum (oid al) db\<bar> \<le> 10 ^ 20"
  shows "\<bar>actual - alloc_charge (oid al) db'\<bar> \<le> 1 / 10000"
  using assms(1)
proof (cases rule: reconcile_Inr)
  case (metered actual' diff)
  then have "\<bar>actual - reserved_sum (oid al) db - d\<bar> \<le> 1 / 10000"
    using assms(4-6) by (intro reconcile_diff) auto
  then show ?thesis by (simp add: reconcile_charge [OF assms(1,3)] diff_diff_eq)
qed (use assms(2) in simp)

text \<open>
  C28. An allocation that never went active is credited in full: reconciliation
  succeeds, writes exactly minus the reserved sum and leaves the allocation with a
  charge of zero, and its project's spend drops by what was reserved.
\<close>

theorem never_active_full_credit:
  assumes "active_started_at al = None" "has_budget (project al) db" "unreconciled (oid al) db"
    and "resource_id al = Some r" "tbl_get oid r (resources db) = Some res"
    and "oid al \<in> oid ` set (allocations db)" "lid \<notin> le_id ` set (ledger db)"
    and "ledger_on_grid db" "\<bar>reserved_sum (oid al) db\<bar> < 10 ^ 24"
  shows "\<exists>db'. reconcile lid al db = Inr (db', - reserved_sum (oid al) db) \<and>
    alloc_charge (oid al) db' = 0 \<and>
    fst (budget_totals (project al) db') = fst (budget_totals (project al) db) - reserved_sum (oid al) db"
  using assms by (rule reconcile_never_active)

theorem never_active_full_credit_witness:
  "\<exists>db'. reconcile 101 example_alloc example_db = Inr (db', - 24) \<and> alloc_charge 10 db' = 0 \<and>
     fst (budget_totals ''kernel'' db') = 0"
  using never_active_full_credit [of example_alloc example_db 1 example_host 101]
  by (simp add: example_defs has_budget_def unreconciled_def tbl_get_def ledger_on_grid_def on_kcu_grid_def
      reserved_sum_def sum_ledger_def budget_totals_def)

theorem reconcile_settles_witness:
  "\<exists>db' d. reconcile 101 example_alloc example_db = Inr (db', d) \<and> \<bar>0 - alloc_charge 10 db'\<bar> \<le> 1 / 10000"
proof -
  obtain db' d where r: "reconcile 101 example_alloc example_db = Inr (db', d)"
    using reconcile_never_active [of example_alloc example_db 1 example_host 101]
    by (auto simp: example_defs has_budget_def unreconciled_def tbl_get_def ledger_on_grid_def on_kcu_grid_def
      reserved_sum_def sum_ledger_def)
  have "\<bar>0 - alloc_charge (oid example_alloc) db'\<bar> \<le> 1 / 10000"
    by (rule reconcile_settles [OF r]) (simp_all add: example_defs has_budget_def unreconciled_def
      tbl_get_def reserved_sum_def sum_ledger_def actual_cost_def active_hours_def)
  then show ?thesis using r by (auto simp: example_defs)
qed


lemma report_exact:
  assumes "rollup_ok db"
  shows "report projects bp window db = Inr
    \<lparr>rp_rows = map (exact_row projects bp window db) (report_groups projects bp window db),
     rp_total = exact_total projects window db\<rparr>"
proof (cases "projects = []")
  case True
  have "report_groups [] bp window db = []" by (simp add: report_groups_def List.map_filter_def)
  moreover have "exact_total [] window db = \<lparr>ro_project = ''*'', ro_principal = None, ro_reserved = 0,
      ro_reconciled = 0, ro_variance = 0\<rparr>"
    by (simp add: exact_total_def report_scope_def sum_ledger_def)
  moreover have "quantize_kcu 0 = Inr 0" by (rule quantize_kcu_grid) auto
  ultimately show ?thesis using True by (simp add: report_def zero_total_def)
next
  case False
  have rows: "report_rows projects bp window db = Inr (map (exact_row projects bp window db)
      (report_groups projects bp window db))"
    unfolding report_rows_def by (rule map_result_all) (rule report_row_exact [OF assms])
  let ?S = "\<lambda>et. sum_ledger (report_scope projects window et) db"
  have "\<bar>?S RESERVED\<bar> + \<bar>?S RECONCILED\<bar> \<le> ledger_volume db"
    by (rule disjoint_sums) (auto simp: report_scope_def)
  then have b: "\<bar>?S RESERVED\<bar> + \<bar>?S RECONCILED\<bar> < 10 ^ 24" using assms by (simp add: rollup_ok_def)
  have g: "on_kcu_grid (?S et)" for et
    using assms by (intro sum_ledger_on_grid) (simp add: rollup_ok_def)
  have s: "dec_sum 0 (map (\<lambda>x. report_sum projects bp window db et x) (report_groups projects bp window db)) = Inr (?S et)" for et
    using group_sums_exact [OF assms] by simp
  have "total_of (map (exact_row projects bp window db) (report_groups projects bp window db)) =
      Inr (exact_total projects window db)"
    using kcu_exact [OF g g b] kcu_exact(1) [OF g g, of RECONCILED RESERVED] b s
    by (simp add: total_of_def exact_total_def exact_row_def comp_def add.commute)
  then show ?thesis using False rows by (simp add: report_def)
qed

text \<open>
  C32. The usage report adds up: on a ledger of quantized deltas in the decimal range
  the report always succeeds, its total row is the exact sum of the reserved and of
  the reconciled rows of the requested projects inside the window, the same whether
  or not the rows are broken down by principal, and its variance is the difference.
\<close>

theorem report_totals_agree:
  assumes "rollup_ok db"
  shows "\<exists>r r'. report projects True window db = Inr r \<and> report projects False window db = Inr r' \<and>
    rp_total r = rp_total r' \<and>
    ro_reserved (rp_total r) = sum_ledger (\<lambda>e. le_project e \<in> set projects \<and> in_window window e \<and>
      event_type e = RESERVED) db \<and>
    ro_reconciled (rp_total r) = sum_ledger (\<lambda>e. le_project e \<in> set projects \<and> in_window window e \<and>
      event_type e = RECONCILED) db \<and>
    ro_variance (rp_total r) = ro_reconciled (rp_total r) - ro_reserved (rp_total r) \<and>
    sum_list (map ro_reserved (rp_rows r)) = ro_reserved (rp_total r) \<and>
    sum_list (map ro_reconciled (rp_rows r)) = ro_reconciled (rp_total r)"
proof -
  have s: "sum_list (map (\<lambda>g. report_sum projects True window db et g) (report_groups projects True window db)) =
      sum_ledger (report_scope projects window et) db" for et
    using report_partition [OF assms, of kcu_delta projects window et True]
    by (simp add: report_sum_scope sum_ledger_def)
  have e: "sum_ledger (\<lambda>e. le_project e \<in> set projects \<and> in_window window e \<and> event_type e = et) db =
      sum_ledger (report_scope projects window et) db" for et
    by (rule sum_ledger_cong) (simp add: report_scope_def)
  show ?thesis
    unfolding report_exact [OF assms] e using s
    by (simp add: exact_total_def exact_row_def comp_def)
qed

theorem report_totals_agree_witness:
  "\<exists>r. report [''kernel''] True None example_db = Inr r \<and> ro_reserved (rp_total r) = 24 \<and>
     ro_reconciled (rp_total r) = 0"
proof -
  have "rollup_ok example_db"
    by (simp add: rollup_ok_def ledger_on_grid_def ledger_volume_def on_kcu_grid_def example_defs)
  from report_totals_agree [OF this, of "[''kernel'']" None] show ?thesis
    by (auto simp: sum_ledger_def in_window_def example_defs)
qed

end
