(* ===== verification/Admission.thy ===== *)
theory Admission
  imports Ledger
begin

text \<open>
  Allocation admission: \<open>services/allocation/\<close> \<open>admission.py\<close>, \<open>idempotency.py\<close>,
  \<open>affinity.py\<close>, \<open>pcie_claim.py\<close>, \<open>placement.py\<close>, \<open>sizing.py\<close> and
  \<open>request.py\<close>.  The advisory locks the code holds make each admission one atomic
  step on the database.  \<open>Env\<close> carries what the process reads from outside: the
  lease settings, the Python clock and the identifiers \<open>uuid4\<close> returns.
\<close>

section \<open>Requests and outcomes\<close>

record Env =
  lease_default :: "string option"
  lease_max :: "string option"
  utcnow :: time
  new_allocation_id :: uuid
  new_ledger_id :: uuid

datatype OnCapacity = Deny | Queue

record AllocationRequest =
  ar_ctx :: RequestContext
  ar_resource :: Resource
  ar_project :: string
  ar_selector :: Selector
  ar_window :: "string option"
  ar_idempotency_key :: "string option"
  ar_disk_gb :: "int option"
  ar_shape :: "string option"
  ar_pcie_specs :: "string list"
  ar_on_capacity :: OnCapacity
  ar_requested_kind :: "ResourceKind option"
  ar_requested_resource_id :: "uuid option"

record AdmissionOutcome =
  granted :: bool
  oc_allocation :: "Allocation option"
  category :: "ErrorCategory option"
  reason :: "string option"
  oc_cap :: "int option"
  in_use :: "int option"
  queueable :: bool

definition denial :: "ErrorCategory \<Rightarrow> bool \<Rightarrow> AdmissionOutcome" where
  "denial c q = \<lparr>granted = False, oc_allocation = None, category = Some c, reason = None,
    oc_cap = None, in_use = None, queueable = q\<rparr>"

definition grant_outcome :: "Allocation \<Rightarrow> AdmissionOutcome" where
  "grant_outcome a = \<lparr>granted = True, oc_allocation = Some a, category = None, reason = None,
    oc_cap = None, in_use = None, queueable = False\<rparr>"

definition OCCUPYING :: "AllocationState list" where
  "OCCUPYING = [AllocationState.GRANTED, AllocationState.ACTIVE, AllocationState.RELEASING]"

definition REQUEST_KIND :: string where "REQUEST_KIND = ''allocations.request''"


section \<open>Affinity and budget\<close>

definition project_may_place :: "Resource \<Rightarrow> string \<Rightarrow> bool" where
  "project_may_place resource p =
    (case owner_project resource of
       None \<Rightarrow> True
     | Some owner \<Rightarrow> p = owner \<or> p \<in> set (affinity_allowlist resource))"

definition within_budget :: "string \<Rightarrow> rat \<Rightarrow> Db \<Rightarrow> exn + bool" where
  "within_budget p estimate db =
    (case tbl_get bud_project p (budgets db) of
       None \<Rightarrow> Inr False
     | Some b \<Rightarrow> rbind (dec_sub (limit_kcu b) (spent_kcu b)) (\<lambda>remaining. Inr (estimate \<le> remaining)))"


section \<open>Idempotency\<close>

definition resolve_replay :: "string \<Rightarrow> string \<Rightarrow> string \<Rightarrow> Db \<Rightarrow> exn + Allocation option" where
  "resolve_replay who key kind db =
    (case find (\<lambda>r. ik_principal r = who \<and> ik_key r = key \<and> ik_kind r = kind) (idempotency_keys db) of
       None \<Rightarrow> Inr None
     | Some r \<Rightarrow>
         (case ALLOCATIONS_get (ik_allocation_id r) db of
            None \<Rightarrow> Inl RuntimeError
          | Some a \<Rightarrow> Inr (Some a)))"

definition record_key :: "string \<Rightarrow> string \<Rightarrow> string \<Rightarrow> string \<Rightarrow> uuid \<Rightarrow> Db \<Rightarrow> exn + Db" where
  "record_key who key proj kind alloc_id db =
    (case tbl_insert (\<lambda>r. (ik_principal r, ik_key r))
            \<lparr>ik_key = key, ik_principal = who, ik_project = proj, ik_kind = kind,
             ik_allocation_id = alloc_id, ik_created_at = db_clock db\<rparr> (idempotency_keys db) of
       Inl _ \<Rightarrow> Inl config_error
     | Inr t \<Rightarrow> Inr (db\<lparr>idempotency_keys := t\<rparr>))"


section \<open>PCIe occupancy\<close>

definition NON_TERMINAL_STATES :: "AllocationState list" where
  "NON_TERMINAL_STATES = [AllocationState.REQUESTED, AllocationState.GRANTED, AllocationState.ACTIVE,
    AllocationState.RELEASING]"

definition str_field :: "string \<Rightarrow> json \<Rightarrow> string option" where
  "str_field k entry = (case json_get k entry of Some (JStr s) \<Rightarrow> Some s | _ \<Rightarrow> None)"

definition descriptor_of :: "json \<Rightarrow> PCIeDescriptor option" where
  "descriptor_of entry =
    (case (str_field ''bdf'' entry, str_field ''vendor_id'' entry, str_field ''device_id'' entry,
           str_field ''class_code'' entry, str_field ''label'' entry) of
       (Some b, Some v, Some d, Some c, Some l) \<Rightarrow>
         Some \<lparr>d_bdf = b, d_vendor_id = v, d_device_id = d, d_class_code = c, d_label = l\<rparr>
     | _ \<Rightarrow> None)"

definition descriptors_for :: "Resource \<Rightarrow> PCIeDescriptor list" where
  "descriptors_for resource =
    (case json_get ''pcie_devices'' (capabilities resource) of
       Some (JList raw) \<Rightarrow> List.map_filter descriptor_of raw
     | _ \<Rightarrow> [])"

definition active_claims :: "uuid \<Rightarrow> Db \<Rightarrow> PCIeClaim list" where
  "active_claims r db =
    concat (map pcie_claim (filter (\<lambda>a. resource_id a = Some r \<and> al_state a \<in> set NON_TERMINAL_STATES)
      (allocations db)))"

definition resolve_union ::
  "string list \<Rightarrow> PCIeDescriptor list \<Rightarrow> PCIeClaim list \<Rightarrow> exn + MultisetResolution" where
  "resolve_union specs descriptors claims = resolve_multiset specs descriptors claims"

definition claims_from :: "PCIeDescriptor list \<Rightarrow> PCIeClaim list" where
  "claims_from devices =
    map (\<lambda>d. \<lparr>c_bdf = d_bdf d, c_vendor_id = d_vendor_id d, c_device_id = d_device_id d\<rparr>) devices"

record GateResult =
  gr_denial :: "AdmissionOutcome option"
  gr_devices :: "PCIeClaim list"

definition resolve_pcie_claim :: "AllocationRequest \<Rightarrow> Db \<Rightarrow> exn + GateResult" where
  "resolve_pcie_claim request db =
    (if ar_pcie_specs request = [] then Inr \<lparr>gr_denial = None, gr_devices = []\<rparr>
     else
       rbind (resolve_union (ar_pcie_specs request) (descriptors_for (ar_resource request))
                (active_claims (oid (ar_resource request)) db)) (\<lambda>resolution.
       if mr_outcome resolution = MATCHED
       then Inr \<lparr>gr_denial = None, gr_devices = claims_from (mr_devices resolution)\<rparr>
       else let c = (if mr_outcome resolution = CONFIG then CONFIGURATION_ERROR else ALLOCATION_DENIED);
                q = (mr_outcome resolution = CAPACITY)
            in Inr \<lparr>gr_denial = Some (denial c q), gr_devices = []\<rparr>))"


section \<open>The gate\<close>

definition resolve_cap :: "Resource \<Rightarrow> exn + int" where
  "resolve_cap resource =
    (case json_get ''concurrent_allocation_cap'' (capabilities resource) of
       Some (JInt v) \<Rightarrow> if v < 0 then Inl config_error else Inr v
     | _ \<Rightarrow> Inl config_error)"

definition count_occupying :: "uuid \<Rightarrow> Db \<Rightarrow> int" where
  "count_occupying r db =
    int (count_rows (\<lambda>a. resource_id a = Some r \<and> al_state a \<in> set OCCUPYING) (allocations db))"

definition host_cap_check :: "Resource \<Rightarrow> Db \<Rightarrow> exn + AdmissionOutcome option" where
  "host_cap_check resource db =
    rbind (resolve_cap resource) (\<lambda>cap.
      let n = count_occupying (oid resource) db
      in if cap \<le> n
         then Inr (Some ((denial ALLOCATION_DENIED True)\<lparr>reason := Some ''at_capacity'',
                            oc_cap := Some cap, in_use := Some n\<rparr>))
         else Inr None)"

definition project_occupying :: "string \<Rightarrow> Db \<Rightarrow> int" where
  "project_occupying p db =
    int (count_rows (\<lambda>a. project a = p \<and> al_state a \<in> set OCCUPYING) (allocations db))"

definition within_alloc_quota :: "string \<Rightarrow> Db \<Rightarrow> bool" where
  "within_alloc_quota p db =
    (case tbl_get quo_project p (quotas db) of
       None \<Rightarrow> False
     | Some q \<Rightarrow> project_occupying p db < max_concurrent_allocations q)"

definition project_pending :: "string \<Rightarrow> Db \<Rightarrow> int" where
  "project_pending p db =
    int (count_rows (\<lambda>a. project a = p \<and> al_state a = AllocationState.REQUESTED) (allocations db))"

definition within_pending_quota :: "string \<Rightarrow> Db \<Rightarrow> bool" where
  "within_pending_quota p db =
    (case tbl_get quo_project p (quotas db) of
       None \<Rightarrow> False
     | Some q \<Rightarrow> project_pending p db < max_pending_allocations q)"

definition deny_with :: "AdmissionOutcome \<Rightarrow> exn + GateResult" where
  "deny_with d = Inr \<lparr>gr_denial = Some d, gr_devices = []\<rparr>"

definition admission_gate :: "AllocationRequest \<Rightarrow> rat \<Rightarrow> Db \<Rightarrow> exn + GateResult" where
  "admission_gate request estimate db =
    (if \<not> project_may_place (ar_resource request) (ar_project request)
     then deny_with (denial ALLOCATION_DENIED False)
     else if \<not> within_alloc_quota (ar_project request) db
     then deny_with (denial QUOTA_EXCEEDED True)
     else rbind (within_budget (ar_project request) estimate db) (\<lambda>affordable.
       if \<not> affordable then deny_with (denial ALLOCATION_DENIED False)
       else rbind (host_cap_check (ar_resource request) db) (\<lambda>host.
         case host of
           Some d \<Rightarrow> deny_with d
         | None \<Rightarrow> resolve_pcie_claim request db)))"



section \<open>Admission\<close>

definition price_window_and_estimate :: "Env \<Rightarrow> AllocationRequest \<Rightarrow> Db \<Rightarrow> exn + (rat \<times> rat)" where
  "price_window_and_estimate env request db =
    rbind (configured_lease_bounds (lease_default env) (lease_max env)) (\<lambda>bounds.
    rbind (resolve_window_hours bounds (ar_window request)) (\<lambda>window_hours.
    rbind (validate_size (ar_selector request)) (\<lambda>_.
    rbind (validate_against_resource (ar_selector request) (ar_resource request)) (\<lambda>_.
    rbind (resolve_coeff (cost_class_coefficients db) (res_cost_class (ar_resource request))) (\<lambda>c.
    rbind (price c (sel_vcpus (ar_selector request)) (sel_memory_gb (ar_selector request)) window_hours)
      (\<lambda>estimate. Inr (window_hours, estimate)))))))"

text \<open>The row a request writes, before its state, host, lease and devices are filled in.\<close>

definition request_row :: "Env \<Rightarrow> AllocationRequest \<Rightarrow> Allocation" where
  "request_row env request =
    \<lparr>oid = new_allocation_id env, created_at = utcnow env, updated_at = utcnow env,
     principal = ctx_principal (ar_ctx request), agent_session = ctx_agent_session (ar_ctx request),
     project = ar_project request, resource_id = None, al_state = AllocationState.REQUESTED,
     lease_expiry = None, capability_scope = JObj [],
     requested_vcpus = Some (sel_vcpus (ar_selector request)),
     requested_memory_gb = Some (sel_memory_gb (ar_selector request)),
     requested_disk_gb = ar_disk_gb request, al_shape = ar_shape request,
     active_started_at = None, active_ended_at = None, pcie_claim = [], requested_pcie_specs = [],
     requested_kind = None, requested_resource_id = None\<rparr>"

definition record_key_if :: "AllocationRequest \<Rightarrow> uuid \<Rightarrow> Db \<Rightarrow> exn + Db" where
  "record_key_if request alloc_id db =
    (case ar_idempotency_key request of
       None \<Rightarrow> Inr db
     | Some key \<Rightarrow> record_key (ctx_principal (ar_ctx request)) key (ar_project request) REQUEST_KIND alloc_id db)"

definition request_event :: "AllocationRequest \<Rightarrow> uuid \<Rightarrow> string \<Rightarrow> AuditEvent" where
  "request_event request alloc_id transition =
    \<lparr>ev_tool = ''allocations.request'', ev_object_kind = ''allocations'', ev_object_id = alloc_id,
     ev_transition = transition, ev_project = ar_project request\<rparr>"

definition grant ::
  "Env \<Rightarrow> AllocationRequest \<Rightarrow> rat \<Rightarrow> rat \<Rightarrow> PCIeClaim list \<Rightarrow> Db \<Rightarrow> exn + (Db \<times> AdmissionOutcome)" where
  "grant env request window_hours estimate claimed_devices db =
    rbind (add_hours (utcnow env) window_hours) (\<lambda>expiry.
    rbind (ALLOCATIONS_insert ((request_row env request)\<lparr>resource_id := Some (oid (ar_resource request)),
             al_state := AllocationState.GRANTED, lease_expiry := Some expiry,
             pcie_claim := claimed_devices\<rparr>) db) (\<lambda>(db, allocation).
    rbind (reserve (new_ledger_id env) allocation estimate db) (\<lambda>db.
    rbind (record_key_if request (oid allocation) db) (\<lambda>db.
    rbind (audit_record (ar_ctx request) (request_event request (oid allocation) ''->granted'') db) (\<lambda>db.
      Inr (db, grant_outcome allocation))))))"

definition enqueue :: "Env \<Rightarrow> AllocationRequest \<Rightarrow> Db \<Rightarrow> exn + (Db \<times> AdmissionOutcome)" where
  "enqueue env request db =
    (if \<not> within_pending_quota (ar_project request) db then Inr (db, denial QUOTA_EXCEEDED False)
     else
       rbind (ALLOCATIONS_insert ((request_row env request)
                \<lparr>requested_pcie_specs := ar_pcie_specs request, requested_kind := ar_requested_kind request,
                 requested_resource_id := ar_requested_resource_id request\<rparr>) db) (\<lambda>(db, allocation).
       rbind (record_key_if request (oid allocation) db) (\<lambda>db.
       rbind (audit_record (ar_ctx request) (request_event request (oid allocation) ''->requested'') db) (\<lambda>db.
         Inr (db, grant_outcome allocation)))))"

definition deny_or_enqueue ::
  "Env \<Rightarrow> AllocationRequest \<Rightarrow> AdmissionOutcome \<Rightarrow> Db \<Rightarrow> exn + (Db \<times> AdmissionOutcome)" where
  "deny_or_enqueue env request d db =
    (if ar_on_capacity request \<noteq> Queue \<or> \<not> queueable d then Inr (db, d) else enqueue env request db)"

definition replay_of :: "AllocationRequest \<Rightarrow> Db \<Rightarrow> exn + Allocation option" where
  "replay_of request db =
    (case ar_idempotency_key request of
       None \<Rightarrow> Inr None
     | Some key \<Rightarrow> resolve_replay (ctx_principal (ar_ctx request)) key REQUEST_KIND db)"

definition admit_under_project_lock ::
  "Env \<Rightarrow> AllocationRequest \<Rightarrow> rat \<Rightarrow> rat \<Rightarrow> Db \<Rightarrow> exn + (Db \<times> AdmissionOutcome)" where
  "admit_under_project_lock env request window_hours estimate db =
    rbind (replay_of request db) (\<lambda>replay.
      case replay of
        Some a \<Rightarrow>
          if project a \<noteq> ar_project request then Inr (db, denial CONFIGURATION_ERROR False)
          else Inr (db, grant_outcome a)
      | None \<Rightarrow>
          rbind (admission_gate request estimate db) (\<lambda>gate.
            case gr_denial gate of
              Some d \<Rightarrow> deny_or_enqueue env request d db
            | None \<Rightarrow> grant env request window_hours estimate (gr_devices gate) db))"

text \<open>A categorized error becomes a typed denial on the unchanged database.\<close>

definition categorized_denial ::
  "Db \<Rightarrow> exn + (Db \<times> AdmissionOutcome) \<Rightarrow> exn + (Db \<times> AdmissionOutcome)" where
  "categorized_denial db result =
    (case result of Inl (CategorizedError c) \<Rightarrow> Inr (db, denial c False) | _ \<Rightarrow> result)"

definition admit :: "Env \<Rightarrow> AllocationRequest \<Rightarrow> Db \<Rightarrow> exn + (Db \<times> AdmissionOutcome)" where
  "admit env request db =
    categorized_denial db
      (rbind (price_window_and_estimate env request db) (\<lambda>(window_hours, estimate).
         admit_under_project_lock env request window_hours estimate db))"


section \<open>Placement and sizing\<close>

record PlacementRequest =
  pl_resource_id :: "uuid option"
  pl_kind :: "ResourceKind option"
  pl_pcie_specs :: "string list"
  pl_project :: "string option"

record PlacementCandidates =
  pc_resources :: "Resource list"
  capacity_candidate :: "Resource option"

definition affinity_ok :: "Resource \<Rightarrow> string option \<Rightarrow> bool" where
  "affinity_ok resource p = (case p of None \<Rightarrow> True | Some proj \<Rightarrow> project_may_place resource proj)"

definition schedulable_candidates ::
  "uuid option \<Rightarrow> ResourceKind option \<Rightarrow> string option \<Rightarrow> Db \<Rightarrow> Resource list" where
  "schedulable_candidates rid kind p db =
    (case rid of
       Some r \<Rightarrow>
         (case tbl_get oid r (resources db) of
            None \<Rightarrow> []
          | Some res \<Rightarrow>
              if cordoned res \<or> res_status res \<noteq> AVAILABLE then []
              else if affinity_ok res p then [res] else [])
     | None \<Rightarrow>
         (case kind of
            None \<Rightarrow> []
          | Some k \<Rightarrow>
              filter (\<lambda>res. affinity_ok res p)
                (sort_key created_at (sort_key oid
                  (filter (\<lambda>res. res_kind res = k \<and> res_status res = AVAILABLE \<and> \<not> cordoned res)
                    (resources db))))))"

fun place_loop ::
  "string list \<Rightarrow> Db \<Rightarrow> Resource list \<Rightarrow> PlacementCandidates \<Rightarrow> exn + PlacementCandidates" where
  "place_loop specs db [] acc = Inr acc"
| "place_loop specs db (candidate # rest) acc =
    rbind (resolve_union specs (descriptors_for candidate) (active_claims (oid candidate) db)) (\<lambda>resolution.
      if mr_outcome resolution = MATCHED
      then place_loop specs db rest (acc\<lparr>pc_resources := pc_resources acc @ [candidate]\<rparr>)
      else if mr_outcome resolution = CAPACITY \<and> capacity_candidate acc = None
      then place_loop specs db rest (acc\<lparr>capacity_candidate := Some candidate\<rparr>)
      else place_loop specs db rest acc)"

definition resolve_placement_candidates :: "PlacementRequest \<Rightarrow> Db \<Rightarrow> exn + PlacementCandidates" where
  "resolve_placement_candidates request db =
    (let candidates = schedulable_candidates (pl_resource_id request) (pl_kind request) (pl_project request) db
     in if pl_pcie_specs request = [] then Inr \<lparr>pc_resources = candidates, capacity_candidate = None\<rparr>
        else place_loop (pl_pcie_specs request) db candidates \<lparr>pc_resources = [], capacity_candidate = None\<rparr>)"

record ShapeSizing =
  ss_vcpus :: int
  ss_memory_mb :: int
  ss_disk_gb :: int
  ss_pcie_match :: "string option"

definition resolve_shape :: "string \<Rightarrow> Db \<Rightarrow> exn + ShapeSizing" where
  "resolve_shape name db =
    (case tbl_get shape_name name (system_shapes db) of
       None \<Rightarrow> Inl config_error
     | Some s \<Rightarrow> Inr \<lparr>ss_vcpus = shape_vcpus s, ss_memory_mb = shape_memory_mb s,
                        ss_disk_gb = shape_disk_gb s, ss_pcie_match = shape_pcie_match s\<rparr>)"

definition resolve_request_sizing ::
  "string option \<Rightarrow> int option \<Rightarrow> int option \<Rightarrow> int option \<Rightarrow> Db \<Rightarrow> exn + ResolvedSizing" where
  "resolve_request_sizing shape vcpus memory_gb disk_gb db =
    (case shape of
       Some name \<Rightarrow>
         rbind (resolve_shape name db) (\<lambda>s.
           Inr \<lparr>rs_vcpus = ss_vcpus s, rs_memory_gb = ss_memory_mb s div MB_PER_GB,
                rs_disk_gb = ss_disk_gb s, rs_pcie_match = ss_pcie_match s, rs_shape = Some name\<rparr>)
     | None \<Rightarrow>
         (case (vcpus, memory_gb, disk_gb) of
            (Some v, Some m, Some d) \<Rightarrow>
              Inr \<lparr>rs_vcpus = v, rs_memory_gb = m, rs_disk_gb = d, rs_pcie_match = None, rs_shape = None\<rparr>
          | _ \<Rightarrow> Inl config_error))"


section \<open>The request service\<close>

record AdmissionRequestSpec =
  sp_resource_id :: "uuid option"
  sp_kind :: ResourceKind
  sp_shape :: "string option"
  sp_vcpus :: "int option"
  sp_memory_gb :: "int option"
  sp_disk_gb :: "int option"
  sp_window :: "string option"
  sp_pcie_devices :: "string list"
  sp_on_capacity :: OnCapacity

record RequestAdmissionResult =
  ra_project :: string
  ra_resource :: "Resource option"
  ra_allocation :: "Allocation option"
  ra_denial :: "AdmissionOutcome option"
  ra_error :: "exn option"
  ra_category :: "ErrorCategory option"

definition compose_pcie_specs :: "AdmissionRequestSpec \<Rightarrow> ResolvedSizing \<Rightarrow> exn + string list" where
  "compose_pcie_specs spec sizing =
    (let specs = sp_pcie_devices spec @ (case rs_pcie_match sizing of None \<Rightarrow> [] | Some s \<Rightarrow> [s])
     in rbind (map_result parse_match_spec specs) (\<lambda>_. Inr specs))"

definition select_target ::
  "uuid option \<Rightarrow> ResourceKind \<Rightarrow> string list \<Rightarrow> string \<Rightarrow> Db \<Rightarrow> exn + Resource option" where
  "select_target rid kind specs p db =
    rbind (resolve_placement_candidates
             \<lparr>pl_resource_id = rid, pl_kind = Some kind, pl_pcie_specs = specs, pl_project = Some p\<rparr> db)
      (\<lambda>candidates.
        case pc_resources candidates of
          r # _ \<Rightarrow> Inr (Some r)
        | [] \<Rightarrow> Inr (capacity_candidate candidates))"

definition empty_result :: "string \<Rightarrow> RequestAdmissionResult" where
  "empty_result p = \<lparr>ra_project = p, ra_resource = None, ra_allocation = None, ra_denial = None,
    ra_error = None, ra_category = None\<rparr>"

definition sized_request ::
  "RequestContext \<Rightarrow> string \<Rightarrow> AdmissionRequestSpec \<Rightarrow> string option \<Rightarrow> ResolvedSizing \<Rightarrow> string list \<Rightarrow>
   Resource \<Rightarrow> AllocationRequest" where
  "sized_request ctx p spec key sizing specs resource =
    \<lparr>ar_ctx = ctx, ar_resource = resource, ar_project = p,
     ar_selector = \<lparr>sel_vcpus = rs_vcpus sizing, sel_memory_gb = rs_memory_gb sizing,
                    sel_cost_class = ''local''\<rparr>,
     ar_window = sp_window spec, ar_idempotency_key = key, ar_disk_gb = Some (rs_disk_gb sizing),
     ar_shape = rs_shape sizing, ar_pcie_specs = specs, ar_on_capacity = sp_on_capacity spec,
     ar_requested_kind = (if sp_resource_id spec \<noteq> None then None else Some (sp_kind spec)),
     ar_requested_resource_id = sp_resource_id spec\<rparr>"

definition request_admission ::
  "Env \<Rightarrow> RequestContext \<Rightarrow> string \<Rightarrow> AdmissionRequestSpec \<Rightarrow> string option \<Rightarrow> Db \<Rightarrow>
   exn + (Db \<times> RequestAdmissionResult)" where
  "request_admission env ctx p spec key db =
    (case rbind (resolve_request_sizing (sp_shape spec) (sp_vcpus spec) (sp_memory_gb spec) (sp_disk_gb spec) db)
            (\<lambda>sizing. rbind (compose_pcie_specs spec sizing) (\<lambda>specs. Inr (sizing, specs))) of
       Inl (CategorizedError c) \<Rightarrow> Inr (db, (empty_result p)\<lparr>ra_error := Some (CategorizedError c)\<rparr>)
     | Inl e \<Rightarrow> Inl e
     | Inr (sizing, specs) \<Rightarrow>
         rbind (select_target (sp_resource_id spec) (sp_kind spec) specs p db) (\<lambda>target.
           case target of
             None \<Rightarrow> Inr (db, (empty_result p)\<lparr>ra_category := Some CONFIGURATION_ERROR\<rparr>)
           | Some resource \<Rightarrow>
               rbind (admit env (sized_request ctx p spec key sizing specs resource) db) (\<lambda>(db', outcome).
                 if granted outcome \<and> oc_allocation outcome \<noteq> None
                 then Inr (db', (empty_result p)\<lparr>ra_resource := Some resource,
                                  ra_allocation := oc_allocation outcome\<rparr>)
                 else Inr (db', (empty_result p)\<lparr>ra_resource := Some resource,
                                  ra_denial := Some outcome\<rparr>))))"

end
