(* ===== verification/Admission_Facts.thy ===== *)
theory Admission_Facts
  imports Admission
begin

text \<open>
  What an admission does to the database, and what it guarantees: the exact effect
  of a grant and of an enqueue, the order of the gate's checks, the bounds a grant
  respects, that a denial writes nothing, and idempotent replay.
\<close>

section \<open>Effects\<close>

lemma quantize_kcu_idem: "quantize_kcu x = Inr y \<Longrightarrow> quantize_kcu y = Inr y"
  by (auto simp: quantize_kcu_Inr_iff kcu_rnd.rnd_exact round_kcu_def)

lemma reserve_Inr:
  assumes "reserve lid al x db = Inr db'" "quantize_kcu x = Inr x"
  obtains e where "le_id e = lid" "le_project e = project al" "le_allocation_id e = oid al"
    "event_type e = RESERVED" "kcu_delta e = x" "le_ts e = db_clock db" "lid \<notin> le_id ` set (ledger db)"
    "has_budget (project al) db"
    "db' = db\<lparr>ledger := ledger db @ [e],
              budgets := tbl_update bud_project (project al) (charge (db_clock db) x) (budgets db)\<rparr>"
  using assms by (auto simp: reserve_def elim: write_delta_Inr)

definition key_row :: "AllocationRequest \<Rightarrow> uuid \<Rightarrow> string \<Rightarrow> time \<Rightarrow> IdempotencyKey" where
  "key_row request alloc_id key clk =
    \<lparr>ik_key = key, ik_principal = ctx_principal (ar_ctx request), ik_project = ar_project request,
     ik_kind = REQUEST_KIND, ik_allocation_id = alloc_id, ik_created_at = clk\<rparr>"

definition key_rows :: "AllocationRequest \<Rightarrow> uuid \<Rightarrow> time \<Rightarrow> IdempotencyKey list" where
  "key_rows request alloc_id clk =
    (case ar_idempotency_key request of None \<Rightarrow> [] | Some key \<Rightarrow> [key_row request alloc_id key clk])"

lemma record_key_if_Inr:
  "record_key_if request k db = Inr db' \<Longrightarrow>
    db' = db\<lparr>idempotency_keys := idempotency_keys db @ key_rows request k (db_clock db)\<rparr> \<and>
    (\<forall>r\<in>set (key_rows request k (db_clock db)). (ik_principal r, ik_key r) \<notin>
       (\<lambda>r. (ik_principal r, ik_key r)) ` set (idempotency_keys db))"
  unfolding record_key_if_def record_key_def key_rows_def key_row_def tbl_insert_def
  by (auto split: option.splits if_splits)

lemma audit_record_Inr:
  assumes "audit_record ctx ev db = Inr db'"
  obtains r where "au_project r = ev_project ev" "au_principal r = ctx_principal ctx"
    "au_transition r = ev_transition ev" "au_object_id r = Some (ev_object_id ev)"
    "ev_project ev \<in> set (ctx_projects ctx)" "db' = db\<lparr>audit_log := audit_log db @ [r]\<rparr>"
proof -
  let ?r = "\<lparr>au_ts = db_clock db, au_principal = ctx_principal ctx,
          au_agent_session = ctx_agent_session ctx,
          au_project = ev_project ev, au_tool = ev_tool ev,
          au_object_kind = Some (ev_object_kind ev), au_object_id = Some (ev_object_id ev),
          au_transition = ev_transition ev, au_reason = None\<rparr>"
  show thesis by (rule that [of ?r]) (use assms in \<open>simp_all add: audit_record_def\<close>)
qed

text \<open>The row a grant inserts.\<close>

definition granted_row :: "Env \<Rightarrow> AllocationRequest \<Rightarrow> time \<Rightarrow> PCIeClaim list \<Rightarrow> time \<Rightarrow> Allocation" where
  "granted_row env request expiry devices clk =
    server_generated clk ((request_row env request)\<lparr>resource_id := Some (oid (ar_resource request)),
      al_state := AllocationState.GRANTED, lease_expiry := Some expiry, pcie_claim := devices\<rparr>)"

lemma granted_row_sel [simp]:
  "oid (granted_row env request expiry devices clk) = new_allocation_id env"
  "project (granted_row env request expiry devices clk) = ar_project request"
  "principal (granted_row env request expiry devices clk) = ctx_principal (ar_ctx request)"
  "resource_id (granted_row env request expiry devices clk) = Some (oid (ar_resource request))"
  "al_state (granted_row env request expiry devices clk) = AllocationState.GRANTED"
  "lease_expiry (granted_row env request expiry devices clk) = Some expiry"
  "pcie_claim (granted_row env request expiry devices clk) = devices"
  "capability_scope (granted_row env request expiry devices clk) = JObj []"
  "active_started_at (granted_row env request expiry devices clk) = None"
  "active_ended_at (granted_row env request expiry devices clk) = None"
  by (simp_all add: granted_row_def request_row_def)

definition queued_row :: "Env \<Rightarrow> AllocationRequest \<Rightarrow> time \<Rightarrow> Allocation" where
  "queued_row env request clk =
    server_generated clk ((request_row env request)
      \<lparr>requested_pcie_specs := ar_pcie_specs request, requested_kind := ar_requested_kind request,
       requested_resource_id := ar_requested_resource_id request\<rparr>)"

lemma queued_row_sel [simp]:
  "oid (queued_row env request clk) = new_allocation_id env"
  "project (queued_row env request clk) = ar_project request"
  "principal (queued_row env request clk) = ctx_principal (ar_ctx request)"
  "resource_id (queued_row env request clk) = None"
  "al_state (queued_row env request clk) = AllocationState.REQUESTED"
  "pcie_claim (queued_row env request clk) = []"
  "lease_expiry (queued_row env request clk) = None"
  "active_started_at (queued_row env request clk) = None"
  "active_ended_at (queued_row env request clk) = None"
  by (simp_all add: queued_row_def request_row_def)

lemma grant_steps:
  assumes "grant env request w est devs db = Inr (db', oc)"
  obtains expiry row db1 db2 db3 where
    "add_hours (utcnow env) w = Inr expiry"
    "ALLOCATIONS_insert ((request_row env request)\<lparr>resource_id := Some (oid (ar_resource request)),
             al_state := AllocationState.GRANTED, lease_expiry := Some expiry,
             pcie_claim := devs\<rparr>) db = Inr (db1, row)"
    "reserve (new_ledger_id env) row est db1 = Inr db2"
    "record_key_if request (oid row) db2 = Inr db3"
    "audit_record (ar_ctx request) (request_event request (oid row) ''->granted'') db3 = Inr db'"
    "oc = grant_outcome row"
  using assms unfolding grant_def
  by (auto simp only: rbind_Inr_iff split_paired_All split_paired_Ex prod.case sum.inject prod.inject)

lemma grant_Inr:
  assumes g: "grant env request w est devs db = Inr (db', oc)" and q: "quantize_kcu est = Inr est"
  obtains expiry e log where
    "add_hours (utcnow env) w = Inr expiry"
    "oc = grant_outcome (granted_row env request expiry devs (db_clock db))"
    "allocations_check (granted_row env request expiry devs (db_clock db))"
    "new_allocation_id env \<notin> oid ` set (allocations db)"
    "fk oid (resources db) (Some (oid (ar_resource request)))"
    "le_id e = new_ledger_id env" "le_project e = ar_project request"
    "le_allocation_id e = new_allocation_id env"
    "event_type e = RESERVED" "kcu_delta e = est" "new_ledger_id env \<notin> le_id ` set (ledger db)"
    "has_budget (ar_project request) db" "ar_project request \<in> set (ctx_projects (ar_ctx request))"
    "db' = db\<lparr>allocations := allocations db @ [granted_row env request expiry devs (db_clock db)],
       ledger := ledger db @ [e],
       budgets := tbl_update bud_project (ar_project request) (charge (db_clock db) est) (budgets db),
       idempotency_keys := idempotency_keys db @ key_rows request (new_allocation_id env) (db_clock db),
       audit_log := log\<rparr>"
proof -
  from g obtain expiry row db1 db2 db3 where
    x: "add_hours (utcnow env) w = Inr expiry"
    and i: "ALLOCATIONS_insert ((request_row env request)\<lparr>resource_id := Some (oid (ar_resource request)),
             al_state := AllocationState.GRANTED, lease_expiry := Some expiry,
             pcie_claim := devs\<rparr>) db = Inr (db1, row)"
    and r: "reserve (new_ledger_id env) row est db1 = Inr db2"
    and k: "record_key_if request (oid row) db2 = Inr db3"
    and a: "audit_record (ar_ctx request) (request_event request (oid row) ''->granted'') db3 = Inr db'"
    and oc: "oc = grant_outcome row"
    by (rule grant_steps)
  let ?row = "granted_row env request expiry devs (db_clock db)"
  have i': "row = ?row" "db1 = db\<lparr>allocations := allocations db @ [?row]\<rparr>"
      "new_allocation_id env \<notin> oid ` set (allocations db)" "allocations_check ?row"
      "fk oid (resources db) (Some (oid (ar_resource request)))"
    using i by (auto simp: ALLOCATIONS_insert_Inr granted_row_def request_row_def)
  from r q obtain e where e: "le_id e = new_ledger_id env" "le_project e = project row"
      "le_allocation_id e = oid row" "event_type e = RESERVED" "kcu_delta e = est"
      "new_ledger_id env \<notin> le_id ` set (ledger db1)" "has_budget (project row) db1"
      and db2: "db2 = db1\<lparr>ledger := ledger db1 @ [e],
              budgets := tbl_update bud_project (project row) (charge (db_clock db1) est) (budgets db1)\<rparr>"
    by (rule reserve_Inr)
  have db3: "db3 = db2\<lparr>idempotency_keys := idempotency_keys db2 @ key_rows request (oid row) (db_clock db2)\<rparr>"
    using record_key_if_Inr [OF k] by simp
  from a obtain ar where
      "ev_project (request_event request (oid row) ''->granted'') \<in> set (ctx_projects (ar_ctx request))"
      "db' = db3\<lparr>audit_log := audit_log db3 @ [ar]\<rparr>"
    by (rule audit_record_Inr)
  then have ar: "ar_project request \<in> set (ctx_projects (ar_ctx request))"
      "db' = db3\<lparr>audit_log := audit_log db3 @ [ar]\<rparr>"
    unfolding request_event_def by simp_all
  have db': "db' = db\<lparr>allocations := allocations db @ [?row],
       ledger := ledger db @ [e],
       budgets := tbl_update bud_project (ar_project request) (charge (db_clock db) est) (budgets db),
       idempotency_keys := idempotency_keys db @ key_rows request (new_allocation_id env) (db_clock db),
       audit_log := audit_log db3 @ [ar]\<rparr>"
    unfolding ar(2) unfolding db3 unfolding db2 unfolding i'(1,2) by simp
  have budget: "has_budget (ar_project request) db" using e(7) unfolding i'(1,2) by (simp add: has_budget_def)
  have fresh: "new_ledger_id env \<notin> le_id ` set (ledger db)" using e(6) unfolding i'(2) by simp
  show thesis
    by (rule that [OF x _ i'(4,3,5) e(1) _ _ e(4,5) fresh budget ar(1) db'])
      (use oc e(2,3) in \<open>simp_all add: i'(1)\<close>)
qed

lemma enqueue_steps:
  assumes "enqueue env request db = Inr (db', oc)" "within_pending_quota (ar_project request) db"
  obtains row db1 db3 where
    "ALLOCATIONS_insert ((request_row env request)
          \<lparr>requested_pcie_specs := ar_pcie_specs request, requested_kind := ar_requested_kind request,
           requested_resource_id := ar_requested_resource_id request\<rparr>) db = Inr (db1, row)"
    "record_key_if request (oid row) db1 = Inr db3"
    "audit_record (ar_ctx request) (request_event request (oid row) ''->requested'') db3 = Inr db'"
    "oc = grant_outcome row"
  using assms unfolding enqueue_def
  by (auto simp only: rbind_Inr_iff split_paired_All split_paired_Ex prod.case sum.inject prod.inject
      not_True_eq_False if_False)

lemma enqueue_Inr:
  assumes g: "enqueue env request db = Inr (db', oc)"
  obtains (full) "\<not> within_pending_quota (ar_project request) db" "db' = db" "oc = denial QUOTA_EXCEEDED False"
  | (queued) log where "within_pending_quota (ar_project request) db"
      "oc = grant_outcome (queued_row env request (db_clock db))"
      "allocations_check (queued_row env request (db_clock db))"
      "new_allocation_id env \<notin> oid ` set (allocations db)"
      "db' = db\<lparr>allocations := allocations db @ [queued_row env request (db_clock db)],
         idempotency_keys := idempotency_keys db @ key_rows request (new_allocation_id env) (db_clock db),
         audit_log := log\<rparr>"
proof (cases "within_pending_quota (ar_project request) db")
  case False
  then have "db' = db" "oc = denial QUOTA_EXCEEDED False" using g unfolding enqueue_def by simp_all
  with False show thesis by (rule full)
next
  case True
  from g True obtain row db1 db3 where
    i: "ALLOCATIONS_insert ((request_row env request)
          \<lparr>requested_pcie_specs := ar_pcie_specs request, requested_kind := ar_requested_kind request,
           requested_resource_id := ar_requested_resource_id request\<rparr>) db = Inr (db1, row)"
    and k: "record_key_if request (oid row) db1 = Inr db3"
    and a: "audit_record (ar_ctx request) (request_event request (oid row) ''->requested'') db3 = Inr db'"
    and oc: "oc = grant_outcome row"
    by (rule enqueue_steps)
  let ?row = "queued_row env request (db_clock db)"
  have i': "row = ?row" "db1 = db\<lparr>allocations := allocations db @ [?row]\<rparr>"
      "new_allocation_id env \<notin> oid ` set (allocations db)" "allocations_check ?row"
    using i by (auto simp: ALLOCATIONS_insert_Inr queued_row_def request_row_def)
  have db3: "db3 = db1\<lparr>idempotency_keys := idempotency_keys db1 @ key_rows request (oid row) (db_clock db1)\<rparr>"
    using record_key_if_Inr [OF k] by simp
  from a obtain ar where ar: "db' = db3\<lparr>audit_log := audit_log db3 @ [ar]\<rparr>"
    by (rule audit_record_Inr)
  have db': "db' = db\<lparr>allocations := allocations db @ [?row],
       idempotency_keys := idempotency_keys db @ key_rows request (new_allocation_id env) (db_clock db),
       audit_log := audit_log db3 @ [ar]\<rparr>"
    unfolding ar unfolding db3 unfolding i'(1,2) by simp
  show thesis by (rule queued [OF True _ i'(4,3) db']) (simp add: oc i'(1))
qed



section \<open>The gate and the cases of an admission\<close>

lemma gate_pass:
  assumes "admission_gate request est db = Inr gate" "gr_denial gate = None"
  obtains q b remaining cap where
    "project_may_place (ar_resource request) (ar_project request)"
    "tbl_get quo_project (ar_project request) (quotas db) = Some q"
    "project_occupying (ar_project request) db < max_concurrent_allocations q"
    "tbl_get bud_project (ar_project request) (budgets db) = Some b"
    "dec_sub (limit_kcu b) (spent_kcu b) = Inr remaining" "est \<le> remaining"
    "resolve_cap (ar_resource request) = Inr cap"
    "count_occupying (oid (ar_resource request)) db < cap"
    "resolve_pcie_claim request db = Inr gate"
proof -
  have 1: "project_may_place (ar_resource request) (ar_project request)"
      "within_alloc_quota (ar_project request) db"
    using assms by (auto simp: admission_gate_def deny_with_def split: if_splits)
  then have 2: "within_budget (ar_project request) est db = Inr True"
    using assms by (auto simp: admission_gate_def deny_with_def split: if_splits)
  obtain h where h: "host_cap_check (ar_resource request) db = Inr h"
    using assms(1) 1 2 unfolding admission_gate_def by auto
  then have "h = None" using assms 1 2 unfolding admission_gate_def deny_with_def by (cases h) auto
  with h 1 2 have 3: "host_cap_check (ar_resource request) db = Inr None" "resolve_pcie_claim request db = Inr gate"
    using assms(1) unfolding admission_gate_def by simp_all
  obtain q where q: "tbl_get quo_project (ar_project request) (quotas db) = Some q"
      "project_occupying (ar_project request) db < max_concurrent_allocations q"
    using 1(2) by (auto simp: within_alloc_quota_def split: option.splits)
  obtain b remaining where b: "tbl_get bud_project (ar_project request) (budgets db) = Some b"
      "dec_sub (limit_kcu b) (spent_kcu b) = Inr remaining" "est \<le> remaining"
    using 2 by (auto simp: within_budget_def split: option.splits)
  obtain cap where c: "resolve_cap (ar_resource request) = Inr cap"
      "count_occupying (oid (ar_resource request)) db < cap"
    using 3(1) by (auto simp: host_cap_check_def Let_def split: if_splits)
  show thesis by (rule that [OF 1(1) q b c 3(2)])
qed

lemma claims_from_bdf [simp]: "map c_bdf (claims_from ds) = map d_bdf ds"
  by (simp add: claims_from_def)

lemma resolve_pcie_free:
  assumes "resolve_pcie_claim request db = Inr gate" "gr_denial gate = None"
  shows "c_bdf ` set (gr_devices gate) \<inter> c_bdf ` set (active_claims (oid (ar_resource request)) db) = {}"
    and "distinct (map d_bdf (descriptors_for (ar_resource request))) \<Longrightarrow> distinct (map c_bdf (gr_devices gate))"
    and "length (gr_devices gate) = length (ar_pcie_specs request)"
proof -
  let ?cl = "active_claims (oid (ar_resource request)) db"
  have "c_bdf ` set (gr_devices gate) \<inter> c_bdf ` set ?cl = {} \<and>
    (distinct (map d_bdf (descriptors_for (ar_resource request))) \<longrightarrow> distinct (map c_bdf (gr_devices gate))) \<and>
    length (gr_devices gate) = length (ar_pcie_specs request)"
  proof (cases "ar_pcie_specs request = []")
    case True
    then show ?thesis using assms by (auto simp: resolve_pcie_claim_def)
  next
    case False
    obtain r where r: "resolve_multiset (ar_pcie_specs request) (descriptors_for (ar_resource request)) ?cl = Inr r"
        "mr_outcome r = MATCHED" "gr_devices gate = claims_from (mr_devices r)"
      using assms False by (auto simp: resolve_pcie_claim_def resolve_union_def Let_def split: if_splits)
    have "c_bdf ` set (gr_devices gate) = d_bdf ` set (mr_devices r)"
      unfolding r(3) by (metis claims_from_bdf list.set_map)
    then show ?thesis
      using resolve_multiset_devices [OF r(1,2)] r(3) by (auto simp: free_devices_def claims_from_def comp_def)
  qed
  then show "c_bdf ` set (gr_devices gate) \<inter> c_bdf ` set ?cl = {}"
    and "distinct (map d_bdf (descriptors_for (ar_resource request))) \<Longrightarrow> distinct (map c_bdf (gr_devices gate))"
    and "length (gr_devices gate) = length (ar_pcie_specs request)" by blast+
qed

lemma denial_sel [simp]: "\<not> granted (denial c q)" "oc_allocation (denial c q) = None" "queueable (denial c q) = q" "category (denial c q) = Some c"
  by (simp_all add: denial_def)

lemma grant_outcome_sel [simp]: "granted (grant_outcome a)" "oc_allocation (grant_outcome a) = Some a"
  by (simp_all add: grant_outcome_def)

lemma host_cap_denial:
  "host_cap_check r db = Inr (Some d) \<Longrightarrow>
    \<not> granted d \<and> category d = Some ALLOCATION_DENIED \<and> reason d = Some ''at_capacity'' \<and> queueable d \<and>
    oc_allocation d = None"
  by (auto simp: host_cap_check_def Let_def denial_def split: if_splits)

lemma pcie_denial:
  assumes "resolve_pcie_claim request db = Inr gate" "gr_denial gate = Some d"
  shows "d = denial CONFIGURATION_ERROR False \<or> d = denial ALLOCATION_DENIED True"
proof -
  have ne: "ar_pcie_specs request \<noteq> []" using assms unfolding resolve_pcie_claim_def by auto
  then obtain r where r: "resolve_union (ar_pcie_specs request) (descriptors_for (ar_resource request))
      (active_claims (oid (ar_resource request)) db) = Inr r"
    using assms(1) unfolding resolve_pcie_claim_def by auto
  show ?thesis
    using assms(2) assms(1) [unfolded resolve_pcie_claim_def r rbind.simps Let_def] ne
    by (cases "mr_outcome r") (auto simp del: rbind_Inr_iff)
qed

text \<open>Every denial the gate can give, in the order of its checks.\<close>

lemma gate_denial_cases:
  assumes "admission_gate request est db = Inr gate" "gr_denial gate = Some d"
  obtains (affinity) "\<not> project_may_place (ar_resource request) (ar_project request)"
      "d = denial ALLOCATION_DENIED False"
  | (quota) "project_may_place (ar_resource request) (ar_project request)"
      "\<not> within_alloc_quota (ar_project request) db" "d = denial QUOTA_EXCEEDED True"
  | (budget) "project_may_place (ar_resource request) (ar_project request)"
      "within_alloc_quota (ar_project request) db"
      "within_budget (ar_project request) est db = Inr False" "d = denial ALLOCATION_DENIED False"
  | (host) "project_may_place (ar_resource request) (ar_project request)"
      "within_alloc_quota (ar_project request) db" "within_budget (ar_project request) est db = Inr True"
      "host_cap_check (ar_resource request) db = Inr (Some d)"
  | (pcie) "project_may_place (ar_resource request) (ar_project request)"
      "within_alloc_quota (ar_project request) db" "within_budget (ar_project request) est db = Inr True"
      "host_cap_check (ar_resource request) db = Inr None" "resolve_pcie_claim request db = Inr gate"
proof (cases "project_may_place (ar_resource request) (ar_project request)")
  case place: True
  show thesis
  proof (cases "within_alloc_quota (ar_project request) db")
    case q: True
    obtain aff where aff: "within_budget (ar_project request) est db = Inr aff"
      using assms(1) place q unfolding admission_gate_def by auto
    show thesis
    proof (cases aff)
      case True
      obtain h where h: "host_cap_check (ar_resource request) db = Inr h"
        using assms(1) place q aff True unfolding admission_gate_def by auto
      show thesis
      proof (cases h)
        case None
        then have "resolve_pcie_claim request db = Inr gate"
          using assms(1) place q aff True h unfolding admission_gate_def by simp
        then show thesis using place q aff True h None by (intro pcie) simp_all
      next
        case (Some d')
        then have "d' = d" using assms place q aff True h unfolding admission_gate_def deny_with_def by auto
        then show thesis using place q aff True Some h by (intro host) simp_all
      qed
    next
      case False
      then have "d = denial ALLOCATION_DENIED False"
        using assms place q aff unfolding admission_gate_def deny_with_def by auto
      then show thesis using place q aff False by (intro budget) simp_all
    qed
  next
    case False
    then have "d = denial QUOTA_EXCEEDED True"
      using assms place unfolding admission_gate_def deny_with_def by auto
    with place False show thesis by (rule quota)
  qed
next
  case False
  then have "d = denial ALLOCATION_DENIED False"
    using assms unfolding admission_gate_def deny_with_def by auto
  with False show thesis by (rule affinity)
qed

lemma gate_denial_not_granted:
  "admission_gate request est db = Inr gate \<Longrightarrow> gr_denial gate = Some d \<Longrightarrow> \<not> granted d \<and> oc_allocation d = None"
  by (erule (1) gate_denial_cases) (auto dest: host_cap_denial pcie_denial)

lemma price_estimate_quantized:
  "price_window_and_estimate env request db = Inr (w, est) \<Longrightarrow> quantize_kcu est = Inr est"
  by (auto simp: price_window_and_estimate_def price_def intro: quantize_kcu_idem)

lemma admit_cases:
  assumes "admit env request db = Inr (db', oc)"
  obtains (denied) "\<not> granted oc" "oc_allocation oc = None" "db' = db"
  | (replayed) a where "replay_of request db = Inr (Some a)" "project a = ar_project request"
      "oc = grant_outcome a" "db' = db"
  | (grants) w est gate where "replay_of request db = Inr None"
      "price_window_and_estimate env request db = Inr (w, est)"
      "admission_gate request est db = Inr gate" "gr_denial gate = None"
      "grant env request w est (gr_devices gate) db = Inr (db', oc)" "quantize_kcu est = Inr est"
  | (queues) w est gate d where "replay_of request db = Inr None"
      "price_window_and_estimate env request db = Inr (w, est)"
      "admission_gate request est db = Inr gate" "gr_denial gate = Some d" "queueable d"
      "ar_on_capacity request = Queue" "enqueue env request db = Inr (db', oc)"
proof -
  let ?r = "rbind (price_window_and_estimate env request db) (\<lambda>(w, est).
         admit_under_project_lock env request w est db)"
  consider c where "?r = Inl (CategorizedError c)" "db' = db" "oc = denial c False" | "?r = Inr (db', oc)"
    using assms unfolding admit_def categorized_denial_def by (cases ?r) (auto split: exn.splits)
  then show thesis
  proof cases
    case 1
    show thesis by (rule denied) (simp_all add: 1)
  next
    case 2
    then obtain w est where p: "price_window_and_estimate env request db = Inr (w, est)"
      and a: "admit_under_project_lock env request w est db = Inr (db', oc)" by auto
    from a obtain rep where rep: "replay_of request db = Inr rep"
      unfolding admit_under_project_lock_def by auto
    show thesis
    proof (cases rep)
      case (Some al)
      then have "project al \<noteq> ar_project request \<and> db' = db \<and> oc = denial CONFIGURATION_ERROR False \<or>
          project al = ar_project request \<and> db' = db \<and> oc = grant_outcome al"
        using a rep unfolding admit_under_project_lock_def by (auto split: if_splits)
      then show thesis
      proof (elim disjE conjE)
        assume "db' = db" "oc = denial CONFIGURATION_ERROR False"
        then show thesis by (intro denied) simp_all
      next
        assume "project al = ar_project request" "db' = db" "oc = grant_outcome al"
        with rep Some show thesis by (intro replayed) simp_all
      qed
    next
      case None
      with a rep obtain gate where gate: "admission_gate request est db = Inr gate"
        and rest: "(case gr_denial gate of Some d \<Rightarrow> deny_or_enqueue env request d db
            | None \<Rightarrow> grant env request w est (gr_devices gate) db) = Inr (db', oc)"
        unfolding admit_under_project_lock_def by auto
      show thesis
      proof (cases "gr_denial gate")
        case None': None
        show thesis
          by (rule grants [OF _ p gate None' _ price_estimate_quantized [OF p]])
            (use rep None rest None' in simp_all)
      next
        case (Some d)
        show thesis
        proof (cases "ar_on_capacity request = Queue \<and> queueable d")
          case True
          show thesis
            by (rule queues [OF _ p gate Some])
              (use True rep None rest Some in \<open>simp_all add: deny_or_enqueue_def\<close>)
        next
          case False
          then have "db' = db" "oc = d" using rest Some by (auto simp: deny_or_enqueue_def split: if_splits)
          with gate_denial_not_granted [OF gate Some] show thesis by (intro denied) simp_all
        qed
      qed
    qed
  qed
qed



section \<open>Properties\<close>

lemma counts_append:
  assumes "allocations db' = allocations db @ [row]"
  shows "count_occupying r db' = count_occupying r db +
      (if resource_id row = Some r \<and> al_state row \<in> set OCCUPYING then 1 else 0)"
    and "project_occupying p db' = project_occupying p db +
      (if project row = p \<and> al_state row \<in> set OCCUPYING then 1 else 0)"
    and "project_pending p db' = project_pending p db +
      (if project row = p \<and> al_state row = AllocationState.REQUESTED then 1 else 0)"
  using assms by (simp_all add: count_occupying_def project_occupying_def project_pending_def)

text \<open>
  C1. A grant respects every limit.  When admission grants a new allocation (not a
  replay), the inserted row is a fresh granted row on the requested host; counting
  it, the host is within its concurrency cap and the project within its allocation
  quota; the reservation keeps the project's spend within its limit whenever the
  remaining budget fits the decimal context; and the claimed devices, one per spec,
  are held by no other live allocation of the host.
\<close>

theorem admit_grant_sound:
  assumes "admit env request db = Inr (db', oc)" "replay_of request db = Inr None"
    and "oc_allocation oc = Some a" "al_state a = AllocationState.GRANTED"
  shows "\<exists>cap q b b'. allocations db' = allocations db @ [a] \<and> oid a \<notin> oid ` set (allocations db) \<and>
    resource_id a = Some (oid (ar_resource request)) \<and> project a = ar_project request \<and>
    resolve_cap (ar_resource request) = Inr cap \<and> count_occupying (oid (ar_resource request)) db' \<le> cap \<and>
    tbl_get quo_project (project a) (quotas db') = Some q \<and>
    project_occupying (project a) db' \<le> max_concurrent_allocations q \<and>
    tbl_get bud_project (project a) (budgets db) = Some b \<and>
    tbl_get bud_project (project a) (budgets db') = Some b' \<and> limit_kcu b' = limit_kcu b \<and>
    (sig_representable 10 28 (limit_kcu b - spent_kcu b) \<longrightarrow> spent_kcu b' \<le> limit_kcu b') \<and>
    length (pcie_claim a) = length (ar_pcie_specs request) \<and>
    c_bdf ` set (pcie_claim a) \<inter> c_bdf ` set (active_claims (oid (ar_resource request)) db) = {}"
  using assms(1)
proof (cases rule: admit_cases)
  case (grants w est gate)
  obtain q b remaining cap where g:
    "tbl_get quo_project (ar_project request) (quotas db) = Some q"
    "project_occupying (ar_project request) db < max_concurrent_allocations q"
    "tbl_get bud_project (ar_project request) (budgets db) = Some b"
    "dec_sub (limit_kcu b) (spent_kcu b) = Inr remaining" "est \<le> remaining"
    "resolve_cap (ar_resource request) = Inr cap"
    "count_occupying (oid (ar_resource request)) db < cap"
    "resolve_pcie_claim request db = Inr gate"
    using grants(3,4) by (rule gate_pass)
  obtain expiry e log where i: "oc = grant_outcome (granted_row env request expiry (gr_devices gate) (db_clock db))"
      "new_allocation_id env \<notin> oid ` set (allocations db)"
    and db': "db' = db\<lparr>allocations := allocations db @ [granted_row env request expiry (gr_devices gate) (db_clock db)],
       ledger := ledger db @ [e],
       budgets := tbl_update bud_project (ar_project request) (charge (db_clock db) est) (budgets db),
       idempotency_keys := idempotency_keys db @ key_rows request (new_allocation_id env) (db_clock db),
       audit_log := log\<rparr>"
    using grants(5,6) by (rule grant_Inr)
  have a: "a = granted_row env request expiry (gr_devices gate) (db_clock db)" using assms(3) i(1) by simp
  have al: "allocations db' = allocations db @ [a]" by (simp add: db' a)
  have b': "tbl_get bud_project (ar_project request) (budgets db') = Some (charge (db_clock db) est b)"
    using g(3) by (simp add: db' tbl_get_update)
  have "spent_kcu b + est \<le> limit_kcu b" if "sig_representable 10 28 (limit_kcu b - spent_kcu b)"
    using g(4,5) dec_rnd.rnd_exact [OF that] by (simp add: dec_sub_def dec_ctx_Inr_iff)
  then show ?thesis
    using al i(2) g b' resolve_pcie_free [OF g(8) grants(4)]
    by (intro exI [of _ cap] exI [of _ q] exI [of _ b] exI [of _ "charge (db_clock db) est b"])
      (simp add: counts_append [OF al] OCCUPYING_def, simp add: db' a)
next
  case (queues w est gate d)
  from queues(7) show ?thesis
  proof (cases rule: enqueue_Inr)
    case (queued log)
    then have "al_state a = AllocationState.REQUESTED" using assms(3) by auto
    then show ?thesis using assms(4) by simp
  qed (use assms(3) in \<open>simp add: denial_def\<close>)
qed (use assms in \<open>auto simp: denial_def\<close>)

text \<open>
  C15. A denial leaves no trace: when admission does not grant, for whatever reason,
  the database is unchanged; and a grant, a queued request or a replay always
  carries its allocation.
\<close>

theorem admit_denial_no_write:
  assumes "admit env request db = Inr (db', oc)"
  shows "(\<not> granted oc \<longrightarrow> db' = db) \<and> (granted oc \<longrightarrow> (\<exists>a. oc_allocation oc = Some a \<and>
    project a = ar_project request \<and> a \<in> set (allocations db')))"
  using assms
proof (cases rule: admit_cases)
  case (replayed a)
  then have "a \<in> set (allocations db)"
    by (auto simp: replay_of_def resolve_replay_def ALLOCATIONS_get_def split: option.splits dest: tbl.get_mem)
  then show ?thesis using replayed by simp
next
  case (grants w est gate)
  from grants(5,6) show ?thesis by (rule grant_Inr) simp
next
  case (queues w est gate d)
  from queues(7) show ?thesis by (rule enqueue_Inr) simp_all
qed auto


text \<open>A second request on the example database, for four vcpus and eight gigabytes.\<close>

definition example_ctx :: RequestContext where
  "example_ctx = \<lparr>ctx_principal = ''alice'', ctx_agent_session = None, ctx_projects = [''kernel''],
    ctx_roles = [], ctx_platform_roles = [], ctx_client_id = None\<rparr>"

definition example_env :: Env where
  "example_env = \<lparr>lease_default = None, lease_max = None, utcnow = 0, new_allocation_id = 11,
    new_ledger_id = 101\<rparr>"

definition example_request :: AllocationRequest where
  "example_request = \<lparr>ar_ctx = example_ctx, ar_resource = example_host, ar_project = ''kernel'',
    ar_selector = \<lparr>sel_vcpus = 4, sel_memory_gb = 8, sel_cost_class = ''local''\<rparr>, ar_window = None,
    ar_idempotency_key = Some ''k1'', ar_disk_gb = Some 20, ar_shape = None, ar_pcie_specs = [],
    ar_on_capacity = Deny, ar_requested_kind = None, ar_requested_resource_id = None\<rparr>"

lemmas example_request_defs = example_request_def example_env_def example_ctx_def

lemma example_price: "price_window_and_estimate example_env example_request example_db = Inr (4, 24)"
proof -
  have "price 1 4 8 4 = Inr 24"
    using price_computes [of 4 8 1 4] int_representable [of 6] int_representable [of 24]
    by (simp add: INT32_MAX_def round_kcu_def)
  then show ?thesis
    by (simp add: price_window_and_estimate_def example_request_defs example_defs configured_lease_bounds_def
        bound_from_config_def DEFAULT_LEASE_BOUNDS_def resolve_window_hours_def validate_size_def INT32_MAX_def
        validate_against_resource_def resource_cap_def MB_PER_GB_def resolve_coeff_def)
qed

lemma example_gate: "admission_gate example_request 24 example_db = Inr \<lparr>gr_denial = None, gr_devices = []\<rparr>"
proof -
  have "dec_sub 100 24 = Inr 76" using kcu_exact(2) [of 24 100] by (simp add: on_kcu_grid_def)
  then show ?thesis
    by (simp add: admission_gate_def example_request_defs example_defs project_may_place_def within_alloc_quota_def
        within_budget_def host_cap_check_def resolve_cap_def count_occupying_def project_occupying_def
        OCCUPYING_def tbl_get_def Let_def resolve_pcie_claim_def)
qed

lemma example_grant:
  "\<exists>db' a. grant example_env example_request 4 24 [] example_db = Inr (db', grant_outcome a) \<and>
     al_state a = AllocationState.GRANTED"
proof -
  have "add_hours 0 4 = Inr 14400000000"
    using add_hours_computes [of 4 14400 0] by (simp add: DATETIME_MIN_def DATETIME_MAX_def)
  moreover have "quantize_kcu 24 = Inr 24" by (rule quantize_kcu_grid) (simp_all add: on_kcu_grid_def)
  ultimately show ?thesis
    by (simp add: grant_def example_request_defs example_defs request_row_def ALLOCATIONS_insert_def
        server_generated_def Let_def int4_def INT32_MAX_def allocations_check_def tbl_insert_def fk_def
        reserve_def write_delta_def ledger_cost_class_def tbl_get_def LEDGER_insert_def apply_to_spent_def
        has_budget_def record_key_if_def record_key_def audit_record_def request_event_def del: rbind_Inr_iff)
      (rule exI, rule conjI [OF refl], simp)
qed

lemma example_admit:
  "\<exists>db' a. admit example_env example_request example_db = Inr (db', grant_outcome a) \<and>
     al_state a = AllocationState.GRANTED"
proof -
  have "replay_of example_request example_db = Inr None"
    by (simp add: replay_of_def resolve_replay_def example_request_defs example_defs)
  with example_grant show ?thesis
    by (auto simp: admit_def admit_under_project_lock_def example_price example_gate categorized_denial_def)
qed

theorem admit_grant_sound_witness:
  "\<exists>db' a. admit example_env example_request example_db = Inr (db', grant_outcome a) \<and>
     allocations db' = allocations example_db @ [a] \<and> count_occupying 1 db' \<le> 2"
proof -
  obtain db' a where a: "admit example_env example_request example_db = Inr (db', grant_outcome a)"
      "al_state a = AllocationState.GRANTED" using example_admit by blast
  have r: "replay_of example_request example_db = Inr None"
    by (simp add: replay_of_def resolve_replay_def example_request_defs example_defs)
  have "resolve_cap (ar_resource example_request) = Inr 2" "oid (ar_resource example_request) = 1"
    by (simp_all add: resolve_cap_def example_request_defs example_defs)
  with admit_grant_sound [OF a(1) r _ a(2)] a(1) show ?thesis by auto
qed

theorem admit_denial_no_write_witness:
  "\<exists>db' a. admit example_env example_request example_db = Inr (db', grant_outcome a) \<and> a \<in> set (allocations db')"
proof -
  obtain db' a where a: "admit example_env example_request example_db = Inr (db', grant_outcome a)"
    using example_admit by blast
  with admit_denial_no_write [OF a] show ?thesis by auto
qed


lemma find_append_None: "find P xs = None \<Longrightarrow> find P (xs @ ys) = find P ys"
  by (induction xs) (auto split: if_splits)

lemma key_recorded:
  assumes "replay_of request db = Inr None" "ar_idempotency_key request = Some key"
    and "idempotency_keys db' = idempotency_keys db @ key_rows request k clk"
    and "ALLOCATIONS_get k db' = Some a"
    and "ar_idempotency_key request' = Some key" "ctx_principal (ar_ctx request') = ctx_principal (ar_ctx request)"
  shows "replay_of request' db' = Inr (Some a)"
proof -
  have "find (\<lambda>r. ik_principal r = ctx_principal (ar_ctx request) \<and> ik_key r = key \<and> ik_kind r = REQUEST_KIND)
      (idempotency_keys db) = None"
    using assms(1,2) by (auto simp: replay_of_def resolve_replay_def split: option.splits)
  then have "find (\<lambda>r. ik_principal r = ctx_principal (ar_ctx request) \<and> ik_key r = key \<and> ik_kind r = REQUEST_KIND)
      (idempotency_keys db') = Some (key_row request k key clk)"
    unfolding assms(3) by (simp add: find_append_None key_rows_def assms(2) key_row_def)
  then show ?thesis
    using assms(4-6) by (simp add: replay_of_def resolve_replay_def key_row_def)
qed

text \<open>
  C14. A request is idempotent: once a request with a retry key was granted or queued,
  every later request of the same principal with that key for the same project, as
  long as it still validates and prices, returns the very allocation of the first
  and writes nothing, whatever size, host or capacity mode it asks for; with the
  same key under another project it is refused and writes nothing.
\<close>

theorem admit_replay_idempotent:
  assumes "admit env request db = Inr (db', oc)" "granted oc" "ar_idempotency_key request = Some key"
    and "ar_idempotency_key request' = Some key"
    and "ctx_principal (ar_ctx request') = ctx_principal (ar_ctx request)"
    and "price_window_and_estimate env' request' db' = Inr priced"
  shows "admit env' request' db' = Inr (db',
    if ar_project request' = ar_project request then oc else denial CONFIGURATION_ERROR False)"
proof -
  have "\<exists>a. oc = grant_outcome a \<and> project a = ar_project request \<and> replay_of request' db' = Inr (Some a)"
    using assms(1)
  proof (cases rule: admit_cases)
    case (replayed a)
    then have "replay_of request' db' = Inr (Some a)" using assms(3-5) by (simp add: replay_of_def)
    then show ?thesis using replayed by auto
  next
    case (grants w est gate)
    obtain expiry e log where i: "oc = grant_outcome (granted_row env request expiry (gr_devices gate) (db_clock db))"
        "new_allocation_id env \<notin> oid ` set (allocations db)"
      and db': "db' = db\<lparr>allocations := allocations db @ [granted_row env request expiry (gr_devices gate) (db_clock db)],
       ledger := ledger db @ [e],
       budgets := tbl_update bud_project (ar_project request) (charge (db_clock db) est) (budgets db),
       idempotency_keys := idempotency_keys db @ key_rows request (new_allocation_id env) (db_clock db),
       audit_log := log\<rparr>"
      using grants(5,6) by (rule grant_Inr)
    have "replay_of request' db' = Inr (Some (granted_row env request expiry (gr_devices gate) (db_clock db)))"
      by (rule key_recorded [OF grants(1) assms(3) _ _ assms(4,5), of _ "new_allocation_id env" "db_clock db"])
        (simp_all add: db' ALLOCATIONS_get_def tbl_get_append [OF i(2)])
    then show ?thesis using i(1) by simp
  next
    case (queues w est gate d)
    from queues(7) show ?thesis
    proof (cases rule: enqueue_Inr)
      case (queued log)
      have "replay_of request' db' = Inr (Some (queued_row env request (db_clock db)))"
        by (rule key_recorded [OF queues(1) assms(3) _ _ assms(4,5), of _ "new_allocation_id env" "db_clock db"])
          (simp_all add: queued(5) ALLOCATIONS_get_def tbl_get_append [OF queued(4)])
      then show ?thesis using queued(2) by simp
    qed (use assms(2) in simp)
  qed (use assms(2) in simp)
  then show ?thesis
    using assms(6)
    by (cases priced) (auto simp: admit_def admit_under_project_lock_def categorized_denial_def)
qed

theorem admit_replay_idempotent_witness:
  "\<exists>db' a. admit example_env example_request example_db = Inr (db', grant_outcome a) \<and>
     admit (example_env\<lparr>new_allocation_id := 12\<rparr>) (example_request\<lparr>ar_on_capacity := Queue\<rparr>) db' =
       Inr (db', grant_outcome a)"
proof -
  obtain db' a where a: "admit example_env example_request example_db = Inr (db', grant_outcome a)"
    using example_admit by blast
  have "cost_class_coefficients db' = cost_class_coefficients example_db"
    using a
  proof (cases rule: admit_cases)
    case (grants w est gate)
    from grants(5,6) show ?thesis by (rule grant_Inr) simp
  next
    case (queues w est gate d)
    from queues(7) show ?thesis by (rule enqueue_Inr) simp_all
  qed simp_all
  then have "price_window_and_estimate (example_env\<lparr>new_allocation_id := 12\<rparr>)
      (example_request\<lparr>ar_on_capacity := Queue\<rparr>) db' = Inr (4, 24)"
    using example_price by (simp add: price_window_and_estimate_def)
  from admit_replay_idempotent [OF a _ _ _ _ this, of "''k1''"] a show ?thesis
    by (auto simp: example_request_defs)
qed

text \<open>
  C34. What may wait in the queue: a denial of the gate is queueable exactly when it
  is the allocation quota, the host cap or devices that exist but are all claimed.
  A configuration error is never queueable, and an \<open>allocation_denied\<close> that is not
  queueable is either the budget or the affinity of the host.
\<close>

theorem gate_queueable:
  assumes "admission_gate request est db = Inr gate" "gr_denial gate = Some d"
  shows "(queueable d \<longleftrightarrow> category d = Some QUOTA_EXCEEDED \<or>
      category d = Some ALLOCATION_DENIED \<and> within_budget (ar_project request) est db = Inr True \<and>
        project_may_place (ar_resource request) (ar_project request)) \<and>
    (category d = Some CONFIGURATION_ERROR \<longrightarrow> \<not> queueable d) \<and>
    (\<not> queueable d \<and> category d = Some ALLOCATION_DENIED \<longrightarrow>
      \<not> project_may_place (ar_resource request) (ar_project request) \<or>
      within_budget (ar_project request) est db = Inr False)"
  using assms
proof (cases rule: gate_denial_cases)
  case host
  then show ?thesis using host_cap_denial [OF host(4)] by simp
next
  case pcie
  then show ?thesis using pcie_denial [OF pcie(5) assms(2)] by auto
qed simp_all

theorem gate_queueable_witness:
  "queueable (denial QUOTA_EXCEEDED True) \<and>
   admission_gate example_request 24 (example_db\<lparr>quotas := []\<rparr>) =
     Inr \<lparr>gr_denial = Some (denial QUOTA_EXCEEDED True), gr_devices = []\<rparr>"
proof -
  have g: "admission_gate example_request 24 (example_db\<lparr>quotas := []\<rparr>) =
      Inr \<lparr>gr_denial = Some (denial QUOTA_EXCEEDED True), gr_devices = []\<rparr>"
    by (simp add: admission_gate_def deny_with_def example_request_defs example_defs project_may_place_def
        within_alloc_quota_def tbl_get_def)
  with gate_queueable [OF g] show ?thesis by simp
qed



section \<open>Placement\<close>

definition host_outcome :: "string list \<Rightarrow> Db \<Rightarrow> Resource \<Rightarrow> MatchOutcome option" where
  "host_outcome specs db r =
    (case resolve_union specs (descriptors_for r) (active_claims (oid r) db) of
       Inl _ \<Rightarrow> None
     | Inr res \<Rightarrow> Some (mr_outcome res))"

lemma resolve_union_total:
  assumes "map_result parse_match_spec specs = Inr ps"
  obtains res where "resolve_union specs ds cl = Inr res"
  using resolve_multiset_unfold [OF assms, of ds cl] that unfolding resolve_union_def
  by (cases "max_bipartite_match ps (free_devices ds cl)") (auto split: if_splits)

lemma place_loop_filter:
  assumes "map_result parse_match_spec specs = Inr ps"
  shows "place_loop specs db cs acc = Inr
    \<lparr>pc_resources = pc_resources acc @ filter (\<lambda>r. host_outcome specs db r = Some MATCHED) cs,
     capacity_candidate = (case capacity_candidate acc of
        Some r \<Rightarrow> Some r | None \<Rightarrow> find (\<lambda>r. host_outcome specs db r = Some CAPACITY) cs)\<rparr>"
proof (induction cs arbitrary: acc)
  case (Cons c cs)
  obtain res where res: "resolve_union specs (descriptors_for c) (active_claims (oid c) db) = Inr res"
    using assms by (rule resolve_union_total)
  then have "host_outcome specs db c = Some (mr_outcome res)" by (simp add: host_outcome_def)
  then show ?case
    using res Cons.IH by (cases "mr_outcome res") (auto split: option.splits)
qed (simp split: option.splits)

lemma schedulable_candidates_mem:
  "r \<in> set (schedulable_candidates rid kind p db) \<Longrightarrow>
    r \<in> set (resources db) \<and> res_status r = AVAILABLE \<and> \<not> cordoned r \<and> affinity_ok r p \<and>
    (\<forall>k. rid = Some k \<longrightarrow> oid r = k) \<and> (rid = None \<longrightarrow> kind = Some (res_kind r))"
  unfolding schedulable_candidates_def
  by (auto split: option.splits if_splits dest!: sym [of "Some _"] dest: tbl.get_mem tbl.get_key)

lemma find_eq_hd_filter: "find P xs = (case filter P xs of [] \<Rightarrow> None | x # _ \<Rightarrow> Some x)"
  by (induction xs) auto

text \<open>
  C37. Placement picks the right host.  The target of a request is an available,
  uncordoned host that the project may use, the requested one or one of the
  requested kind; with device specs it is the first candidate, oldest first, on
  which all specs match free devices, and only when there is none the first on which
  they match devices now claimed.  With no such host there is no target.
\<close>

theorem select_target_first:
  assumes "map_result parse_match_spec specs = Inr ps"
  shows "\<exists>target. select_target rid kind specs p db = Inr target \<and>
    (let cs = schedulable_candidates rid (Some kind) (Some p) db in
       target = (if specs = [] then (case cs of [] \<Rightarrow> None | r # _ \<Rightarrow> Some r)
         else (case find (\<lambda>r. host_outcome specs db r = Some MATCHED) cs of
                 Some r \<Rightarrow> Some r
               | None \<Rightarrow> find (\<lambda>r. host_outcome specs db r = Some CAPACITY) cs))) \<and>
    (\<forall>r. target = Some r \<longrightarrow> r \<in> set (resources db) \<and> res_status r = AVAILABLE \<and> \<not> cordoned r \<and>
       project_may_place r p \<and> (\<forall>k. rid = Some k \<longrightarrow> oid r = k) \<and> (rid = None \<longrightarrow> res_kind r = kind))"
proof -
  let ?cs = "schedulable_candidates rid (Some kind) (Some p) db"
  let ?m = "\<lambda>r. host_outcome specs db r = Some MATCHED"
  let ?c = "\<lambda>r. host_outcome specs db r = Some CAPACITY"
  define target where "target = (if specs = [] then (case ?cs of [] \<Rightarrow> None | r # _ \<Rightarrow> Some r)
         else (case find ?m ?cs of Some r \<Rightarrow> Some r | None \<Rightarrow> find ?c ?cs))"
  have sel: "select_target rid kind specs p db = Inr target"
  proof (cases "specs = []")
    case True
    then show ?thesis
      by (simp add: select_target_def resolve_placement_candidates_def target_def split: list.split)
  next
    case False
    then show ?thesis
      by (simp add: select_target_def resolve_placement_candidates_def target_def Let_def
          place_loop_filter [OF assms] find_eq_hd_filter [of ?m] split: list.split)
  qed
  have "r \<in> set ?cs" if "target = Some r" for r
    using that unfolding target_def
    by (auto split: if_splits list.splits option.splits dest: find_Some_in_set)
  then show ?thesis
    using sel schedulable_candidates_mem [of _ rid "Some kind" "Some p" db]
    by (auto simp: target_def affinity_ok_def Let_def)
qed

theorem select_target_first_witness:
  "\<exists>target. select_target None LOCAL_LIBVIRT [] ''kernel'' example_db = Inr target \<and> target = Some example_host"
  using select_target_first [of "[]" "[]" None LOCAL_LIBVIRT "''kernel''" example_db]
  by (auto simp: schedulable_candidates_def affinity_ok_def project_may_place_def example_defs)

end
