(* ===== verification/Alloc_Lifecycle.thy ===== *)
theory Alloc_Lifecycle
  imports Admission_Facts
begin

text \<open>
  The life of an allocation after admission: release (\<open>services/allocation/release.py\<close>),
  renewal (\<open>renew.py\<close>), promotion of queued requests and the queue timeout
  (\<open>promotion.py\<close>), and the reconciler's expiry sweep and orphan reclaim
  (\<open>reconciler/allocations.py\<close>).  A sweep is a fold over its candidates in which a
  candidate that raises keeps the database it found.  The audit writer is an
  argument, as in the code.
\<close>

section \<open>Release\<close>

fun AllocationState_value :: "AllocationState \<Rightarrow> string" where
  "AllocationState_value AllocationState.REQUESTED = ''requested''"
| "AllocationState_value AllocationState.GRANTED = ''granted''"
| "AllocationState_value AllocationState.ACTIVE = ''active''"
| "AllocationState_value AllocationState.RELEASING = ''releasing''"
| "AllocationState_value AllocationState.RELEASED = ''released''"
| "AllocationState_value AllocationState.EXPIRED = ''expired''"
| "AllocationState_value AllocationState.FAILED = ''failed''"

type_synonym AuditWriter = "AuditEvent \<Rightarrow> Db \<Rightarrow> exn + Db"

definition RELEASABLE :: "AllocationState list" where
  "RELEASABLE = [AllocationState.GRANTED, AllocationState.ACTIVE]"

definition TERMINAL :: "AllocationState list" where
  "TERMINAL = [AllocationState.RELEASED, AllocationState.EXPIRED, AllocationState.FAILED]"

record ReleaseOutcome =
  released :: bool
  rl_category :: "ErrorCategory option"
  rl_current_status :: "AllocationState option"

definition ctx_audit_writer :: "RequestContext \<Rightarrow> AuditWriter" where
  "ctx_audit_writer ctx event db = audit_record ctx event db"

definition SYSTEM_RECONCILER_PRINCIPAL :: string where
  "SYSTEM_RECONCILER_PRINCIPAL = ''system:reconciler''"

definition system_audit_writer :: AuditWriter where
  "system_audit_writer event db = Inr (record_system SYSTEM_RECONCILER_PRINCIPAL None event db)"

definition transition_and_audit ::
  "AuditWriter \<Rightarrow> uuid \<Rightarrow> AllocationState \<Rightarrow> AllocationState \<Rightarrow> string \<Rightarrow> Db \<Rightarrow> exn + Db" where
  "transition_and_audit writer alloc_id frm to proj db =
    rbind (ALLOCATIONS_update_state alloc_id to db) (\<lambda>(db, _).
      writer \<lparr>ev_tool = ''allocations.release'', ev_object_kind = ''allocations'', ev_object_id = alloc_id,
              ev_transition = AllocationState_value frm @ ''->'' @ AllocationState_value to,
              ev_project = proj\<rparr> db)"

text \<open>
  The body both release paths share once the row is known to be releasable: close the
  billing interval, move to released, reconcile the row as it was read.
\<close>

definition settle ::
  "Env \<Rightarrow> AuditWriter \<Rightarrow> Allocation \<Rightarrow> string \<Rightarrow> Db \<Rightarrow> exn + Db" where
  "settle env writer current proj db =
    rbind (transition_and_audit writer (oid current) AllocationState.RELEASING AllocationState.RELEASED proj db)
      (\<lambda>db. rbind (reconcile (new_ledger_id env) current db) (\<lambda>(db, _). Inr db))"

definition begin_release ::
  "Env \<Rightarrow> AuditWriter \<Rightarrow> Allocation \<Rightarrow> string \<Rightarrow> Db \<Rightarrow> exn + (Db \<times> Allocation)" where
  "begin_release env writer current proj db =
    rbind (transition_and_audit writer (oid current) (al_state current) AllocationState.RELEASING proj db)
      (\<lambda>db. Inr (stamp_active_ended current (utcnow env) db))"

definition refuse_release :: "ErrorCategory option \<Rightarrow> AllocationState option \<Rightarrow> ReleaseOutcome" where
  "refuse_release c s = \<lparr>released = False, rl_category = c, rl_current_status = s\<rparr>"

definition release_done :: ReleaseOutcome where
  "release_done = \<lparr>released = True, rl_category = None, rl_current_status = None\<rparr>"

definition release_locked ::
  "Env \<Rightarrow> AuditWriter \<Rightarrow> uuid \<Rightarrow> string \<Rightarrow> Db \<Rightarrow> exn + (Db \<times> ReleaseOutcome)" where
  "release_locked env writer uid proj db =
    (case ALLOCATIONS_get uid db of
       None \<Rightarrow> Inr (db, refuse_release (Some CONFIGURATION_ERROR) None)
     | Some current \<Rightarrow>
         if al_state current \<in> set TERMINAL
         then Inr (db, refuse_release (Some STALE_HANDLE) (Some (al_state current)))
         else if al_state current = AllocationState.REQUESTED
         then rbind (transition_and_audit writer uid (al_state current) AllocationState.RELEASED proj db)
                (\<lambda>db. Inr (db, release_done))
         else if al_state current \<notin> set (RELEASABLE @ [AllocationState.RELEASING])
         then Inr (db, refuse_release (Some CONFIGURATION_ERROR) (Some (al_state current)))
         else rbind (if al_state current \<in> set RELEASABLE
                     then begin_release env writer current proj db else Inr (db, current)) (\<lambda>(db, current).
              rbind (settle env writer current proj db) (\<lambda>db. Inr (db, release_done))))"

definition release_with_backstops ::
  "Env \<Rightarrow> AuditWriter \<Rightarrow> uuid \<Rightarrow> string \<Rightarrow> Db \<Rightarrow> exn + (Db \<times> ReleaseOutcome)" where
  "release_with_backstops env writer uid proj db =
    (case release_locked env writer uid proj db of
       Inl IllegalTransition \<Rightarrow>
         Inr (db, refuse_release (Some CONFIGURATION_ERROR) (map_option al_state (ALLOCATIONS_get uid db)))
     | Inl (CategorizedError c) \<Rightarrow> Inr (db, refuse_release (Some c) None)
     | r \<Rightarrow> r)"

definition reclaim_under_lock ::
  "Env \<Rightarrow> AuditWriter \<Rightarrow> uuid \<Rightarrow> string \<Rightarrow> (Db \<Rightarrow> bool) option \<Rightarrow> Db \<Rightarrow> exn + (Db \<times> ReleaseOutcome)" where
  "reclaim_under_lock env writer uid proj precondition db =
    (case ALLOCATIONS_get uid db of
       None \<Rightarrow> Inr (db, refuse_release (Some CONFIGURATION_ERROR) None)
     | Some current \<Rightarrow>
         if al_state current \<in> set TERMINAL
         then Inr (db, refuse_release (Some STALE_HANDLE) (Some (al_state current)))
         else if al_state current \<notin> set RELEASABLE
         then Inr (db, refuse_release (Some CONFIGURATION_ERROR) (Some (al_state current)))
         else if (case precondition of None \<Rightarrow> False | Some ok \<Rightarrow> \<not> ok db)
         then Inr (db, refuse_release None (Some (al_state current)))
         else rbind (begin_release env writer current proj db) (\<lambda>(db, current).
              rbind (settle env writer current proj db) (\<lambda>db. Inr (db, release_done))))"


section \<open>Renewal\<close>

definition RENEW_KIND :: string where "RENEW_KIND = ''allocations.renew''"

record RenewOutcome =
  renewed :: bool
  rn_allocation :: "Allocation option"
  rn_category :: "ErrorCategory option"
  rn_current_status :: "AllocationState option"

definition refuse_renew :: "ErrorCategory \<Rightarrow> AllocationState option \<Rightarrow> RenewOutcome" where
  "refuse_renew c s = \<lparr>renewed = False, rn_allocation = None, rn_category = Some c, rn_current_status = s\<rparr>"

definition renew_done :: "Allocation \<Rightarrow> RenewOutcome" where
  "renew_done a = \<lparr>renewed = True, rn_allocation = Some a, rn_category = None, rn_current_status = None\<rparr>"

definition extension_estimate :: "Allocation \<Rightarrow> rat \<Rightarrow> Db \<Rightarrow> exn + rat" where
  "extension_estimate alloc hours db =
    (case (requested_vcpus alloc, requested_memory_gb alloc) of
       (Some v, Some m) \<Rightarrow>
         rbind (ledger_cost_class alloc db) (\<lambda>cost_class.
         rbind (resolve_coeff (cost_class_coefficients db) cost_class) (\<lambda>c. price c v m hours))
     | _ \<Rightarrow> Inl config_error)"

text \<open>The audited transition of a renewal is recorded without the rendered hours.\<close>

definition apply_renew ::
  "Env \<Rightarrow> RequestContext \<Rightarrow> Allocation \<Rightarrow> LeaseExtension \<Rightarrow> rat \<Rightarrow> string option \<Rightarrow> Db \<Rightarrow>
   exn + (Db \<times> RenewOutcome)" where
  "apply_renew env ctx alloc extension estimate key db =
    (let db = db\<lparr>allocations := tbl_update oid (oid alloc)
               (touch (db_clock db) (lease_expiry_update (\<lambda>_. Some (new_expiry extension)))) (allocations db)\<rparr>;
         extended = alloc\<lparr>lease_expiry := Some (new_expiry extension)\<rparr>
     in rbind (reserve (new_ledger_id env) extended estimate db) (\<lambda>db.
        rbind (case key of
                 None \<Rightarrow> Inr db
               | Some k \<Rightarrow> record_key (ctx_principal ctx) k (project alloc) RENEW_KIND (oid alloc) db) (\<lambda>db.
        rbind (audit_record ctx \<lparr>ev_tool = ''allocations.renew'', ev_object_kind = ''allocations'',
                 ev_object_id = oid alloc, ev_transition = ''renew'', ev_project = project alloc\<rparr> db) (\<lambda>db.
          Inr (db, renew_done extended)))))"

definition renew_under_project_lock ::
  "Env \<Rightarrow> RequestContext \<Rightarrow> uuid \<Rightarrow> rat \<Rightarrow> string option \<Rightarrow> Db \<Rightarrow> exn + (Db \<times> RenewOutcome)" where
  "renew_under_project_lock env ctx alloc_id extend_hours key db =
    rbind (case key of
             None \<Rightarrow> Inr None
           | Some k \<Rightarrow> resolve_replay (ctx_principal ctx) k RENEW_KIND db) (\<lambda>replay.
      case replay of
        Some a \<Rightarrow>
          if oid a \<noteq> alloc_id then Inr (db, refuse_renew CONFIGURATION_ERROR None)
          else Inr (db, renew_done a)
      | None \<Rightarrow>
          (case ALLOCATIONS_get alloc_id db of
             None \<Rightarrow> Inr (db, refuse_renew CONFIGURATION_ERROR None)
           | Some alloc \<Rightarrow>
               if al_state alloc \<in> set TERMINAL
               then Inr (db, refuse_renew STALE_HANDLE (Some (al_state alloc)))
               else (case lease_expiry alloc of
                 None \<Rightarrow> Inr (db, refuse_renew CONFIGURATION_ERROR None)
               | Some expiry \<Rightarrow>
                   rbind (configured_lease_bounds (lease_default env) (lease_max env)) (\<lambda>bounds.
                   rbind (clamp_extension_hours bounds expiry extend_hours (utcnow env)) (\<lambda>extension.
                   if added_hours extension \<le> 0 then Inr (db, refuse_renew CONFIGURATION_ERROR None)
                   else rbind (extension_estimate alloc (added_hours extension) db) (\<lambda>estimate.
                        rbind (within_budget (project alloc) estimate db) (\<lambda>affordable.
                        if \<not> affordable then Inr (db, refuse_renew ALLOCATION_DENIED None)
                        else apply_renew env ctx alloc extension estimate key db)))))))"

definition renew_denial ::
  "Db \<Rightarrow> exn + (Db \<times> RenewOutcome) \<Rightarrow> exn + (Db \<times> RenewOutcome)" where
  "renew_denial db result =
    (case result of Inl (CategorizedError c) \<Rightarrow> Inr (db, refuse_renew c None) | _ \<Rightarrow> result)"

definition renew ::
  "Env \<Rightarrow> RequestContext \<Rightarrow> uuid \<Rightarrow> string \<Rightarrow> string option \<Rightarrow> Db \<Rightarrow> exn + (Db \<times> RenewOutcome)" where
  "renew env ctx alloc_id extend_text key db =
    renew_denial db
      (rbind (positive_hours extend_text) (\<lambda>extend_hours.
        case ALLOCATIONS_get alloc_id db of
          None \<Rightarrow> Inr (db, refuse_renew CONFIGURATION_ERROR None)
        | Some _ \<Rightarrow> renew_under_project_lock env ctx alloc_id extend_hours key db))"



section \<open>Promotion\<close>

text \<open>
  A pass over candidates: one that raises is skipped and leaves no write.  The code commits
  after each candidate; this is the pass that no other transaction interrupts, and the
  steps of \<open>Alloc_Service\<close> take the candidates one by one.
\<close>

fun sweep :: "('c \<Rightarrow> Db \<Rightarrow> exn + (Db \<times> bool)) \<Rightarrow> 'c list \<Rightarrow> Db \<Rightarrow> Db \<times> nat" where
  "sweep f [] db = (db, 0)"
| "sweep f (c # cs) db =
    (case f c db of
       Inl _ \<Rightarrow> sweep f cs db
     | Inr (db', done) \<Rightarrow> (case sweep f cs db' of (db'', n) \<Rightarrow> (db'', if done then Suc n else n)))"

definition selector_from_snapshot :: "Allocation \<Rightarrow> Resource \<Rightarrow> exn + Selector" where
  "selector_from_snapshot alloc resource =
    (case (requested_vcpus alloc, requested_memory_gb alloc) of
       (Some v, Some m) \<Rightarrow> Inr \<lparr>sel_vcpus = v, sel_memory_gb = m, sel_cost_class = res_cost_class resource\<rparr>
     | _ \<Rightarrow> Inl config_error)"

definition request_from_queued :: "Allocation \<Rightarrow> Resource \<Rightarrow> exn + AllocationRequest" where
  "request_from_queued alloc resource =
    rbind (selector_from_snapshot alloc resource) (\<lambda>selector.
      Inr \<lparr>ar_ctx = \<lparr>ctx_principal = principal alloc, ctx_agent_session = agent_session alloc,
                     ctx_projects = [project alloc], ctx_roles = [], ctx_platform_roles = [],
                     ctx_client_id = None\<rparr>,
           ar_resource = resource, ar_project = project alloc, ar_selector = selector, ar_window = None,
           ar_idempotency_key = None, ar_disk_gb = requested_disk_gb alloc, ar_shape = al_shape alloc,
           ar_pcie_specs = requested_pcie_specs alloc, ar_on_capacity = Deny,
           ar_requested_kind = requested_kind alloc, ar_requested_resource_id = requested_resource_id alloc\<rparr>)"

definition candidate_hosts :: "Allocation \<Rightarrow> Db \<Rightarrow> exn + Resource list" where
  "candidate_hosts alloc db =
    (case map_result parse_match_spec (requested_pcie_specs alloc) of
       Inl _ \<Rightarrow> Inr []
     | Inr _ \<Rightarrow>
         rbind (resolve_placement_candidates
                  \<lparr>pl_resource_id = requested_resource_id alloc, pl_kind = requested_kind alloc,
                   pl_pcie_specs = requested_pcie_specs alloc, pl_project = Some (project alloc)\<rparr> db)
           (\<lambda>candidates. Inr (pc_resources candidates)))"

definition is_budget_terminate :: "AdmissionOutcome \<Rightarrow> bool" where
  "is_budget_terminate d \<longleftrightarrow> category d = Some ALLOCATION_DENIED \<and> \<not> queueable d"

definition promoted_row :: "Resource \<Rightarrow> time \<Rightarrow> PCIeClaim list \<Rightarrow> Allocation \<Rightarrow> Allocation" where
  "promoted_row resource expiry devices a =
    a\<lparr>al_state := AllocationState.GRANTED, resource_id := Some (oid resource), lease_expiry := Some expiry,
      pcie_claim := devices\<rparr>"

definition grant_queued ::
  "Env \<Rightarrow> Allocation \<Rightarrow> Resource \<Rightarrow> rat \<Rightarrow> rat \<Rightarrow> PCIeClaim list \<Rightarrow> Db \<Rightarrow> exn + (Db \<times> bool)" where
  "grant_queued env alloc resource window_hours estimate devices db =
    rbind (add_hours (utcnow env) window_hours) (\<lambda>expiry.
    rbind (ensure_transition (AllocationSt (al_state alloc)) (AllocationSt AllocationState.GRANTED)) (\<lambda>_.
    if count_rows (\<lambda>a. oid a = oid alloc \<and> al_state a = AllocationState.REQUESTED) (allocations db) \<noteq> 1
    then Inr (db, False)
    else
      rbind (guard (fk oid (resources db) (Some (oid resource))) ForeignKeyViolation) (\<lambda>_.
      let db = db\<lparr>allocations := tbl_update oid (oid alloc)
                 (touch (db_clock db) (promoted_row resource expiry devices)) (allocations db)\<rparr>
      in rbind (reserve (new_ledger_id env) (promoted_row resource expiry devices alloc) estimate db) (\<lambda>db.
         Inr (record_system (principal alloc) (agent_session alloc)
                \<lparr>ev_tool = ''allocations.request'', ev_object_kind = ''allocations'',
                 ev_object_id = oid alloc, ev_transition = ''requested->granted'',
                 ev_project = project alloc\<rparr> db, True)))))"

definition promotion_terminate :: "Allocation \<Rightarrow> Db \<Rightarrow> exn + Db" where
  "promotion_terminate alloc db =
    rbind (ALLOCATIONS_update_state (oid alloc) AllocationState.FAILED db) (\<lambda>(db, _).
      Inr (record_system SYSTEM_RECONCILER_PRINCIPAL (agent_session alloc)
             \<lparr>ev_tool = ''allocations.request'', ev_object_kind = ''allocations'', ev_object_id = oid alloc,
              ev_transition = ''requested->failed'', ev_project = project alloc\<rparr> db))"

datatype HostTry = Terminated Db | Granted Db bool | Waits

definition try_one_host :: "Env \<Rightarrow> Allocation \<Rightarrow> Resource \<Rightarrow> Db \<Rightarrow> exn + HostTry" where
  "try_one_host env alloc resource db =
    rbind (request_from_queued alloc resource) (\<lambda>request.
    rbind (price_window_and_estimate env request db) (\<lambda>(window_hours, estimate).
    rbind (admission_gate request estimate db) (\<lambda>gate.
      case gr_denial gate of
        None \<Rightarrow>
          rbind (grant_queued env alloc resource window_hours estimate (gr_devices gate) db)
            (\<lambda>(db', ok). Inr (Granted db' ok))
      | Some d \<Rightarrow>
          if is_budget_terminate d
          then rbind (promotion_terminate alloc db) (\<lambda>db'. Inr (Terminated db'))
          else Inr Waits)))"

fun place_or_terminate :: "Env \<Rightarrow> Allocation \<Rightarrow> Resource list \<Rightarrow> Db \<Rightarrow> exn + (Db \<times> bool)" where
  "place_or_terminate env alloc [] db = Inr (db, False)"
| "place_or_terminate env alloc (resource # rest) db =
    rbind (try_one_host env alloc resource db) (\<lambda>r.
      case r of
        Granted db' ok \<Rightarrow> if ok then Inr (db', True) else place_or_terminate env alloc rest db'
      | Terminated db' \<Rightarrow> Inr (db', False)
      | Waits \<Rightarrow> place_or_terminate env alloc rest db)"

definition promote_one :: "Env \<Rightarrow> uuid \<Rightarrow> Db \<Rightarrow> exn + (Db \<times> bool)" where
  "promote_one env alloc_id db =
    (case ALLOCATIONS_get alloc_id db of
       None \<Rightarrow> Inr (db, False)
     | Some alloc \<Rightarrow>
         if al_state alloc \<noteq> AllocationState.REQUESTED then Inr (db, False)
         else rbind (candidate_hosts alloc db) (\<lambda>hosts. place_or_terminate env alloc hosts db))"

definition pending_ids :: "Db \<Rightarrow> uuid list" where
  "pending_ids db =
    map oid (sort_key created_at (sort_key oid
      (filter (\<lambda>a. al_state a = AllocationState.REQUESTED) (allocations db))))"

definition promote_pending :: "(uuid \<Rightarrow> Env) \<Rightarrow> Db \<Rightarrow> Db \<times> nat" where
  "promote_pending env db = sweep (\<lambda>k. promote_one (env k) k) (pending_ids db) db"

definition still_aged_requested :: "uuid \<Rightarrow> int \<Rightarrow> Db \<Rightarrow> bool" where
  "still_aged_requested alloc_id max_wait db =
    (case ALLOCATIONS_get alloc_id db of
       None \<Rightarrow> False
     | Some a \<Rightarrow> al_state a = AllocationState.REQUESTED \<and> created_at a < db_clock db - max_wait)"

definition reap_one :: "int \<Rightarrow> uuid \<times> string \<Rightarrow> Db \<Rightarrow> exn + (Db \<times> bool)" where
  "reap_one max_wait candidate db =
    (case candidate of (alloc_id, proj) \<Rightarrow>
      if \<not> still_aged_requested alloc_id max_wait db then Inr (db, False)
      else (case ALLOCATIONS_get alloc_id db of
              None \<Rightarrow> Inr (db, False)
            | Some alloc \<Rightarrow>
                rbind (ALLOCATIONS_update_state alloc_id AllocationState.FAILED db) (\<lambda>(db, _).
                  Inr (record_system SYSTEM_RECONCILER_PRINCIPAL (agent_session alloc)
                    \<lparr>ev_tool = ''reconciler.reap_queue_timeout'', ev_object_kind = ''allocations'',
                     ev_object_id = alloc_id, ev_transition = ''requested->failed'', ev_project = proj\<rparr> db, True))))"

definition reap_queue_timeouts :: "int \<Rightarrow> Db \<Rightarrow> Db \<times> nat" where
  "reap_queue_timeouts max_wait db =
    sweep (reap_one max_wait)
      (map (\<lambda>a. (oid a, project a))
        (filter (\<lambda>a. al_state a = AllocationState.REQUESTED \<and> created_at a < db_clock db - max_wait)
          (allocations db))) db"


section \<open>Expiry and orphans\<close>

definition lease_elapsed :: "Db \<Rightarrow> Allocation \<Rightarrow> bool" where
  "lease_elapsed db a = (case lease_expiry a of None \<Rightarrow> False | Some e \<Rightarrow> e < db_clock db)"

definition expire_one :: "(uuid \<Rightarrow> Env) \<Rightarrow> uuid \<times> string \<Rightarrow> Db \<Rightarrow> exn + (Db \<times> bool)" where
  "expire_one env candidate db =
    (case candidate of (alloc_id, proj) \<Rightarrow>
      (case ALLOCATIONS_get alloc_id db of
         None \<Rightarrow> Inr (db, False)
       | Some alloc \<Rightarrow>
           if al_state alloc \<in> set TERMINAL \<or> \<not> lease_elapsed db alloc then Inr (db, False)
           else (case stamp_active_ended alloc (utcnow (env alloc_id)) db of (db, alloc) \<Rightarrow>
             rbind (ALLOCATIONS_update_state alloc_id AllocationState.EXPIRED db) (\<lambda>(db, _).
             let db = record_system SYSTEM_RECONCILER_PRINCIPAL None
                   \<lparr>ev_tool = ''reconciler.sweep_expired'', ev_object_kind = ''allocations'',
                    ev_object_id = alloc_id,
                    ev_transition = AllocationState_value (al_state alloc) @ ''->expired'',
                    ev_project = proj\<rparr> db
             in rbind (reconcile (new_ledger_id (env alloc_id)) alloc db) (\<lambda>(db, _). Inr (db, True))))))"

definition sweep_expired_allocations :: "(uuid \<Rightarrow> Env) \<Rightarrow> Db \<Rightarrow> Db \<times> nat" where
  "sweep_expired_allocations env db =
    sweep (expire_one env)
      (map (\<lambda>a. (oid a, project a))
        (filter (\<lambda>a. al_state a \<notin> set TERMINAL \<and> lease_elapsed db a) (allocations db))) db"

definition LIVE_SYSTEM_STATES :: "SystemState list" where
  "LIVE_SYSTEM_STATES = [SystemState.DEFINED, SystemState.PROVISIONING, SystemState.READY,
    SystemState.REPROVISIONING, SystemState.CRASHED]"

definition has_live_system :: "uuid \<Rightarrow> Db \<Rightarrow> bool" where
  "has_live_system alloc_id db =
    list_ex (\<lambda>s. allocation_id s = alloc_id \<and> sys_state s \<in> set LIVE_SYSTEM_STATES) (systems db)"

definition reclaim_orphaned_active :: "(uuid \<Rightarrow> Env) \<Rightarrow> uuid \<times> string \<Rightarrow> Db \<Rightarrow> exn + (Db \<times> bool)" where
  "reclaim_orphaned_active env candidate db =
    (case candidate of (alloc_id, proj) \<Rightarrow>
      rbind (reclaim_under_lock (env alloc_id) system_audit_writer alloc_id proj
               (Some (\<lambda>db. \<not> has_live_system alloc_id db)) db)
        (\<lambda>(db, outcome). Inr (db, released outcome)))"

definition reap_orphaned_active_allocations :: "(uuid \<Rightarrow> Env) \<Rightarrow> int \<Rightarrow> Db \<Rightarrow> Db \<times> nat" where
  "reap_orphaned_active_allocations env grace db =
    sweep (reclaim_orphaned_active env)
      (map (\<lambda>a. (oid a, project a))
        (filter (\<lambda>a. al_state a = AllocationState.ACTIVE \<and> updated_at a < db_clock db - grace \<and>
                     \<not> has_live_system (oid a) db) (allocations db))) db"

end
