(* ===== verification/Alloc_Invariants.thy ===== *)
theory Alloc_Invariants
  imports Alloc_Lifecycle
begin

text \<open>
  The accounting invariant of the allocation services: the running totals equal the
  ledger, every ledger row belongs to an allocation of its project, a queued or
  failed request was never charged, a live allocation is not yet reconciled, and an
  ended one is reconciled exactly once if it ever reserved.  The invariant is first
  shown for the writes one transaction makes on one allocation, then for every
  service, through the locales \<open>audit_writer\<close> and \<open>preserving\<close>.
\<close>

section \<open>The invariant\<close>

definition n_rows :: "LedgerEventType \<Rightarrow> uuid \<Rightarrow> Db \<Rightarrow> nat" where
  "n_rows et k db = count_rows (\<lambda>e. le_allocation_id e = k \<and> event_type e = et) (ledger db)"

text \<open>What the ledger may hold for an allocation in its present state.\<close>

definition charge_ok :: "Allocation \<Rightarrow> nat \<Rightarrow> nat \<Rightarrow> bool" where
  "charge_ok a n_reserved n_reconciled =
    (case al_state a of
       AllocationState.REQUESTED \<Rightarrow> n_reserved = 0 \<and> n_reconciled = 0 \<and> lease_expiry a = None
     | AllocationState.FAILED \<Rightarrow> n_reserved = 0 \<and> n_reconciled = 0
     | AllocationState.RELEASED \<Rightarrow> n_reconciled \<le> 1 \<and> (n_reserved = 0 \<or> n_reconciled = 1)
     | AllocationState.EXPIRED \<Rightarrow> n_reconciled \<le> 1 \<and> (n_reserved = 0 \<or> n_reconciled = 1)
     | _ \<Rightarrow> n_reconciled = 0)"

definition charges_ok_but :: "uuid set \<Rightarrow> Db \<Rightarrow> bool" where
  "charges_ok_but ks db \<longleftrightarrow> balanced db \<and> distinct (map oid (allocations db)) \<and>
    (\<forall>a\<in>set (allocations db). oid a \<notin> ks \<longrightarrow> charge_ok a (n_rows RESERVED (oid a) db) (n_rows RECONCILED (oid a) db)) \<and>
    (\<forall>e\<in>set (ledger db). \<exists>a\<in>set (allocations db). oid a = le_allocation_id e \<and> project a = le_project e)"

definition acct_inv :: "Db \<Rightarrow> bool" where
  "acct_inv db = charges_ok_but {} db"

lemma charges_ok_but_mono: "charges_ok_but ks db \<Longrightarrow> ks \<subseteq> ks' \<Longrightarrow> charges_ok_but ks' db"
  unfolding charges_ok_but_def by blast

lemma acct_inv_but: "acct_inv db \<Longrightarrow> charges_ok_but {k} db"
  unfolding acct_inv_def by (erule charges_ok_but_mono) simp

lemma acct_invI:
  assumes "charges_ok_but {k} db"
    and "\<And>a. ALLOCATIONS_get k db = Some a \<Longrightarrow> charge_ok a (n_rows RESERVED k db) (n_rows RECONCILED k db)"
  shows "acct_inv db"
  using assms tbl.mem_get [of oid "allocations db"]
  unfolding acct_inv_def charges_ok_but_def ALLOCATIONS_get_def by (metis empty_iff insert_iff)

lemma acct_inv_charge:
  assumes "acct_inv db" "ALLOCATIONS_get k db = Some a"
  shows "charge_ok a (n_rows RESERVED k db) (n_rows RECONCILED k db)"
  using assms tbl.get_mem [of oid k "allocations db" a] tbl.get_key [of oid k "allocations db" a]
  unfolding acct_inv_def charges_ok_but_def ALLOCATIONS_get_def by auto

lemma charges_frame:
  assumes "allocations db' = allocations db" "ledger db' = ledger db" "budgets db' = budgets db"
  shows "charges_ok_but ks db' = charges_ok_but ks db"
  unfolding charges_ok_but_def n_rows_def using assms balanced_cong [of db' db] by simp

lemma acct_inv_frame:
  "allocations db' = allocations db \<Longrightarrow> ledger db' = ledger db \<Longrightarrow> budgets db' = budgets db \<Longrightarrow>
    acct_inv db' = acct_inv db"
  unfolding acct_inv_def by (rule charges_frame)

text \<open>An update of one row leaves the others as they were.\<close>

lemma charges_update:
  assumes "charges_ok_but {k} db" "ledger db' = ledger db" "budgets db' = budgets db"
    and "allocations db' = tbl_update oid k f (allocations db)"
    and "\<And>a. oid (f a) = oid a" "\<And>a. project (f a) = project a"
  shows "charges_ok_but {k} db'"
proof -
  have keys: "map oid (allocations db') = map oid (allocations db)"
    unfolding assms(4) by (rule tbl.upd_keys) (rule assms(5))
  have same: "a \<in> set (allocations db)" if "a \<in> set (allocations db')" "oid a \<noteq> k" for a
    using that assms(5) unfolding assms(4) tbl_update_def by auto
  have img: "\<exists>a'\<in>set (allocations db'). oid a' = oid a \<and> project a' = project a"
    if "a \<in> set (allocations db)" for a
    using that assms(5,6) unfolding assms(4) tbl_update_def by (cases "oid a = k") force+
  have rows: "n_rows et x db' = n_rows et x db" for et x by (simp add: n_rows_def assms(2))
  show ?thesis
    unfolding charges_ok_but_def rows assms(2) balanced_cong [OF assms(2,3)] keys
  proof (intro conjI ballI impI)
    fix e assume "e \<in> set (ledger db)"
    then obtain a where "a \<in> set (allocations db)" "oid a = le_allocation_id e" "project a = le_project e"
      using assms(1) unfolding charges_ok_but_def by blast
    with img show "\<exists>a\<in>set (allocations db'). oid a = le_allocation_id e \<and> project a = le_project e" by metis
  qed (use assms(1) same in \<open>auto simp: charges_ok_but_def\<close>)
qed

lemma n_rows_append:
  assumes "ledger db' = ledger db @ [e]"
  shows "n_rows et k db' = n_rows et k db + (if le_allocation_id e = k \<and> event_type e = et then 1 else 0)"
  using assms by (simp add: n_rows_def)

lemma charges_write_delta:
  assumes "charges_ok_but {oid al} db" "write_delta lid al et d db = Inr db'"
    and "\<exists>a\<in>set (allocations db). oid a = oid al \<and> project a = project al"
  shows "charges_ok_but {oid al} db'"
proof -
  obtain e where e: "le_project e = project al" "le_allocation_id e = oid al" "event_type e = et"
    and db': "db' = db\<lparr>ledger := ledger db @ [e],
              budgets := tbl_update bud_project (project al) (charge (db_clock db) d) (budgets db)\<rparr>"
    using assms(2) by (rule write_delta_Inr)
  have l: "ledger db' = ledger db @ [e]" and a: "allocations db' = allocations db" by (simp_all add: db')
  have "n_rows t x db' = n_rows t x db" if "x \<noteq> oid al" for t x
    using that e(2) by (simp add: n_rows_append [OF l])
  moreover have "balanced db'"
    using assms(1,2) write_delta_balanced unfolding charges_ok_but_def by blast
  ultimately show ?thesis
    using assms(1,3) e(1,2) unfolding charges_ok_but_def a l by auto
qed



section \<open>Writes on one allocation\<close>

text \<open>
  A transaction working on allocation \<open>k\<close> whose row is in state \<open>s\<close>: the invariant
  holds for the other allocations, and the ledger counts of \<open>k\<close> are known.
\<close>

definition working :: "uuid \<Rightarrow> string \<Rightarrow> AllocationState \<Rightarrow> nat \<Rightarrow> nat \<Rightarrow> Db \<Rightarrow> bool" where
  "working k proj s n_reserved n_reconciled db \<longleftrightarrow> charges_ok_but {k} db \<and>
    (\<exists>a. ALLOCATIONS_get k db = Some a \<and> project a = proj \<and> al_state a = s) \<and>
    n_rows RESERVED k db = n_reserved \<and> n_rows RECONCILED k db = n_reconciled"

lemma workingI:
  assumes "acct_inv db" "ALLOCATIONS_get k db = Some a"
  shows "working k (project a) (al_state a) (n_rows RESERVED k db) (n_rows RECONCILED k db) db"
  using assms acct_inv_but unfolding working_def by blast

lemma working_frame:
  assumes "working k p s m n db"
    and "allocations db' = allocations db" "ledger db' = ledger db" "budgets db' = budgets db"
  shows "working k p s m n db'"
  using assms(1) unfolding working_def ALLOCATIONS_get_def n_rows_def charges_frame [OF assms(2-4)] assms(2,3) .

lemma working_update:
  assumes w: "working k p s m n db" and "ledger db' = ledger db" "budgets db' = budgets db"
    and al: "allocations db' = tbl_update oid k f (allocations db)"
    and "\<And>a. oid (f a) = oid a" "\<And>a. project (f a) = project a" "\<And>a. al_state a = s \<Longrightarrow> al_state (f a) = s'"
  shows "working k p s' m n db'"
proof -
  have "charges_ok_but {k} db'"
    by (rule charges_update [of k db db' f]) (use assms in \<open>simp_all add: working_def\<close>)
  moreover have "ALLOCATIONS_get k db' = map_option f (ALLOCATIONS_get k db)"
    unfolding ALLOCATIONS_get_def al by (subst tbl.get_upd) (simp_all add: assms(5))
  ultimately show ?thesis using w assms(2,6,7) unfolding working_def n_rows_def by force
qed

lemma working_state:
  assumes "working k p s m n db" "ALLOCATIONS_update_state k s' db = Inr (db', row)"
  shows "working k p s' m n db' \<and> can_transition (AllocationSt s) (AllocationSt s') = Inr True"
proof -
  obtain a where a: "ALLOCATIONS_get k db = Some a"
      "can_transition (AllocationSt (al_state a)) (AllocationSt s') = Inr True"
      "db' = db\<lparr>allocations := tbl_update oid k (touch (db_clock db) (al_state_update (\<lambda>_. s'))) (allocations db)\<rparr>"
    using assms(2) by (auto simp: ALLOCATIONS_update_state_Inr)
  moreover have "working k p s' m n db'"
    by (rule working_update [OF assms(1), of _ "touch (db_clock db) (al_state_update (\<lambda>_. s'))"]) (simp_all add: a(3))
  moreover have "al_state a = s" using assms(1) a(1) unfolding working_def by auto
  ultimately show ?thesis by simp
qed

lemma working_write:
  assumes w: "working (oid al) (project al) s m n db" and d: "write_delta lid al et d db = Inr db'"
  shows "working (oid al) (project al) s (m + (if et = RESERVED then 1 else 0))
    (n + (if et = RECONCILED then 1 else 0)) db'"
proof -
  obtain a where a: "ALLOCATIONS_get (oid al) db = Some a" "project a = project al" "al_state a = s"
    using w unfolding working_def by blast
  then have mem: "\<exists>a\<in>set (allocations db). oid a = oid al \<and> project a = project al"
    unfolding ALLOCATIONS_get_def using tbl.get_mem tbl.get_key by metis
  have c: "charges_ok_but {oid al} db" using w unfolding working_def by blast
  obtain e where e: "le_allocation_id e = oid al" "event_type e = et"
    and db': "db' = db\<lparr>ledger := ledger db @ [e],
              budgets := tbl_update bud_project (project al) (charge (db_clock db) d) (budgets db)\<rparr>"
    using d by (rule write_delta_Inr)
  have l: "ledger db' = ledger db @ [e]" and al: "allocations db' = allocations db" by (simp_all add: db')
  show ?thesis
    using charges_write_delta [OF c d mem] a w e
    unfolding working_def n_rows_append [OF l] by (simp add: ALLOCATIONS_get_def al)
qed

lemma working_reserve:
  assumes "working (oid al) (project al) s m n db" "reserve lid al x db = Inr db'"
  shows "working (oid al) (project al) s (Suc m) n db'"
  using assms working_write [of al s m n db lid RESERVED] by (auto simp: reserve_def)

lemma unbudgeted_rows:
  assumes "working k p s m n db" "\<not> has_budget p db"
  shows "m = 0 \<and> n = 0"
proof -
  obtain a where a: "ALLOCATIONS_get k db = Some a" "project a = p"
    and c: "charges_ok_but {k} db" using assms(1) unfolding working_def by blast
  have "le_allocation_id e \<noteq> k" if e: "e \<in> set (ledger db)" for e
  proof
    assume k: "le_allocation_id e = k"
    obtain b where b: "b \<in> set (allocations db)" "oid b = k" "project b = le_project e"
      using c e k unfolding charges_ok_but_def by blast
    have "tbl_get oid (oid b) (allocations db) = Some b"
      using c b(1) unfolding charges_ok_but_def by (intro tbl.mem_get) auto
    then have "b = a" using a(1) b(2) unfolding ALLOCATIONS_get_def by simp
    moreover have "le_project e \<in> bud_project ` set (budgets db)"
      using c e unfolding charges_ok_but_def balanced_def list_all_iff by blast
    ultimately show False
      using assms(2) a(2) b(3) unfolding has_budget_def by (simp add: tbl_get_None_iff)
  qed
  then have "n_rows et k db = 0" for et unfolding n_rows_def count_rows_zero_iff by blast
  then show ?thesis using assms(1) unfolding working_def by metis
qed

lemma working_reconcile:
  assumes "working (oid al) (project al) s m n db" "reconcile lid al db = Inr (db', d)"
  shows "\<exists>n'. working (oid al) (project al) s m n' db' \<and> (n' = Suc n \<or> n' = n \<and> m = 0 \<and> n = 0)"
  using assms(2)
proof (cases rule: reconcile_Inr)
  case unmetered
  then show ?thesis using assms(1) unbudgeted_rows by blast
next
  case metered
  then show ?thesis using working_write [OF assms(1) metered(5)] by auto
qed

lemma working_acct_inv:
  assumes "working k p s m n db" "\<And>a. al_state a = s \<Longrightarrow> ALLOCATIONS_get k db = Some a \<Longrightarrow> charge_ok a m n"
  shows "acct_inv db"
  using assms unfolding working_def by (intro acct_invI [of k]) auto

lemma stamp_working:
  assumes "working (oid al) p s m n db" "stamp_active_ended al t db = (db', al')"
  shows "working (oid al) p s m n db' \<and> oid al' = oid al \<and> project al' = project al \<and> al_state al' = al_state al"
proof (cases "ALLOCATIONS_get (oid al) db")
  case None
  then show ?thesis using assms by (auto simp: stamp_active_ended_def)
next
  case (Some row)
  show ?thesis
  proof (cases "active_started_at row")
    case None
    then show ?thesis using assms Some by (auto simp: stamp_active_ended_def)
  next
    case (Some started)
    let ?f = "touch (db_clock db) (active_ended_at_update (\<lambda>_. Some t))"
    have r: "db' = db\<lparr>allocations := tbl_update oid (oid al) ?f (allocations db)\<rparr>"
        "al' = al\<lparr>active_started_at := Some started, active_ended_at := Some t\<rparr>"
      using assms(2) \<open>ALLOCATIONS_get (oid al) db = Some row\<close> Some by (auto simp: stamp_active_ended_def)
    have "working (oid al) p s m n db'"
      by (rule working_update [OF assms(1), of _ ?f]) (simp_all add: r(1))
    then show ?thesis by (simp add: r(2))
  qed
qed



section \<open>The services keep the invariant\<close>

text \<open>What a release needs of its audit writer: it writes the audit log only.\<close>

locale audit_writer =
  fixes w :: AuditWriter
  assumes writes_log: "w ev db = Inr db' \<Longrightarrow> \<exists>log. db' = db\<lparr>audit_log := log\<rparr>"
begin

lemma transition_working:
  assumes "working k p s m n db" "transition_and_audit w k frm s' proj db = Inr db'"
  shows "working k p s' m n db'"
proof -
  obtain db1 row ev where u: "ALLOCATIONS_update_state k s' db = Inr (db1, row)" and a: "w ev db1 = Inr db'"
    using assms(2) unfolding transition_and_audit_def by auto
  obtain log where "db' = db1\<lparr>audit_log := log\<rparr>" using writes_log [OF a] by blast
  then show ?thesis
    using working_state [OF assms(1) u] by (auto intro: working_frame)
qed

lemma begin_release_working:
  assumes "working (oid al) p s m n db" "begin_release env w al proj db = Inr (db', al')"
  shows "working (oid al') p AllocationState.RELEASING m n db' \<and> oid al' = oid al \<and> project al' = project al"
proof -
  obtain db1 where t: "transition_and_audit w (oid al) (al_state al) AllocationState.RELEASING proj db = Inr db1"
    and s: "stamp_active_ended al (utcnow env) db1 = (db', al')"
    using assms(2) unfolding begin_release_def by auto
  show ?thesis using stamp_working [OF transition_working [OF assms(1) t] s] by simp
qed

lemma settle_inv:
  assumes "working (oid al) (project al) s m 0 db" "settle env w al proj db = Inr db'"
  shows "acct_inv db'"
proof -
  obtain db1 d where t: "transition_and_audit w (oid al) AllocationState.RELEASING AllocationState.RELEASED proj db = Inr db1"
    and r: "reconcile (new_ledger_id env) al db1 = Inr (db', d)"
    using assms(2) unfolding settle_def by auto
  obtain n' where "working (oid al) (project al) AllocationState.RELEASED m n' db'"
      "n' = Suc 0 \<or> n' = 0 \<and> m = 0"
    using working_reconcile [OF transition_working [OF assms(1) t] r] by auto
  then show ?thesis by (elim working_acct_inv) (auto simp: charge_ok_def)
qed

lemma release_parts_inv:
  assumes "acct_inv db" "ALLOCATIONS_get uid db = Some al" "al_state al \<in> set RELEASABLE"
    and "begin_release env w al proj db = Inr (db1, al1)" "settle env w al1 proj db1 = Inr db'"
  shows "acct_inv db'"
proof -
  have k: "oid al = uid" using assms(2) unfolding ALLOCATIONS_get_def by (rule tbl.get_key)
  have z: "n_rows RECONCILED uid db = 0"
    using acct_inv_charge [OF assms(1,2)] assms(3) by (auto simp: charge_ok_def RELEASABLE_def)
  have "working (oid al) (project al) (al_state al) (n_rows RESERVED uid db) 0 db"
    using workingI [OF assms(1,2)] k z by simp
  from begin_release_working [OF this assms(4)]
  have "working (oid al1) (project al1) AllocationState.RELEASING (n_rows RESERVED uid db) 0 db1" by auto
  then show ?thesis using assms(5) by (rule settle_inv)
qed

lemma release_locked_inv:
  assumes "acct_inv db" "release_locked env w uid proj db = Inr (db', oc)"
  shows "acct_inv db'"
proof (cases "ALLOCATIONS_get uid db")
  case None
  then show ?thesis using assms unfolding release_locked_def by simp
next
  case (Some al)
  note c = acct_inv_charge [OF assms(1) Some] and wk = workingI [OF assms(1) Some]
  have k: "oid al = uid" using Some unfolding ALLOCATIONS_get_def by (rule tbl.get_key)
  consider "al_state al \<in> set TERMINAL" | "al_state al = AllocationState.REQUESTED"
    | "al_state al \<in> set RELEASABLE" | "al_state al = AllocationState.RELEASING"
    by (cases "al_state al") (auto simp: TERMINAL_def RELEASABLE_def)
  then show ?thesis
  proof cases
    case 1
    then show ?thesis using assms Some unfolding release_locked_def by simp
  next
    case 2
    then have s: "transition_and_audit w uid (al_state al) AllocationState.RELEASED proj db = Inr db'"
      using assms(2) Some unfolding release_locked_def by (auto simp: TERMINAL_def)
    show ?thesis
      by (rule working_acct_inv [OF transition_working [OF wk s]]) (use c 2 in \<open>auto simp: charge_ok_def\<close>)
  next
    case 3
    then obtain db1 al1 where p: "begin_release env w al proj db = Inr (db1, al1)" "settle env w al1 proj db1 = Inr db'"
      using assms(2) Some unfolding release_locked_def by (auto simp: RELEASABLE_def TERMINAL_def split: if_splits)
    show ?thesis by (rule release_parts_inv [OF assms(1) Some 3 p])
  next
    case 4
    then have s: "settle env w al proj db = Inr db'"
      using assms(2) Some unfolding release_locked_def by (auto simp: RELEASABLE_def TERMINAL_def)
    show ?thesis
      by (rule settle_inv [OF _ s]) (use wk c 4 k in \<open>auto simp: charge_ok_def\<close>)
  qed
qed

lemma release_with_backstops_inv:
  assumes "acct_inv db" "release_with_backstops env w uid proj db = Inr (db', oc)"
  shows "acct_inv db'"
proof (cases "release_locked env w uid proj db")
  case (Inl e)
  then have "db' = db" using assms(2) unfolding release_with_backstops_def by (cases e) auto
  then show ?thesis using assms(1) by simp
next
  case (Inr r)
  then show ?thesis using assms release_locked_inv unfolding release_with_backstops_def by auto
qed

lemma reclaim_under_lock_inv:
  assumes "acct_inv db" "reclaim_under_lock env w uid proj pre db = Inr (db', oc)"
  shows "acct_inv db'"
proof (cases "ALLOCATIONS_get uid db")
  case None
  then show ?thesis using assms unfolding reclaim_under_lock_def by simp
next
  case (Some al)
  consider "db' = db" | db1 al1 where "al_state al \<in> set RELEASABLE"
      "begin_release env w al proj db = Inr (db1, al1)" "settle env w al1 proj db1 = Inr db'"
    using assms(2) Some unfolding reclaim_under_lock_def by (auto split: if_splits)
  then show ?thesis
  proof cases
    case 2
    show ?thesis by (rule release_parts_inv [OF assms(1) Some 2])
  qed (use assms(1) in simp)
qed

end

interpretation ctx_writer: audit_writer "ctx_audit_writer ctx" for ctx
  by unfold_locales (auto simp: ctx_audit_writer_def elim: audit_record_Inr)

interpretation system_writer: audit_writer system_audit_writer
  by unfold_locales (auto simp: system_audit_writer_def record_system_def)


lemma working_insert:
  assumes inv: "acct_inv db" and ins: "ALLOCATIONS_insert a db = Inr (db', row)"
  shows "working (oid row) (project row) (al_state row) 0 0 db'"
proof -
  have db': "db' = db\<lparr>allocations := allocations db @ [row]\<rparr>" and new: "oid row \<notin> oid ` set (allocations db)"
    using ins by (auto simp: ALLOCATIONS_insert_Inr)
  have al: "allocations db' = allocations db @ [row]" and l: "ledger db' = ledger db"
    and b: "budgets db' = budgets db" by (simp_all add: db')
  have c: "balanced db" "distinct (map oid (allocations db))"
    "\<And>a. a \<in> set (allocations db) \<Longrightarrow> charge_ok a (n_rows RESERVED (oid a) db) (n_rows RECONCILED (oid a) db)"
    "\<And>e. e \<in> set (ledger db) \<Longrightarrow> \<exists>a\<in>set (allocations db). oid a = le_allocation_id e \<and> project a = le_project e"
    using inv unfolding acct_inv_def charges_ok_but_def by auto
  have rows: "n_rows et x db' = n_rows et x db" for et x by (simp add: n_rows_def l)
  have "n_rows et (oid row) db = 0" for et
    unfolding n_rows_def count_rows_zero_iff using c(4) new by (metis imageI)
  moreover have "ALLOCATIONS_get (oid row) db' = Some row"
    unfolding ALLOCATIONS_get_def al by (simp add: tbl_get_append [OF new])
  moreover have "charges_ok_but {oid row} db'"
    unfolding charges_ok_but_def al l rows balanced_cong [OF l b]
    using c new by (auto dest!: c(4))
  ultimately show ?thesis unfolding working_def rows by simp
qed

lemma record_key_if_working:
  "working k p s m n db \<Longrightarrow> record_key_if request x db = Inr db' \<Longrightarrow> working k p s m n db'"
  using record_key_if_Inr [of request x db db'] by (auto intro: working_frame)

lemma audit_record_working:
  "working k p s m n db \<Longrightarrow> audit_record ctx ev db = Inr db' \<Longrightarrow> working k p s m n db'"
  by (erule audit_record_Inr) (auto intro: working_frame)

lemma grant_inv:
  assumes "acct_inv db" "grant env request w est devs db = Inr (db', oc)"
  shows "acct_inv db'"
proof -
  obtain expiry row db1 db2 db3 where
    i: "ALLOCATIONS_insert ((request_row env request)\<lparr>resource_id := Some (oid (ar_resource request)),
             al_state := AllocationState.GRANTED, lease_expiry := Some expiry,
             pcie_claim := devs\<rparr>) db = Inr (db1, row)"
    and r: "reserve (new_ledger_id env) row est db1 = Inr db2"
    and k: "record_key_if request (oid row) db2 = Inr db3"
    and a: "audit_record (ar_ctx request) (request_event request (oid row) ''->granted'') db3 = Inr db'"
    using assms(2) by (rule grant_steps)
  have "al_state row = AllocationState.GRANTED" using i by (auto simp: ALLOCATIONS_insert_Inr)
  then have "working (oid row) (project row) AllocationState.GRANTED (Suc 0) 0 db'"
    using working_insert [OF assms(1) i] r k a
    by (metis working_reserve record_key_if_working audit_record_working)
  then show ?thesis by (rule working_acct_inv) (simp add: charge_ok_def)
qed

lemma enqueue_inv:
  assumes "acct_inv db" "enqueue env request db = Inr (db', oc)"
  shows "acct_inv db'"
proof (cases "within_pending_quota (ar_project request) db")
  case True
  obtain row db1 db3 where i: "ALLOCATIONS_insert ((request_row env request)
          \<lparr>requested_pcie_specs := ar_pcie_specs request, requested_kind := ar_requested_kind request,
           requested_resource_id := ar_requested_resource_id request\<rparr>) db = Inr (db1, row)"
    and k: "record_key_if request (oid row) db1 = Inr db3"
    and a: "audit_record (ar_ctx request) (request_event request (oid row) ''->requested'') db3 = Inr db'"
    using assms(2) True by (rule enqueue_steps)
  have row: "al_state row = AllocationState.REQUESTED" "lease_expiry row = None"
    and db1: "ALLOCATIONS_get (oid row) db1 = Some row"
    using i by (auto simp: ALLOCATIONS_insert_Inr request_row_def ALLOCATIONS_get_def tbl_get_append)
  have w: "working (oid row) (project row) AllocationState.REQUESTED 0 0 db'"
    using working_insert [OF assms(1) i] row k a by (metis record_key_if_working audit_record_working)
  have "allocations db' = allocations db1"
    using record_key_if_Inr [OF k] a by (auto elim!: audit_record_Inr)
  then have "ALLOCATIONS_get (oid row) db' = Some row" using db1 by (simp add: ALLOCATIONS_get_def)
  with w show ?thesis by (elim working_acct_inv) (auto simp: charge_ok_def row)
next
  case False
  then show ?thesis using assms unfolding enqueue_def by simp
qed

lemma admit_inv:
  assumes "acct_inv db" "admit env request db = Inr (db', oc)"
  shows "acct_inv db'"
  using assms(2)
proof (cases rule: admit_cases)
  case (grants w est gate)
  show ?thesis by (rule grant_inv [OF assms(1) grants(5)])
next
  case (queues w est gate d)
  show ?thesis by (rule enqueue_inv [OF assms(1) queues(7)])
qed (use assms(1) in simp_all)

lemma request_admission_cases:
  assumes "request_admission env ctx p spec key db = Inr (db', r)"
  obtains (unchanged) "db' = db" | (admitted) request oc where "admit env request db = Inr (db', oc)"
    "ar_project request = p" "ar_ctx request = ctx" "ar_idempotency_key request = key"
proof -
  let ?s = "rbind (resolve_request_sizing (sp_shape spec) (sp_vcpus spec) (sp_memory_gb spec) (sp_disk_gb spec) db)
            (\<lambda>sizing. rbind (compose_pcie_specs spec sizing) (\<lambda>specs. Inr (sizing, specs)))"
  show thesis
  proof (cases ?s)
    case (Inl e)
    then have "db' = db" using assms unfolding request_admission_def by (cases e) auto
    then show thesis by (rule unchanged)
  next
    case (Inr sz)
    obtain sizing specs where sz: "sz = (sizing, specs)" by (cases sz)
    obtain target where t: "select_target (sp_resource_id spec) (sp_kind spec) specs p db = Inr target"
      using assms unfolding request_admission_def Inr sz by auto
    show thesis
    proof (cases target)
      case None
      then have "db' = db" using assms t unfolding request_admission_def Inr sz by simp
      then show thesis by (rule unchanged)
    next
      case (Some res)
      then obtain oc where "admit env (sized_request ctx p spec key sizing specs res) db = Inr (db', oc)"
        using assms t unfolding request_admission_def Inr sz by (auto split: if_splits)
      then show thesis by (rule admitted) (simp_all add: sized_request_def)
    qed
  qed
qed

lemma request_admission_inv:
  assumes "acct_inv db" "request_admission env ctx p spec key db = Inr (db', r)"
  shows "acct_inv db'"
  using assms(2) by (cases rule: request_admission_cases) (use assms(1) admit_inv in auto)


lemma renew_cases:
  assumes "renew env ctx k extend_text key db = Inr (db', oc)"
  obtains (refused) "\<not> renewed oc" "db' = db"
  | (replayed) a where "oid a = k" "oc = renew_done a" "db' = db"
  | (extended) hours alloc expiry bounds extension estimate where "positive_hours extend_text = Inr hours"
      "ALLOCATIONS_get k db = Some alloc" "al_state alloc \<notin> set TERMINAL" "lease_expiry alloc = Some expiry"
      "configured_lease_bounds (lease_default env) (lease_max env) = Inr bounds"
      "clamp_extension_hours bounds expiry hours (utcnow env) = Inr extension" "0 < added_hours extension"
      "extension_estimate alloc (added_hours extension) db = Inr estimate"
      "within_budget (project alloc) estimate db = Inr True"
      "apply_renew env ctx alloc extension estimate key db = Inr (db', oc)"
proof -
  let ?r = "rbind (positive_hours extend_text) (\<lambda>h. case ALLOCATIONS_get k db of
          None \<Rightarrow> Inr (db, refuse_renew CONFIGURATION_ERROR None)
        | Some _ \<Rightarrow> renew_under_project_lock env ctx k h key db)"
  consider c where "db' = db" "oc = refuse_renew c None" | "?r = Inr (db', oc)"
    using assms unfolding renew_def renew_denial_def by (cases ?r) (auto split: exn.splits)
  then show thesis
  proof cases
    case 1
    show thesis by (rule refused) (simp_all add: 1 refuse_renew_def)
  next
    case 2
    then obtain hours where h: "positive_hours extend_text = Inr hours" by auto
    show thesis
    proof (cases "ALLOCATIONS_get k db")
      case None
      then have "db' = db" "oc = refuse_renew CONFIGURATION_ERROR None" using 2 h by auto
      then show thesis by (intro refused) (simp_all add: refuse_renew_def)
    next
      case (Some alloc)
      then have u: "renew_under_project_lock env ctx k hours key db = Inr (db', oc)" using 2 h by simp
      then obtain rep where rep: "(case key of None \<Rightarrow> Inr None
           | Some x \<Rightarrow> resolve_replay (ctx_principal ctx) x RENEW_KIND db) = Inr rep"
        unfolding renew_under_project_lock_def by auto
      show thesis
      proof (cases rep)
        case (Some a)
        consider "db' = db" "oc = refuse_renew CONFIGURATION_ERROR None" | "oid a = k" "db' = db" "oc = renew_done a"
          using u unfolding renew_under_project_lock_def rep rbind.simps Some by (auto split: if_splits)
        then show thesis
        proof cases
          case 1
          then show thesis by (intro refused) (simp_all add: refuse_renew_def)
        next
          case 2
          from 2(1) 2(3) 2(2) show thesis by (rule replayed)
        qed
      next
        case None
        note v = u [unfolded renew_under_project_lock_def rep rbind.simps None option.case Some]
        consider c s where "db' = db" "oc = refuse_renew c s"
          | expiry bounds extension estimate where "al_state alloc \<notin> set TERMINAL" "lease_expiry alloc = Some expiry"
            "configured_lease_bounds (lease_default env) (lease_max env) = Inr bounds"
            "clamp_extension_hours bounds expiry hours (utcnow env) = Inr extension" "0 < added_hours extension"
            "extension_estimate alloc (added_hours extension) db = Inr estimate"
            "within_budget (project alloc) estimate db = Inr True"
            "apply_renew env ctx alloc extension estimate key db = Inr (db', oc)"
          using v by (auto split: if_splits option.splits simp: not_le)
        then show thesis
        proof cases
          case 1
          then show thesis by (intro refused) (simp_all add: refuse_renew_def)
        next
          case 2
          show thesis by (rule extended [OF h Some 2])
        qed
      qed
    qed
  qed
qed

lemma apply_renew_steps:
  assumes "apply_renew env ctx alloc extension estimate key db = Inr (db', oc)"
  obtains db2 db3 where
    "reserve (new_ledger_id env) (alloc\<lparr>lease_expiry := Some (new_expiry extension)\<rparr>) estimate
       (db\<lparr>allocations := tbl_update oid (oid alloc)
             (touch (db_clock db) (lease_expiry_update (\<lambda>_. Some (new_expiry extension)))) (allocations db)\<rparr>) = Inr db2"
    "db3 = db2 \<or> (\<exists>t. db3 = db2\<lparr>idempotency_keys := t\<rparr>)"
    "audit_record ctx \<lparr>ev_tool = ''allocations.renew'', ev_object_kind = ''allocations'',
                 ev_object_id = oid alloc, ev_transition = ''renew'', ev_project = project alloc\<rparr> db3 = Inr db'"
    "oc = renew_done (alloc\<lparr>lease_expiry := Some (new_expiry extension)\<rparr>)"
proof -
  let ?db = "db\<lparr>allocations := tbl_update oid (oid alloc)
             (touch (db_clock db) (lease_expiry_update (\<lambda>_. Some (new_expiry extension)))) (allocations db)\<rparr>"
  obtain db2 db3 where s: "reserve (new_ledger_id env) (alloc\<lparr>lease_expiry := Some (new_expiry extension)\<rparr>) estimate ?db = Inr db2"
    and k: "(case key of None \<Rightarrow> Inr db2
       | Some x \<Rightarrow> record_key (ctx_principal ctx) x (project alloc) RENEW_KIND (oid alloc) db2) = Inr db3"
    and a: "audit_record ctx \<lparr>ev_tool = ''allocations.renew'', ev_object_kind = ''allocations'',
                 ev_object_id = oid alloc, ev_transition = ''renew'', ev_project = project alloc\<rparr> db3 = Inr db'"
    and o: "oc = renew_done (alloc\<lparr>lease_expiry := Some (new_expiry extension)\<rparr>)"
    using assms unfolding apply_renew_def Let_def
    by (auto simp only: rbind_Inr_iff sum.inject prod.inject)
  have "db3 = db2 \<or> (\<exists>t. db3 = db2\<lparr>idempotency_keys := t\<rparr>)"
    using k unfolding record_key_def by (cases key) (auto split: sum.splits)
  then show thesis by (rule that [OF s _ a o])
qed

lemma renew_inv:
  assumes "acct_inv db" "renew env ctx k extend_text key db = Inr (db', oc)"
  shows "acct_inv db'"
  using assms(2)
proof (cases rule: renew_cases)
  case (extended hours alloc expiry bounds extension estimate)
  let ?al = "alloc\<lparr>lease_expiry := Some (new_expiry extension)\<rparr>"
  let ?f = "touch (db_clock db) (lease_expiry_update (\<lambda>_. Some (new_expiry extension)))"
  let ?db = "db\<lparr>allocations := tbl_update oid (oid alloc) ?f (allocations db)\<rparr>"
  obtain db2 db3 where s: "reserve (new_ledger_id env) ?al estimate ?db = Inr db2"
    "db3 = db2 \<or> (\<exists>t. db3 = db2\<lparr>idempotency_keys := t\<rparr>)"
    "audit_record ctx \<lparr>ev_tool = ''allocations.renew'', ev_object_kind = ''allocations'',
                 ev_object_id = oid alloc, ev_transition = ''renew'', ev_project = project alloc\<rparr> db3 = Inr db'"
    using extended(10) by (rule apply_renew_steps)
  have k: "oid alloc = k" using extended(2) unfolding ALLOCATIONS_get_def by (rule tbl.get_key)
  have live: "al_state alloc \<in> {AllocationState.GRANTED, AllocationState.ACTIVE, AllocationState.RELEASING}"
    and z: "n_rows RECONCILED k db = 0"
    using acct_inv_charge [OF assms(1) extended(2)] extended(3,4)
    by (cases "al_state alloc"; auto simp: charge_ok_def TERMINAL_def)+
  have "working k (project alloc) (al_state alloc) (n_rows RESERVED k db) 0 ?db"
    by (rule working_update [OF workingI [OF assms(1) extended(2)], of _ ?f, unfolded z]) (simp_all add: k)
  then have "working (oid ?al) (project ?al) (al_state alloc) (Suc (n_rows RESERVED k db)) 0 db2"
    using s(1) k by (intro working_reserve [of ?al]) simp_all
  then have "working (oid ?al) (project ?al) (al_state alloc) (Suc (n_rows RESERVED k db)) 0 db3"
    using s(2) by (auto intro: working_frame)
  from working_acct_inv [OF audit_record_working [OF this s(3)]] show ?thesis
    using live by (auto simp: charge_ok_def)
qed (use assms(1) in simp_all)


lemma record_system_frame [simp]:
  "allocations (record_system who s ev db) = allocations db"
  "ledger (record_system who s ev db) = ledger db"
  "budgets (record_system who s ev db) = budgets db"
  "resources (record_system who s ev db) = resources db"
  "quotas (record_system who s ev db) = quotas db"
  "systems (record_system who s ev db) = systems db"
  by (simp_all add: record_system_def)

lemma promoted_row_sel [simp]:
  "oid (promoted_row r x ds a) = oid a" "project (promoted_row r x ds a) = project a"
  "al_state (promoted_row r x ds a) = AllocationState.GRANTED"
  "resource_id (promoted_row r x ds a) = Some (oid r)" "pcie_claim (promoted_row r x ds a) = ds"
  "lease_expiry (promoted_row r x ds a) = Some x"
  by (simp_all add: promoted_row_def)

lemma grant_queued_cases:
  assumes "grant_queued env alloc r w est ds db = Inr (db', ok)"
  obtains (lost) "\<not> ok" "db' = db"
  | (won) expiry db2 where "ok" "add_hours (utcnow env) w = Inr expiry"
      "reserve (new_ledger_id env) (promoted_row r expiry ds alloc) est
        (db\<lparr>allocations := tbl_update oid (oid alloc)
             (touch (db_clock db) (promoted_row r expiry ds)) (allocations db)\<rparr>) = Inr db2"
      "db' = record_system (principal alloc) (agent_session alloc)
                \<lparr>ev_tool = ''allocations.request'', ev_object_kind = ''allocations'',
                 ev_object_id = oid alloc, ev_transition = ''requested->granted'',
                 ev_project = project alloc\<rparr> db2"
  using assms unfolding grant_queued_def Let_def by (auto split: if_splits)

lemma grant_queued_inv:
  assumes "acct_inv db" "ALLOCATIONS_get k db = Some alloc" "al_state alloc = AllocationState.REQUESTED"
    and "grant_queued env alloc r w est ds db = Inr (db', ok)"
  shows "acct_inv db'"
  using assms(4)
proof (cases rule: grant_queued_cases)
  case (won expiry db2)
  let ?f = "touch (db_clock db) (promoted_row r expiry ds)"
  have k: "oid alloc = k" using assms(2) unfolding ALLOCATIONS_get_def by (rule tbl.get_key)
  have z: "n_rows RESERVED k db = 0" "n_rows RECONCILED k db = 0"
    using acct_inv_charge [OF assms(1,2)] assms(3) by (simp_all add: charge_ok_def)
  have "working k (project alloc) AllocationState.GRANTED 0 0
      (db\<lparr>allocations := tbl_update oid (oid alloc) ?f (allocations db)\<rparr>)"
    by (rule working_update [OF workingI [OF assms(1,2)], of _ ?f, unfolded z]) (simp_all add: k)
  then have "working k (project alloc) AllocationState.GRANTED (Suc 0) 0 db2"
    using working_reserve [of "promoted_row r expiry ds alloc" AllocationState.GRANTED 0 0] won(3) k by simp
  then have "working k (project alloc) AllocationState.GRANTED (Suc 0) 0 db'"
    by (rule working_frame) (simp_all add: won(4))
  then show ?thesis by (rule working_acct_inv) (simp add: charge_ok_def)
qed (use assms(1) in simp)

lemma fail_requested_inv:
  assumes "acct_inv db" "ALLOCATIONS_get k db = Some alloc" "al_state alloc = AllocationState.REQUESTED"
    and "ALLOCATIONS_update_state k AllocationState.FAILED db = Inr (db1, row)"
    and "allocations db' = allocations db1" "ledger db' = ledger db1" "budgets db' = budgets db1"
  shows "acct_inv db'"
proof -
  have "n_rows RESERVED k db = 0" "n_rows RECONCILED k db = 0"
    using acct_inv_charge [OF assms(1,2)] assms(3) by (simp_all add: charge_ok_def)
  then have "working k (project alloc) AllocationState.FAILED 0 0 db1"
    using working_state [OF workingI [OF assms(1,2)] assms(4)] by simp
  then have "working k (project alloc) AllocationState.FAILED 0 0 db'"
    using assms(5-7) by (rule working_frame)
  then show ?thesis by (rule working_acct_inv) (simp add: charge_ok_def)
qed

lemma try_one_host_cases:
  assumes "try_one_host env alloc r db = Inr res"
  obtains (granted) req w est gate db' ok where "request_from_queued alloc r = Inr req"
      "price_window_and_estimate env req db = Inr (w, est)" "admission_gate req est db = Inr gate"
      "gr_denial gate = None" "grant_queued env alloc r w est (gr_devices gate) db = Inr (db', ok)"
      "res = Granted db' ok"
  | (terminated) db' where "promotion_terminate alloc db = Inr db'" "res = Terminated db'"
  | (waits) "res = Waits"
proof -
  obtain req w est gate where g: "request_from_queued alloc r = Inr req"
      "price_window_and_estimate env req db = Inr (w, est)" "admission_gate req est db = Inr gate"
    using assms unfolding try_one_host_def by auto
  note t = assms [unfolded try_one_host_def g rbind.simps prod.case]
  show thesis
  proof (cases "gr_denial gate")
    case None
    with t obtain db' ok where "grant_queued env alloc r w est (gr_devices gate) db = Inr (db', ok)"
      "res = Granted db' ok" by auto
    then show thesis by (rule granted [OF g None])
  next
    case (Some d)
    show thesis
    proof (cases "is_budget_terminate d")
      case True
      with t Some obtain db' where "promotion_terminate alloc db = Inr db'" "res = Terminated db'" by auto
      then show thesis by (rule terminated)
    next
      case False
      with t Some have "res = Waits" by simp
      then show thesis by (rule waits)
    qed
  qed
qed

lemma place_or_terminate_inv:
  assumes "acct_inv db" "ALLOCATIONS_get k db = Some alloc" "al_state alloc = AllocationState.REQUESTED"
    and "place_or_terminate env alloc hosts db = Inr (db', ok)"
  shows "acct_inv db'"
  using assms
proof (induction hosts)
  case (Cons r hosts)
  obtain res where res: "try_one_host env alloc r db = Inr res" using Cons.prems(4) by auto
  from res show ?case
  proof (cases rule: try_one_host_cases)
    case (granted req w est gate db1 ok1)
    have inv1: "acct_inv db1" by (rule grant_queued_inv [OF Cons.prems(1-3) granted(5)])
    from granted(5) show ?thesis
    proof (cases rule: grant_queued_cases)
      case lost
      then show ?thesis using Cons res granted(6) by simp
    next
      case won
      then show ?thesis using Cons.prems(4) res granted(6) inv1 by simp
    qed
  next
    case (terminated db1)
    obtain db2 row where u: "ALLOCATIONS_update_state (oid alloc) AllocationState.FAILED db = Inr (db2, row)"
        "allocations db1 = allocations db2" "ledger db1 = ledger db2" "budgets db1 = budgets db2"
      using terminated(1) unfolding promotion_terminate_def by auto
    have k: "oid alloc = k" using Cons.prems(2) unfolding ALLOCATIONS_get_def by (rule tbl.get_key)
    have "acct_inv db1" by (rule fail_requested_inv [OF Cons.prems(1-3) u(1) [unfolded k] u(2-4)])
    then show ?thesis using Cons.prems(4) res terminated(2) by simp
  next
    case waits
    then show ?thesis using Cons res by simp
  qed
qed simp

lemma promote_one_inv:
  assumes "promote_one env k db = Inr (db', ok)" "acct_inv db"
  shows "acct_inv db'"
proof (cases "ALLOCATIONS_get k db")
  case (Some alloc)
  then show ?thesis
    using assms place_or_terminate_inv [OF assms(2) Some] unfolding promote_one_def by (auto split: if_splits)
qed (use assms in \<open>simp add: promote_one_def\<close>)

lemma reap_one_inv:
  assumes "reap_one max_wait c db = Inr (db', ok)" "acct_inv db"
  shows "acct_inv db'"
proof -
  obtain k proj where c: "c = (k, proj)" by (cases c)
  consider "db' = db" | alloc db1 row where "ALLOCATIONS_get k db = Some alloc"
      "al_state alloc = AllocationState.REQUESTED" "ALLOCATIONS_update_state k AllocationState.FAILED db = Inr (db1, row)"
      "allocations db' = allocations db1" "ledger db' = ledger db1" "budgets db' = budgets db1"
    using assms(1) unfolding reap_one_def c still_aged_requested_def
    by (auto split: if_splits option.splits)
  then show ?thesis
  proof cases
    case 2
    show ?thesis by (rule fail_requested_inv [OF assms(2) 2])
  qed (use assms(2) in simp)
qed

lemma expire_one_inv:
  assumes "expire_one env c db = Inr (db', ok)" "acct_inv db"
  shows "acct_inv db'"
proof -
  obtain k proj where c: "c = (k, proj)" by (cases c)
  consider "db' = db" | alloc where "ALLOCATIONS_get k db = Some alloc"
      "al_state alloc \<notin> set TERMINAL" "lease_elapsed db alloc"
    using assms(1) unfolding expire_one_def c by (auto split: if_splits option.splits)
  then show ?thesis
  proof cases
    case (2 alloc)
    obtain db1 al1 where s: "stamp_active_ended alloc (utcnow (env k)) db = (db1, al1)" by fastforce
    obtain db2 row ev d where u: "ALLOCATIONS_update_state k AllocationState.EXPIRED db1 = Inr (db2, row)"
      and r: "reconcile (new_ledger_id (env k)) al1 (record_system SYSTEM_RECONCILER_PRINCIPAL None ev db2) = Inr (db', d)"
      using assms(1) 2 s unfolding expire_one_def c by (auto simp: Let_def)
    have k: "oid alloc = k" using 2(1) unfolding ALLOCATIONS_get_def by (rule tbl.get_key)
    have z: "n_rows RECONCILED k db = 0"
      using acct_inv_charge [OF assms(2) 2(1)] 2(2) by (cases "al_state alloc") (auto simp: charge_ok_def TERMINAL_def)
    have "working (oid alloc) (project alloc) (al_state alloc) (n_rows RESERVED k db) 0 db"
      using workingI [OF assms(2) 2(1)] k z by simp
    from stamp_working [OF this s] have
      w1: "working k (project al1) (al_state alloc) (n_rows RESERVED k db) 0 db1" and al1: "oid al1 = k" using k by auto
    from working_state [OF w1 u] have "working k (project al1) AllocationState.EXPIRED (n_rows RESERVED k db) 0 db2" by simp
    then have "working (oid al1) (project al1) AllocationState.EXPIRED (n_rows RESERVED k db) 0
        (record_system SYSTEM_RECONCILER_PRINCIPAL None ev db2)"
      unfolding al1 by (rule working_frame) simp_all
    from working_reconcile [OF this r] obtain n' where
      "working (oid al1) (project al1) AllocationState.EXPIRED (n_rows RESERVED k db) n' db'"
      "n' = Suc 0 \<or> n' = 0 \<and> n_rows RESERVED k db = 0" by auto
    then show ?thesis by (elim working_acct_inv) (auto simp: charge_ok_def)
  qed (use assms(2) in simp)
qed

lemma reclaim_orphaned_active_inv:
  assumes "reclaim_orphaned_active env c db = Inr (db', ok)" "acct_inv db"
  shows "acct_inv db'"
  using assms system_writer.reclaim_under_lock_inv [OF assms(2)]
  unfolding reclaim_orphaned_active_def by (cases c) auto

section \<open>Sweeps\<close>

text \<open>
  A sweep keeps what each of its candidates keeps: a candidate that raises leaves the
  database it found, and the next one starts from there.
\<close>

locale preserving =
  fixes step :: "'c \<Rightarrow> Db \<Rightarrow> exn + (Db \<times> bool)" and I :: "Db \<Rightarrow> bool"
  assumes keeps: "step c db = Inr (db', ok) \<Longrightarrow> I db \<Longrightarrow> I db'"
begin

lemma sweep_keeps: "I db \<Longrightarrow> I (fst (sweep step cs db))"
proof (induction cs arbitrary: db)
  case (Cons c cs)
  show ?case
  proof (cases "step c db")
    case (Inr r)
    obtain db1 ok where "r = (db1, ok)" by (cases r)
    with Inr show ?thesis using Cons.IH [of db1] keeps [of c db db1 ok] Cons.prems by (cases "sweep step cs db1") simp
  qed (use Cons in simp)
qed simp

end

interpretation promoting: preserving "\<lambda>k. promote_one (env k) k" acct_inv for env
  by unfold_locales (rule promote_one_inv)

interpretation reaping: preserving "reap_one max_wait" acct_inv for max_wait
  by unfold_locales (rule reap_one_inv)

interpretation expiring: preserving "expire_one env" acct_inv for env
  by unfold_locales (rule expire_one_inv)

interpretation reclaiming: preserving "reclaim_orphaned_active env" acct_inv for env
  by unfold_locales (rule reclaim_orphaned_active_inv)

end
