(* ===== verification/Job_Payloads.thy ===== *)
theory Job_Payloads
  imports Kdive_Db
begin

text \<open>
  The typed payloads of durable jobs (\<open>jobs/payloads.py\<close>): the text form of a
  UUID as Python prints and reads it, the payload classes with their validators, and
  the two boundaries \<open>dump_payload\<close> (before enqueue) and \<open>load_payload\<close> (in a
  handler).  The syntax of the image build's \<open>expires_at\<close> is not checked, since the
  date parser belongs to the validation library.
\<close>

section \<open>UUID text\<close>

definition hexdigit :: "nat \<Rightarrow> char" where
  "hexdigit n = ''0123456789abcdef'' ! n"

fun hex_of :: "nat \<Rightarrow> nat \<Rightarrow> string" where
  "hex_of 0 n = []"
| "hex_of (Suc w) n = hex_of w (n div 16) @ [hexdigit (n mod 16)]"

definition uuid_str :: "uuid \<Rightarrow> string" where
  "uuid_str k =
    (let h = hex_of 32 k
     in take 8 h @ ''-'' @ take 4 (drop 8 h) @ ''-'' @ take 4 (drop 12 h) @ ''-'' @
        take 4 (drop 16 h) @ ''-'' @ drop 20 h)"

text \<open>\<open>s.replace(pat, '')\<close> for a non-empty pattern.\<close>

function py_remove :: "string \<Rightarrow> string \<Rightarrow> string" where
  "py_remove pat s =
    (case s of
       [] \<Rightarrow> []
     | c # cs \<Rightarrow> if pat \<noteq> [] \<and> take (length pat) s = pat then py_remove pat (drop (length pat) s)
                 else c # py_remove pat cs)"
  by pat_completeness auto

termination py_remove
  by (relation "measure (\<lambda>(pat, s). length s)") auto

declare py_remove.simps [simp del]

definition strip_braces :: "string \<Rightarrow> string" where
  "strip_braces s =
    (let brace = (\<lambda>c. c \<in> set ''{}'') in rev (dropWhile brace (rev (dropWhile brace s))))"

definition hex_value :: "char \<Rightarrow> nat option" where
  "hex_value c =
    (let n = of_char c :: nat
     in if 48 \<le> n \<and> n \<le> 57 then Some (n - 48)
        else if 97 \<le> n \<and> n \<le> 102 then Some (n - 87)
        else if 65 \<le> n \<and> n \<le> 70 then Some (n - 55)
        else None)"

text \<open>Digits with single underscores between them.\<close>

fun underscored_hex :: "nat \<Rightarrow> string \<Rightarrow> nat option" where
  "underscored_hex acc [] = None"
| "underscored_hex acc (c # cs) =
    (case hex_value c of
       None \<Rightarrow> None
     | Some d \<Rightarrow>
         (case cs of
            [] \<Rightarrow> Some (16 * acc + d)
          | u # rest \<Rightarrow> if u = CHR ''_'' then underscored_hex (16 * acc + d) rest
                        else underscored_hex (16 * acc + d) cs))"

definition py_int16 :: "string \<Rightarrow> exn + int" where
  "py_int16 s =
    (let t = py_strip s;
         neg = (take 1 t = ''-'');
         u = (if take 1 t = ''-'' \<or> take 1 t = ''+'' then drop 1 t else t);
         prefixed = (take 2 u = ''0x'' \<or> take 2 u = ''0X'');
         v = (if prefixed then (if take 1 (drop 2 u) = ''_'' then drop 3 u else drop 2 u) else u)
     in case underscored_hex 0 v of
          None \<Rightarrow> Inl ValueError
        | Some n \<Rightarrow> Inr (if neg then - int n else int n))"

definition UUID :: "string \<Rightarrow> exn + uuid" where
  "UUID s =
    (let h = py_remove ''-'' (strip_braces (py_remove ''uuid:'' (py_remove ''urn:'' s)))
     in if length h \<noteq> 32 then Inl ValueError
        else rbind (py_int16 h) (\<lambda>i. if 0 \<le> i \<and> i < 2 ^ 128 then Inr (nat i) else Inl ValueError))"

definition as_uuid :: "string \<Rightarrow> uuid option" where
  "as_uuid s = (case UUID s of Inr k \<Rightarrow> Some k | Inl _ \<Rightarrow> None)"


section \<open>Payload classes\<close>

datatype CaptureMethod = CONSOLE | HOST_DUMP | GDBSTUB | KDUMP

record ImageBuild =
  ib_provider :: string
  ib_name :: string
  ib_arch :: string
  ib_releasever :: string
  ib_packages :: "string list"
  ib_source_image_digest :: string
  ib_capabilities :: "string list"
  ib_root_device :: string
  ib_private :: bool
  ib_owner :: "string option"
  ib_expires_at :: "json option"

datatype PayloadModel =
    SystemPayload string
  | ReprovisionPayload string string
  | RunPayload string
  | BuildPayload string "string option" string
  | PowerPayload string PowerAction
  | CaptureVmcorePayload string CaptureMethod
  | ImageBuildPayload ImageBuild

datatype PayloadClass =
  SystemC | ReprovisionC | RunC | BuildC | PowerC | CaptureVmcoreC | ImageBuildC

fun class_of :: "PayloadModel \<Rightarrow> PayloadClass" where
  "class_of (SystemPayload _) = SystemC"
| "class_of (ReprovisionPayload _ _) = ReprovisionC"
| "class_of (RunPayload _) = RunC"
| "class_of (BuildPayload _ _ _) = BuildC"
| "class_of (PowerPayload _ _) = PowerC"
| "class_of (CaptureVmcorePayload _ _) = CaptureVmcoreC"
| "class_of (ImageBuildPayload _) = ImageBuildC"

definition issubclass :: "PayloadClass \<Rightarrow> PayloadClass \<Rightarrow> bool" where
  "issubclass c d \<longleftrightarrow> c = d \<or> (d = SystemC \<and> c \<in> {ReprovisionC, PowerC, CaptureVmcoreC}) \<or>
    (d = RunC \<and> c = BuildC)"

fun PAYLOAD_MODELS :: "JobKind \<Rightarrow> PayloadClass" where
  "PAYLOAD_MODELS PROVISION = SystemC"
| "PAYLOAD_MODELS REPROVISION = ReprovisionC"
| "PAYLOAD_MODELS TEARDOWN = SystemC"
| "PAYLOAD_MODELS BUILD = BuildC"
| "PAYLOAD_MODELS INSTALL = RunC"
| "PAYLOAD_MODELS BOOT = RunC"
| "PAYLOAD_MODELS FORCE_CRASH = SystemC"
| "PAYLOAD_MODELS POWER = PowerC"
| "PAYLOAD_MODELS CAPTURE_VMCORE = CaptureVmcoreC"
| "PAYLOAD_MODELS IMAGE_BUILD = ImageBuildC"

fun RUN_PAYLOAD_MODELS :: "JobKind \<Rightarrow> PayloadClass option" where
  "RUN_PAYLOAD_MODELS BUILD = Some BuildC"
| "RUN_PAYLOAD_MODELS INSTALL = Some RunC"
| "RUN_PAYLOAD_MODELS BOOT = Some RunC"
| "RUN_PAYLOAD_MODELS _ = None"

fun PowerAction_value :: "PowerAction \<Rightarrow> string" where
  "PowerAction_value PowerOn = ''on''"
| "PowerAction_value PowerOff = ''off''"
| "PowerAction_value PowerCycle = ''cycle''"
| "PowerAction_value PowerReset = ''reset''"

fun CaptureMethod_value :: "CaptureMethod \<Rightarrow> string" where
  "CaptureMethod_value CONSOLE = ''console''"
| "CaptureMethod_value HOST_DUMP = ''host_dump''"
| "CaptureMethod_value GDBSTUB = ''gdbstub''"
| "CaptureMethod_value KDUMP = ''kdump''"


section \<open>Validation\<close>

abbreviation invalid :: "exn + 'a" where "invalid \<equiv> Inl PayloadValidationError"

text \<open>\<open>extra="forbid"\<close>: no key but the model's fields.\<close>

fun forbid_extra :: "string list \<Rightarrow> json \<Rightarrow> exn + unit" where
  "forbid_extra allowed (JObj kvs) = guard (set (map fst kvs) \<subseteq> set allowed) PayloadValidationError"
| "forbid_extra allowed _ = invalid"

definition str_of :: "string \<Rightarrow> json \<Rightarrow> exn + string" where
  "str_of k j = (case json_get k j of Some (JStr s) \<Rightarrow> Inr s | _ \<Rightarrow> invalid)"

definition opt_str_of :: "string \<Rightarrow> json \<Rightarrow> exn + string option" where
  "opt_str_of k j =
    (case json_get k j of
       None \<Rightarrow> Inr None | Some JNull \<Rightarrow> Inr None | Some (JStr s) \<Rightarrow> Inr (Some s) | _ \<Rightarrow> invalid)"

fun str_item :: "json \<Rightarrow> exn + string" where
  "str_item (JStr s) = Inr s"
| "str_item _ = invalid"

definition strs_of :: "string \<Rightarrow> json \<Rightarrow> exn + string list" where
  "strs_of k j =
    (case json_get k j of None \<Rightarrow> Inr [] | Some (JList xs) \<Rightarrow> map_result str_item xs | _ \<Rightarrow> invalid)"

definition valid_uuid :: "string \<Rightarrow> exn + string" where
  "valid_uuid s = (case UUID s of Inr _ \<Rightarrow> Inr s | Inl _ \<Rightarrow> invalid)"

definition nonblank_cmdline :: "string option \<Rightarrow> exn + string option" where
  "nonblank_cmdline v =
    (case v of
       None \<Rightarrow> Inr None
     | Some s \<Rightarrow> if py_strip s = [] then invalid else Inr (Some (py_strip s)))"

definition enum_of :: "('e \<Rightarrow> string) \<Rightarrow> 'e list \<Rightarrow> string \<Rightarrow> exn + 'e" where
  "enum_of val members s = (case find (\<lambda>e. val e = s) members of Some e \<Rightarrow> Inr e | None \<Rightarrow> invalid)"

definition system_payload :: "json \<Rightarrow> exn + string" where
  "system_payload j = rbind (str_of ''system_id'' j) valid_uuid"

definition run_payload :: "json \<Rightarrow> exn + string" where
  "run_payload j = rbind (str_of ''run_id'' j) valid_uuid"

definition IMAGE_FIELDS :: "string list" where
  "IMAGE_FIELDS = [''provider'', ''name'', ''arch'', ''releasever'', ''packages'', ''source_image_digest'',
     ''capabilities'', ''format'', ''root_device'', ''visibility'', ''owner'', ''expires_at'']"

definition image_visibility :: "json \<Rightarrow> exn + bool" where
  "image_visibility j =
    (case json_get ''visibility'' j of
       None \<Rightarrow> Inr False
     | Some (JStr s) \<Rightarrow> enum_of (\<lambda>p. if p then ''private'' else ''public'') [False, True] s
     | _ \<Rightarrow> invalid)"

definition image_expiry :: "json \<Rightarrow> json option" where
  "image_expiry j =
    (case json_get ''expires_at'' j of None \<Rightarrow> None | Some JNull \<Rightarrow> None | Some v \<Rightarrow> Some v)"

definition image_payload :: "json \<Rightarrow> exn + ImageBuild" where
  "image_payload j =
    rbind (str_of ''provider'' j) (\<lambda>provider.
    rbind (str_of ''name'' j) (\<lambda>name.
    rbind (str_of ''arch'' j) (\<lambda>arch.
    rbind (str_of ''releasever'' j) (\<lambda>releasever.
    rbind (strs_of ''packages'' j) (\<lambda>packages.
    rbind (str_of ''source_image_digest'' j) (\<lambda>digest.
    rbind (strs_of ''capabilities'' j) (\<lambda>capabilities.
    rbind (str_of ''format'' j) (\<lambda>fmt.
    rbind (guard (fmt = ''qcow2'') PayloadValidationError) (\<lambda>_.
    rbind (str_of ''root_device'' j) (\<lambda>root_device.
    rbind (image_visibility j) (\<lambda>private.
    rbind (opt_str_of ''owner'' j) (\<lambda>owner.
    rbind (guard (private \<longleftrightarrow> owner \<noteq> None) PayloadValidationError) (\<lambda>_.
    rbind (guard (private \<longleftrightarrow> image_expiry j \<noteq> None) PayloadValidationError) (\<lambda>_.
      Inr \<lparr>ib_provider = provider, ib_name = name, ib_arch = arch, ib_releasever = releasever,
           ib_packages = packages, ib_source_image_digest = digest, ib_capabilities = capabilities,
           ib_root_device = root_device, ib_private = private, ib_owner = owner,
           ib_expires_at = image_expiry j\<rparr>))))))))))))))"

fun fields_of :: "PayloadClass \<Rightarrow> string list" where
  "fields_of SystemC = [''system_id'']"
| "fields_of ReprovisionC = [''system_id'', ''profile_digest'']"
| "fields_of RunC = [''run_id'']"
| "fields_of BuildC = [''run_id'', ''cmdline'', ''build_host_id'']"
| "fields_of PowerC = [''system_id'', ''action'']"
| "fields_of CaptureVmcoreC = [''system_id'', ''method'']"
| "fields_of ImageBuildC = IMAGE_FIELDS"

fun decode_fields :: "PayloadClass \<Rightarrow> json \<Rightarrow> exn + PayloadModel" where
  "decode_fields SystemC j = rbind (system_payload j) (\<lambda>s. Inr (SystemPayload s))"
| "decode_fields ReprovisionC j =
    rbind (system_payload j) (\<lambda>s. rbind (str_of ''profile_digest'' j) (\<lambda>d. Inr (ReprovisionPayload s d)))"
| "decode_fields RunC j = rbind (run_payload j) (\<lambda>r. Inr (RunPayload r))"
| "decode_fields BuildC j =
    rbind (run_payload j) (\<lambda>r.
    rbind (opt_str_of ''cmdline'' j) (\<lambda>raw.
    rbind (nonblank_cmdline raw) (\<lambda>cmdline.
    rbind (str_of ''build_host_id'' j) (\<lambda>h. rbind (valid_uuid h) (\<lambda>h. Inr (BuildPayload r cmdline h))))))"
| "decode_fields PowerC j =
    rbind (system_payload j) (\<lambda>s.
    rbind (str_of ''action'' j) (\<lambda>a.
    rbind (enum_of PowerAction_value [PowerOn, PowerOff, PowerCycle, PowerReset] a) (\<lambda>a.
      Inr (PowerPayload s a))))"
| "decode_fields CaptureVmcoreC j =
    rbind (system_payload j) (\<lambda>s.
    rbind (str_of ''method'' j) (\<lambda>m.
    rbind (enum_of CaptureMethod_value [CONSOLE, HOST_DUMP, GDBSTUB, KDUMP] m) (\<lambda>m.
      Inr (CaptureVmcorePayload s m))))"
| "decode_fields ImageBuildC j = rbind (image_payload j) (\<lambda>i. Inr (ImageBuildPayload i))"

definition model_validate :: "PayloadClass \<Rightarrow> json \<Rightarrow> exn + PayloadModel" where
  "model_validate c j = rbind (forbid_extra (fields_of c) j) (\<lambda>_. decode_fields c j)"

text \<open>\<open>model_dump(mode="json", exclude_none=True)\<close>.\<close>

definition if_some :: "string \<Rightarrow> json option \<Rightarrow> (string \<times> json) list" where
  "if_some k v = (case v of None \<Rightarrow> [] | Some j \<Rightarrow> [(k, j)])"

fun model_dump :: "PayloadModel \<Rightarrow> json" where
  "model_dump (SystemPayload s) = JObj [(''system_id'', JStr s)]"
| "model_dump (ReprovisionPayload s d) = JObj [(''system_id'', JStr s), (''profile_digest'', JStr d)]"
| "model_dump (RunPayload r) = JObj [(''run_id'', JStr r)]"
| "model_dump (BuildPayload r c h) =
    JObj ((''run_id'', JStr r) # if_some ''cmdline'' (map_option JStr c) @ [(''build_host_id'', JStr h)])"
| "model_dump (PowerPayload s a) = JObj [(''system_id'', JStr s), (''action'', JStr (PowerAction_value a))]"
| "model_dump (CaptureVmcorePayload s m) =
    JObj [(''system_id'', JStr s), (''method'', JStr (CaptureMethod_value m))]"
| "model_dump (ImageBuildPayload i) =
    JObj ([(''provider'', JStr (ib_provider i)), (''name'', JStr (ib_name i)), (''arch'', JStr (ib_arch i)),
       (''releasever'', JStr (ib_releasever i)), (''packages'', JList (map JStr (ib_packages i))),
       (''source_image_digest'', JStr (ib_source_image_digest i)),
       (''capabilities'', JList (map JStr (ib_capabilities i))), (''format'', JStr ''qcow2''),
       (''root_device'', JStr (ib_root_device i)),
       (''visibility'', JStr (if ib_private i then ''private'' else ''public''))] @
       if_some ''owner'' (map_option JStr (ib_owner i)) @ if_some ''expires_at'' (ib_expires_at i))"

text \<open>
  The boundaries.  A payload that is an instance of the expected class or a subclass is
  dumped as it is, any other instance is no valid input of the expected model.  A
  dictionary is validated first.
\<close>

definition dump_payload :: "JobKind \<Rightarrow> PayloadModel \<Rightarrow> exn + json" where
  "dump_payload kind p =
    (if issubclass (class_of p) (PAYLOAD_MODELS kind) then Inr (model_dump p) else invalid)"

definition dump_payload_dict :: "JobKind \<Rightarrow> json \<Rightarrow> exn + json" where
  "dump_payload_dict kind j = rbind (model_validate (PAYLOAD_MODELS kind) j) (\<lambda>p. Inr (model_dump p))"

definition load_payload :: "JobKind \<Rightarrow> json \<Rightarrow> PayloadClass \<Rightarrow> exn + PayloadModel" where
  "load_payload kind j c =
    (let expected = PAYLOAD_MODELS kind
     in if \<not> issubclass c expected \<and> \<not> issubclass expected c then invalid else model_validate c j)"

fun payload_run_id :: "PayloadModel \<Rightarrow> string" where
  "payload_run_id (RunPayload r) = r"
| "payload_run_id (BuildPayload r _ _) = r"
| "payload_run_id _ = []"

definition run_id_from_payload :: "JobKind \<Rightarrow> json \<Rightarrow> exn + uuid option" where
  "run_id_from_payload kind j =
    (case RUN_PAYLOAD_MODELS kind of
       None \<Rightarrow> Inr None
     | Some c \<Rightarrow> rbind (model_validate c j) (\<lambda>p. rbind (UUID (payload_run_id p)) (\<lambda>k. Inr (Some k))))"

section \<open>The text of a UUID reads back\<close>

definition non_hex :: string where "non_hex = ''u{}-_+xX''"

lemma hexdigit_facts:
  assumes "d < 16"
  shows "hex_value (hexdigit d) = Some d" "hexdigit d \<notin> set non_hex" "\<not> is_py_space (hexdigit d)"
proof -
  have "list_all (\<lambda>d. hex_value (hexdigit d) = Some d \<and> hexdigit d \<notin> set non_hex \<and>
      \<not> is_py_space (hexdigit d)) [0..<16] = True"
    by code_simp
  then show "hex_value (hexdigit d) = Some d" "hexdigit d \<notin> set non_hex" "\<not> is_py_space (hexdigit d)"
    using assms by (simp_all add: list_all_iff)
qed

lemma length_hex_of [simp]: "length (hex_of w n) = w"
  by (induction w arbitrary: n) auto

lemma hex_of_digits: "c \<in> set (hex_of w n) \<Longrightarrow> \<exists>d<16. c = hexdigit d"
proof (induction w arbitrary: n)
  case (Suc w)
  then consider "c \<in> set (hex_of w (n div 16))" | "c = hexdigit (n mod 16)" by auto
  then show ?case
  proof cases
    case 2
    then show ?thesis by (intro exI [of _ "n mod 16"]) simp
  qed (rule Suc.IH)
qed simp

lemma hex_of_non_hex: "c \<in> set non_hex \<Longrightarrow> c \<notin> set (hex_of w n)"
  using hex_of_digits hexdigit_facts(2) by blast

lemma py_remove_absent: "pat \<noteq> [] \<Longrightarrow> hd pat \<notin> set s \<Longrightarrow> py_remove pat s = s"
proof (induction s)
  case (Cons c s)
  then have "take (length pat) (c # s) \<noteq> pat" by (cases pat) auto
  then show ?case using Cons by (subst py_remove.simps) simp
qed (simp add: py_remove.simps)

lemma py_remove_char: "py_remove [c] s = filter (\<lambda>x. x \<noteq> c) s"
  by (induction s) (auto simp: py_remove.simps)

lemma dropWhile_none: "(\<And>x. x \<in> set s \<Longrightarrow> \<not> P x) \<Longrightarrow> dropWhile P s = s"
  by (cases s) auto

lemma strip_none:
  assumes "\<And>x. x \<in> set s \<Longrightarrow> \<not> P x"
  shows "rev (dropWhile P (rev (dropWhile P s))) = s"
  using dropWhile_none [of s P] dropWhile_none [of "rev s" P] assms by simp

lemma strip_braces_absent: "CHR ''{'' \<notin> set s \<Longrightarrow> CHR ''}'' \<notin> set s \<Longrightarrow> strip_braces s = s"
  unfolding strip_braces_def Let_def by (rule strip_none) auto

lemma py_strip_absent: "(\<And>c. c \<in> set s \<Longrightarrow> \<not> is_py_space c) \<Longrightarrow> py_strip s = s"
  unfolding py_strip_def by (rule strip_none)

text \<open>The number a digit string stands for.\<close>

definition hex_num :: "nat \<Rightarrow> string \<Rightarrow> nat" where
  "hex_num acc s = foldl (\<lambda>a c. 16 * a + the (hex_value c)) acc s"

lemma underscored_hex_digits:
  "s \<noteq> [] \<Longrightarrow> (\<And>c. c \<in> set s \<Longrightarrow> \<exists>d<16. c = hexdigit d) \<Longrightarrow> underscored_hex acc s = Some (hex_num acc s)"
proof (induction s arbitrary: acc)
  case (Cons c s)
  obtain d where d: "d < 16" "c = hexdigit d" using Cons.prems(2) by auto
  have "hd s \<noteq> CHR ''_''" if "s \<noteq> []"
  proof -
    obtain d' where "d' < 16" "hd s = hexdigit d'" using Cons.prems(2) [of "hd s"] \<open>s \<noteq> []\<close> by auto
    then show ?thesis using hexdigit_facts(2) [of d'] by (auto simp: non_hex_def)
  qed
  then show ?case
    using Cons.IH [of "16 * acc + d"] Cons.prems(2) hexdigit_facts(1) [OF d(1)] d(2)
    by (cases s) (auto simp: hex_num_def)
qed simp

lemma hex_num_hex_of: "hex_num 0 (hex_of w n) = n mod 16 ^ w"
proof (induction w arbitrary: n)
  case (Suc w)
  have "hex_num 0 (hex_of (Suc w) n) = 16 * (n div 16 mod 16 ^ w) + n mod 16"
    using Suc [of "n div 16"] hexdigit_facts(1) [of "n mod 16"] by (simp add: hex_num_def)
  also have "\<dots> = n mod 16 ^ Suc w" by (simp add: mod_mult2_eq)
  finally show ?case .
qed (simp add: hex_num_def)

lemma py_int16_hex_of:
  assumes "0 < w"
  shows "py_int16 (hex_of w n) = Inr (int (n mod 16 ^ w))"
proof -
  let ?h = "hex_of w n"
  have ne: "?h \<noteq> []" using assms by (metis length_hex_of length_0_conv not_less_zero)
  have strip: "py_strip ?h = ?h"
    using hex_of_digits hexdigit_facts(3) by (intro py_strip_absent) blast
  have no: "c \<notin> set ?h" if "c \<in> set non_hex" for c using hex_of_non_hex that .
  have "take m ?h \<noteq> s" if "c \<in> set s" "c \<in> set non_hex" for m s c
    using that no [of c] in_set_takeD [of c m ?h] by blast
  from this [of "CHR ''-''"] this [of "CHR ''+''"] this [of "CHR ''x''"] this [of "CHR ''X''"]
  have "take 1 ?h \<noteq> ''-''" "take 1 ?h \<noteq> ''+''" "take 2 ?h \<noteq> ''0x''" "take 2 ?h \<noteq> ''0X''"
    by (simp_all add: non_hex_def)
  then show ?thesis
    using underscored_hex_digits [OF ne, of 0] hex_of_digits
    by (simp add: py_int16_def strip hex_num_hex_of Let_def)
qed

lemma take_drop_add: "drop m xs = take n (drop m xs) @ drop (m + n) xs"
  by (metis append_take_drop_id drop_drop add.commute)

lemma uuid_str_digits: "filter (\<lambda>x. x \<noteq> CHR ''-'') (uuid_str k) = hex_of 32 k"
proof -
  let ?h = "hex_of 32 k" and ?f = "filter (\<lambda>x. x \<noteq> CHR ''-'')"
  have "CHR ''-'' \<notin> set ?h" by (rule hex_of_non_hex) (simp add: non_hex_def)
  then have "?f (take n (drop m ?h)) = take n (drop m ?h)" "?f (drop m ?h) = drop m ?h" for m n
    by (auto simp: filter_id_conv dest!: in_set_takeD in_set_dropD)
  moreover from this(1) [of _ 0] have "?f (take n ?h) = take n ?h" for n by simp
  ultimately have "?f (uuid_str k) =
      take 8 ?h @ take 4 (drop 8 ?h) @ take 4 (drop 12 ?h) @ take 4 (drop 16 ?h) @ drop 20 ?h"
    by (simp add: uuid_str_def Let_def)
  also have "\<dots> = ?h"
    using take_drop_add [of 0 ?h 8] take_drop_add [of 8 ?h 4] take_drop_add [of 12 ?h 4] take_drop_add [of 16 ?h 4]
    by simp
  finally show ?thesis .
qed

lemma uuid_str_chars: "c \<in> set (uuid_str k) \<Longrightarrow> c = CHR ''-'' \<or> c \<in> set (hex_of 32 k)"
  by (cases "c = CHR ''-''") (auto simp flip: uuid_str_digits)

lemma UUID_uuid_str:
  assumes "k < 2 ^ 128"
  shows "UUID (uuid_str k) = Inr k"
proof -
  have no: "c \<notin> set (uuid_str k)" if "c \<in> set non_hex" "c \<noteq> CHR ''-''" for c
    using uuid_str_chars [of c k] hex_of_non_hex [OF that(1)] that(2) by blast
  have u: "CHR ''u'' \<notin> set (uuid_str k)" and b: "CHR ''{'' \<notin> set (uuid_str k)" "CHR ''}'' \<notin> set (uuid_str k)"
    by (rule no; simp add: non_hex_def)+
  have "py_remove ''-'' (strip_braces (py_remove ''uuid:'' (py_remove ''urn:'' (uuid_str k)))) = hex_of 32 k"
    using u b by (simp add: py_remove_absent strip_braces_absent py_remove_char uuid_str_digits)
  then show ?thesis
    using assms by (simp add: UUID_def py_int16_hex_of)
qed



section \<open>Payloads read back\<close>

text \<open>What the constructors of the payload classes guarantee of an instance.\<close>

definition is_uuid :: "string \<Rightarrow> bool" where
  "is_uuid s = (case UUID s of Inr _ \<Rightarrow> True | Inl _ \<Rightarrow> False)"

fun valid_payload :: "PayloadModel \<Rightarrow> bool" where
  "valid_payload (SystemPayload s) = is_uuid s"
| "valid_payload (ReprovisionPayload s _) = is_uuid s"
| "valid_payload (RunPayload r) = is_uuid r"
| "valid_payload (BuildPayload r c h) \<longleftrightarrow> is_uuid r \<and> is_uuid h \<and>
    (case c of None \<Rightarrow> True | Some s \<Rightarrow> s \<noteq> [] \<and> py_strip s = s)"
| "valid_payload (PowerPayload s _) = is_uuid s"
| "valid_payload (CaptureVmcorePayload s _) = is_uuid s"
| "valid_payload (ImageBuildPayload i) \<longleftrightarrow>
    (ib_private i \<longleftrightarrow> ib_owner i \<noteq> None) \<and> (ib_private i \<longleftrightarrow> ib_expires_at i \<noteq> None) \<and>
    ib_expires_at i \<noteq> Some JNull"

lemma valid_uuid_iff: "is_uuid s \<Longrightarrow> valid_uuid s = Inr s"
  by (auto simp: is_uuid_def valid_uuid_def split: sum.splits)

lemma strs_of_strings: "map_result str_item (map JStr xs) = Inr xs"
  by (induction xs) auto

lemmas field_defs = str_of_def opt_str_of_def strs_of_def strs_of_strings system_payload_def run_payload_def
  valid_uuid_iff enum_of_def if_some_def

lemma model_roundtrip:
  assumes "valid_payload p"
  shows "model_validate (class_of p) (model_dump p) = Inr p"
proof (cases p)
  case (BuildPayload r c h)
  then show ?thesis
    using assms by (cases c) (auto simp: model_validate_def field_defs nonblank_cmdline_def)
next
  case (PowerPayload s a)
  then show ?thesis using assms by (cases a) (auto simp: model_validate_def field_defs)
next
  case (CaptureVmcorePayload s m)
  then show ?thesis using assms by (cases m) (auto simp: model_validate_def field_defs)
next
  case (ImageBuildPayload i)
  have "image_payload (model_dump p) = Inr i" 
    using assms unfolding ImageBuildPayload
    by (cases "ib_owner i"; cases "ib_expires_at i")
      (auto simp: image_payload_def image_visibility_def image_expiry_def field_defs split: json.splits)
  moreover have "forbid_extra IMAGE_FIELDS (model_dump p) = Inr ()"
    unfolding ImageBuildPayload
    by (cases "ib_owner i"; cases "ib_expires_at i") (simp_all add: IMAGE_FIELDS_def if_some_def)
  ultimately show ?thesis by (simp add: model_validate_def ImageBuildPayload)
qed (use assms in \<open>auto simp: model_validate_def field_defs\<close>)

text \<open>A subclass instance carries a field its parent forbids.\<close>

text \<open>A dictionary is dumped as the instance it validates to.\<close>

lemma class_of_validated: "model_validate c j = Inr p \<Longrightarrow> class_of p = c"
  by (cases c) (auto simp: model_validate_def)

lemma dump_payload_dict_instance:
  "dump_payload_dict kind j = rbind (model_validate (PAYLOAD_MODELS kind) j) (dump_payload kind)"
  by (cases "model_validate (PAYLOAD_MODELS kind) j")
    (simp_all add: dump_payload_dict_def dump_payload_def issubclass_def class_of_validated)

lemma subclass_extra:
  assumes "issubclass (class_of p) c" "class_of p \<noteq> c"
  shows "model_validate c (model_dump p) = Inl PayloadValidationError"
  using assms by (cases p) (auto simp: issubclass_def model_validate_def guard_def)

text \<open>
  C30. A payload that passes the enqueue boundary decodes in the handler to the very
  payload that was enqueued, provided it is an instance of the class its job kind
  names; an instance of a subclass also passes the enqueue boundary, but no handler can
  ever decode it.
\<close>

theorem payload_roundtrip:
  assumes "valid_payload p" "dump_payload kind p = Inr j"
  shows "load_payload kind j (PAYLOAD_MODELS kind) =
    (if class_of p = PAYLOAD_MODELS kind then Inr p else Inl PayloadValidationError)"
proof -
  have j: "j = model_dump p" and sub: "issubclass (class_of p) (PAYLOAD_MODELS kind)"
    using assms(2) by (auto simp: dump_payload_def split: if_splits)
  have "issubclass (PAYLOAD_MODELS kind) (PAYLOAD_MODELS kind)" by (simp add: issubclass_def)
  then show ?thesis
    using model_roundtrip [OF assms(1)] subclass_extra [OF sub] by (auto simp: load_payload_def j)
qed

theorem payload_roundtrip_witness:
  "load_payload POWER (JObj [(''system_id'', JStr (uuid_str 7)), (''action'', JStr ''off'')]) PowerC =
     Inr (PowerPayload (uuid_str 7) PowerOff) \<and>
   load_payload INSTALL (JObj [(''run_id'', JStr (uuid_str 7)), (''build_host_id'', JStr (uuid_str 8))]) RunC =
     Inl PayloadValidationError"
proof -
  have u: "is_uuid (uuid_str 7)" "is_uuid (uuid_str 8)" by (simp_all add: is_uuid_def UUID_uuid_str)
  show ?thesis
    using payload_roundtrip [of "PowerPayload (uuid_str 7) PowerOff" POWER]
      payload_roundtrip [of "BuildPayload (uuid_str 7) None (uuid_str 8)" INSTALL] u
    by (simp add: dump_payload_def issubclass_def if_some_def)
qed

end
