(* ===== verification/Profiles.thy ===== *)
theory Profiles
  imports Job_Payloads
begin

text \<open>
  Provisioning profiles (\<open>profiles/provisioning.py\<close>): the parse boundary that turns
  a submitted document into a validated profile, its serialization, the reconciliation
  of sizes with the allocation's snapshot, and what the providers' policies and
  component capabilities accept (\<open>providers/*/profile_policy.py\<close>,
  \<open>provider_components\<close>).  The validation library's rules the schema uses
  (stripping, strict integers, lenient booleans, UUID forms) are written out.
\<close>

section \<open>Scalars\<close>

abbreviation bad :: "exn + 'a" where "bad \<equiv> Inl config_error"

definition is_white_space :: "char \<Rightarrow> bool" where
  "is_white_space c \<longleftrightarrow> (of_char c :: nat) \<in> set [9, 10, 11, 12, 13, 32, 133, 160]"

definition trim :: "string \<Rightarrow> string" where
  "trim s = rev (dropWhile is_white_space (rev (dropWhile is_white_space s)))"

fun NonEmptyStr :: "json \<Rightarrow> exn + string" where
  "NonEmptyStr (JStr s) = (if trim s = [] then bad else Inr (trim s))"
| "NonEmptyStr _ = bad"

fun plain_str :: "json \<Rightarrow> exn + string" where
  "plain_str (JStr s) = Inr s"
| "plain_str _ = bad"

fun strict_pos :: "json \<Rightarrow> exn + int" where
  "strict_pos (JInt n) = (if 0 < n then Inr n else bad)"
| "strict_pos _ = bad"

definition TRUE_WORDS :: "string list" where
  "TRUE_WORDS = [''1'', ''on'', ''t'', ''true'', ''y'', ''yes'']"

definition FALSE_WORDS :: "string list" where
  "FALSE_WORDS = [''0'', ''off'', ''f'', ''false'', ''n'', ''no'']"

fun lax_bool :: "json \<Rightarrow> exn + bool" where
  "lax_bool (JBool b) = Inr b"
| "lax_bool (JInt n) = (if n = 0 then Inr False else if n = 1 then Inr True else bad)"
| "lax_bool (JFloat r) = (if r = 0 then Inr False else if r = 1 then Inr True else bad)"
| "lax_bool (JStr s) =
    (if map ascii_lower s \<in> set TRUE_WORDS then Inr True
     else if map ascii_lower s \<in> set FALSE_WORDS then Inr False else bad)"
| "lax_bool _ = bad"

fun schema_version :: "json \<Rightarrow> exn + unit" where
  "schema_version (JInt n) = guard (n = 1) config_error"
| "schema_version _ = bad"

text \<open>The UUID forms of the validation library: plain, hyphenated, braced, URN.\<close>

definition all_hex :: "string \<Rightarrow> uuid option" where
  "all_hex s = (if CHR ''_'' \<in> set s then None else underscored_hex 0 s)"

definition hyphenated :: "string \<Rightarrow> uuid option" where
  "hyphenated s =
    (if length s = 36 \<and> s ! 8 = CHR ''-'' \<and> s ! 13 = CHR ''-'' \<and> s ! 18 = CHR ''-'' \<and> s ! 23 = CHR ''-''
     then all_hex (take 8 s @ take 4 (drop 9 s) @ take 4 (drop 14 s) @ take 4 (drop 19 s) @ drop 24 s)
     else None)"

fun uuid_field :: "json \<Rightarrow> exn + uuid" where
  "uuid_field (JStr s) =
    (case (if length s = 32 then all_hex s
           else if length s = 38 \<and> hd s = CHR ''{'' \<and> last s = CHR ''}'' then hyphenated (take 36 (drop 1 s))
           else if length s = 45 \<and> take 9 s = ''urn:uuid:'' then hyphenated (drop 9 s)
           else hyphenated s) of
       Some k \<Rightarrow> Inr k | None \<Rightarrow> bad)"
| "uuid_field _ = bad"


section \<open>Objects\<close>

fun only_keys :: "string list \<Rightarrow> json \<Rightarrow> exn + unit" where
  "only_keys allowed (JObj kvs) = guard (set (map fst kvs) \<subseteq> set allowed) config_error"
| "only_keys allowed _ = bad"

definition required :: "(json \<Rightarrow> exn + 'a) \<Rightarrow> string \<Rightarrow> json \<Rightarrow> exn + 'a" where
  "required f k j = (case json_get k j of None \<Rightarrow> bad | Some v \<Rightarrow> f v)"

definition defaulted :: "'a \<Rightarrow> (json \<Rightarrow> exn + 'a) \<Rightarrow> string \<Rightarrow> json \<Rightarrow> exn + 'a" where
  "defaulted d f k j = (case json_get k j of None \<Rightarrow> Inr d | Some v \<Rightarrow> f v)"

fun optional_value :: "(json \<Rightarrow> exn + 'a) \<Rightarrow> json \<Rightarrow> exn + 'a option" where
  "optional_value f JNull = Inr None"
| "optional_value f v = rbind (f v) (\<lambda>x. Inr (Some x))"

definition nullable :: "(json \<Rightarrow> exn + 'a) \<Rightarrow> string \<Rightarrow> json \<Rightarrow> exn + 'a option" where
  "nullable f k j = defaulted None (optional_value f) k j"

fun str_list :: "json \<Rightarrow> exn + string list" where
  "str_list (JList vs) = map_result NonEmptyStr vs"
| "str_list _ = bad"

text \<open>Python \<open>dict\<close> assignment keeps the place of an existing key.\<close>

fun dict_put :: "string \<Rightarrow> 'v \<Rightarrow> (string \<times> 'v) list \<Rightarrow> (string \<times> 'v) list" where
  "dict_put k v [] = [(k, v)]"
| "dict_put k v ((k', v') # d) = (if k = k' then (k, v) # d else (k', v') # dict_put k v d)"

fun str_dict_items :: "(string \<times> json) list \<Rightarrow> (string \<times> string) list \<Rightarrow> exn + (string \<times> string) list" where
  "str_dict_items [] d = Inr d"
| "str_dict_items ((k, v) # kvs) d =
    rbind (NonEmptyStr (JStr k)) (\<lambda>k'. rbind (NonEmptyStr v) (\<lambda>v'. str_dict_items kvs (dict_put k' v' d)))"

fun str_dict :: "json \<Rightarrow> exn + (string \<times> string) list" where
  "str_dict (JObj kvs) = str_dict_items kvs []"
| "str_dict _ = bad"


section \<open>Component references\<close>

datatype RootfsSource =
    LocalComponentRef string "string option"
  | ArtifactComponentRef uuid "string option"
  | CatalogComponentRef string string
  | UploadRootfs

definition SHA256_RE :: "string \<Rightarrow> bool" where
  "SHA256_RE s \<longleftrightarrow> length s = 71 \<and> take 7 s = ''sha256:'' \<and> list_all (\<lambda>c. c \<in> set ''0123456789abcdef'') (drop 7 s)"

definition validate_sha256_value :: "string option \<Rightarrow> exn + string option" where
  "validate_sha256_value v = (case v of None \<Rightarrow> Inr None | Some s \<Rightarrow> if SHA256_RE s then Inr (Some s) else bad)"

definition local_ref :: "json \<Rightarrow> exn + RootfsSource" where
  "local_ref j =
    rbind (only_keys [''kind'', ''path'', ''sha256''] j) (\<lambda>_.
    rbind (required NonEmptyStr ''path'' j) (\<lambda>path.
    rbind (guard (take 1 path = ''/'') config_error) (\<lambda>_.
    rbind (nullable plain_str ''sha256'' j) (\<lambda>s.
    rbind (validate_sha256_value s) (\<lambda>s. Inr (LocalComponentRef path s))))))"

definition artifact_ref :: "json \<Rightarrow> exn + RootfsSource" where
  "artifact_ref j =
    rbind (only_keys [''kind'', ''artifact_id'', ''sha256''] j) (\<lambda>_.
    rbind (required uuid_field ''artifact_id'' j) (\<lambda>k.
    rbind (nullable plain_str ''sha256'' j) (\<lambda>s.
    rbind (validate_sha256_value s) (\<lambda>s. Inr (ArtifactComponentRef k s)))))"

definition catalog_ref :: "json \<Rightarrow> exn + RootfsSource" where
  "catalog_ref j =
    rbind (only_keys [''kind'', ''provider'', ''name''] j) (\<lambda>_.
    rbind (required NonEmptyStr ''provider'' j) (\<lambda>p.
    rbind (required NonEmptyStr ''name'' j) (\<lambda>n. Inr (CatalogComponentRef p n))))"

definition upload_ref :: "json \<Rightarrow> exn + RootfsSource" where
  "upload_ref j = rbind (only_keys [''kind''] j) (\<lambda>_. Inr UploadRootfs)"

definition rootfs_source_field :: "json \<Rightarrow> exn + RootfsSource" where
  "rootfs_source_field j =
    (case json_get ''kind'' j of
       Some (JStr k) \<Rightarrow>
         if k = ''local'' then local_ref j
         else if k = ''artifact'' then artifact_ref j
         else if k = ''catalog'' then catalog_ref j
         else if k = ''upload'' then upload_ref j
         else bad
     | _ \<Rightarrow> bad)"


section \<open>The profile\<close>

datatype BootMethod = DIRECT_KERNEL | DISK_IMAGE

fun BootMethod_value :: "BootMethod \<Rightarrow> string" where
  "BootMethod_value DIRECT_KERNEL = ''direct-kernel''"
| "BootMethod_value DISK_IMAGE = ''disk-image''"

record LibvirtDebugOptions =
  preserve_on_crash :: bool
  gdbstub :: bool

record LibvirtProfile =
  lv_domain_xml_params :: "(string \<times> string) list"
  lv_rootfs :: RootfsSource
  lv_crashkernel :: "string option"
  lv_destructive_ops :: "string list"
  lv_ssh_credential_ref :: "string option"
  lv_debug :: LibvirtDebugOptions

record FaultInjectProfile =
  fi_destructive_ops :: "string list"
  fi_capture_method :: CaptureMethod

record RemoteLibvirtProfile =
  rl_base_image_volume :: string
  rl_crashkernel :: "string option"
  rl_destructive_ops :: "string list"

datatype ProviderSection =
    LocalLibvirtSection LibvirtProfile
  | FaultInjectSection FaultInjectProfile
  | RemoteLibvirtSection RemoteLibvirtProfile

record ProvisioningProfile =
  pf_arch :: string
  pf_vcpu :: "int option"
  pf_memory_mb :: "int option"
  pf_disk_gb :: "int option"
  pf_boot_method :: BootMethod
  pf_kernel_source_ref :: string
  pf_provider :: ProviderSection

fun enum_field :: "('e \<Rightarrow> string) \<Rightarrow> 'e list \<Rightarrow> json \<Rightarrow> exn + 'e" where
  "enum_field val members (JStr s) = (case find (\<lambda>e. val e = s) members of Some e \<Rightarrow> Inr e | None \<Rightarrow> bad)"
| "enum_field val members _ = bad"

abbreviation capture_field :: "json \<Rightarrow> exn + CaptureMethod" where
  "capture_field \<equiv> enum_field CaptureMethod_value [CONSOLE, HOST_DUMP, GDBSTUB, KDUMP]"

definition debug_options :: "json \<Rightarrow> exn + LibvirtDebugOptions" where
  "debug_options j =
    rbind (only_keys [''preserve_on_crash'', ''gdbstub''] j) (\<lambda>_.
    rbind (defaulted False lax_bool ''preserve_on_crash'' j) (\<lambda>p.
    rbind (defaulted False lax_bool ''gdbstub'' j) (\<lambda>g.
      Inr \<lparr>preserve_on_crash = p, gdbstub = g\<rparr>)))"

definition libvirt_profile :: "json \<Rightarrow> exn + LibvirtProfile" where
  "libvirt_profile j =
    rbind (only_keys [''domain_xml_params'', ''rootfs'', ''crashkernel'', ''destructive_ops'',
             ''ssh_credential_ref'', ''debug''] j) (\<lambda>_.
    rbind (defaulted [] str_dict ''domain_xml_params'' j) (\<lambda>params.
    rbind (required rootfs_source_field ''rootfs'' j) (\<lambda>rootfs.
    rbind (nullable NonEmptyStr ''crashkernel'' j) (\<lambda>ck.
    rbind (defaulted [] str_list ''destructive_ops'' j) (\<lambda>ops.
    rbind (nullable NonEmptyStr ''ssh_credential_ref'' j) (\<lambda>ssh.
    rbind (defaulted \<lparr>preserve_on_crash = False, gdbstub = False\<rparr> debug_options ''debug'' j) (\<lambda>debug.
      Inr \<lparr>lv_domain_xml_params = params, lv_rootfs = rootfs, lv_crashkernel = ck, lv_destructive_ops = ops,
           lv_ssh_credential_ref = ssh, lv_debug = debug\<rparr>)))))))"

definition fault_inject_profile :: "json \<Rightarrow> exn + FaultInjectProfile" where
  "fault_inject_profile j =
    rbind (only_keys [''destructive_ops'', ''capture_method''] j) (\<lambda>_.
    rbind (defaulted [] str_list ''destructive_ops'' j) (\<lambda>ops.
    rbind (defaulted CONSOLE capture_field ''capture_method'' j) (\<lambda>c.
      Inr \<lparr>fi_destructive_ops = ops, fi_capture_method = c\<rparr>)))"

definition remote_libvirt_profile :: "json \<Rightarrow> exn + RemoteLibvirtProfile" where
  "remote_libvirt_profile j =
    rbind (only_keys [''base_image_volume'', ''crashkernel'', ''destructive_ops''] j) (\<lambda>_.
    rbind (required NonEmptyStr ''base_image_volume'' j) (\<lambda>v.
    rbind (nullable NonEmptyStr ''crashkernel'' j) (\<lambda>ck.
    rbind (defaulted [] str_list ''destructive_ops'' j) (\<lambda>ops.
      Inr \<lparr>rl_base_image_volume = v, rl_crashkernel = ck, rl_destructive_ops = ops\<rparr>))))"

definition provider_section :: "json \<Rightarrow> exn + ProviderSection" where
  "provider_section j =
    rbind (only_keys [''local-libvirt'', ''fault-inject'', ''remote-libvirt''] j) (\<lambda>_.
    rbind (nullable libvirt_profile ''local-libvirt'' j) (\<lambda>l.
    rbind (nullable fault_inject_profile ''fault-inject'' j) (\<lambda>f.
    rbind (nullable remote_libvirt_profile ''remote-libvirt'' j) (\<lambda>r.
      case (l, f, r) of
        (Some s, None, None) \<Rightarrow> Inr (LocalLibvirtSection s)
      | (None, Some s, None) \<Rightarrow> Inr (FaultInjectSection s)
      | (None, None, Some s) \<Rightarrow> Inr (RemoteLibvirtSection s)
      | _ \<Rightarrow> bad))))"

fun is_remote :: "ProviderSection \<Rightarrow> bool" where
  "is_remote (RemoteLibvirtSection _) = True"
| "is_remote _ = False"

definition PROFILE_FIELDS :: "string list" where
  "PROFILE_FIELDS = [''schema_version'', ''arch'', ''vcpu'', ''memory_mb'', ''disk_gb'', ''boot_method'',
     ''kernel_source_ref'', ''provider'']"

definition parse_profile :: "json \<Rightarrow> exn + ProvisioningProfile" where
  "parse_profile j =
    rbind (only_keys PROFILE_FIELDS j) (\<lambda>_.
    rbind (required schema_version ''schema_version'' j) (\<lambda>_.
    rbind (required NonEmptyStr ''arch'' j) (\<lambda>arch.
    rbind (nullable strict_pos ''vcpu'' j) (\<lambda>vcpu.
    rbind (nullable strict_pos ''memory_mb'' j) (\<lambda>mem.
    rbind (nullable strict_pos ''disk_gb'' j) (\<lambda>disk.
    rbind (required (enum_field BootMethod_value [DIRECT_KERNEL, DISK_IMAGE]) ''boot_method'' j) (\<lambda>bm.
    rbind (required NonEmptyStr ''kernel_source_ref'' j) (\<lambda>src.
    rbind (required provider_section ''provider'' j) (\<lambda>prov.
    rbind (guard (is_remote prov \<longleftrightarrow> bm = DISK_IMAGE) config_error) (\<lambda>_.
      Inr \<lparr>pf_arch = arch, pf_vcpu = vcpu, pf_memory_mb = mem, pf_disk_gb = disk, pf_boot_method = bm,
           pf_kernel_source_ref = src, pf_provider = prov\<rparr>))))))))))"

section \<open>Serialization\<close>

fun dump_rootfs :: "RootfsSource \<Rightarrow> json" where
  "dump_rootfs (LocalComponentRef p s) =
    JObj ([(''kind'', JStr ''local''), (''path'', JStr p)] @ if_some ''sha256'' (map_option JStr s))"
| "dump_rootfs (ArtifactComponentRef k s) =
    JObj ([(''kind'', JStr ''artifact''), (''artifact_id'', JStr (uuid_str k))] @ if_some ''sha256'' (map_option JStr s))"
| "dump_rootfs (CatalogComponentRef p n) =
    JObj [(''kind'', JStr ''catalog''), (''provider'', JStr p), (''name'', JStr n)]"
| "dump_rootfs UploadRootfs = JObj [(''kind'', JStr ''upload'')]"

definition dump_debug :: "LibvirtDebugOptions \<Rightarrow> json" where
  "dump_debug d = JObj [(''preserve_on_crash'', JBool (preserve_on_crash d)), (''gdbstub'', JBool (gdbstub d))]"

definition dump_libvirt :: "LibvirtProfile \<Rightarrow> json" where
  "dump_libvirt s =
    JObj ([(''domain_xml_params'', JObj (map (\<lambda>(k, v). (k, JStr v)) (lv_domain_xml_params s))),
           (''rootfs'', dump_rootfs (lv_rootfs s))] @
          if_some ''crashkernel'' (map_option JStr (lv_crashkernel s)) @
          [(''destructive_ops'', JList (map JStr (lv_destructive_ops s)))] @
          if_some ''ssh_credential_ref'' (map_option JStr (lv_ssh_credential_ref s)) @
          [(''debug'', dump_debug (lv_debug s))])"

definition dump_fault_inject :: "FaultInjectProfile \<Rightarrow> json" where
  "dump_fault_inject s =
    JObj [(''destructive_ops'', JList (map JStr (fi_destructive_ops s))),
          (''capture_method'', JStr (CaptureMethod_value (fi_capture_method s)))]"

definition dump_remote :: "RemoteLibvirtProfile \<Rightarrow> json" where
  "dump_remote s =
    JObj ([(''base_image_volume'', JStr (rl_base_image_volume s))] @
          if_some ''crashkernel'' (map_option JStr (rl_crashkernel s)) @
          [(''destructive_ops'', JList (map JStr (rl_destructive_ops s)))])"

fun dump_section :: "ProviderSection \<Rightarrow> json" where
  "dump_section (LocalLibvirtSection s) = JObj [(''local-libvirt'', dump_libvirt s)]"
| "dump_section (FaultInjectSection s) = JObj [(''fault-inject'', dump_fault_inject s)]"
| "dump_section (RemoteLibvirtSection s) = JObj [(''remote-libvirt'', dump_remote s)]"

definition dump_profile :: "ProvisioningProfile \<Rightarrow> json" where
  "dump_profile p =
    JObj ([(''schema_version'', JInt 1), (''arch'', JStr (pf_arch p))] @
          if_some ''vcpu'' (map_option JInt (pf_vcpu p)) @
          if_some ''memory_mb'' (map_option JInt (pf_memory_mb p)) @
          if_some ''disk_gb'' (map_option JInt (pf_disk_gb p)) @
          [(''boot_method'', JStr (BootMethod_value (pf_boot_method p))),
           (''kernel_source_ref'', JStr (pf_kernel_source_ref p)),
           (''provider'', dump_section (pf_provider p))])"


section \<open>Sizes\<close>

text \<open>Python's \<open>submitted != resolved\<close>: a float or a boolean equals the integer it stands for.\<close>

fun equals_int :: "json \<Rightarrow> int \<Rightarrow> bool" where
  "equals_int (JInt m) n = (m = n)"
| "equals_int (JFloat r) n = (r = of_int n)"
| "equals_int (JBool b) n = ((if b then 1 else 0) = n)"
| "equals_int _ n = False"

fun set_field :: "string \<Rightarrow> int \<Rightarrow> json \<Rightarrow> exn + json" where
  "set_field k resolved (JObj d) =
    (case map_of d k of
       None \<Rightarrow> Inr (JObj (dict_put k (JInt resolved) d))
     | Some v \<Rightarrow> if v = JNull \<or> equals_int v resolved then Inr (JObj (dict_put k (JInt resolved) d)) else bad)"
| "set_field k resolved j = Inl TypeError"

definition reconcile_profile_sizing :: "json \<Rightarrow> int \<Rightarrow> int \<Rightarrow> int \<Rightarrow> exn + json" where
  "reconcile_profile_sizing d vcpu mem disk =
    rbind (set_field ''vcpu'' vcpu d) (\<lambda>d. rbind (set_field ''memory_mb'' mem d) (\<lambda>d. set_field ''disk_gb'' disk d))"

definition require_concrete_sizing :: "ProvisioningProfile \<Rightarrow> exn + unit" where
  "require_concrete_sizing p =
    guard (pf_vcpu p \<noteq> None \<and> pf_memory_mb p \<noteq> None \<and> pf_disk_gb p \<noteq> None) config_error"

definition stored_profile_for :: "json \<Rightarrow> Allocation \<Rightarrow> exn + ProvisioningProfile" where
  "stored_profile_for profile alloc =
    (case (requested_vcpus alloc, requested_memory_gb alloc, requested_disk_gb alloc) of
       (Some v, Some m, Some d) \<Rightarrow>
         rbind (reconcile_profile_sizing profile v (m * MB_PER_GB) d) parse_profile
     | _ \<Rightarrow> rbind (parse_profile profile) (\<lambda>p. rbind (require_concrete_sizing p) (\<lambda>_. Inr p)))"


section \<open>Provider policies\<close>

record ProfilePolicy =
  rootfs_source :: "ProvisioningProfile \<Rightarrow> exn + RootfsSource option"
  ssh_credential_ref :: "ProvisioningProfile \<Rightarrow> exn + string option"
  drgn_live_requires_credential :: "ProvisioningProfile \<Rightarrow> bool"
  validate_profile :: "ProvisioningProfile \<Rightarrow> exn + unit"
  capture_method :: "ProvisioningProfile \<Rightarrow> exn + CaptureMethod"
  destructive_opt_in :: "ProvisioningProfile \<Rightarrow> string \<Rightarrow> exn + bool"

text \<open>The section properties of a profile raise on a section of another provider.\<close>

fun local_libvirt :: "ProviderSection \<Rightarrow> exn + LibvirtProfile" where
  "local_libvirt (LocalLibvirtSection s) = Inr s"
| "local_libvirt _ = Inl AttributeError"

fun fault_inject :: "ProviderSection \<Rightarrow> exn + FaultInjectProfile" where
  "fault_inject (FaultInjectSection s) = Inr s"
| "fault_inject _ = Inl AttributeError"

fun remote_libvirt :: "ProviderSection \<Rightarrow> exn + RemoteLibvirtProfile" where
  "remote_libvirt (RemoteLibvirtSection s) = Inr s"
| "remote_libvirt _ = Inl AttributeError"

fun section_kind :: "ProviderSection \<Rightarrow> ResourceKind" where
  "section_kind (LocalLibvirtSection _) = LOCAL_LIBVIRT"
| "section_kind (RemoteLibvirtSection _) = REMOTE_LIBVIRT"
| "section_kind (FaultInjectSection _) = FAULT_INJECT"

definition SUPPORTED_DOMAIN_XML_PARAMS :: "string list" where
  "SUPPORTED_DOMAIN_XML_PARAMS = [''machine'']"

text \<open>The images declared in the inventory file, if there is one.\<close>

definition validate_rootfs_reference :: "(string \<times> string) list option \<Rightarrow> RootfsSource \<Rightarrow> exn + unit" where
  "validate_rootfs_reference inventory rootfs =
    (case rootfs of
       CatalogComponentRef provider name \<Rightarrow>
         guard (case inventory of None \<Rightarrow> True | Some images \<Rightarrow> (provider, name) \<in> set images) config_error
     | _ \<Rightarrow> Inr ())"

definition local_capture_method :: "LibvirtProfile \<Rightarrow> CaptureMethod" where
  "local_capture_method s =
    (if lv_crashkernel s \<noteq> None then KDUMP
     else if gdbstub (lv_debug s) then GDBSTUB
     else if preserve_on_crash (lv_debug s) then HOST_DUMP else CONSOLE)"

definition LocalLibvirtProfilePolicy :: "(string \<times> string) list option \<Rightarrow> ProfilePolicy" where
  "LocalLibvirtProfilePolicy inventory =
    \<lparr>rootfs_source = (\<lambda>p. rbind (local_libvirt (pf_provider p)) (\<lambda>s. Inr (Some (lv_rootfs s)))),
     ssh_credential_ref = (\<lambda>p. rbind (local_libvirt (pf_provider p)) (\<lambda>s. Inr (lv_ssh_credential_ref s))),
     drgn_live_requires_credential = (\<lambda>p. True),
     validate_profile = (\<lambda>p. rbind (local_libvirt (pf_provider p)) (\<lambda>s.
       rbind (guard (set (map fst (lv_domain_xml_params s)) \<subseteq> set SUPPORTED_DOMAIN_XML_PARAMS) config_error) (\<lambda>_.
         validate_rootfs_reference inventory (lv_rootfs s)))),
     capture_method = (\<lambda>p. rbind (local_libvirt (pf_provider p)) (\<lambda>s. Inr (local_capture_method s))),
     destructive_opt_in = (\<lambda>p op. rbind (local_libvirt (pf_provider p)) (\<lambda>s. Inr (op \<in> set (lv_destructive_ops s))))\<rparr>"

definition FaultInjectProfilePolicy :: ProfilePolicy where
  "FaultInjectProfilePolicy =
    \<lparr>rootfs_source = (\<lambda>p. Inr None), ssh_credential_ref = (\<lambda>p. Inr None),
     drgn_live_requires_credential = (\<lambda>p. False), validate_profile = (\<lambda>p. Inr ()),
     capture_method = (\<lambda>p. rbind (fault_inject (pf_provider p)) (\<lambda>s. Inr (fi_capture_method s))),
     destructive_opt_in = (\<lambda>p op. rbind (fault_inject (pf_provider p)) (\<lambda>s. Inr (op \<in> set (fi_destructive_ops s))))\<rparr>"

definition RemoteLibvirtProfilePolicy :: ProfilePolicy where
  "RemoteLibvirtProfilePolicy =
    \<lparr>rootfs_source = (\<lambda>p. Inr None), ssh_credential_ref = (\<lambda>p. Inr None),
     drgn_live_requires_credential = (\<lambda>p. False), validate_profile = (\<lambda>p. Inr ()),
     capture_method = (\<lambda>p. rbind (remote_libvirt (pf_provider p)) (\<lambda>s.
       Inr (if rl_crashkernel s \<noteq> None then KDUMP else GDBSTUB))),
     destructive_opt_in = (\<lambda>p op. rbind (remote_libvirt (pf_provider p)) (\<lambda>s. Inr (op \<in> set (rl_destructive_ops s))))\<rparr>"

fun ref_kind :: "RootfsSource \<Rightarrow> string" where
  "ref_kind (LocalComponentRef _ _) = ''local''"
| "ref_kind (ArtifactComponentRef _ _) = ''artifact''"
| "ref_kind (CatalogComponentRef _ _) = ''catalog''"
| "ref_kind UploadRootfs = ''upload''"

text \<open>\<open>caps\<close> are the source kinds a provider accepts per component kind.\<close>

definition reject_unsupported_component_source ::
  "(string \<times> string list) list \<Rightarrow> string \<Rightarrow> RootfsSource \<Rightarrow> exn + unit" where
  "reject_unsupported_component_source caps component_kind ref =
    guard (ref_kind ref \<in> set (case map_of caps component_kind of None \<Rightarrow> [] | Some ks \<Rightarrow> ks)) config_error"

definition validate_profile_for_provider ::
  "ProvisioningProfile \<Rightarrow> ProfilePolicy \<Rightarrow> (string \<times> string list) list \<Rightarrow> exn + unit" where
  "validate_profile_for_provider p policy caps =
    rbind (validate_profile policy p) (\<lambda>_.
    rbind (rootfs_source policy p) (\<lambda>src.
      case src of
        None \<Rightarrow> Inr ()
      | Some UploadRootfs \<Rightarrow> Inr ()
      | Some ref \<Rightarrow> reject_unsupported_component_source caps ''rootfs'' ref))"

definition validate_rootfs_for_provider ::
  "ProvisioningProfile \<Rightarrow> ProfilePolicy \<Rightarrow> (RootfsSource \<Rightarrow> exn + unit) \<Rightarrow> exn + unit" where
  "validate_rootfs_for_provider p policy rootfs_validator =
    rbind (rootfs_source policy p) (\<lambda>src.
      case src of None \<Rightarrow> Inr () | Some UploadRootfs \<Rightarrow> Inr () | Some ref \<Rightarrow> rootfs_validator ref)"

definition rootfs_upload_window_allowed :: "ProfilePolicy \<Rightarrow> ProvisioningProfile \<Rightarrow> exn + bool" where
  "rootfs_upload_window_allowed policy p =
    rbind (rootfs_source policy p) (\<lambda>src. Inr (src = Some UploadRootfs))"

definition reject_rootfs_upload_without_window :: "ProfilePolicy \<Rightarrow> ProvisioningProfile \<Rightarrow> exn + unit" where
  "reject_rootfs_upload_without_window policy p =
    rbind (rootfs_upload_window_allowed policy p) (\<lambda>upload. guard (\<not> upload) config_error)"

end
