(* ===== verification/Job_Queue.thy ===== *)
theory Job_Queue
  imports Job_Payloads
begin

text \<open>
  The durable job queue (\<open>jobs/queue.py\<close>), the worker that claims from it
  (\<open>jobs/worker.py\<close>), the cancel tool (\<open>mcp/tools/catalog/jobs.py\<close>) and the
  reconciler's repair of abandoned jobs (\<open>reconciler/jobs.py\<close>).  Every queue
  operation is one transaction.  Rows that other sessions hold locked are an argument
  of \<open>dequeue\<close>, which skips them; rows with the same creation time are taken in
  insertion order.
\<close>

section \<open>Queue operations\<close>

definition DEFAULT_MAX_ATTEMPTS :: int where "DEFAULT_MAX_ATTEMPTS = 3"

definition DEFAULT_LEASE :: int where "DEFAULT_LEASE = 5 * 60 * USEC"

definition new_job ::
  "uuid \<Rightarrow> time \<Rightarrow> JobKind \<Rightarrow> json \<Rightarrow> JobAuthorizing \<Rightarrow> string \<Rightarrow> int \<Rightarrow> Job" where
  "new_job jid clk kind pj auth dedup attempts =
    \<lparr>oid = jid, created_at = clk, updated_at = clk, job_kind = kind, payload = pj, job_state = JobState.QUEUED,
     attempt = 0, max_attempts = attempts, worker_id = None, job_lease_expires_at = None, heartbeat_at = None,
     result_ref = None, job_error_category = None, failure_context = [], authorizing = auth,
     dedup_key = dedup\<rparr>"

definition job_by_dedup :: "string \<Rightarrow> Db \<Rightarrow> Job option" where
  "job_by_dedup dedup db = tbl_get dedup_key dedup (jobs db)"

definition queue_enqueue ::
  "uuid \<Rightarrow> JobKind \<Rightarrow> PayloadModel \<Rightarrow> JobAuthorizing \<Rightarrow> string \<Rightarrow> int \<Rightarrow> Db \<Rightarrow> exn + (Db \<times> Job)" where
  "queue_enqueue jid kind p auth dedup attempts db =
    rbind (guard (1 \<le> attempts) ValueError) (\<lambda>_.
    rbind (dump_payload kind p) (\<lambda>pj.
    rbind (guard (int4 (Some attempts)) NumericOutOfRange) (\<lambda>_.
      case job_by_dedup dedup db of
        Some existing \<Rightarrow> Inr (db, existing)
      | None \<Rightarrow>
          let job = new_job jid (db_clock db) kind pj auth dedup attempts
          in rbind (tbl_insert oid job (jobs db)) (\<lambda>t. Inr (db\<lparr>jobs := t\<rparr>, job)))))"

definition lease_lapsed :: "time \<Rightarrow> Job \<Rightarrow> bool" where
  "lease_lapsed clk j = (case job_lease_expires_at j of None \<Rightarrow> False | Some e \<Rightarrow> e < clk)"

definition claimable :: "time \<Rightarrow> Job \<Rightarrow> bool" where
  "claimable clk j \<longleftrightarrow>
    (job_state j = JobState.QUEUED \<or> (job_state j = JobState.RUNNING \<and> lease_lapsed clk j)) \<and>
    attempt j < max_attempts j"

definition claim_job :: "string \<Rightarrow> int \<Rightarrow> time \<Rightarrow> Job \<Rightarrow> Job" where
  "claim_job w lease clk j =
    j\<lparr>job_state := JobState.RUNNING, worker_id := Some w, attempt := attempt j + 1,
      job_lease_expires_at := Some (clk + lease), heartbeat_at := Some clk\<rparr>"

definition dequeue :: "uuid set \<Rightarrow> string \<Rightarrow> int \<Rightarrow> Db \<Rightarrow> Db \<times> Job option" where
  "dequeue locked w lease db =
    (case filter (\<lambda>j. claimable (db_clock db) j \<and> oid j \<notin> locked) (sort_key created_at (jobs db)) of
       [] \<Rightarrow> (db, None)
     | j # _ \<Rightarrow>
         let f = touch (db_clock db) (claim_job w lease (db_clock db))
         in (db\<lparr>jobs := tbl_update oid (oid j) f (jobs db)\<rparr>, Some (f j)))"

definition count_claimable :: "Db \<Rightarrow> nat" where
  "count_claimable db = count_rows (claimable (db_clock db)) (jobs db)"

text \<open>
  A write fenced on the worker and the running state: \<open>None\<close> when no row matched,
  which is also what a \<open>NULL\<close> worker gives.
\<close>

definition owns :: "string option \<Rightarrow> Job \<Rightarrow> bool" where
  "owns w j \<longleftrightarrow> w \<noteq> None \<and> worker_id j = w \<and> job_state j = JobState.RUNNING"

definition fenced :: "uuid \<Rightarrow> string option \<Rightarrow> (Job \<Rightarrow> Job) \<Rightarrow> Db \<Rightarrow> Db \<times> Job option" where
  "fenced jid w f db =
    (case tbl_get oid jid (jobs db) of
       None \<Rightarrow> (db, None)
     | Some j \<Rightarrow>
         if owns w j
         then (db\<lparr>jobs := tbl_update oid jid (touch (db_clock db) f) (jobs db)\<rparr>, Some (touch (db_clock db) f j))
         else (db, None))"

definition renew_lease :: "int \<Rightarrow> time \<Rightarrow> Job \<Rightarrow> Job" where
  "renew_lease lease clk j = j\<lparr>heartbeat_at := Some clk, job_lease_expires_at := Some (clk + lease)\<rparr>"

definition heartbeat :: "uuid \<Rightarrow> string \<Rightarrow> int \<Rightarrow> Db \<Rightarrow> Db \<times> bool" where
  "heartbeat jid w lease db =
    (case fenced jid (Some w) (renew_lease lease (db_clock db)) db of (db', r) \<Rightarrow> (db', r \<noteq> None))"

definition complete_job :: "string option \<Rightarrow> Job \<Rightarrow> Job" where
  "complete_job ref j = j\<lparr>job_state := JobState.SUCCEEDED, result_ref := ref\<rparr>"

definition complete :: "uuid \<Rightarrow> string \<Rightarrow> string option \<Rightarrow> Db \<Rightarrow> Db \<times> Job option" where
  "complete jid w ref db = fenced jid (Some w) (complete_job ref) db"

definition dead_letter :: "ErrorCategory \<Rightarrow> (string \<times> string) list \<Rightarrow> Job \<Rightarrow> Job" where
  "dead_letter c fc j = j\<lparr>job_state := JobState.FAILED, job_error_category := Some c, failure_context := fc\<rparr>"

definition requeue :: "Job \<Rightarrow> Job" where
  "requeue j = j\<lparr>job_state := JobState.QUEUED, worker_id := None, job_lease_expires_at := None,
     heartbeat_at := None, failure_context := []\<rparr>"

definition fail :: "Job \<Rightarrow> ErrorCategory \<Rightarrow> bool \<Rightarrow> (string \<times> string) list \<Rightarrow> Db \<Rightarrow> Db \<times> Job" where
  "fail job c terminal fc db =
    (case fenced (oid job) (worker_id job)
            (if terminal \<or> max_attempts job \<le> attempt job then dead_letter c fc else requeue) db of
       (db', r) \<Rightarrow> (db', case r of None \<Rightarrow> job | Some j \<Rightarrow> j))"

definition set_queue_paused :: "bool \<Rightarrow> Db \<Rightarrow> Db" where
  "set_queue_paused paused db = db\<lparr>queue_paused := paused\<rparr>"

text \<open>Newest first, the identifier breaking ties.\<close>

definition newest_first :: "Job list \<Rightarrow> Job list" where
  "newest_first js = rev (sort_key created_at (sort_key oid js))"

definition all_recent_jobs :: "nat \<Rightarrow> JobState list option \<Rightarrow> Db \<Rightarrow> Job list" where
  "all_recent_jobs limit states db =
    take limit (newest_first
      (case states of None \<Rightarrow> jobs db | Some ss \<Rightarrow> filter (\<lambda>j. job_state j \<in> set ss) (jobs db)))"

definition recent_jobs :: "nat \<Rightarrow> string list \<Rightarrow> Db \<Rightarrow> Job list" where
  "recent_jobs limit projects db =
    take limit (newest_first (filter (\<lambda>j. auth_project (authorizing j) \<in> set projects) (jobs db)))"

definition queue_depth :: "Db \<Rightarrow> (JobState \<times> nat) list" where
  "queue_depth db =
    map (\<lambda>s. (s, count_rows (\<lambda>j. job_state j = s) (jobs db))) (remdups (map job_state (jobs db)))"


section \<open>The worker\<close>

fun failure_category :: "exn \<Rightarrow> ErrorCategory" where
  "failure_category (CategorizedError c) = c"
| "failure_category PayloadValidationError = CONFIGURATION_ERROR"
| "failure_category _ = INFRASTRUCTURE_FAILURE"

text \<open>A third of a time span, to the nearest microsecond.\<close>

definition worker_config_ok :: "int \<Rightarrow> int \<Rightarrow> int \<Rightarrow> exn + unit" where
  "worker_config_ok lease heartbeat_interval pool_max =
    rbind (guard (heartbeat_interval \<le> (lease + 1) div 3) ValueError) (\<lambda>_. guard (2 \<le> pool_max) ValueError)"

text \<open>
  What a handler does to the database, with whatever other sessions commit while it
  runs, and how it ends.
\<close>

type_synonym JobHandler = "Job \<Rightarrow> Db \<Rightarrow> Db \<times> (exn + string option)"

definition run_handler ::
  "string \<Rightarrow> (exn \<Rightarrow> (string \<times> string) list) \<Rightarrow> JobHandler \<Rightarrow> Job \<Rightarrow> Db \<Rightarrow> Db" where
  "run_handler w context handler job db =
    (case handler job db of
       (db', Inl e) \<Rightarrow> fst (fail job (failure_category e) False (context e) db')
     | (db', Inr ref) \<Rightarrow> fst (complete (oid job) w ref db'))"

definition run_once ::
  "bool \<Rightarrow> uuid set \<Rightarrow> string \<Rightarrow> int \<Rightarrow> (exn \<Rightarrow> (string \<times> string) list) \<Rightarrow> (JobKind \<Rightarrow> JobHandler option) \<Rightarrow>
   Db \<Rightarrow> Db \<times> Job option" where
  "run_once ready locked w lease context registry db =
    (if \<not> ready \<or> queue_paused db then (db, None)
     else case dequeue locked w lease db of
            (db', None) \<Rightarrow> (db', None)
          | (db', Some job) \<Rightarrow>
              (case registry (job_kind job) of
                 None \<Rightarrow> (fst (fail job NOT_IMPLEMENTED True [] db'), Some job)
               | Some handler \<Rightarrow> (run_handler w context handler job db', Some job)))"


section \<open>Cancellation and repair\<close>

definition JOBS_get :: "uuid \<Rightarrow> Db \<Rightarrow> Job option" where
  "JOBS_get k db = tbl_get oid k (jobs db)"

definition JOBS_update_state :: "uuid \<Rightarrow> JobState \<Rightarrow> Db \<Rightarrow> exn + (Db \<times> Job)" where
  "JOBS_update_state k s db =
    rbind (update_state oid job_state JobSt
             (\<lambda>s. touch (db_clock db) (job_state_update (\<lambda>_. s))) (\<lambda>_. True) k s (jobs db))
      (\<lambda>(t, row). Inr (db\<lparr>jobs := t\<rparr>, row))"

datatype CancelResponse =
    CancelError ErrorCategory "JobState option"
  | Canceled Job

definition in_scope :: "Job \<Rightarrow> RequestContext \<Rightarrow> bool" where
  "in_scope j ctx \<longleftrightarrow> auth_project (authorizing j) \<in> set (ctx_projects ctx)"

definition require_job_role :: "Job \<Rightarrow> RequestContext \<Rightarrow> Role \<Rightarrow> exn + ErrorCategory option" where
  "require_job_role j ctx role =
    (case require_role ctx (auth_project (authorizing j)) role of
       Inl AuthorizationError \<Rightarrow> Inr (Some AUTHORIZATION_DENIED)
     | Inl e \<Rightarrow> Inl e
     | Inr _ \<Rightarrow> Inr None)"

definition cancel_job :: "RequestContext \<Rightarrow> string \<Rightarrow> Db \<Rightarrow> exn + (Db \<times> CancelResponse)" where
  "cancel_job ctx job_id db =
    (case as_uuid job_id of
       None \<Rightarrow> Inr (db, CancelError CONFIGURATION_ERROR None)
     | Some uid \<Rightarrow>
         (case JOBS_get uid db of
            None \<Rightarrow> Inr (db, CancelError NOT_FOUND None)
          | Some existing \<Rightarrow>
              if \<not> in_scope existing ctx then Inr (db, CancelError NOT_FOUND None)
              else rbind (require_job_role existing ctx Role.OPERATOR) (\<lambda>denied.
                case denied of
                  Some c \<Rightarrow> Inr (db, CancelError c None)
                | None \<Rightarrow>
                    (case JOBS_update_state uid JobState.CANCELED db of
                       Inr (db', job) \<Rightarrow> Inr (db', Canceled job)
                     | Inl ObjectNotFound \<Rightarrow> Inr (db, CancelError NOT_FOUND None)
                     | Inl IllegalTransition \<Rightarrow>
                         Inr (db, CancelError CONFIGURATION_ERROR (map_option job_state (JOBS_get uid db)))
                     | Inl e \<Rightarrow> Inl e))))"

definition abandoned :: "time \<Rightarrow> Job \<Rightarrow> bool" where
  "abandoned clk j \<longleftrightarrow> job_state j = JobState.RUNNING \<and> lease_lapsed clk j \<and> max_attempts j \<le> attempt j"

definition RUN_COMPENSATION_STATES :: "RunState list" where
  "RUN_COMPENSATION_STATES = [RunState.CREATED, RunState.RUNNING]"

definition expire_job :: "Job \<Rightarrow> Job" where
  "expire_job j = j\<lparr>job_state := JobState.FAILED, job_error_category := Some LEASE_EXPIRED\<rparr>"

definition compensate_run :: "uuid \<Rightarrow> Db \<Rightarrow> Db" where
  "compensate_run run_id db =
    db\<lparr>runs := map (\<lambda>r. if oid r = run_id \<and> run_state r \<in> set RUN_COMPENSATION_STATES
        then touch (db_clock db)
          (\<lambda>r. r\<lparr>run_state := RunState.FAILED, run_failure_category := Some LEASE_EXPIRED\<rparr>) r
        else r) (runs db)\<rparr>"

definition repair_one :: "uuid \<Rightarrow> Db \<Rightarrow> Db \<times> nat" where
  "repair_one jid db =
    (case tbl_get oid jid (jobs db) of
       None \<Rightarrow> (db, 0)
     | Some j \<Rightarrow>
         if job_state j \<noteq> JobState.RUNNING then (db, 0)
         else let db' = db\<lparr>jobs := tbl_update oid jid (touch (db_clock db) expire_job) (jobs db)\<rparr>
              in (case run_id_from_payload (job_kind j) (payload j) of
                    Inr (Some r) \<Rightarrow> (compensate_run r db', 1)
                  | _ \<Rightarrow> (db', 1)))"

fun repair_jobs :: "uuid list \<Rightarrow> Db \<Rightarrow> Db \<times> nat" where
  "repair_jobs [] db = (db, 0)"
| "repair_jobs (k # ks) db =
    (case repair_one k db of (db', n) \<Rightarrow> (case repair_jobs ks db' of (db'', m) \<Rightarrow> (db'', n + m)))"

definition repair_abandoned_jobs :: "Db \<Rightarrow> Db \<times> nat" where
  "repair_abandoned_jobs db = repair_jobs (map oid (filter (abandoned (db_clock db)) (jobs db))) db"

end
