(* ===== verification/Systems.thy ===== *)
theory Systems
  imports Profiles Job_Queue Alloc_Lifecycle
begin

text \<open>
  Systems: admission of a new System on a granted allocation
  (\<open>services/systems/admission.py\<close>), the tools that tear down, reprovision, power and
  crash one (\<open>mcp/tools/lifecycle\<close>), the choice of its provider
  (\<open>providers/resolver.py\<close>) and the reconciler's repair of orphaned Systems
  (\<open>reconciler/systems.py\<close>).  Each tool is one transaction; a read it makes on an
  earlier connection is the argument \<open>probe\<close>.  Provider runtimes are arguments.
\<close>

section \<open>Providers\<close>

record ProviderRuntime =
  profile_policy :: ProfilePolicy
  rt_provision :: "uuid \<Rightarrow> ProvisioningProfile \<Rightarrow> exn + string"
  rt_reprovision :: "uuid \<Rightarrow> ProvisioningProfile \<Rightarrow> exn + string"
  rt_teardown :: "string \<Rightarrow> exn + unit"
  rt_power :: "string \<Rightarrow> PowerAction \<Rightarrow> exn + unit"
  rt_force_crash :: "string \<Rightarrow> exn + unit"

type_synonym ProviderResolver = "ResourceKind \<Rightarrow> ProviderRuntime option"

definition kind_for_allocation :: "uuid \<Rightarrow> Db \<Rightarrow> ResourceKind option" where
  "kind_for_allocation k db =
    Option.bind (ALLOCATIONS_get k db) (\<lambda>a.
    Option.bind (resource_id a) (\<lambda>r. map_option res_kind (tbl_get oid r (resources db))))"

definition kind_for_system :: "uuid \<Rightarrow> Db \<Rightarrow> ResourceKind option" where
  "kind_for_system k db = Option.bind (SYSTEMS_get k db) (\<lambda>s. kind_for_allocation (allocation_id s) db)"

definition kind_for_run :: "uuid \<Rightarrow> Db \<Rightarrow> ResourceKind option" where
  "kind_for_run k db = Option.bind (tbl_get oid k (runs db)) (\<lambda>r. kind_for_system (system_id r) db)"

definition kind_for_session :: "uuid \<Rightarrow> Db \<Rightarrow> ResourceKind option" where
  "kind_for_session k db = Option.bind (tbl_get oid k (debug_sessions db)) (\<lambda>d. kind_for_run (ds_run_id d) db)"

definition resolve :: "(ResourceKind \<Rightarrow> 'r option) \<Rightarrow> ResourceKind option \<Rightarrow> exn + 'r" where
  "resolve runtimes kind =
    (case kind of
       None \<Rightarrow> Inl config_error
     | Some k \<Rightarrow> (case runtimes k of None \<Rightarrow> Inl config_error | Some r \<Rightarrow> Inr r))"

definition runtime_for_system :: "ProviderResolver \<Rightarrow> uuid \<Rightarrow> Db \<Rightarrow> exn + ProviderRuntime" where
  "runtime_for_system runtimes k db = resolve runtimes (kind_for_system k db)"

definition domain_name_for :: "uuid \<Rightarrow> string" where
  "domain_name_for k = ''kdive-'' @ uuid_str k"

definition domain_of :: "System \<Rightarrow> string" where
  "domain_of s = (case domain_name s of Some (c # cs) \<Rightarrow> c # cs | _ \<Rightarrow> domain_name_for (oid s))"


section \<open>Admission\<close>

definition NON_TERMINAL_SYSTEM :: "SystemState list" where
  "NON_TERMINAL_SYSTEM = [SystemState.DEFINED, SystemState.PROVISIONING, SystemState.READY,
     SystemState.REPROVISIONING, SystemState.CRASHED]"

definition TERMINAL_SYSTEM_STATES :: "SystemState list" where
  "TERMINAL_SYSTEM_STATES = [SystemState.TORN_DOWN, SystemState.FAILED]"

datatype CreateSystemMode = ProvisionMode | DefineMode

datatype AdmissionResult =
    AdmissionFailure uuid ErrorCategory "StrEnum option"
  | ProvisionJobAdmitted Job uuid
  | DefinedSystemAdmitted System

text \<open>\<open>try: ... except CategorizedError\<close>.\<close>

fun on_categorized :: "exn + 'a \<Rightarrow> (ErrorCategory \<Rightarrow> exn + 'b) \<Rightarrow> ('a \<Rightarrow> exn + 'b) \<Rightarrow> exn + 'b" where
  "on_categorized (Inr a) h k = k a"
| "on_categorized (Inl e) h k = (case e of CategorizedError c \<Rightarrow> h c | _ \<Rightarrow> Inl e)"

abbreviation failure :: "uuid \<Rightarrow> ErrorCategory \<Rightarrow> StrEnum option \<Rightarrow> Db \<Rightarrow> exn + (Db \<times> AdmissionResult)" where
  "failure k c status db \<equiv> Inr (db, AdmissionFailure k c status)"

definition within_system_quota :: "string \<Rightarrow> Db \<Rightarrow> bool" where
  "within_system_quota p db =
    (case tbl_get quo_project p (quotas db) of
       None \<Rightarrow> False
     | Some q \<Rightarrow>
         int (count_rows (\<lambda>s. project s = p \<and> sys_state s \<in> set NON_TERMINAL_SYSTEM) (systems db))
           < max_concurrent_systems q)"

definition find_system_for_allocation :: "uuid \<Rightarrow> Db \<Rightarrow> System option" where
  "find_system_for_allocation k db =
    (case sort_key created_at (sort_key oid (filter (\<lambda>s. allocation_id s = k) (systems db))) of
       [] \<Rightarrow> None | s # _ \<Rightarrow> Some s)"

definition job_authorizing :: "RequestContext \<Rightarrow> string \<Rightarrow> JobAuthorizing" where
  "job_authorizing ctx p =
    \<lparr>auth_principal = ctx_principal ctx, auth_agent_session = ctx_agent_session ctx, auth_project = p\<rparr>"

definition provision_key :: "uuid \<Rightarrow> string" where
  "provision_key k = uuid_str k @ '':provision''"

definition enqueue_provision_job ::
  "uuid \<Rightarrow> RequestContext \<Rightarrow> string \<Rightarrow> uuid \<Rightarrow> uuid \<Rightarrow> Db \<Rightarrow> exn + (Db \<times> AdmissionResult)" where
  "enqueue_provision_job jid ctx p alloc_id sys_id db =
    rbind (queue_enqueue jid PROVISION (SystemPayload (uuid_str sys_id)) (job_authorizing ctx p)
             (provision_key alloc_id) DEFAULT_MAX_ATTEMPTS db)
      (\<lambda>(db, job). Inr (db, ProvisionJobAdmitted job sys_id))"

definition new_system_allowed ::
  "Allocation \<Rightarrow> ProvisioningProfile \<Rightarrow> ProfilePolicy \<Rightarrow> (RootfsSource \<Rightarrow> exn + unit) \<Rightarrow> Db \<Rightarrow>
   exn + AdmissionResult option" where
  "new_system_allowed alloc p policy rootfs_validator db =
    (if al_state alloc \<noteq> AllocationState.GRANTED
     then Inr (Some (AdmissionFailure (oid alloc) CONFIGURATION_ERROR (Some (AllocationSt (al_state alloc)))))
     else if \<not> within_system_quota (project alloc) db
     then Inr (Some (AdmissionFailure (oid alloc) QUOTA_EXCEEDED None))
     else on_categorized (validate_rootfs_for_provider p policy rootfs_validator)
            (\<lambda>c. Inr (Some (AdmissionFailure (oid alloc) c None))) (\<lambda>_. Inr None))"

definition system_event :: "string \<Rightarrow> uuid \<Rightarrow> string \<Rightarrow> string \<Rightarrow> AuditEvent" where
  "system_event tool k transition p =
    \<lparr>ev_tool = tool, ev_object_kind = ''systems'', ev_object_id = k, ev_transition = transition, ev_project = p\<rparr>"

definition new_system :: "uuid \<Rightarrow> RequestContext \<Rightarrow> Allocation \<Rightarrow> ProvisioningProfile \<Rightarrow> SystemState \<Rightarrow> System" where
  "new_system sid ctx alloc p state =
    \<lparr>oid = sid, created_at = 0, updated_at = 0, principal = ctx_principal ctx,
     agent_session = ctx_agent_session ctx, project = project alloc, allocation_id = oid alloc, sys_state = state,
     provisioning_profile = dump_profile p, target_fingerprint = None, domain_name = None,
     sys_shape = al_shape alloc\<rparr>"

definition insert_system_and_activate ::
  "uuid \<Rightarrow> RequestContext \<Rightarrow> Allocation \<Rightarrow> ProvisioningProfile \<Rightarrow> SystemState \<Rightarrow> string \<Rightarrow> string \<Rightarrow> Db \<Rightarrow>
   exn + (Db \<times> System)" where
  "insert_system_and_activate sid ctx alloc p state tool transition db =
    rbind (SYSTEMS_insert (new_system sid ctx alloc p state) db) (\<lambda>(db, system).
    rbind (audit_record ctx (system_event tool (oid system) transition (project alloc)) db) (\<lambda>db.
    rbind (ALLOCATIONS_update_state (oid alloc) AllocationState.ACTIVE db) (\<lambda>(db, _).
    rbind (audit_record ctx \<lparr>ev_tool = tool, ev_object_kind = ''allocations'', ev_object_id = oid alloc,
             ev_transition = ''granted->active'', ev_project = project alloc\<rparr> db) (\<lambda>db.
      Inr (db, system)))))"

definition insert_defined_system ::
  "uuid \<Rightarrow> RequestContext \<Rightarrow> Allocation \<Rightarrow> ProvisioningProfile \<Rightarrow> ProfilePolicy \<Rightarrow> (RootfsSource \<Rightarrow> exn + unit) \<Rightarrow>
   Db \<Rightarrow> exn + (Db \<times> AdmissionResult)" where
  "insert_defined_system sid ctx alloc p policy rootfs_validator db =
    rbind (new_system_allowed alloc p policy rootfs_validator db) (\<lambda>blocked.
      case blocked of
        Some r \<Rightarrow> Inr (db, r)
      | None \<Rightarrow>
          rbind (insert_system_and_activate sid ctx alloc p SystemState.DEFINED ''systems.define'' ''->defined'' db)
            (\<lambda>(db, system). Inr (db, DefinedSystemAdmitted system)))"

definition insert_provisioning_system ::
  "uuid \<Rightarrow> uuid \<Rightarrow> RequestContext \<Rightarrow> Allocation \<Rightarrow> ProvisioningProfile \<Rightarrow> ProfilePolicy \<Rightarrow>
   (RootfsSource \<Rightarrow> exn + unit) \<Rightarrow> Db \<Rightarrow> exn + (Db \<times> AdmissionResult)" where
  "insert_provisioning_system sid jid ctx alloc p policy rootfs_validator db =
    on_categorized (reject_rootfs_upload_without_window policy p)
      (\<lambda>c. failure (oid alloc) c None db) (\<lambda>_.
    rbind (new_system_allowed alloc p policy rootfs_validator db) (\<lambda>blocked.
      case blocked of
        Some r \<Rightarrow> Inr (db, r)
      | None \<Rightarrow>
          rbind (insert_system_and_activate sid ctx alloc p SystemState.PROVISIONING ''systems.provision''
                   ''->provisioning'' db)
            (\<lambda>(db, system). enqueue_provision_job jid ctx (project alloc) (oid alloc) (oid system) db)))"

definition provision_create_response ::
  "uuid \<Rightarrow> uuid \<Rightarrow> RequestContext \<Rightarrow> Allocation \<Rightarrow> System option \<Rightarrow> ProvisioningProfile \<Rightarrow> ProfilePolicy \<Rightarrow>
   (RootfsSource \<Rightarrow> exn + unit) \<Rightarrow> Db \<Rightarrow> exn + (Db \<times> AdmissionResult)" where
  "provision_create_response sid jid ctx alloc existing p policy rootfs_validator db =
    (case existing of
       None \<Rightarrow> insert_provisioning_system sid jid ctx alloc p policy rootfs_validator db
     | Some s \<Rightarrow>
         if sys_state s = SystemState.PROVISIONING
         then enqueue_provision_job jid ctx (project alloc) (oid alloc) (oid s) db
         else failure (oid s) CONFIGURATION_ERROR (Some (SystemSt (sys_state s))) db)"

definition define_create_response ::
  "uuid \<Rightarrow> RequestContext \<Rightarrow> Allocation \<Rightarrow> System option \<Rightarrow> ProvisioningProfile \<Rightarrow> ProfilePolicy \<Rightarrow>
   (RootfsSource \<Rightarrow> exn + unit) \<Rightarrow> Db \<Rightarrow> exn + (Db \<times> AdmissionResult)" where
  "define_create_response sid ctx alloc existing p policy rootfs_validator db =
    (case existing of
       None \<Rightarrow> insert_defined_system sid ctx alloc p policy rootfs_validator db
     | Some s \<Rightarrow>
         if sys_state s = SystemState.DEFINED then Inr (db, DefinedSystemAdmitted s)
         else failure (oid s) CONFIGURATION_ERROR (Some (SystemSt (sys_state s))) db)"

definition locked_allocation_system ::
  "RequestContext \<Rightarrow> uuid \<Rightarrow> Db \<Rightarrow> Db \<Rightarrow> exn + (Allocation \<times> System option) option" where
  "locked_allocation_system ctx k probe db =
    (case ALLOCATIONS_get k probe of
       None \<Rightarrow> Inr None
     | Some seen \<Rightarrow>
         if project seen \<notin> set (ctx_projects ctx) then Inr None
         else case ALLOCATIONS_get k db of
                None \<Rightarrow> Inr None
              | Some alloc \<Rightarrow>
                  if project alloc \<notin> set (ctx_projects ctx) then Inr None
                  else rbind (require_role ctx (project alloc) Role.OPERATOR)
                         (\<lambda>_. Inr (Some (alloc, find_system_for_allocation k db))))"

text \<open>
  An \<open>IllegalTransition\<close> rolls the transaction back and is answered with the state
  read afterwards.
\<close>

definition create_for_allocation ::
  "uuid \<Rightarrow> uuid \<Rightarrow> ProfilePolicy \<Rightarrow> (string \<times> string list) list \<Rightarrow> (RootfsSource \<Rightarrow> exn + unit) \<Rightarrow>
   RequestContext \<Rightarrow> uuid \<Rightarrow> json \<Rightarrow> CreateSystemMode \<Rightarrow> Db \<Rightarrow> Db \<Rightarrow> exn + (Db \<times> AdmissionResult)" where
  "create_for_allocation sid jid policy caps rootfs_validator ctx k profile mode probe db =
    on_categorized
      (rbind (parse_profile profile) (\<lambda>p. validate_profile_for_provider p policy caps))
      (\<lambda>c. failure k c None db) (\<lambda>_.
      case rbind (locked_allocation_system ctx k probe db) (\<lambda>locked.
             case locked of
               None \<Rightarrow> failure k CONFIGURATION_ERROR None db
             | Some (alloc, existing) \<Rightarrow>
                 on_categorized (stored_profile_for profile alloc) (\<lambda>c. failure (oid alloc) c None db) (\<lambda>stored.
                   case mode of
                     ProvisionMode \<Rightarrow>
                       provision_create_response sid jid ctx alloc existing stored policy rootfs_validator db
                   | DefineMode \<Rightarrow>
                       define_create_response sid ctx alloc existing stored policy rootfs_validator db)) of
        Inl IllegalTransition \<Rightarrow>
          failure k CONFIGURATION_ERROR (map_option (\<lambda>a. AllocationSt (al_state a)) (ALLOCATIONS_get k db)) db
      | r \<Rightarrow> r)"

definition admit_defined ::
  "uuid \<Rightarrow> RequestContext \<Rightarrow> Allocation \<Rightarrow> System \<Rightarrow> Db \<Rightarrow> exn + (Db \<times> AdmissionResult)" where
  "admit_defined jid ctx alloc system db =
    rbind (SYSTEMS_update_state (oid system) SystemState.PROVISIONING db) (\<lambda>(db, _).
    rbind (audit_record ctx (system_event ''systems.provision'' (oid system) ''defined->provisioning''
             (project alloc)) db) (\<lambda>db.
      enqueue_provision_job jid ctx (project alloc) (oid alloc) (oid system) db))"

definition provision_defined_response ::
  "uuid \<Rightarrow> RequestContext \<Rightarrow> System \<Rightarrow> Allocation \<Rightarrow> ProfilePolicy \<Rightarrow> (string \<times> string list) list \<Rightarrow>
   (RootfsSource \<Rightarrow> exn + unit) \<Rightarrow> Db \<Rightarrow> exn + (Db \<times> AdmissionResult)" where
  "provision_defined_response jid ctx system alloc policy caps rootfs_validator db =
    (if sys_state system = SystemState.PROVISIONING
     then enqueue_provision_job jid ctx (project system) (allocation_id system) (oid system) db
     else if sys_state system \<noteq> SystemState.DEFINED
     then failure (oid system) CONFIGURATION_ERROR (Some (SystemSt (sys_state system))) db
     else on_categorized
            (rbind (parse_profile (provisioning_profile system)) (\<lambda>p.
             rbind (validate_profile_for_provider p policy caps) (\<lambda>_.
               validate_rootfs_for_provider p policy rootfs_validator)))
            (\<lambda>c. failure (oid system) c None db) (\<lambda>_.
            if al_state alloc \<noteq> AllocationState.ACTIVE
            then failure (oid alloc) CONFIGURATION_ERROR (Some (AllocationSt (al_state alloc))) db
            else admit_defined jid ctx alloc system db))"

definition provision_defined ::
  "uuid \<Rightarrow> ProfilePolicy \<Rightarrow> (string \<times> string list) list \<Rightarrow> (RootfsSource \<Rightarrow> exn + unit) \<Rightarrow> RequestContext \<Rightarrow> uuid \<Rightarrow>
   Db \<Rightarrow> Db \<Rightarrow> exn + (Db \<times> AdmissionResult)" where
  "provision_defined jid policy caps rootfs_validator ctx k probe db =
    (case SYSTEMS_get k probe of
       None \<Rightarrow> failure k CONFIGURATION_ERROR None db
     | Some seen \<Rightarrow>
         if project seen \<notin> set (ctx_projects ctx) then failure k CONFIGURATION_ERROR None db
         else case SYSTEMS_get k db of
                None \<Rightarrow> failure k CONFIGURATION_ERROR None db
              | Some system \<Rightarrow>
                  if project system \<notin> set (ctx_projects ctx) then failure k CONFIGURATION_ERROR None db
                  else rbind (require_role ctx (project system) Role.OPERATOR) (\<lambda>_.
                    case ALLOCATIONS_get (allocation_id system) db of
                      None \<Rightarrow> failure (allocation_id system) CONFIGURATION_ERROR None db
                    | Some alloc \<Rightarrow>
                        if project alloc \<noteq> project system
                        then failure (allocation_id system) CONFIGURATION_ERROR None db
                        else provision_defined_response jid ctx system alloc policy caps rootfs_validator db))"


section \<open>Destructive tools\<close>

datatype ToolResult =
    ToolFailure ErrorCategory "SystemState option"
  | ToolJob Job uuid
  | AlreadyTornDown uuid

abbreviation tool_failure :: "ErrorCategory \<Rightarrow> SystemState option \<Rightarrow> Db \<Rightarrow> exn + (Db \<times> ToolResult)" where
  "tool_failure c status db \<equiv> Inr (db, ToolFailure c status)"

definition NON_TERMINAL_RUN :: "RunState list" where
  "NON_TERMINAL_RUN = [RunState.CREATED, RunState.RUNNING]"

definition has_live_run :: "uuid \<Rightarrow> Db \<Rightarrow> bool" where
  "has_live_run k db = list_ex (\<lambda>r. system_id r = k \<and> run_state r \<in> set NON_TERMINAL_RUN) (runs db)"

definition audit_destructive_denied :: "string \<Rightarrow> RequestContext \<Rightarrow> System \<Rightarrow> JobKind \<Rightarrow> Db \<Rightarrow> exn + Db" where
  "audit_destructive_denied tool ctx system kind db =
    audit_record ctx (system_event tool (oid system) (JobKind_value kind @ '':denied'') (project system)) db"

text \<open>The gate: a denial is audited and answered, and any other exception propagates.\<close>

definition gated ::
  "string \<Rightarrow> RequestContext \<Rightarrow> System \<Rightarrow> Allocation \<Rightarrow> JobKind \<Rightarrow> bool \<Rightarrow> Role \<Rightarrow> Db \<Rightarrow>
   exn + (Db \<times> ToolResult) \<Rightarrow> exn + (Db \<times> ToolResult)" where
  "gated tool ctx system alloc kind opt_in role db continue =
    (case assert_destructive_allowed ctx alloc \<lparr>op_kind = kind, profile_opt_in = opt_in\<rparr> role of
       Inl (DestructiveOpDenied _) \<Rightarrow>
         rbind (audit_destructive_denied tool ctx system kind db) (\<lambda>db. tool_failure AUTHORIZATION_DENIED None db)
     | Inl e \<Rightarrow> Inl e
     | Inr _ \<Rightarrow> continue)"

text \<open>A System of the caller's projects with its allocation, or the not-found answer.\<close>

definition in_projects ::
  "RequestContext \<Rightarrow> uuid \<Rightarrow> Db \<Rightarrow> (System \<Rightarrow> Allocation \<Rightarrow> exn + (Db \<times> ToolResult)) \<Rightarrow> exn + (Db \<times> ToolResult)" where
  "in_projects ctx k db continue =
    (case SYSTEMS_get k db of
       None \<Rightarrow> tool_failure CONFIGURATION_ERROR None db
     | Some system \<Rightarrow>
         if project system \<notin> set (ctx_projects ctx) then tool_failure CONFIGURATION_ERROR None db
         else case ALLOCATIONS_get (allocation_id system) db of
                None \<Rightarrow> tool_failure CONFIGURATION_ERROR None db
              | Some alloc \<Rightarrow>
                  if project alloc \<notin> set (ctx_projects ctx) then tool_failure CONFIGURATION_ERROR None db
                  else continue system alloc)"

definition reprovision_key :: "uuid \<Rightarrow> string \<Rightarrow> string" where
  "reprovision_key k digest = uuid_str k @ '':reprovision:'' @ digest"

definition admit_reprovision ::
  "uuid \<Rightarrow> RequestContext \<Rightarrow> System \<Rightarrow> ProvisioningProfile \<Rightarrow> string \<Rightarrow> Db \<Rightarrow> exn + (Db \<times> ToolResult)" where
  "admit_reprovision jid ctx system p digest db =
    rbind (SYSTEMS_update_state (oid system) SystemState.REPROVISIONING db) (\<lambda>(db, _).
    let db = db\<lparr>systems := tbl_update oid (oid system)
               (touch (db_clock db) (provisioning_profile_update (\<lambda>_. dump_profile p))) (systems db)\<rparr>
    in rbind (audit_record ctx (system_event ''systems.reprovision'' (oid system) ''ready->reprovisioning''
                (project system)) db) (\<lambda>db.
       rbind (queue_enqueue jid REPROVISION (ReprovisionPayload (uuid_str (oid system)) digest)
                (job_authorizing ctx (project system)) (reprovision_key (oid system) digest)
                DEFAULT_MAX_ATTEMPTS db)
         (\<lambda>(db, job). Inr (db, ToolJob job (oid system)))))"

text \<open>What follows the gate.\<close>

definition reprovision_ungated ::
  "uuid \<Rightarrow> RequestContext \<Rightarrow> System \<Rightarrow> ProvisioningProfile \<Rightarrow> string \<Rightarrow> ProfilePolicy \<Rightarrow>
   (RootfsSource \<Rightarrow> exn + unit) \<Rightarrow> Db \<Rightarrow> exn + (Db \<times> ToolResult)" where
  "reprovision_ungated jid ctx system p digest policy rootfs_validator db =
    (if sys_state system = SystemState.REPROVISIONING
     then (case job_by_dedup (reprovision_key (oid system) digest) db of
             Some job \<Rightarrow> Inr (db, ToolJob job (oid system))
           | None \<Rightarrow> tool_failure CONFIGURATION_ERROR (Some (sys_state system)) db)
     else if sys_state system \<noteq> SystemState.READY
     then tool_failure CONFIGURATION_ERROR (Some (sys_state system)) db
     else if has_live_run (oid system) db then tool_failure STALE_HANDLE (Some (sys_state system)) db
     else on_categorized (validate_rootfs_for_provider p policy rootfs_validator)
            (\<lambda>c. tool_failure c None db)
            (\<lambda>_. admit_reprovision jid ctx system p digest db))"

definition reprovision_locked ::
  "uuid \<Rightarrow> (ProvisioningProfile \<Rightarrow> string) \<Rightarrow> RequestContext \<Rightarrow> uuid \<Rightarrow> ProvisioningProfile \<Rightarrow> ProfilePolicy \<Rightarrow>
   (RootfsSource \<Rightarrow> exn + unit) \<Rightarrow> Db \<Rightarrow> exn + (Db \<times> ToolResult)" where
  "reprovision_locked jid profile_digest ctx k p policy rootfs_validator db =
    in_projects ctx k db (\<lambda>system alloc.
    rbind (destructive_opt_in policy p ''reprovision'') (\<lambda>opt_in.
    gated ''systems.reprovision'' ctx system alloc REPROVISION opt_in Role.OPERATOR db
      (reprovision_ungated jid ctx system p (profile_digest p) policy rootfs_validator db)))"

definition reprovision_system ::
  "uuid \<Rightarrow> (ProvisioningProfile \<Rightarrow> string) \<Rightarrow> ProfilePolicy \<Rightarrow> (string \<times> string list) list \<Rightarrow>
   (RootfsSource \<Rightarrow> exn + unit) \<Rightarrow> RequestContext \<Rightarrow> string \<Rightarrow> json \<Rightarrow> Db \<Rightarrow> exn + (Db \<times> ToolResult)" where
  "reprovision_system jid profile_digest policy caps rootfs_validator ctx sys_text profile db =
    (case as_uuid sys_text of
       None \<Rightarrow> tool_failure CONFIGURATION_ERROR None db
     | Some k \<Rightarrow>
         on_categorized
           (rbind (parse_profile profile) (\<lambda>p.
            rbind (validate_profile_for_provider p policy caps) (\<lambda>_.
            rbind (reject_rootfs_upload_without_window policy p) (\<lambda>_. Inr p))))
           (\<lambda>c. tool_failure c None db) (\<lambda>p.
           case reprovision_locked jid profile_digest ctx k p policy rootfs_validator db of
             Inl IllegalTransition \<Rightarrow> tool_failure CONFIGURATION_ERROR (map_option sys_state (SYSTEMS_get k db)) db
           | r \<Rightarrow> r))"

definition teardown_key :: "uuid \<Rightarrow> string" where
  "teardown_key k = uuid_str k @ '':teardown''"

definition teardown_system ::
  "uuid \<Rightarrow> ProviderResolver \<Rightarrow> RequestContext \<Rightarrow> string \<Rightarrow> Db \<Rightarrow> exn + (Db \<times> ToolResult)" where
  "teardown_system jid resolver ctx sys_text db =
    (case as_uuid sys_text of
       None \<Rightarrow> tool_failure CONFIGURATION_ERROR None db
     | Some k \<Rightarrow>
         in_projects ctx k db (\<lambda>system alloc.
         on_categorized (parse_profile (provisioning_profile system)) (\<lambda>c. tool_failure c None db) (\<lambda>p.
         rbind (runtime_for_system resolver k db) (\<lambda>runtime.
         rbind (destructive_opt_in (profile_policy runtime) p ''teardown'') (\<lambda>opt_in.
         gated ''systems.teardown'' ctx system alloc TEARDOWN opt_in Role.ADMIN db (
           if sys_state system = SystemState.TORN_DOWN then Inr (db, AlreadyTornDown k)
           else rbind (queue_enqueue jid TEARDOWN (SystemPayload (uuid_str k)) (job_authorizing ctx (project system))
                         (teardown_key k) DEFAULT_MAX_ATTEMPTS db)
                  (\<lambda>(db, job). Inr (db, ToolJob job k))))))))"


section \<open>Power and crash tools\<close>

definition STARTED_SYSTEM :: "SystemState list" where
  "STARTED_SYSTEM = [SystemState.READY, SystemState.CRASHED]"

definition DESTRUCTIVE_POWER_ACTIONS :: "PowerAction list" where
  "DESTRUCTIVE_POWER_ACTIONS = [PowerOff, PowerCycle, PowerReset]"

definition power_required_role :: "PowerAction \<Rightarrow> Role" where
  "power_required_role a = (if a = PowerOn then Role.OPERATOR else Role.ADMIN)"

definition op_opt_in :: "ProviderResolver \<Rightarrow> System \<Rightarrow> JobKind \<Rightarrow> Db \<Rightarrow> exn + bool" where
  "op_opt_in resolver system kind db =
    rbind (parse_profile (provisioning_profile system)) (\<lambda>p.
    rbind (runtime_for_system resolver (oid system) db) (\<lambda>runtime.
      destructive_opt_in (profile_policy runtime) p (JobKind_value kind)))"

definition authorize_destructive ::
  "ProviderResolver \<Rightarrow> string \<Rightarrow> RequestContext \<Rightarrow> System \<Rightarrow> JobKind \<Rightarrow> Db \<Rightarrow> exn + (Db \<times> ToolResult) \<Rightarrow>
   exn + (Db \<times> ToolResult)" where
  "authorize_destructive resolver tool ctx system kind db continue =
    (case ALLOCATIONS_get (allocation_id system) db of
       None \<Rightarrow> tool_failure CONFIGURATION_ERROR None db
     | Some alloc \<Rightarrow>
         if project alloc \<notin> set (ctx_projects ctx) then tool_failure CONFIGURATION_ERROR None db
         else rbind (op_opt_in resolver system kind db) (\<lambda>opt_in.
           gated tool ctx system alloc kind opt_in Role.ADMIN db continue))"

text \<open>What follows the gate: the state check and the job.\<close>

definition admit_control_job ::
  "uuid \<Rightarrow> JobKind \<Rightarrow> PayloadModel \<Rightarrow> string \<Rightarrow> SystemState list \<Rightarrow> RequestContext \<Rightarrow> System \<Rightarrow> Db \<Rightarrow> exn + (Db \<times> ToolResult)" where
  "admit_control_job jid kind pl key admissible ctx system db =
    (if sys_state system \<notin> set admissible then tool_failure CONFIGURATION_ERROR (Some (sys_state system)) db
     else rbind (queue_enqueue jid kind pl (job_authorizing ctx (project system)) key DEFAULT_MAX_ATTEMPTS db)
            (\<lambda>(db, job). Inr (db, ToolJob job (oid system))))"

definition power_admitted ::
  "uuid \<Rightarrow> uuid \<Rightarrow> ProviderResolver \<Rightarrow> RequestContext \<Rightarrow> string \<Rightarrow> PowerAction \<Rightarrow> System \<Rightarrow> Db \<Rightarrow> exn + (Db \<times> ToolResult)" where
  "power_admitted jid nonce resolver ctx sys_text action system db =
    (let admitted = admit_control_job jid POWER (PowerPayload sys_text action)
           (sys_text @ '':power:'' @ PowerAction_value action @ '':'' @ uuid_str nonce) STARTED_SYSTEM ctx system db
     in if action \<in> set DESTRUCTIVE_POWER_ACTIONS
        then authorize_destructive resolver ''control.power'' ctx system POWER db admitted
        else rbind (require_role ctx (project system) (power_required_role action)) (\<lambda>_. admitted))"

text \<open>A System of the caller's projects, or the not-found answer.\<close>

definition system_in_projects ::
  "RequestContext \<Rightarrow> uuid option \<Rightarrow> Db \<Rightarrow> (System \<Rightarrow> exn + (Db \<times> ToolResult)) \<Rightarrow> exn + (Db \<times> ToolResult)" where
  "system_in_projects ctx k db continue =
    (case Option.bind k (\<lambda>k. SYSTEMS_get k db) of
       None \<Rightarrow> tool_failure CONFIGURATION_ERROR None db
     | Some system \<Rightarrow>
         if project system \<notin> set (ctx_projects ctx) then tool_failure CONFIGURATION_ERROR None db
         else continue system)"

definition power_system ::
  "uuid \<Rightarrow> uuid \<Rightarrow> ProviderResolver \<Rightarrow> RequestContext \<Rightarrow> string \<Rightarrow> string \<Rightarrow> Db \<Rightarrow> exn + (Db \<times> ToolResult)" where
  "power_system jid nonce resolver ctx sys_text action_text db =
    (case find (\<lambda>a. PowerAction_value a = action_text) [PowerOn, PowerOff, PowerCycle, PowerReset] of
       None \<Rightarrow> tool_failure CONFIGURATION_ERROR None db
     | Some action \<Rightarrow>
         system_in_projects ctx (as_uuid sys_text) db (\<lambda>system.
           power_admitted jid nonce resolver ctx sys_text action system db))"

definition force_crash_key :: "string \<Rightarrow> string" where
  "force_crash_key sys_text = sys_text @ '':force_crash''"

definition force_crash_system ::
  "uuid \<Rightarrow> ProviderResolver \<Rightarrow> RequestContext \<Rightarrow> string \<Rightarrow> Db \<Rightarrow> exn + (Db \<times> ToolResult)" where
  "force_crash_system jid resolver ctx sys_text db =
    system_in_projects ctx (as_uuid sys_text) db (\<lambda>system.
      authorize_destructive resolver ''control.force_crash'' ctx system FORCE_CRASH db
        (admit_control_job jid FORCE_CRASH (SystemPayload sys_text) (force_crash_key sys_text) [SystemState.READY] ctx
           system db))"


section \<open>Repair of orphaned Systems\<close>

definition TERMINAL_ALLOCATION_STATES :: "AllocationState list" where
  "TERMINAL_ALLOCATION_STATES = [AllocationState.RELEASED, AllocationState.EXPIRED, AllocationState.FAILED]"

definition orphaned :: "Db \<Rightarrow> System \<Rightarrow> bool" where
  "orphaned db s \<longleftrightarrow> sys_state s \<notin> set TERMINAL_SYSTEM_STATES \<and>
    (case ALLOCATIONS_get (allocation_id s) db of
       None \<Rightarrow> False | Some a \<Rightarrow> al_state a \<in> set TERMINAL_ALLOCATION_STATES)"

definition repair_orphan :: "uuid \<Rightarrow> System \<Rightarrow> Db \<Rightarrow> exn + (Db \<times> bool)" where
  "repair_orphan jid cand db =
    (case SYSTEMS_get (oid cand) db of
       None \<Rightarrow> Inr (db, False)
     | Some fresh \<Rightarrow>
         if sys_state fresh \<in> set TERMINAL_SYSTEM_STATES then Inr (db, False)
         else rbind (queue_enqueue jid TEARDOWN (SystemPayload (uuid_str (oid cand)))
                       \<lparr>auth_principal = SYSTEM_RECONCILER_PRINCIPAL, auth_agent_session = None,
                        auth_project = project cand\<rparr> (teardown_key (oid cand)) DEFAULT_MAX_ATTEMPTS db)
                (\<lambda>(db', _). Inr (db', job_by_dedup (teardown_key (oid cand)) db = None)))"

fun repair_orphans :: "(uuid \<Rightarrow> uuid) \<Rightarrow> System list \<Rightarrow> Db \<Rightarrow> nat \<Rightarrow> (Db \<times> nat) \<times> exn option" where
  "repair_orphans jids [] db n = ((db, n), None)"
| "repair_orphans jids (c # cs) db n =
    (case repair_orphan (jids (oid c)) c db of
       Inl e \<Rightarrow> ((db, n), Some e)
     | Inr (db', new) \<Rightarrow> repair_orphans jids cs db' (if new then n + 1 else n))"

definition repair_orphaned_systems :: "(uuid \<Rightarrow> uuid) \<Rightarrow> Db \<Rightarrow> (Db \<times> nat) \<times> exn option" where
  "repair_orphaned_systems jids db = repair_orphans jids (filter (orphaned db) (systems db)) db 0"

end
