(* ===== verification/Db_Connection.thy ===== *)
theory Db_Connection
  imports Kdive_Db
begin

text \<open>
  A pooled database connection as the worker's handlers use it
  (\<open>jobs/worker.py\<close>, \<open>db/pool.py\<close>).  The pool's connections are not in autocommit
  mode: the first statement outside a \<open>transaction()\<close> block opens a transaction that
  stays open, a \<open>transaction()\<close> block inside it is only a savepoint, and leaving the
  pool's context commits on success and rolls back on an exception.  A call to a provider
  takes long, so other sessions may commit while it runs: that is the function
  \<open>others\<close> of the call, and the transaction, being at the read-committed level, sees it.
\<close>

record 'p Conn =
  committed :: Db
  tx :: "Db option"
  calls :: "'p list"

type_synonym ('p, 'a) action = "'p Conn \<Rightarrow> 'p Conn \<times> (exn + 'a)"

definition view :: "'p Conn \<Rightarrow> Db" where
  "view c = (case tx c of None \<Rightarrow> committed c | Some w \<Rightarrow> w)"

definition lift :: "exn + 'a \<Rightarrow> ('p, 'a) action" where
  "lift r c = (c, r)"

definition andthen :: "('p, 'a) action \<Rightarrow> ('a \<Rightarrow> ('p, 'b) action) \<Rightarrow> ('p, 'b) action" where
  "andthen m f c = (case m c of (c', Inl e) \<Rightarrow> (c', Inl e) | (c', Inr a) \<Rightarrow> f a c')"

definition execute :: "(Db \<Rightarrow> exn + (Db \<times> 'a)) \<Rightarrow> ('p, 'a) action" where
  "execute f c =
    (case f (view c) of
       Inl e \<Rightarrow> (c\<lparr>tx := Some (view c)\<rparr>, Inl e)
     | Inr (w, a) \<Rightarrow> (c\<lparr>tx := Some w\<rparr>, Inr a))"

definition query :: "(Db \<Rightarrow> exn + 'a) \<Rightarrow> ('p, 'a) action" where
  "query f = execute (\<lambda>db. rbind (f db) (\<lambda>a. Inr (db, a)))"

definition transaction :: "('p, 'a) action \<Rightarrow> ('p, 'a) action" where
  "transaction body c =
    (case tx c of
       None \<Rightarrow>
         (case body (c\<lparr>tx := Some (committed c)\<rparr>) of
            (c', Inr a) \<Rightarrow> (c'\<lparr>committed := view c', tx := None\<rparr>, Inr a)
          | (c', Inl e) \<Rightarrow> (c'\<lparr>tx := None\<rparr>, Inl e))
     | Some w \<Rightarrow>
         (case body c of
            (c', Inr a) \<Rightarrow> (c', Inr a)
          | (c', Inl e) \<Rightarrow> (c'\<lparr>tx := Some w\<rparr>, Inl e)))"

definition commit :: "('p, unit) action" where
  "commit c = (c\<lparr>committed := view c, tx := None\<rparr>, Inr ())"

definition call_provider :: "('p \<Rightarrow> Db \<Rightarrow> Db) \<Rightarrow> 'p \<Rightarrow> exn + 'a \<Rightarrow> ('p, 'a) action" where
  "call_provider others p r c =
    (c\<lparr>committed := others p (committed c), tx := map_option (others p) (tx c), calls := calls c @ [p]\<rparr>, r)"

text \<open>\<open>except Exception\<close>: the exception is dropped.\<close>

definition best_effort :: "('p, 'a) action \<Rightarrow> ('p, unit) action" where
  "best_effort m c = (fst (m c), Inr ())"

definition on_categorized_action ::
  "('p, 'a) action \<Rightarrow> ('p, unit) action \<Rightarrow> ('p, 'a) action" where
  "on_categorized_action m cleanup c =
    (case m c of
       (c', Inl (CategorizedError k)) \<Rightarrow> andthen cleanup (\<lambda>_. lift (Inl (CategorizedError k))) c'
     | r \<Rightarrow> r)"

definition pool_connection :: "('p, 'a) action \<Rightarrow> Db \<Rightarrow> Db \<times> 'p list \<times> (exn + 'a)" where
  "pool_connection body db =
    (case body \<lparr>committed = db, tx = None, calls = []\<rparr> of
       (c, Inr a) \<Rightarrow> (view c, calls c, Inr a)
     | (c, Inl e) \<Rightarrow> (committed c, calls c, Inl e))"


section \<open>Facts\<close>

lemma view_tx [simp]: "tx c = Some w \<Longrightarrow> view c = w" "tx c = None \<Longrightarrow> view c = committed c"
  by (simp_all add: view_def)

lemma andthen_simps [simp]:
  "m c = (c', Inl e) \<Longrightarrow> andthen m f c = (c', Inl e)" "m c = (c', Inr a) \<Longrightarrow> andthen m f c = f a c'"
  by (simp_all add: andthen_def)

lemma lift_simp [simp]: "lift r c = (c, r)"
  by (simp add: lift_def)

text \<open>
  Writes of a savepoint do not survive an exception that leaves the pool's context: with
  a transaction open, neither a statement nor a \<open>transaction()\<close> block commits anything.
\<close>

definition uncommitting :: "('p, 'a) action \<Rightarrow> bool" where
  "uncommitting m \<longleftrightarrow> (\<forall>c w. tx c = Some w \<longrightarrow>
     committed (fst (m c)) = committed c \<and> tx (fst (m c)) \<noteq> None \<and> calls (fst (m c)) = calls c)"

lemma uncommitting_execute: "uncommitting (execute f)"
  by (auto simp: uncommitting_def execute_def split: sum.splits)

lemma uncommitting_lift: "uncommitting (lift r)"
  by (simp add: uncommitting_def)

lemma uncommitting_andthen:
  assumes "uncommitting m" "\<And>a. uncommitting (f a)"
  shows "uncommitting (andthen m f)"
  unfolding uncommitting_def
proof (intro allI impI)
  fix c :: "'a Conn" and w assume "tx c = Some w"
  then have m: "committed (fst (m c)) = committed c" "tx (fst (m c)) \<noteq> None" "calls (fst (m c)) = calls c"
    using assms(1) by (auto simp: uncommitting_def)
  then show "committed (fst (andthen m f c)) = committed c \<and> tx (fst (andthen m f c)) \<noteq> None \<and>
      calls (fst (andthen m f c)) = calls c"
    using assms(2) by (cases "m c") (auto simp: andthen_def uncommitting_def split: sum.splits)
qed

lemma uncommitting_transaction: "uncommitting m \<Longrightarrow> uncommitting (transaction m)"
  by (auto simp: uncommitting_def transaction_def split: prod.splits sum.splits)

lemma uncommitting_best_effort: "uncommitting m \<Longrightarrow> uncommitting (best_effort m)"
  by (simp add: uncommitting_def best_effort_def)

lemmas uncommitting_intros =
  uncommitting_execute uncommitting_lift uncommitting_andthen uncommitting_transaction uncommitting_best_effort

section \<open>Invariants of the database\<close>

text \<open>
  An action is \<open>safe\<close> for an invariant when it keeps it in the committed database and in
  the view of an open transaction.
\<close>

definition holds :: "(Db \<Rightarrow> bool) \<Rightarrow> 'p Conn \<Rightarrow> bool" where
  "holds I c \<longleftrightarrow> I (committed c) \<and> I (view c)"

definition safe :: "(Db \<Rightarrow> bool) \<Rightarrow> ('p, 'a) action \<Rightarrow> bool" where
  "safe I m \<longleftrightarrow> (\<forall>c. holds I c \<longrightarrow> holds I (fst (m c)))"

lemma safe_lift: "safe I (lift r)"
  by (simp add: safe_def)

lemma safe_andthen: "safe I m \<Longrightarrow> (\<And>a. safe I (f a)) \<Longrightarrow> safe I (andthen m f)"
  unfolding safe_def andthen_def by (auto split: prod.splits sum.splits)

lemma safe_execute: "(\<And>d d' a. I d \<Longrightarrow> f d = Inr (d', a) \<Longrightarrow> I d') \<Longrightarrow> safe I (execute f)"
  unfolding safe_def execute_def holds_def by (auto simp: view_def split: sum.splits)

lemma safe_query: "safe I (query f)"
  unfolding query_def by (rule safe_execute) auto

lemma safe_transaction:
  assumes "safe I m"
  shows "safe I (transaction m)"
  unfolding safe_def
proof (intro allI impI)
  fix c :: "'a Conn" assume c: "holds I c"
  show "holds I (fst (transaction m c))"
  proof (cases "tx c")
    case None
    then have "holds I (c\<lparr>tx := Some (committed c)\<rparr>)" using c by (simp add: holds_def)
    then have "holds I (fst (m (c\<lparr>tx := Some (committed c)\<rparr>)))" using assms by (simp add: safe_def)
    then show ?thesis using None by (auto simp: transaction_def holds_def split: prod.splits sum.splits)
  next
    case (Some w)
    then have "holds I (fst (m c))" "I w" using assms c by (auto simp: safe_def holds_def)
    then show ?thesis using Some by (auto simp: transaction_def holds_def split: prod.splits sum.splits)
  qed
qed

lemma safe_call: "(\<And>d. I d \<Longrightarrow> I (ot p d)) \<Longrightarrow> safe I (call_provider ot p r)"
  unfolding safe_def holds_def call_provider_def by (auto simp: view_def split: option.splits)

lemma safe_best_effort: "safe I m \<Longrightarrow> safe I (best_effort m)"
  by (simp add: safe_def best_effort_def)

lemma safe_on_categorized_action:
  assumes "safe I m" "safe I cleanup"
  shows "safe I (on_categorized_action m cleanup)"
  unfolding safe_def
proof (intro allI impI)
  fix c :: "'a Conn" assume "holds I c"
  then have "holds I (fst (m c))" using assms(1) by (simp add: safe_def)
  moreover have "safe I (andthen cleanup (\<lambda>_. lift r))" for r :: "exn + 'b"
    using assms(2) by (intro safe_andthen safe_lift)
  ultimately show "holds I (fst (on_categorized_action m cleanup c))"
    by (cases "m c") (auto simp: on_categorized_action_def safe_def split: sum.splits exn.splits)
qed

lemma safe_pool:
  assumes "safe I m" "I db" "pool_connection m db = (db', cs, r)"
  shows "I db'"
proof -
  have "holds I (fst (m \<lparr>committed = db, tx = None, calls = []\<rparr>))"
    using assms(1,2) by (simp add: safe_def holds_def view_def)
  then show ?thesis using assms(3) by (auto simp: pool_connection_def holds_def split: prod.splits sum.splits)
qed

lemmas safe_intros =
  safe_lift safe_andthen safe_query safe_transaction safe_best_effort safe_on_categorized_action

end
