(* ===== verification/System_Handlers.thy ===== *)
theory System_Handlers
  imports Systems Db_Connection
begin

text \<open>
  The worker's handlers of the System jobs (\<open>jobs/handlers/systems.py\<close>,
  \<open>jobs/handlers/control.py\<close>) as actions on a pooled connection, with the artifact rows
  and upload manifests they finalize (\<open>db/upload_manifest.py\<close>,
  \<open>provider_components/artifacts.py\<close>).  Provider calls are recorded in the order they
  are made; what other sessions commit during a call is an argument, and so is the object
  store's answer.
\<close>

section \<open>Artifacts and upload manifests\<close>

definition validate_key_component :: "string \<Rightarrow> exn + string" where
  "validate_key_component v =
    rbind (guard (v \<noteq> []) config_error) (\<lambda>_.
    rbind (guard (CHR ''/'' \<notin> set v \<and> list_all (\<lambda>c. (of_char c :: nat) \<ge> 32) v) config_error) (\<lambda>_. Inr v))"

definition owner_prefix :: "string \<Rightarrow> string \<Rightarrow> string \<Rightarrow> exn + string" where
  "owner_prefix tenant kind object_id =
    rbind (validate_key_component tenant) (\<lambda>t.
    rbind (validate_key_component kind) (\<lambda>k.
    rbind (validate_key_component object_id) (\<lambda>i. Inr (t @ ''/'' @ k @ ''/'' @ i @ ''/''))))"

definition artifact_key :: "string \<Rightarrow> string \<Rightarrow> string \<Rightarrow> string \<Rightarrow> exn + string" where
  "artifact_key tenant kind object_id name =
    rbind (validate_key_component tenant) (\<lambda>t.
    rbind (validate_key_component kind) (\<lambda>k.
    rbind (validate_key_component object_id) (\<lambda>i.
    rbind (validate_key_component name) (\<lambda>n. Inr (t @ ''/'' @ k @ ''/'' @ i @ ''/'' @ n)))))"

definition register_artifact_row :: "uuid \<Rightarrow> string \<Rightarrow> string \<Rightarrow> Sensitivity \<Rightarrow> string \<Rightarrow> string \<Rightarrow> uuid \<Rightarrow> Artifact" where
  "register_artifact_row aid key tag sens retention kind owner =
    \<lparr>oid = aid, created_at = 0, updated_at = 0, art_owner_kind = kind, art_owner_id = owner, object_key = key,
     etag = tag, sensitivity = sens, retention_class = retention\<rparr>"

definition ARTIFACTS_insert :: "Artifact \<Rightarrow> Db \<Rightarrow> exn + Db" where
  "ARTIFACTS_insert a db =
    rbind (tbl_insert oid (server_generated (db_clock db) a) (artifacts db)) (\<lambda>t. Inr (db\<lparr>artifacts := t\<rparr>))"

definition owned_by :: "string \<Rightarrow> uuid \<Rightarrow> UploadManifestRow \<Rightarrow> bool" where
  "owned_by kind owner m \<longleftrightarrow> um_owner_kind m = kind \<and> um_owner_id m = owner"

definition get_manifest :: "string \<Rightarrow> uuid \<Rightarrow> Db \<Rightarrow> UploadManifestRow option" where
  "get_manifest kind owner db = find (owned_by kind owner) (upload_manifests db)"

definition replace_manifest :: "string \<Rightarrow> uuid \<Rightarrow> string \<Rightarrow> json \<Rightarrow> int \<Rightarrow> Db \<Rightarrow> Db" where
  "replace_manifest kind owner pre entries ttl db =
    db\<lparr>upload_manifests := tbl_upsert (\<lambda>m. (um_owner_kind m, um_owner_id m)) (\<lambda>old new. new)
      \<lparr>um_owner_kind = kind, um_owner_id = owner, um_prefix = pre, um_manifest = entries,
       um_deadline = db_clock db + ttl\<rparr> (upload_manifests db)\<rparr>"

definition refresh_deadline :: "string \<Rightarrow> uuid \<Rightarrow> int \<Rightarrow> Db \<Rightarrow> Db \<times> bool" where
  "refresh_deadline kind owner ttl db =
    (let open_window = (\<lambda>m. owned_by kind owner m \<and> db_clock db \<le> um_deadline m)
     in (db\<lparr>upload_manifests := map (\<lambda>m. if open_window m then m\<lparr>um_deadline := db_clock db + ttl\<rparr> else m)
              (upload_manifests db)\<rparr>, count_rows open_window (upload_manifests db) = 1))"

definition delete_manifest :: "string \<Rightarrow> uuid \<Rightarrow> Db \<Rightarrow> Db" where
  "delete_manifest kind owner db =
    db\<lparr>upload_manifests := filter (\<lambda>m. \<not> owned_by kind owner m) (upload_manifests db)\<rparr>"


section \<open>Provisioning\<close>

datatype ProviderCall =
    Provision uuid ProvisioningProfile
  | Reprovision uuid ProvisioningProfile
  | Teardown string
  | Power string PowerAction
  | ForceCrash string

text \<open>What a handler runs with: the resolver, other sessions, the object store, a fresh row id.\<close>

record HandlerEnv =
  resolver :: ProviderResolver
  others :: "ProviderCall \<Rightarrow> Db \<Rightarrow> Db"
  store_head :: "string \<Rightarrow> exn + string option"
  new_artifact_id :: uuid
  digest_of :: "ProvisioningProfile \<Rightarrow> string"

definition context_from_job :: "Job \<Rightarrow> string \<Rightarrow> RequestContext" where
  "context_from_job job p =
    \<lparr>ctx_principal = auth_principal (authorizing job), ctx_agent_session = auth_agent_session (authorizing job),
     ctx_projects = [p], ctx_roles = [], ctx_platform_roles = [], ctx_client_id = None\<rparr>"

fun payload_system_id :: "PayloadModel \<Rightarrow> string" where
  "payload_system_id (SystemPayload s) = s"
| "payload_system_id (ReprovisionPayload s _) = s"
| "payload_system_id (PowerPayload s _) = s"
| "payload_system_id _ = []"

definition system_of_job :: "PayloadClass \<Rightarrow> Job \<Rightarrow> exn + uuid" where
  "system_of_job c job =
    rbind (load_payload (job_kind job) (payload job) c) (\<lambda>p. UUID (payload_system_id p))"

definition audit_transition :: "Job \<Rightarrow> string \<Rightarrow> uuid \<Rightarrow> string \<Rightarrow> string \<Rightarrow> Db \<Rightarrow> exn + Db" where
  "audit_transition job p k transition tool db =
    audit_record (context_from_job job p) (system_event tool k transition p) db"

definition open_billing_interval :: "uuid \<Rightarrow> Db \<Rightarrow> Db" where
  "open_billing_interval k db =
    db\<lparr>allocations := tbl_update oid k (touch (db_clock db) (\<lambda>a.
      if active_started_at a = None then a\<lparr>active_started_at := Some (db_clock db)\<rparr> else a)) (allocations db)\<rparr>"

definition commit_uploaded_rootfs ::
  "HandlerEnv \<Rightarrow> System \<Rightarrow> ProvisioningProfile \<Rightarrow> ProfilePolicy \<Rightarrow> Db \<Rightarrow> exn + Db" where
  "commit_uploaded_rootfs env system p policy db =
    rbind (rootfs_upload_window_allowed policy p) (\<lambda>upload.
      if \<not> upload then Inr db
      else rbind (artifact_key ''local'' ''systems'' (uuid_str (oid system)) ''rootfs'') (\<lambda>key.
           rbind (store_head env key) (\<lambda>head.
             case head of
               None \<Rightarrow> Inl config_error
             | Some tag \<Rightarrow>
                 rbind (ARTIFACTS_insert (register_artifact_row (new_artifact_id env) key tag SENSITIVE ''rootfs''
                          ''systems'' (oid system)) db) (\<lambda>db.
                   Inr (delete_manifest ''systems'' (oid system) db)))))"

definition finalize_provision_ready ::
  "HandlerEnv \<Rightarrow> Job \<Rightarrow> System \<Rightarrow> ProvisioningProfile \<Rightarrow> ProfilePolicy \<Rightarrow> Db \<Rightarrow> exn + Db" where
  "finalize_provision_ready env job system p policy db =
    rbind (commit_uploaded_rootfs env system p policy db) (\<lambda>db.
      audit_transition job (project system) (oid system) ''provisioning->ready'' ''systems.provision''
        (open_billing_interval (allocation_id system) db))"

definition record_system_failure ::
  "Job \<Rightarrow> uuid \<Rightarrow> string \<Rightarrow> string \<Rightarrow> string \<Rightarrow> (ProviderCall, unit) action" where
  "record_system_failure job k p transition tool =
    best_effort (transaction (execute (\<lambda>db.
      rbind (SYSTEMS_update_state k SystemState.FAILED db) (\<lambda>(db, _).
      rbind (audit_transition job p k transition tool db) (\<lambda>db. Inr (db, ()))))))"

definition set_system :: "uuid \<Rightarrow> (System \<Rightarrow> System) \<Rightarrow> Db \<Rightarrow> Db" where
  "set_system k f db = db\<lparr>systems := tbl_update oid k (touch (db_clock db) f) (systems db)\<rparr>"

definition commit_provision_result ::
  "HandlerEnv \<Rightarrow> Job \<Rightarrow> System \<Rightarrow> ProvisioningProfile \<Rightarrow> ProfilePolicy \<Rightarrow> string \<Rightarrow>
   (ProviderCall, SystemState option) action" where
  "commit_provision_result env job system p policy dn =
    transaction (execute (\<lambda>db.
      let current = map_option sys_state (SYSTEMS_get (oid system) db)
      in if current = Some SystemState.PROVISIONING
         then rbind (finalize_provision_ready env job system p policy
                (set_system (oid system) (\<lambda>s. s\<lparr>sys_state := SystemState.READY, domain_name := Some dn\<rparr>) db))
                (\<lambda>db. Inr (db, current))
         else Inr (db, current)))"

definition gone :: "SystemState option \<Rightarrow> bool" where
  "gone st = (case st of None \<Rightarrow> False | Some s \<Rightarrow> s \<in> set TERMINAL_SYSTEM_STATES)"

definition the_system :: "uuid \<Rightarrow> Db \<Rightarrow> exn + System" where
  "the_system k db =
    (case SYSTEMS_get k db of None \<Rightarrow> Inl (CategorizedError INFRASTRUCTURE_FAILURE) | Some s \<Rightarrow> Inr s)"

definition provision_handler :: "HandlerEnv \<Rightarrow> Job \<Rightarrow> (ProviderCall, string option) action" where
  "provision_handler env job =
    andthen (lift (system_of_job SystemC job)) (\<lambda>k.
    andthen (query (the_system k)) (\<lambda>system.
    andthen (query (runtime_for_system (resolver env) k)) (\<lambda>runtime.
      if sys_state system \<noteq> SystemState.PROVISIONING
      then (if sys_state system \<in> set TERMINAL_SYSTEM_STATES
            then andthen (call_provider (others env) (Teardown (domain_of system))
                            (rt_teardown runtime (domain_of system))) (\<lambda>_. lift (Inr (Some (uuid_str k))))
            else lift (Inr (Some (uuid_str k))))
      else
        andthen (lift (parse_profile (provisioning_profile system))) (\<lambda>p.
        andthen (on_categorized_action
                   (call_provider (others env) (Provision k p) (rt_provision runtime k p))
                   (record_system_failure job k (project system) ''provisioning->failed'' ''systems.provision''))
          (\<lambda>dn.
        andthen (commit_provision_result env job system p (profile_policy runtime) dn) (\<lambda>current.
          if gone current
          then andthen (call_provider (others env) (Teardown dn) (rt_teardown runtime dn))
                 (\<lambda>_. lift (Inr (Some (uuid_str k))))
          else lift (Inr (Some (uuid_str k)))))))))"

section \<open>Reprovisioning and teardown\<close>

definition reprovision_handler :: "HandlerEnv \<Rightarrow> Job \<Rightarrow> (ProviderCall, string option) action" where
  "reprovision_handler env job =
    andthen (lift (system_of_job ReprovisionC job)) (\<lambda>k.
    andthen (query (the_system k)) (\<lambda>system.
    andthen (query (runtime_for_system (resolver env) k)) (\<lambda>runtime.
      if sys_state system \<noteq> SystemState.REPROVISIONING then lift (Inr (Some (uuid_str k)))
      else
        andthen (lift (parse_profile (provisioning_profile system))) (\<lambda>p.
        andthen (on_categorized_action
                   (call_provider (others env) (Reprovision k p) (rt_reprovision runtime k p))
                   (record_system_failure job k (project system) ''reprovisioning->failed'' ''systems.reprovision''))
          (\<lambda>dn.
        andthen (transaction (execute (\<lambda>db.
                   let current = map_option sys_state (SYSTEMS_get k db)
                   in if current = Some SystemState.REPROVISIONING
                      then rbind (audit_transition job (project system) k ''reprovisioning->ready'' ''systems.reprovision''
                                    (set_system k (\<lambda>s. s\<lparr>sys_state := SystemState.READY, domain_name := Some dn,
                                       target_fingerprint := Some (digest_of env p)\<rparr>) db))
                             (\<lambda>db. Inr (db, current))
                      else Inr (db, current)))) (\<lambda>current.
          if gone current
          then andthen (call_provider (others env) (Teardown dn) (rt_teardown runtime dn))
                 (\<lambda>_. lift (Inr (Some (uuid_str k))))
          else lift (Inr (Some (uuid_str k)))))))))"

fun SystemState_value :: "SystemState \<Rightarrow> string" where
  "SystemState_value SystemState.DEFINED = ''defined''"
| "SystemState_value SystemState.PROVISIONING = ''provisioning''"
| "SystemState_value SystemState.READY = ''ready''"
| "SystemState_value SystemState.REPROVISIONING = ''reprovisioning''"
| "SystemState_value SystemState.CRASHED = ''crashed''"
| "SystemState_value SystemState.TORN_DOWN = ''torn_down''"
| "SystemState_value SystemState.FAILED = ''failed''"

text \<open>The transaction of \<open>teardown_handler\<close>: the domain to destroy, or nothing for a System that is gone.\<close>

definition tear_down_row :: "Job \<Rightarrow> uuid \<Rightarrow> Db \<Rightarrow> exn + (Db \<times> string option)" where
  "tear_down_row job k db =
    (case SYSTEMS_get k db of
       None \<Rightarrow> Inr (db, None)
     | Some system \<Rightarrow>
         if sys_state system = SystemState.TORN_DOWN then Inr (db, Some (domain_of system))
         else rbind (SYSTEMS_update_state k SystemState.TORN_DOWN db) (\<lambda>(db, _).
              rbind (audit_transition job (project system) k (SystemState_value (sys_state system) @ ''->torn_down'')
                       ''systems.teardown'' db)
                (\<lambda>db. Inr (db, Some (domain_of system)))))"

definition teardown_handler :: "HandlerEnv \<Rightarrow> Job \<Rightarrow> (ProviderCall, string option) action" where
  "teardown_handler env job =
    andthen (lift (system_of_job SystemC job)) (\<lambda>k.
    andthen (transaction (execute (tear_down_row job k))) (\<lambda>target.
      case target of
        None \<Rightarrow> lift (Inr None)
      | Some dn \<Rightarrow>
          andthen (query (runtime_for_system (resolver env) k)) (\<lambda>runtime.
          andthen (call_provider (others env) (Teardown dn) (rt_teardown runtime dn))
            (\<lambda>_. lift (Inr (Some (uuid_str k)))))))"


section \<open>Power and crash\<close>

definition control_target :: "uuid \<Rightarrow> (ProviderCall, string \<times> string) action" where
  "control_target k =
    transaction (execute (\<lambda>db. rbind (the_system k db) (\<lambda>s. Inr (db, (domain_of s, project s)))))"

fun payload_action :: "PayloadModel \<Rightarrow> PowerAction" where
  "payload_action (PowerPayload _ a) = a"
| "payload_action _ = PowerOn"

definition power_handler :: "HandlerEnv \<Rightarrow> Job \<Rightarrow> (ProviderCall, string option) action" where
  "power_handler env job =
    andthen (lift (load_payload (job_kind job) (payload job) PowerC)) (\<lambda>pl.
    andthen (lift (UUID (payload_system_id pl))) (\<lambda>k.
    andthen (control_target k) (\<lambda>(dn, p).
    andthen (query (runtime_for_system (resolver env) k)) (\<lambda>runtime.
    andthen (call_provider (others env) (Power dn (payload_action pl)) (rt_power runtime dn (payload_action pl))) (\<lambda>_.
    andthen (transaction (execute (\<lambda>db.
               rbind (the_system k db) (\<lambda>_.
               rbind (audit_record (context_from_job job p)
                        (system_event ''control.power'' k (''power:'' @ PowerAction_value (payload_action pl)) p) db)
                 (\<lambda>db. Inr (db, ())))))) (\<lambda>_.
      lift (Inr (Some (uuid_str k)))))))))"

definition force_crash_target :: "uuid \<Rightarrow> (ProviderCall, (string \<times> string) option) action" where
  "force_crash_target k =
    transaction (execute (\<lambda>db. rbind (the_system k db) (\<lambda>s.
      Inr (db, if sys_state s \<in> set TERMINAL_SYSTEM_STATES then None else Some (domain_of s, project s)))))"

fun DebugSessionState_value :: "DebugSessionState \<Rightarrow> string" where
  "DebugSessionState_value DebugSessionState.ATTACH = ''attach''"
| "DebugSessionState_value DebugSessionState.LIVE = ''live''"
| "DebugSessionState_value DebugSessionState.DETACHED = ''detached''"

definition session_of_system :: "uuid \<Rightarrow> Db \<Rightarrow> DebugSession \<Rightarrow> bool" where
  "session_of_system k db d \<longleftrightarrow>
    ds_state d \<in> {DebugSessionState.ATTACH, DebugSessionState.LIVE} \<and>
    ds_run_id d \<in> oid ` set (filter (\<lambda>r. system_id r = k) (runs db))"

fun audit_detached :: "Job \<Rightarrow> System \<Rightarrow> DebugSession list \<Rightarrow> Db \<Rightarrow> exn + Db" where
  "audit_detached job system [] db = Inr db"
| "audit_detached job system (d # ds) db =
    rbind (audit_record (context_from_job job (project system))
             \<lparr>ev_tool = ''control.force_crash'', ev_object_kind = ''debug_sessions'', ev_object_id = oid d,
              ev_transition = DebugSessionState_value (ds_state d) @ ''->detached'', ev_project = project system\<rparr> db)
      (audit_detached job system ds)"

definition detach_sessions :: "Job \<Rightarrow> System \<Rightarrow> Db \<Rightarrow> exn + Db" where
  "detach_sessions job system db =
    audit_detached job system (filter (session_of_system (oid system) db) (debug_sessions db))
      (db\<lparr>debug_sessions := map (\<lambda>d. if session_of_system (oid system) db d
           then touch (db_clock db) (ds_state_update (\<lambda>_. DebugSessionState.DETACHED)) d else d)
         (debug_sessions db)\<rparr>)"

definition finalize_force_crash :: "Job \<Rightarrow> uuid \<Rightarrow> string \<Rightarrow> Db \<Rightarrow> exn + (Db \<times> unit)" where
  "finalize_force_crash job k p db =
    rbind (the_system k db) (\<lambda>system.
      if sys_state system \<in> set TERMINAL_SYSTEM_STATES then Inr (db, ())
      else rbind (if sys_state system = SystemState.READY
                  then rbind (SYSTEMS_update_state k SystemState.CRASHED db) (\<lambda>(db, _).
                       audit_record (context_from_job job p)
                         (system_event ''control.force_crash'' k ''ready->crashed'' p) db)
                  else Inr db) (\<lambda>db.
           rbind (detach_sessions job system db) (\<lambda>db. Inr (db, ()))))"

definition force_crash_handler :: "HandlerEnv \<Rightarrow> Job \<Rightarrow> (ProviderCall, string option) action" where
  "force_crash_handler env job =
    andthen (lift (system_of_job SystemC job)) (\<lambda>k.
    andthen (force_crash_target k) (\<lambda>target.
      case target of
        None \<Rightarrow> lift (Inr (Some (uuid_str k)))
      | Some (dn, p) \<Rightarrow>
          andthen (query (runtime_for_system (resolver env) k)) (\<lambda>runtime.
          andthen (call_provider (others env) (ForceCrash dn) (rt_force_crash runtime dn)) (\<lambda>_.
          andthen (transaction (execute (finalize_force_crash job k p))) (\<lambda>_.
            lift (Inr (Some (uuid_str k))))))))"

text \<open>The registry the worker is given.\<close>

definition system_handlers :: "HandlerEnv \<Rightarrow> JobKind \<Rightarrow> (Job \<Rightarrow> (ProviderCall, string option) action) option" where
  "system_handlers env kind =
    (case kind of
       PROVISION \<Rightarrow> Some (provision_handler env)
     | REPROVISION \<Rightarrow> Some (reprovision_handler env)
     | TEARDOWN \<Rightarrow> Some (teardown_handler env)
     | POWER \<Rightarrow> Some (power_handler env)
     | FORCE_CRASH \<Rightarrow> Some (force_crash_handler env)
     | _ \<Rightarrow> None)"

text \<open>The same as handlers of the worker: the effect on the database and the result.\<close>

definition system_registry :: "HandlerEnv \<Rightarrow> JobKind \<Rightarrow> JobHandler option" where
  "system_registry env kind =
    map_option (\<lambda>h job db. case pool_connection (h job) db of (db', _, r) \<Rightarrow> (db', r)) (system_handlers env kind)"

end
