(* ===== verification/Profiles_Facts.thy ===== *)
theory Profiles_Facts
  imports Profiles
begin

text \<open>
  Correctness of the provisioning-profile boundary: a parsed profile is stable under
  storage (serializing and parsing gives it back), a stored profile carries exactly the
  sizes its allocation was granted, and what the providers' policies let through.
\<close>

section \<open>Scalars\<close>

lemma dropWhile_hd: "dropWhile P s = [] \<or> \<not> P (hd (dropWhile P s))"
  by (induction s) auto

lemma trim_idem: "trim (trim s) = trim s"
proof (cases "trim s = []")
  case True
  show ?thesis unfolding True by (simp add: trim_def)
next
  case False
  let ?P = is_white_space
  let ?d = "dropWhile ?P s" and ?r = "dropWhile ?P (rev (dropWhile ?P s))"
  have r: "?r \<noteq> []" using False unfolding trim_def by (metis rev.simps(1))
  then have "\<not> ?P (hd ?r)" using dropWhile_hd [of ?P "rev ?d"] by blast
  moreover have "\<not> ?P (last ?r)"
  proof -
    obtain ys where ys: "rev ?d = ys @ ?r" by (metis takeWhile_dropWhile_id)
    then have "last ?r = last (rev ?d)" using r by (metis last_appendR)
    moreover have "?d \<noteq> []" using r by (metis dropWhile.simps(1) rev.simps(1))
    ultimately show ?thesis using dropWhile_hd [of ?P s] last_rev [of ?d] by metis
  qed
  ultimately have "dropWhile ?P (rev ?r) = rev ?r" "dropWhile ?P ?r = ?r"
    using r by (auto simp: dropWhile_eq_self_iff hd_rev)
  then show ?thesis unfolding trim_def by simp
qed

definition clean :: "string \<Rightarrow> bool" where
  "clean s \<longleftrightarrow> s \<noteq> [] \<and> trim s = s"

lemma NonEmptyStr_clean: "NonEmptyStr v = Inr s \<Longrightarrow> clean s"
  by (cases v) (auto simp: clean_def trim_idem split: if_splits)

lemma NonEmptyStr_of_clean [simp]: "clean s \<Longrightarrow> NonEmptyStr (JStr s) = Inr s"
  by (simp add: clean_def)

lemma str_list_clean: "str_list v = Inr xs \<Longrightarrow> list_all clean xs"
proof (cases v)
  case (JList vs)
  moreover have "map_result NonEmptyStr vs = Inr xs \<Longrightarrow> list_all clean xs"
    by (induction vs arbitrary: xs) (auto dest: NonEmptyStr_clean)
  ultimately show "str_list v = Inr xs \<Longrightarrow> list_all clean xs" by simp
qed auto

lemma str_list_of_clean [simp]: "list_all clean xs \<Longrightarrow> str_list (JList (map JStr xs)) = Inr xs"
  by (induction xs) (auto simp del: NonEmptyStr.simps)

lemma dict_put_keys: "distinct (map fst d) \<Longrightarrow> distinct (map fst (dict_put k v d))"
proof -
  have "set (map fst (dict_put k v d)) = insert k (set (map fst d))" for d by (induction k v d rule: dict_put.induct) auto
  then show "distinct (map fst d) \<Longrightarrow> distinct (map fst (dict_put k v d))"
    by (induction k v d rule: dict_put.induct) auto
qed

lemma dict_put_all: "list_all Q d \<Longrightarrow> Q (k, v) \<Longrightarrow> list_all Q (dict_put k v d)"
  by (induction k v d rule: dict_put.induct) auto

lemma dict_put_new: "k \<notin> set (map fst d) \<Longrightarrow> dict_put k v d = d @ [(k, v)]"
  by (induction k v d rule: dict_put.induct) auto

definition clean_dict :: "(string \<times> string) list \<Rightarrow> bool" where
  "clean_dict d \<longleftrightarrow> distinct (map fst d) \<and> list_all (\<lambda>(k, v). clean k \<and> clean v) d"

lemma str_dict_items_clean: "str_dict_items kvs d = Inr d' \<Longrightarrow> clean_dict d \<Longrightarrow> clean_dict d'"
proof (induction kvs d rule: str_dict_items.induct)
  case (2 k v kvs d)
  then obtain k' v' where kv: "NonEmptyStr (JStr k) = Inr k'" "NonEmptyStr v = Inr v'"
      "str_dict_items kvs (dict_put k' v' d) = Inr d'" by auto
  have "clean_dict (dict_put k' v' d)"
    using "2.prems"(2) NonEmptyStr_clean [OF kv(1)] NonEmptyStr_clean [OF kv(2)]
    by (auto simp: clean_dict_def intro: dict_put_keys dict_put_all)
  with "2.IH" [OF kv(1,2)] kv(3) show ?case by blast
qed simp

lemma str_dict_clean: "str_dict v = Inr d \<Longrightarrow> clean_dict d"
  by (cases v) (auto dest: str_dict_items_clean simp: clean_dict_def)

lemma str_dict_items_of_clean:
  "clean_dict (d @ e) \<Longrightarrow> str_dict_items (map (\<lambda>(k, v). (k, JStr v)) e) d = Inr (d @ e)"
proof (induction e arbitrary: d)
  case (Cons x e)
  obtain k v where x: "x = (k, v)" by (cases x)
  have "k \<notin> set (map fst d)" "clean k" "clean v" using Cons.prems by (auto simp: clean_dict_def x)
  then show ?case using Cons.IH [of "d @ [(k, v)]"] Cons.prems
    by (simp add: x dict_put_new del: NonEmptyStr.simps)
qed simp

lemma str_dict_of_clean [simp]: "clean_dict d \<Longrightarrow> str_dict (JObj (map (\<lambda>(k, v). (k, JStr v)) d)) = Inr d"
  using str_dict_items_of_clean [of "[]" d] by simp

text \<open>UUID fields.\<close>

lemma underscored_hex_bound: "underscored_hex acc s = Some n \<Longrightarrow> CHR ''_'' \<notin> set s \<Longrightarrow> n < (acc + 1) * 16 ^ length s"
proof (induction acc s arbitrary: n rule: underscored_hex.induct)
  case (2 acc c cs)
  obtain d where d: "hex_value c = Some d" using "2.prems"(1) by (cases "hex_value c") auto
  then have lt: "d < 16" by (auto simp: hex_value_def Let_def split: if_splits)
  show ?case
  proof (cases cs)
    case Nil
    then show ?thesis using "2.prems"(1) d lt by simp
  next
    case (Cons u rest)
    have "u \<noteq> CHR ''_''" using "2.prems"(2) Cons by auto
    then have "n < (16 * acc + d + 1) * 16 ^ length cs"
      using "2.IH"(2) [OF d Cons] "2.prems" d Cons by auto
    also have "\<dots> \<le> (16 * acc + 16) * 16 ^ length cs" using lt by (intro mult_right_mono) simp_all
    finally show ?thesis by (simp add: algebra_simps)
  qed
qed simp

lemma all_hex_bound: "all_hex s = Some n \<Longrightarrow> length s = 32 \<Longrightarrow> n < 2 ^ 128"
  using underscored_hex_bound [of 0 s n] by (auto simp: all_hex_def split: if_splits)

lemma hyphenated_bound:
  assumes "hyphenated s = Some n"
  shows "n < 2 ^ 128"
proof (rule all_hex_bound)
  let ?d = "take 8 s @ take 4 (drop 9 s) @ take 4 (drop 14 s) @ take 4 (drop 19 s) @ drop 24 s"
  show "all_hex ?d = Some n" and "length ?d = 32"
    using assms unfolding hyphenated_def by (auto split: if_splits)
qed

lemma uuid_field_bound: "uuid_field v = Inr k \<Longrightarrow> k < 2 ^ 128"
proof (cases v)
  case (JStr s)
  assume k: "uuid_field v = Inr k"
  consider "length s = 32" "all_hex s = Some k" | t where "hyphenated t = Some k"
    using k unfolding JStr uuid_field.simps by (auto split: if_splits option.splits)
  then show ?thesis by cases (blast intro: all_hex_bound hyphenated_bound)+
qed auto

lemma uuid_field_str [simp]:
  assumes "k < 2 ^ 128"
  shows "uuid_field (JStr (uuid_str k)) = Inr k"
proof -
  let ?h = "hex_of 32 k"
  have len: "length (uuid_str k) = 36" by (simp add: uuid_str_def Let_def)
  have parts: "take 8 (uuid_str k) @ take 4 (drop 9 (uuid_str k)) @ take 4 (drop 14 (uuid_str k)) @
      take 4 (drop 19 (uuid_str k)) @ drop 24 (uuid_str k) =
      take 8 ?h @ take 4 (drop 8 ?h) @ take 4 (drop 12 ?h) @ take 4 (drop 16 ?h) @ drop 20 ?h"
    by (simp add: uuid_str_def Let_def)
  also have "\<dots> = ?h"
    using take_drop_add [of 0 ?h 8] take_drop_add [of 8 ?h 4] take_drop_add [of 12 ?h 4] take_drop_add [of 16 ?h 4]
    by simp
  finally have h: "take 8 (uuid_str k) @ take 4 (drop 9 (uuid_str k)) @ take 4 (drop 14 (uuid_str k)) @
      take 4 (drop 19 (uuid_str k)) @ drop 24 (uuid_str k) = ?h" .
  have "uuid_str k ! 8 = CHR ''-''" "uuid_str k ! 13 = CHR ''-''" "uuid_str k ! 18 = CHR ''-''"
      "uuid_str k ! 23 = CHR ''-''"
    by (simp_all add: uuid_str_def Let_def nth_append)
  moreover have "CHR ''_'' \<notin> set ?h" by (rule hex_of_non_hex) (simp add: non_hex_def)
  moreover have "underscored_hex 0 ?h = Some k"
  proof -
    have "?h \<noteq> []" using length_hex_of [of 32 k] by (metis length_0_conv zero_neq_numeral)
    then have "underscored_hex 0 ?h = Some (hex_num 0 ?h)" by (rule underscored_hex_digits) (rule hex_of_digits)
    then show ?thesis using assms by (simp add: hex_num_hex_of)
  qed
  ultimately have "hyphenated (uuid_str k) = Some k" by (simp add: hyphenated_def len h all_hex_def)
  then show ?thesis by (simp add: len)
qed


section \<open>Parsed profiles are stable\<close>

definition clean_opt :: "string option \<Rightarrow> bool" where
  "clean_opt v = (case v of None \<Rightarrow> True | Some s \<Rightarrow> clean s)"

definition sha_ok :: "string option \<Rightarrow> bool" where
  "sha_ok v = (case v of None \<Rightarrow> True | Some s \<Rightarrow> SHA256_RE s)"

fun rootfs_ok :: "RootfsSource \<Rightarrow> bool" where
  "rootfs_ok (LocalComponentRef p s) \<longleftrightarrow> clean p \<and> take 1 p = ''/'' \<and> sha_ok s"
| "rootfs_ok (ArtifactComponentRef k s) \<longleftrightarrow> k < 2 ^ 128 \<and> sha_ok s"
| "rootfs_ok (CatalogComponentRef p n) \<longleftrightarrow> clean p \<and> clean n"
| "rootfs_ok UploadRootfs = True"

fun section_ok :: "ProviderSection \<Rightarrow> bool" where
  "section_ok (LocalLibvirtSection s) \<longleftrightarrow> clean_dict (lv_domain_xml_params s) \<and> rootfs_ok (lv_rootfs s) \<and>
    clean_opt (lv_crashkernel s) \<and> list_all clean (lv_destructive_ops s) \<and> clean_opt (lv_ssh_credential_ref s)"
| "section_ok (FaultInjectSection s) = list_all clean (fi_destructive_ops s)"
| "section_ok (RemoteLibvirtSection s) \<longleftrightarrow> clean (rl_base_image_volume s) \<and> clean_opt (rl_crashkernel s) \<and>
    list_all clean (rl_destructive_ops s)"

definition size_ok :: "int option \<Rightarrow> bool" where
  "size_ok v = (case v of None \<Rightarrow> True | Some n \<Rightarrow> 0 < n)"

definition profile_ok :: "ProvisioningProfile \<Rightarrow> bool" where
  "profile_ok p \<longleftrightarrow> clean (pf_arch p) \<and> clean (pf_kernel_source_ref p) \<and> size_ok (pf_vcpu p) \<and>
    size_ok (pf_memory_mb p) \<and> size_ok (pf_disk_gb p) \<and> section_ok (pf_provider p) \<and>
    (is_remote (pf_provider p) \<longleftrightarrow> pf_boot_method p = DISK_IMAGE)"

lemma required_Inr: "required f k j = Inr x \<longleftrightarrow> (\<exists>v. json_get k j = Some v \<and> f v = Inr x)"
  by (auto simp: required_def split: option.splits)

lemma defaulted_Inr:
  "defaulted d f k j = Inr x \<longleftrightarrow> (case json_get k j of None \<Rightarrow> x = d | Some v \<Rightarrow> f v = Inr x)"
  by (auto simp: defaulted_def split: option.splits)

lemma optional_value_Inr: "optional_value f v = Inr (Some x) \<Longrightarrow> f v = Inr x"
  by (cases v) auto

lemma nullable_Some: "nullable f k j = Inr (Some x) \<Longrightarrow> \<exists>v. f v = Inr x"
  by (auto simp: nullable_def defaulted_def split: option.splits dest: optional_value_Inr)

lemma nullable_clean: "nullable NonEmptyStr k j = Inr v \<Longrightarrow> clean_opt v"
  by (cases v) (auto simp: clean_opt_def dest!: nullable_Some NonEmptyStr_clean)

lemma nullable_size: "nullable strict_pos k j = Inr v \<Longrightarrow> size_ok v"
proof (cases v)
  case (Some n)
  assume "nullable strict_pos k j = Inr v"
  then obtain w where "strict_pos w = Inr n" using Some by (auto dest: nullable_Some)
  then show ?thesis by (cases w) (auto simp: size_ok_def Some split: if_splits)
qed (simp add: size_ok_def)

lemma sha_valid: "validate_sha256_value v = Inr s \<longleftrightarrow> s = v \<and> sha_ok v"
  by (auto simp: validate_sha256_value_def sha_ok_def split: option.splits if_splits)

lemma rootfs_refs_ok:
  "local_ref j = Inr r \<Longrightarrow> rootfs_ok r" "artifact_ref j = Inr r \<Longrightarrow> rootfs_ok r"
  "catalog_ref j = Inr r \<Longrightarrow> rootfs_ok r" "upload_ref j = Inr r \<Longrightarrow> rootfs_ok r"
proof -
  show "rootfs_ok r" if h: "local_ref j = Inr r"
  proof -
    obtain v p s where "NonEmptyStr v = Inr p" "take 1 p = ''/''" "sha_ok s" "r = LocalComponentRef p s"
      using h unfolding local_ref_def rbind_Inr_iff required_Inr sha_valid guard_Inr_iff sum.inject by blast
    then show ?thesis using NonEmptyStr_clean by simp
  qed
  show "rootfs_ok r" if h: "artifact_ref j = Inr r"
  proof -
    obtain v k s where "uuid_field v = Inr k" "sha_ok s" "r = ArtifactComponentRef k s"
      using h unfolding artifact_ref_def rbind_Inr_iff required_Inr sha_valid sum.inject by blast
    then show ?thesis using uuid_field_bound by simp
  qed
  show "rootfs_ok r" if h: "catalog_ref j = Inr r"
  proof -
    obtain v w p n where "NonEmptyStr v = Inr p" "NonEmptyStr w = Inr n" "r = CatalogComponentRef p n"
      using h unfolding catalog_ref_def rbind_Inr_iff required_Inr sum.inject by blast
    then show ?thesis using NonEmptyStr_clean by auto
  qed
  show "rootfs_ok r" if h: "upload_ref j = Inr r"
    using h unfolding upload_ref_def rbind_Inr_iff sum.inject by force
qed

lemma rootfs_source_ok: "rootfs_source_field j = Inr r \<Longrightarrow> rootfs_ok r"
  unfolding rootfs_source_field_def by (auto split: option.splits json.splits if_splits intro: rootfs_refs_ok)

lemma defaulted_clean:
  "defaulted [] str_dict k j = Inr d \<Longrightarrow> clean_dict d" "defaulted [] str_list k j = Inr xs \<Longrightarrow> list_all clean xs"
  by (auto simp: defaulted_Inr clean_dict_def dest: str_dict_clean str_list_clean split: option.splits)

lemma required_clean: "required NonEmptyStr k j = Inr s \<Longrightarrow> clean s"
  by (auto simp: required_Inr dest: NonEmptyStr_clean)

lemma libvirt_profile_ok:
  assumes "libvirt_profile j = Inr s"
  shows "section_ok (LocalLibvirtSection s)"
proof -
  obtain params v rootfs ck ops ssh debug where
    "defaulted [] str_dict ''domain_xml_params'' j = Inr params" "rootfs_source_field v = Inr rootfs"
    "nullable NonEmptyStr ''crashkernel'' j = Inr ck" "defaulted [] str_list ''destructive_ops'' j = Inr ops"
    "nullable NonEmptyStr ''ssh_credential_ref'' j = Inr ssh"
    and s: "s = \<lparr>lv_domain_xml_params = params, lv_rootfs = rootfs, lv_crashkernel = ck, lv_destructive_ops = ops,
         lv_ssh_credential_ref = ssh, lv_debug = debug\<rparr>"
    using assms unfolding libvirt_profile_def rbind_Inr_iff required_Inr sum.inject by blast
  then show ?thesis using defaulted_clean rootfs_source_ok nullable_clean by (simp add: s)
qed

lemma fault_inject_profile_ok: "fault_inject_profile j = Inr s \<Longrightarrow> section_ok (FaultInjectSection s)"
  unfolding fault_inject_profile_def by (auto simp only: rbind_Inr_iff sum.inject) (simp add: defaulted_clean)

lemma remote_libvirt_profile_ok: "remote_libvirt_profile j = Inr s \<Longrightarrow> section_ok (RemoteLibvirtSection s)"
  unfolding remote_libvirt_profile_def
  by (auto simp only: rbind_Inr_iff sum.inject) (simp add: defaulted_clean nullable_clean required_clean)

lemma provider_section_ok:
  assumes "provider_section j = Inr s"
  shows "section_ok s"
proof -
  consider l where "nullable libvirt_profile ''local-libvirt'' j = Inr (Some l)" "s = LocalLibvirtSection l"
    | f where "nullable fault_inject_profile ''fault-inject'' j = Inr (Some f)" "s = FaultInjectSection f"
    | r where "nullable remote_libvirt_profile ''remote-libvirt'' j = Inr (Some r)" "s = RemoteLibvirtSection r"
    using assms unfolding provider_section_def by (auto split: option.splits)
  then show ?thesis
    using libvirt_profile_ok fault_inject_profile_ok remote_libvirt_profile_ok
    by cases (blast dest!: nullable_Some)+
qed

lemma parse_profile_ok: "parse_profile j = Inr p \<Longrightarrow> profile_ok p"
  unfolding parse_profile_def
  by (auto simp only: rbind_Inr_iff sum.inject guard_Inr_iff)
    (auto simp: profile_ok_def required_clean nullable_size required_Inr dest: provider_section_ok)

section \<open>Serialized profiles parse back\<close>


lemma lookup_simps [simp]:
  "required f k (JObj d) = (case map_of d k of None \<Rightarrow> bad | Some v \<Rightarrow> f v)"
  "defaulted x f k (JObj d) = (case map_of d k of None \<Rightarrow> Inr x | Some v \<Rightarrow> f v)"
  "nullable f k (JObj d) = (case map_of d k of None \<Rightarrow> Inr None | Some v \<Rightarrow> optional_value f v)"
  by (simp_all add: required_def defaulted_def nullable_def)

lemma rootfs_roundtrip: "rootfs_ok r \<Longrightarrow> rootfs_source_field (dump_rootfs r) = Inr r"
  by (cases r)
    (auto simp: rootfs_source_field_def local_ref_def artifact_ref_def catalog_ref_def upload_ref_def if_some_def
      guard_def validate_sha256_value_def sha_ok_def simp del: NonEmptyStr.simps uuid_field.simps rbind_Inr_iff split: option.splits)

lemma debug_roundtrip: "debug_options (dump_debug d) = Inr d"
  by (simp add: debug_options_def dump_debug_def guard_def)

lemma libvirt_roundtrip:
  "section_ok (LocalLibvirtSection s) \<Longrightarrow> libvirt_profile (dump_libvirt s) = Inr s"
  by (cases "lv_crashkernel s"; cases "lv_ssh_credential_ref s")
    (auto simp: libvirt_profile_def dump_libvirt_def if_some_def guard_def rootfs_roundtrip debug_roundtrip clean_opt_def
      simp del: NonEmptyStr.simps str_list.simps str_dict.simps rbind_Inr_iff)

lemma capture_roundtrip: "capture_field (JStr (CaptureMethod_value c)) = Inr c"
  by (cases c) simp_all

lemma fault_inject_roundtrip:
  "section_ok (FaultInjectSection s) \<Longrightarrow> fault_inject_profile (dump_fault_inject s) = Inr s"
  by (simp add: fault_inject_profile_def dump_fault_inject_def guard_def capture_roundtrip
      del: str_list.simps enum_field.simps rbind_Inr_iff)

lemma remote_roundtrip:
  "section_ok (RemoteLibvirtSection s) \<Longrightarrow> remote_libvirt_profile (dump_remote s) = Inr s"
  by (cases "rl_crashkernel s")
    (auto simp: remote_libvirt_profile_def dump_remote_def if_some_def guard_def clean_opt_def
      simp del: NonEmptyStr.simps str_list.simps rbind_Inr_iff)


lemma section_roundtrip: "section_ok s \<Longrightarrow> provider_section (dump_section s) = Inr s"
proof (cases s)
  case (LocalLibvirtSection l)
  moreover assume "section_ok s"
  moreover have "optional_value libvirt_profile (dump_libvirt l) = rbind (libvirt_profile (dump_libvirt l)) (\<lambda>x. Inr (Some x))"
    by (simp add: dump_libvirt_def)
  ultimately show ?thesis by (simp add: provider_section_def guard_def libvirt_roundtrip del: rbind_Inr_iff section_ok.simps)
next
  case (FaultInjectSection f)
  moreover assume "section_ok s"
  moreover have "optional_value fault_inject_profile (dump_fault_inject f) =
      rbind (fault_inject_profile (dump_fault_inject f)) (\<lambda>x. Inr (Some x))"
    by (simp add: dump_fault_inject_def)
  ultimately show ?thesis by (simp add: provider_section_def guard_def fault_inject_roundtrip del: rbind_Inr_iff section_ok.simps)
next
  case (RemoteLibvirtSection r)
  moreover assume "section_ok s"
  moreover have "optional_value remote_libvirt_profile (dump_remote r) =
      rbind (remote_libvirt_profile (dump_remote r)) (\<lambda>x. Inr (Some x))"
    by (simp add: dump_remote_def)
  ultimately show ?thesis by (simp add: provider_section_def guard_def remote_roundtrip del: rbind_Inr_iff section_ok.simps)
qed

lemma boot_method_roundtrip:
  "enum_field BootMethod_value [DIRECT_KERNEL, DISK_IMAGE] (JStr (BootMethod_value b)) = Inr b"
  by (cases b) simp_all

lemma profile_roundtrip:
  assumes "profile_ok p"
  shows "parse_profile (dump_profile p) = Inr p"
  using assms
  by (cases "pf_vcpu p"; cases "pf_memory_mb p"; cases "pf_disk_gb p")
    (simp_all add: profile_ok_def parse_profile_def dump_profile_def PROFILE_FIELDS_def if_some_def guard_def size_ok_def
      boot_method_roundtrip section_roundtrip del: NonEmptyStr.simps enum_field.simps rbind_Inr_iff)

text \<open>C29. A profile that parses is stable under storage: serializing it as it is kept in the
  database and parsing it again gives the same profile, for every provider section, rootfs
  reference and combination of optional fields.\<close>
theorem profile_stored_stable:
  assumes "parse_profile j = Inr p"
  shows "parse_profile (dump_profile p) = Inr p"
  by (rule profile_roundtrip) (rule parse_profile_ok [OF assms])

definition sample_profile :: json where
  "sample_profile =
    JObj [(''schema_version'', JInt 1), (''arch'', JStr '' x86_64 ''), (''boot_method'', JStr ''direct-kernel''),
          (''kernel_source_ref'', JStr ''linux''), (''vcpu'', JNull), (''memory_mb'', JInt 2048),
          (''provider'', JObj [(''local-libvirt'',
             JObj [(''rootfs'', JObj [(''kind'', JStr ''local''), (''path'', JStr ''/img'')]),
                   (''debug'', JObj [(''gdbstub'', JStr ''Yes'')])])])]"

definition sample_parsed :: ProvisioningProfile where
  "sample_parsed =
    \<lparr>pf_arch = ''x86_64'', pf_vcpu = None, pf_memory_mb = Some 2048, pf_disk_gb = None,
     pf_boot_method = DIRECT_KERNEL, pf_kernel_source_ref = ''linux'',
     pf_provider = LocalLibvirtSection
       \<lparr>lv_domain_xml_params = [], lv_rootfs = LocalComponentRef ''/img'' None, lv_crashkernel = None,
        lv_destructive_ops = [], lv_ssh_credential_ref = None,
        lv_debug = \<lparr>preserve_on_crash = False, gdbstub = True\<rparr>\<rparr>\<rparr>"

lemma sample_parses: "parse_profile sample_profile = Inr sample_parsed"
  by code_simp

theorem profile_stored_stable_witness:
  "parse_profile sample_profile = Inr sample_parsed \<and> parse_profile (dump_profile sample_parsed) = Inr sample_parsed"
  using profile_stored_stable [OF sample_parses] sample_parses by simp

section \<open>Sizes\<close>

definition agrees :: "string \<Rightarrow> json \<Rightarrow> int \<Rightarrow> bool" where
  "agrees k j n = (case json_get k j of None \<Rightarrow> True | Some v \<Rightarrow> v = JNull \<or> equals_int v n)"

lemma map_of_dict_put [simp]: "map_of (dict_put k v d) = (map_of d)(k \<mapsto> v)"
  by (induction k v d rule: dict_put.induct) auto

lemma set_field_Inr:
  assumes "set_field k n j = Inr j'"
  shows "json_get k j' = Some (JInt n)" "\<And>k'. k' \<noteq> k \<Longrightarrow> json_get k' j' = json_get k' j" "agrees k j n"
  using assms by (cases j; auto simp: agrees_def split: option.splits if_splits)+

lemma set_field_conflict: "\<not> agrees k (JObj d) n \<Longrightarrow> set_field k n (JObj d) = bad"
  by (auto simp: agrees_def split: option.splits)

lemma reconciled_sizes:
  assumes "reconcile_profile_sizing j v m d = Inr j'"
  shows "json_get ''vcpu'' j' = Some (JInt v)" "json_get ''memory_mb'' j' = Some (JInt m)"
    "json_get ''disk_gb'' j' = Some (JInt d)"
    "agrees ''vcpu'' j v" "agrees ''memory_mb'' j m" "agrees ''disk_gb'' j d"
proof -
  obtain j1 j2 where s: "set_field ''vcpu'' v j = Inr j1" "set_field ''memory_mb'' m j1 = Inr j2"
      "set_field ''disk_gb'' d j2 = Inr j'"
    using assms unfolding reconcile_profile_sizing_def rbind_Inr_iff by blast
  note f = set_field_Inr [OF s(1)] set_field_Inr [OF s(2)] set_field_Inr [OF s(3)]
  show "json_get ''vcpu'' j' = Some (JInt v)" "json_get ''memory_mb'' j' = Some (JInt m)"
    "json_get ''disk_gb'' j' = Some (JInt d)" "agrees ''vcpu'' j v" using f by simp_all
  show "agrees ''memory_mb'' j m" "agrees ''disk_gb'' j d" using f by (simp_all add: agrees_def)
qed

lemma parsed_size:
  assumes "nullable strict_pos k j = Inr s"
  shows "json_get k j = Some (JInt n) \<Longrightarrow> s = Some n" "s = Some n \<Longrightarrow> agrees k j n"
proof -
  show "json_get k j = Some (JInt n) \<Longrightarrow> s = Some n"
    using assms by (auto simp: nullable_def defaulted_def split: if_splits)
  show "agrees k j n" if s: "s = Some n"
  proof (cases "json_get k j")
    case (Some v)
    have "strict_pos v = Inr n" using assms s optional_value_Inr Some by (auto simp: nullable_def defaulted_def)
    then show ?thesis using Some by (cases v) (simp_all add: agrees_def split: if_splits)
  qed (simp add: agrees_def)
qed

lemma parse_profile_sizes:
  assumes "parse_profile j = Inr p"
  shows "nullable strict_pos ''vcpu'' j = Inr (pf_vcpu p)" "nullable strict_pos ''memory_mb'' j = Inr (pf_memory_mb p)"
    "nullable strict_pos ''disk_gb'' j = Inr (pf_disk_gb p)"
  using assms unfolding parse_profile_def by (auto simp only: rbind_Inr_iff sum.inject) simp_all

definition snapshot_of :: "Allocation \<Rightarrow> (int \<times> int \<times> int) option" where
  "snapshot_of a =
    (case (requested_vcpus a, requested_memory_gb a, requested_disk_gb a) of
       (Some v, Some m, Some d) \<Rightarrow> Some (v, m * MB_PER_GB, d) | _ \<Rightarrow> None)"

lemma stored_profile_for_snapshot:
  "stored_profile_for j a =
    (case snapshot_of a of
       Some (v, m, d) \<Rightarrow> rbind (reconcile_profile_sizing j v m d) parse_profile
     | None \<Rightarrow> rbind (parse_profile j) (\<lambda>p. rbind (require_concrete_sizing p) (\<lambda>_. Inr p)))"
  by (simp add: stored_profile_for_def snapshot_of_def split: option.splits)

lemma stored_with_snapshot:
  assumes "stored_profile_for j a = Inr p" and snap: "snapshot_of a = Some (v, m, d)"
  shows "pf_vcpu p = Some v" "pf_memory_mb p = Some m" "pf_disk_gb p = Some d"
    "agrees ''vcpu'' j v" "agrees ''memory_mb'' j m" "agrees ''disk_gb'' j d"
proof -
  obtain j' where r: "reconcile_profile_sizing j v m d = Inr j'" and p: "parse_profile j' = Inr p"
    using assms by (auto simp: stored_profile_for_snapshot)
  note s = parse_profile_sizes [OF p]
  show "pf_vcpu p = Some v" "pf_memory_mb p = Some m" "pf_disk_gb p = Some d"
    using parsed_size(1) [OF s(1)] parsed_size(1) [OF s(2)] parsed_size(1) [OF s(3)] reconciled_sizes [OF r]
    by simp_all
  show "agrees ''vcpu'' j v" "agrees ''memory_mb'' j m" "agrees ''disk_gb'' j d"
    using reconciled_sizes [OF r] by simp_all
qed

text \<open>The profile resolved for a new System of an allocation always has three
  concrete positive sizes, equal to the allocation's snapshot when it has one, and never different
  from a size the submitted document states; and it is stable under storage.\<close>
lemma stored_profile_sized:
  assumes "stored_profile_for j a = Inr p"
  shows "\<exists>v m d. pf_vcpu p = Some v \<and> pf_memory_mb p = Some m \<and> pf_disk_gb p = Some d \<and>
    0 < v \<and> 0 < m \<and> 0 < d \<and> snapshot_of a \<in> {None, Some (v, m, d)} \<and>
    agrees ''vcpu'' j v \<and> agrees ''memory_mb'' j m \<and> agrees ''disk_gb'' j d \<and>
    parse_profile (dump_profile p) = Inr p"
proof -
  have ok: "profile_ok p"
    using assms parse_profile_ok by (auto simp: stored_profile_for_snapshot split: option.splits)
  show ?thesis
  proof (cases "snapshot_of a")
    case (Some t)
    then obtain v m d where t: "snapshot_of a = Some (v, m, d)" by (cases t) auto
    note s = stored_with_snapshot [OF assms t]
    then have "0 < v" "0 < m" "0 < d" using ok by (simp_all add: profile_ok_def size_ok_def)
    then show ?thesis using s t profile_roundtrip [OF ok] by simp
  next
    case None
    then have p: "parse_profile j = Inr p" and "require_concrete_sizing p = Inr ()"
      using assms by (auto simp: stored_profile_for_snapshot)
    then obtain v m d where s: "pf_vcpu p = Some v" "pf_memory_mb p = Some m" "pf_disk_gb p = Some d"
      by (auto simp: require_concrete_sizing_def)
    note n = parse_profile_sizes [OF p]
    have "agrees ''vcpu'' j v" "agrees ''memory_mb'' j m" "agrees ''disk_gb'' j d"
      using parsed_size(2) [OF n(1) s(1)] parsed_size(2) [OF n(2) s(2)] parsed_size(2) [OF n(3) s(3)] .
    moreover have "0 < v" "0 < m" "0 < d" using ok s by (simp_all add: profile_ok_def size_ok_def)
    ultimately show ?thesis using s None profile_roundtrip [OF ok] by simp
  qed
qed

definition sized_alloc :: Allocation where
  "sized_alloc =
    \<lparr>oid = 7, created_at = 0, updated_at = 0, principal = ''p'', agent_session = None, project = ''proj'',
     resource_id = Some 1, al_state = GRANTED, lease_expiry = None, capability_scope = JObj [],
     requested_vcpus = Some 4, requested_memory_gb = Some 2, requested_disk_gb = Some 10, al_shape = None,
     active_started_at = None, active_ended_at = None, pcie_claim = [], requested_pcie_specs = [],
     requested_kind = None, requested_resource_id = None\<rparr>"

definition sample_stored :: ProvisioningProfile where
  "sample_stored = sample_parsed\<lparr>pf_vcpu := Some 4, pf_memory_mb := Some 2048, pf_disk_gb := Some 10\<rparr>"

lemma sample_stores: "stored_profile_for sample_profile sized_alloc = Inr sample_stored"
  by code_simp


section \<open>Provider policies\<close>

text \<open>What the gate before a provider asks of a profile: for the local provider its own section,
  the supported XML parameters, a declared image and an accepted kind of rootfs source.\<close>

lemma local_policy_accepts:
  "validate_profile_for_provider p (LocalLibvirtProfilePolicy inventory) caps = Inr () \<longleftrightarrow>
   (\<exists>s. pf_provider p = LocalLibvirtSection s \<and>
     set (map fst (lv_domain_xml_params s)) \<subseteq> set SUPPORTED_DOMAIN_XML_PARAMS \<and>
     validate_rootfs_reference inventory (lv_rootfs s) = Inr () \<and>
     (lv_rootfs s = UploadRootfs \<or> reject_unsupported_component_source caps ''rootfs'' (lv_rootfs s) = Inr ()))"
  by (cases "pf_provider p")
    (auto simp: validate_profile_for_provider_def LocalLibvirtProfilePolicy_def split: RootfsSource.splits)

text \<open>The gate before a provider checks the section only for the local provider, and there by
  an exception that is not a configuration error: the remote and the fault-injection policy accept
  every parsed profile, also one whose only section is another provider's, and the operations that
  read the section then fail with an attribute error.\<close>
lemma section_mismatch_unchecked:
  "validate_profile_for_provider p RemoteLibvirtProfilePolicy caps = Inr () \<and>
   validate_profile_for_provider p FaultInjectProfilePolicy caps = Inr () \<and>
   (capture_method RemoteLibvirtProfilePolicy p = Inl AttributeError \<longleftrightarrow> section_kind (pf_provider p) \<noteq> REMOTE_LIBVIRT) \<and>
   (capture_method FaultInjectProfilePolicy p = Inl AttributeError \<longleftrightarrow>
     section_kind (pf_provider p) \<noteq> FAULT_INJECT) \<and>
   (section_kind (pf_provider p) \<noteq> LOCAL_LIBVIRT \<longleftrightarrow>
    (validate_profile_for_provider p (LocalLibvirtProfilePolicy inventory) caps = Inl AttributeError))"
proof (cases "pf_provider p")
  case (LocalLibvirtSection s)
  moreover have "reject_unsupported_component_source caps k r \<noteq> Inl AttributeError" for k r
    by (simp add: reject_unsupported_component_source_def guard_def)
  moreover have "validate_rootfs_reference inventory r \<noteq> Inl AttributeError" for r
    by (simp add: validate_rootfs_reference_def guard_def split: RootfsSource.splits)
  ultimately show ?thesis
    by (auto simp: validate_profile_for_provider_def LocalLibvirtProfilePolicy_def RemoteLibvirtProfilePolicy_def
        FaultInjectProfilePolicy_def rbind_Inl_iff guard_def split: RootfsSource.splits sum.splits if_splits)
qed (simp_all add: validate_profile_for_provider_def LocalLibvirtProfilePolicy_def RemoteLibvirtProfilePolicy_def
      FaultInjectProfilePolicy_def)

end
