(* ===== verification/Systems_Facts.thy ===== *)
theory Systems_Facts
  imports System_Handlers Profiles_Facts Ledger
begin

text \<open>
  Correctness of the System plane: what an admission commits, what the handlers leave
  behind when the provider fails or another session tears the System down meanwhile, and
  an invariant of the System table over every interleaving of tools, handlers and repair.
\<close>

section \<open>Handlers\<close>

lemma query_simps:
  "f (view c) = Inr a \<Longrightarrow> query f c = (c\<lparr>tx := Some (view c)\<rparr>, Inr a)"
  "f (view c) = Inl e \<Longrightarrow> query f c = (c\<lparr>tx := Some (view c)\<rparr>, Inl e)"
  by (simp_all add: query_def execute_def)

lemma view_literal [simp]:
  "view \<lparr>committed = d, tx = Some w, calls = cs\<rparr> = w" "view \<lparr>committed = d, tx = None, calls = cs\<rparr> = d"
  by (simp_all add: view_def)

text \<open>The state a handler is in when it has read its System and runtime.\<close>

definition opened :: "Db \<Rightarrow> 'p Conn" where
  "opened db = \<lparr>committed = db, tx = Some db, calls = []\<rparr>"

lemma provision_start:
  assumes "system_of_job SystemC job = Inr k" "SYSTEMS_get k db = Some system"
    "runtime_for_system (resolver env) k db = Inr runtime" "sys_state system = SystemState.PROVISIONING"
    "parse_profile (provisioning_profile system) = Inr p"
  shows "provision_handler env job \<lparr>committed = db, tx = None, calls = []\<rparr> =
    andthen (on_categorized_action (call_provider (others env) (Provision k p) (rt_provision runtime k p))
       (record_system_failure job k (project system) ''provisioning->failed'' ''systems.provision''))
      (\<lambda>dn. andthen (commit_provision_result env job system p (profile_policy runtime) dn) (\<lambda>current.
          if gone current
          then andthen (call_provider (others env) (Teardown dn) (rt_teardown runtime dn))
                 (\<lambda>_. lift (Inr (Some (uuid_str k))))
          else lift (Inr (Some (uuid_str k))))) (opened db)"
  using assms by (simp add: provision_handler_def query_simps the_system_def opened_def)

lemma failing_call:
  assumes "r = Inl (CategorizedError e)" "uncommitting m"
  shows "\<exists>c. on_categorized_action (call_provider ot pc r) (best_effort m) (opened db) = (c, Inl (CategorizedError e)) \<and>
    committed c = ot pc db \<and> calls c = [pc]"
proof -
  let ?c = "\<lparr>committed = ot pc db, tx = Some (ot pc db), calls = [pc]\<rparr>"
  have "call_provider ot pc r (opened db) = (?c, Inl (CategorizedError e))"
    using assms(1) by (simp add: call_provider_def opened_def)
  moreover have "committed (fst (m ?c)) = ot pc db" "calls (fst (m ?c)) = [pc]"
    using assms(2) by (simp_all add: uncommitting_def)
  ultimately show ?thesis by (simp add: on_categorized_action_def best_effort_def andthen_def)
qed

lemma failure_cleanup:
  "\<exists>m :: (ProviderCall, unit) action. record_system_failure job k p transition tool = best_effort m \<and> uncommitting m"
  unfolding record_system_failure_def using uncommitting_transaction [OF uncommitting_execute] by blast

text \<open>
  C12. A System whose provider fails is never recorded as failed: the handler's transaction
  was opened by its first read, so the block that writes \<open>failed\<close> is only a savepoint and
  is rolled back with the exception.  The committed database is exactly what other sessions
  left, and the System keeps its state.
\<close>

theorem provision_failure_unrecorded:
  assumes "system_of_job SystemC job = Inr k" "SYSTEMS_get k db = Some system"
    "runtime_for_system (resolver env) k db = Inr runtime" "sys_state system = SystemState.PROVISIONING"
    "parse_profile (provisioning_profile system) = Inr p"
    and fails: "rt_provision runtime k p = Inl (CategorizedError e)"
  shows "pool_connection (provision_handler env job) db =
    (others env (Provision k p) db, [Provision k p], Inl (CategorizedError e))"
proof -
  obtain m :: "(ProviderCall, unit) action" where m: "record_system_failure job k (project system) ''provisioning->failed'' ''systems.provision'' =
      best_effort m" "uncommitting m"
    using failure_cleanup by blast
  show ?thesis
    unfolding pool_connection_def provision_start [OF assms(1-5)] m(1)
    using failing_call [OF fails m(2), of "others env" "Provision k p" db] by auto
qed

text \<open>
  C11. A teardown that overtakes the provisioning wins: when another session has torn the
  System down (or it failed) while the provider was creating the domain, the handler writes
  nothing and destroys the domain it has just created.
\<close>

theorem provision_superseded:
  assumes "system_of_job SystemC job = Inr k" "SYSTEMS_get k db = Some system"
    "runtime_for_system (resolver env) k db = Inr runtime" "sys_state system = SystemState.PROVISIONING"
    "parse_profile (provisioning_profile system) = Inr p"
    and created: "rt_provision runtime k p = Inr dn"
    and overtaken: "SYSTEMS_get k (others env (Provision k p) db) = Some now" "sys_state now \<in> set TERMINAL_SYSTEM_STATES"
    and torn: "rt_teardown runtime dn = Inr ()"
  shows "pool_connection (provision_handler env job) db =
    (others env (Teardown dn) (others env (Provision k p) db), [Provision k p, Teardown dn], Inr (Some (uuid_str k)))"
proof -
  let ?db = "others env (Provision k p) db"
  have k: "oid system = k" using assms(2) unfolding SYSTEMS_get_def by (rule tbl.get_key)
  have call: "on_categorized_action (call_provider (others env) (Provision k p) (rt_provision runtime k p))
      (record_system_failure job k (project system) ''provisioning->failed'' ''systems.provision'') (opened db) =
      (\<lparr>committed = ?db, tx = Some ?db, calls = [Provision k p]\<rparr>, Inr dn)"
    by (simp add: on_categorized_action_def call_provider_def opened_def created)
  have "sys_state now \<noteq> SystemState.PROVISIONING" "gone (Some (sys_state now))"
    using overtaken(2) by (auto simp: TERMINAL_SYSTEM_STATES_def gone_def)
  then show ?thesis
    unfolding pool_connection_def provision_start [OF assms(1-5)]
    by (simp add: call commit_provision_result_def transaction_def execute_def k overtaken(1) call_provider_def torn)
qed

section \<open>A small deployment\<close>

definition demo_alloc :: Allocation where
  "demo_alloc = sized_alloc\<lparr>al_state := AllocationState.ACTIVE\<rparr>"

definition demo_system :: System where
  "demo_system =
    \<lparr>oid = 5, created_at = 0, updated_at = 0, principal = ''p'', agent_session = None, project = ''proj'',
     allocation_id = 7, sys_state = SystemState.PROVISIONING, provisioning_profile = dump_profile sample_stored,
     target_fingerprint = None, domain_name = None, sys_shape = None\<rparr>"

definition demo_db :: Db where
  "demo_db = empty_db\<lparr>resources := [example_host], allocations := [demo_alloc], systems := [demo_system]\<rparr>"

definition demo_job :: Job where
  "demo_job = new_job 9 0 PROVISION (model_dump (SystemPayload (uuid_str 5)))
     \<lparr>auth_principal = ''p'', auth_agent_session = None, auth_project = ''proj''\<rparr> (provision_key 7) 3"

definition demo_runtime :: "exn + string \<Rightarrow> ProviderRuntime" where
  "demo_runtime r =
    \<lparr>profile_policy = LocalLibvirtProfilePolicy None, rt_provision = (\<lambda>_ _. r), rt_reprovision = (\<lambda>_ _. r),
     rt_teardown = (\<lambda>_. Inr ()), rt_power = (\<lambda>_ _. Inr ()), rt_force_crash = (\<lambda>_. Inr ())\<rparr>"

definition demo_env :: "exn + string \<Rightarrow> (ProviderCall \<Rightarrow> Db \<Rightarrow> Db) \<Rightarrow> HandlerEnv" where
  "demo_env r ot =
    \<lparr>resolver = (\<lambda>_. Some (demo_runtime r)), others = ot, store_head = (\<lambda>_. Inr None), new_artifact_id = 11,
     digest_of = (\<lambda>_. [])\<rparr>"

lemma demo_facts:
  "system_of_job SystemC demo_job = Inr 5" "SYSTEMS_get 5 demo_db = Some demo_system"
  "runtime_for_system (resolver (demo_env r ot)) 5 demo_db = Inr (demo_runtime r)"
  "sys_state demo_system = SystemState.PROVISIONING"
  "parse_profile (provisioning_profile demo_system) = Inr sample_stored"
proof -
  show "system_of_job SystemC demo_job = Inr 5" by code_simp
  show "SYSTEMS_get 5 demo_db = Some demo_system" by (simp add: SYSTEMS_get_def demo_db_def demo_system_def tbl_get_def)
  then show "runtime_for_system (resolver (demo_env r ot)) 5 demo_db = Inr (demo_runtime r)"
    by (simp add: runtime_for_system_def kind_for_system_def kind_for_allocation_def ALLOCATIONS_get_def resolve_def
        demo_db_def demo_system_def demo_alloc_def sized_alloc_def example_host_def tbl_get_def demo_env_def)
  show "sys_state demo_system = SystemState.PROVISIONING" by (simp add: demo_system_def)
  show "parse_profile (provisioning_profile demo_system) = Inr sample_stored"
    by code_simp
qed

definition provider_error :: exn where "provider_error = CategorizedError PROVISIONING_FAILURE"

theorem provision_failure_unrecorded_witness:
  "rt_provision (demo_runtime (Inl provider_error)) 5 sample_stored = Inl (CategorizedError PROVISIONING_FAILURE) \<and>
   pool_connection (provision_handler (demo_env (Inl provider_error) (\<lambda>_ db. db)) demo_job) demo_db =
     (demo_db, [Provision 5 sample_stored], Inl (CategorizedError PROVISIONING_FAILURE))"
proof -
  have f: "rt_provision (demo_runtime (Inl provider_error)) 5 sample_stored = Inl (CategorizedError PROVISIONING_FAILURE)"
    by (simp add: demo_runtime_def provider_error_def)
  then show ?thesis
    using provision_failure_unrecorded [OF demo_facts(1,2,3,4,5) f, of "\<lambda>_ db. db"] by (simp add: demo_env_def)
qed

text \<open>Another session tears the System down while the provider is at work.\<close>

definition torn_system :: System where
  "torn_system = demo_system\<lparr>sys_state := SystemState.TORN_DOWN\<rparr>"

definition tearing :: "ProviderCall \<Rightarrow> Db \<Rightarrow> Db" where
  "tearing pc db = db\<lparr>systems := [torn_system]\<rparr>"

theorem provision_superseded_witness:
  "SYSTEMS_get 5 (tearing (Provision 5 sample_stored) demo_db) = Some torn_system \<and>
   pool_connection (provision_handler (demo_env (Inr ''kdive-5'') tearing) demo_job) demo_db =
     (demo_db\<lparr>systems := [torn_system]\<rparr>, [Provision 5 sample_stored, Teardown ''kdive-5''], Inr (Some (uuid_str 5)))"
proof -
  have r: "rt_provision (demo_runtime (Inr ''kdive-5'')) 5 sample_stored = Inr ''kdive-5''"
    "rt_teardown (demo_runtime (Inr ''kdive-5'')) ''kdive-5'' = Inr ()" by (simp_all add: demo_runtime_def)
  have t: "SYSTEMS_get 5 (others (demo_env (Inr ''kdive-5'') tearing) (Provision 5 sample_stored) demo_db) =
      Some torn_system" "sys_state torn_system \<in> set TERMINAL_SYSTEM_STATES"
    by (simp_all add: demo_env_def tearing_def SYSTEMS_get_def tbl_get_def torn_system_def demo_system_def
        TERMINAL_SYSTEM_STATES_def)
  show ?thesis
    using provision_superseded [OF demo_facts(1,2,3,4,5) r(1) t r(2)] t(1) by (simp add: demo_env_def tearing_def)
qed

section \<open>Tools\<close>

lemma on_categorized_Inr:
  "on_categorized m h k = Inr y \<longleftrightarrow>
    (\<exists>a. m = Inr a \<and> k a = Inr y) \<or> (\<exists>c. m = Inl (CategorizedError c) \<and> h c = Inr y)"
  by (cases m) (auto split: exn.splits)

lemma gated_Inr:
  assumes "gated tool ctx system alloc kind opt_in role db continue = Inr (db', r)"
  shows "continue = Inr (db', r) \<or>
    (r = ToolFailure AUTHORIZATION_DENIED None \<and> audit_destructive_denied tool ctx system kind db = Inr db')"
  using assms unfolding gated_def by (auto split: sum.splits exn.splits)

lemma in_projects_Inr:
  assumes "in_projects ctx k db continue = Inr (db', r)"
  shows "(db' = db \<and> r = ToolFailure CONFIGURATION_ERROR None) \<or>
    (\<exists>system alloc. SYSTEMS_get k db = Some system \<and> ALLOCATIONS_get (allocation_id system) db = Some alloc \<and>
      continue system alloc = Inr (db', r))"
  using assms unfolding in_projects_def by (auto split: option.splits if_splits)

lemma reprovision_ungated_Inr:
  assumes "reprovision_ungated jid ctx system p digest policy v db = Inr (db', r)"
  shows "db' = db \<and> (sys_state system = SystemState.READY \<longrightarrow> (\<exists>c st. r = ToolFailure c st)) \<or>
    sys_state system = SystemState.READY \<and> admit_reprovision jid ctx system p digest db = Inr (db', r)"
  using assms unfolding reprovision_ungated_def by (auto simp: on_categorized_Inr split: if_splits option.splits)

lemma reprovision_locked_Inr:
  assumes "reprovision_locked jid dg ctx k p policy v db = Inr (db', r)"
  obtains (same) "db' = db" "\<And>s. SYSTEMS_get k db = Some s \<Longrightarrow> sys_state s = SystemState.READY \<Longrightarrow> \<exists>c st. r = ToolFailure c st"
    | (denied) system where "r = ToolFailure AUTHORIZATION_DENIED None"
        "audit_destructive_denied ''systems.reprovision'' ctx system REPROVISION db = Inr db'"
    | (admitted) system where "SYSTEMS_get k db = Some system" "sys_state system = SystemState.READY"
        "admit_reprovision jid ctx system p (dg p) db = Inr (db', r)"
proof -
  consider "db' = db" "r = ToolFailure CONFIGURATION_ERROR None"
    | system alloc opt_in where "SYSTEMS_get k db = Some system"
      "gated ''systems.reprovision'' ctx system alloc REPROVISION opt_in Role.OPERATOR db
        (reprovision_ungated jid ctx system p (dg p) policy v db) = Inr (db', r)"
    using in_projects_Inr [OF assms [unfolded reprovision_locked_def]] by auto
  then show thesis
  proof cases
    case 1
    then show ?thesis by (intro same) simp_all
  next
    case 2
    then consider "reprovision_ungated jid ctx system p (dg p) policy v db = Inr (db', r)"
      | "r = ToolFailure AUTHORIZATION_DENIED None"
        "audit_destructive_denied ''systems.reprovision'' ctx system REPROVISION db = Inr db'"
      using gated_Inr by blast
    then show ?thesis
    proof cases
      case 1
      then show ?thesis using reprovision_ungated_Inr [OF 1] 2(1) by (auto intro: same admitted)
    qed (rule denied)
  qed
qed

lemma reprovision_system_Inr:
  assumes "reprovision_system jid dg policy caps v ctx t profile db = Inr (db', r)"
  obtains (same) "db' = db" "\<And>k s p. as_uuid t = Some k \<Longrightarrow> parse_profile profile = Inr p \<Longrightarrow> SYSTEMS_get k db = Some s \<Longrightarrow>
          sys_state s = SystemState.READY \<Longrightarrow> \<exists>c st. r = ToolFailure c st"
    | (denied) system where "r = ToolFailure AUTHORIZATION_DENIED None"
        "audit_destructive_denied ''systems.reprovision'' ctx system REPROVISION db = Inr db'"
    | (admitted) k system p where "as_uuid t = Some k" "parse_profile profile = Inr p" "SYSTEMS_get k db = Some system"
        "sys_state system = SystemState.READY" "admit_reprovision jid ctx system p (dg p) db = Inr (db', r)"
proof -
  consider "db' = db" "\<exists>c st. r = ToolFailure c st"
    | k p where "as_uuid t = Some k" "parse_profile profile = Inr p"
      "reprovision_locked jid dg ctx k p policy v db = Inr (db', r)"
  proof (cases "as_uuid t")
    case None
    then show ?thesis using assms that(1) by (auto simp: reprovision_system_def)
  next
    case (Some k)
    then consider c where "tool_failure c None db = Inr (db', r)"
      | p where "parse_profile profile = Inr p"
        "(case reprovision_locked jid dg ctx k p policy v db of
            Inl IllegalTransition \<Rightarrow> tool_failure CONFIGURATION_ERROR (map_option sys_state (SYSTEMS_get k db)) db
          | r \<Rightarrow> r) = Inr (db', r)"
      using assms unfolding reprovision_system_def
      by (simp only: option.case on_categorized_Inr rbind_Inr_iff sum.inject) blast
    then show ?thesis
    proof cases
      case 1
      then show ?thesis using that(1) by auto
    next
      case 2
      show ?thesis
      proof (cases "reprovision_locked jid dg ctx k p policy v db")
        case (Inl e)
        then show ?thesis using 2(2) that(1) by (cases e) auto
      next
        case (Inr x)
        then show ?thesis using 2 that(2) Some by simp
      qed
    qed
  qed
  then show thesis
  proof cases
    case 1
    then show ?thesis by (intro same) simp_all
  next
    case 2
    from 2(3) show ?thesis
      by (cases rule: reprovision_locked_Inr) (use 2(1,2) in \<open>auto intro: same denied admitted\<close>)
  qed
qed

lemma touch_system_fields [simp]:
  "provisioning_profile (touch clk f s) = provisioning_profile (f s)" "domain_name (touch clk f s) = domain_name (f s)"
  by (rule touch_proj, simp)+

lemma SYSTEMS_update_state_Inr:
  assumes "SYSTEMS_update_state k st db = Inr (db', row)"
  obtains system where "SYSTEMS_get k db = Some system"
    "ensure_transition (SystemSt (sys_state system)) (SystemSt st) = Inr ()"
    "db' = set_system k (sys_state_update (\<lambda>_. st)) db"
  using assms
  by (auto simp: SYSTEMS_update_state_def update_state_def SYSTEMS_get_def set_system_def split: option.splits)

lemma set_system_frame [simp]:
  "allocations (set_system k f db) = allocations db" "jobs (set_system k f db) = jobs db"
  "db_clock (set_system k f db) = db_clock db" "runs (set_system k f db) = runs db"
  "quotas (set_system k f db) = quotas db" "ledger (set_system k f db) = ledger db"
  "budgets (set_system k f db) = budgets db"
  by (simp_all add: set_system_def)

lemma SYSTEMS_get_set_system:
  assumes "\<And>s. oid (f s) = oid s"
  shows "SYSTEMS_get k' (set_system k f db) =
    (if k' = k then map_option (touch (db_clock db) f) (SYSTEMS_get k db) else SYSTEMS_get k' db)"
  using assms by (simp add: SYSTEMS_get_def set_system_def tbl_get_update)

lemma queue_enqueue_Inr:
  assumes "queue_enqueue jid kind p auth dedup attempts db = Inr (db', job)"
  shows "systems db' = systems db" "allocations db' = allocations db"
    "case job_by_dedup dedup db of Some old \<Rightarrow> db' = db \<and> job = old | None \<Rightarrow> jobs db' = jobs db @ [job]"
  using assms unfolding queue_enqueue_def
  by (auto simp: Let_def tbl_insert_def split: option.splits if_splits)

lemma admit_reprovision_Inr:
  assumes "admit_reprovision jid ctx system p digest db = Inr (db', r)"
  shows "systems db' = systems (set_system (oid system) (provisioning_profile_update (\<lambda>_. dump_profile p))
             (set_system (oid system) (sys_state_update (\<lambda>_. SystemState.REPROVISIONING)) db))"
    and "allocations db' = allocations db"
    and "\<exists>job. r = ToolJob job (oid system) \<and> (case job_by_dedup (reprovision_key (oid system) digest) db of
       Some old \<Rightarrow> jobs db' = jobs db \<and> job = old | None \<Rightarrow> jobs db' = jobs db @ [job])"
proof -
  obtain db1 row db2 job where 1: "SYSTEMS_update_state (oid system) SystemState.REPROVISIONING db = Inr (db1, row)"
    and 2: "audit_record ctx (system_event ''systems.reprovision'' (oid system) ''ready->reprovisioning'' (project system))
        (set_system (oid system) (provisioning_profile_update (\<lambda>_. dump_profile p)) db1) = Inr db2"
    and 3: "queue_enqueue jid REPROVISION (ReprovisionPayload (uuid_str (oid system)) digest)
        (job_authorizing ctx (project system)) (reprovision_key (oid system) digest) DEFAULT_MAX_ATTEMPTS db2 = Inr (db', job)"
    and r: "r = ToolJob job (oid system)"
    using assms unfolding admit_reprovision_def set_system_def by (auto simp: Let_def)
  obtain log where log: "db2 = (set_system (oid system) (provisioning_profile_update (\<lambda>_. dump_profile p)) db1)\<lparr>audit_log := log\<rparr>"
    using 2 by (rule audit_record_Inr)
  have db1: "db1 = set_system (oid system) (sys_state_update (\<lambda>_. SystemState.REPROVISIONING)) db"
    using 1 by (rule SYSTEMS_update_state_Inr)
  have "job_by_dedup (reprovision_key (oid system) digest) db2 = job_by_dedup (reprovision_key (oid system) digest) db"
    "jobs db2 = jobs db" by (simp_all add: job_by_dedup_def log db1)
  then show "\<exists>job. r = ToolJob job (oid system) \<and> (case job_by_dedup (reprovision_key (oid system) digest) db of
       Some old \<Rightarrow> jobs db' = jobs db \<and> job = old | None \<Rightarrow> jobs db' = jobs db @ [job])"
    using queue_enqueue_Inr(3) [OF 3] r by (intro exI [of _ job]) (auto split: option.splits)
  show "systems db' = systems (set_system (oid system) (provisioning_profile_update (\<lambda>_. dump_profile p))
             (set_system (oid system) (sys_state_update (\<lambda>_. SystemState.REPROVISIONING)) db))"
    and "allocations db' = allocations db"
    by (simp_all add: queue_enqueue_Inr(1,2) [OF 3] log db1)
qed

lemma no_teardown_while_reprovisioning:
  "ensure_transition (SystemSt SystemState.REPROVISIONING) (SystemSt SystemState.TORN_DOWN) = Inl IllegalTransition"
  by code_simp

lemma teardown_of_reprovisioning:
  assumes "system_of_job SystemC job = Inr k" "SYSTEMS_get k db = Some system"
    "sys_state system = SystemState.REPROVISIONING"
  shows "pool_connection (teardown_handler env job) db = (db, [], Inl IllegalTransition)"
proof -
  have "tear_down_row job k db = Inl IllegalTransition"
    using assms(2,3) no_teardown_while_reprovisioning
    by (simp add: tear_down_row_def SYSTEMS_update_state_def update_state_def SYSTEMS_get_def)
  then show ?thesis
    by (simp add: pool_connection_def teardown_handler_def assms(1) andthen_def transaction_def execute_def)
qed

text \<open>
  C13. A second reprovisioning to a profile the System was reprovisioned to before leaves it
  stuck: the deduplication key names only the System and the profile, so the tool answers
  with the old job, whatever its state, and queues none, but has already moved the System to
  \<open>reprovisioning\<close>.  Its teardown job then fails on every attempt and destroys nothing.
\<close>

theorem repeated_reprovision_stuck:
  assumes r: "reprovision_system jid dg policy caps v ctx t profile db = Inr (db', ToolJob job k)"
    and ready: "as_uuid t = Some k" "SYSTEMS_get k db = Some system" "sys_state system = SystemState.READY"
    and before: "parse_profile profile = Inr p" "job_by_dedup (reprovision_key k (dg p)) db = Some old"
    and teardown: "system_of_job SystemC tj = Inr k"
  shows "job = old \<and> jobs db' = jobs db \<and>
    map_option sys_state (SYSTEMS_get k db') = Some SystemState.REPROVISIONING \<and>
    pool_connection (teardown_handler env tj) db' = (db', [], Inl IllegalTransition)"
proof -
  have k: "oid system = k" using ready(2) unfolding SYSTEMS_get_def by (rule tbl.get_key)
  have "admit_reprovision jid ctx system p (dg p) db = Inr (db', ToolJob job k)"
    using r by (cases rule: reprovision_system_Inr) (use ready before in auto)
  note a = admit_reprovision_Inr [OF this, unfolded k]
  have js: "jobs db' = jobs db" "job = old" using a(3) before(2) by auto
  have "SYSTEMS_get k db' = SYSTEMS_get k (set_system k (provisioning_profile_update (\<lambda>_. dump_profile p))
             (set_system k (sys_state_update (\<lambda>_. SystemState.REPROVISIONING)) db))"
    by (simp only: SYSTEMS_get_def a(1))
  then have "map_option sys_state (SYSTEMS_get k db') = Some SystemState.REPROVISIONING"
    by (simp add: SYSTEMS_get_set_system ready(2))
  then show ?thesis using js teardown_of_reprovisioning [OF teardown, of db'] by auto
qed

definition resized_profile :: json where
  "resized_profile =
    JObj [(''schema_version'', JInt 1), (''arch'', JStr ''x86_64''), (''boot_method'', JStr ''direct-kernel''),
          (''kernel_source_ref'', JStr ''linux''), (''vcpu'', JInt 64),
          (''provider'', JObj [(''local-libvirt'',
             JObj [(''rootfs'', JObj [(''kind'', JStr ''local''), (''path'', JStr ''/img'')]),
                   (''destructive_ops'', JList [JStr ''reprovision''])])])]"

definition ready_db :: "Job list \<Rightarrow> Db" where
  "ready_db js = demo_db\<lparr>
     allocations := [demo_alloc\<lparr>capability_scope := JObj [(''destructive_ops'', JList [JStr ''reprovision''])]\<rparr>],
     systems := [demo_system\<lparr>sys_state := SystemState.READY\<rparr>], jobs := js\<rparr>"

definition operator_ctx :: RequestContext where
  "operator_ctx = \<lparr>ctx_principal = ''p'', ctx_agent_session = None, ctx_projects = [''proj''],
     ctx_roles = [(''proj'', OPERATOR)], ctx_platform_roles = [], ctx_client_id = None\<rparr>"

definition old_reprovision :: Job where
  "old_reprovision = (new_job 8 0 REPROVISION (model_dump (ReprovisionPayload (uuid_str 5) ''d''))
     \<lparr>auth_principal = ''p'', auth_agent_session = None, auth_project = ''proj''\<rparr> (reprovision_key 5 ''d'') 3)
     \<lparr>job_state := JobState.SUCCEEDED\<rparr>"

definition demo_reprovision :: "Job list \<Rightarrow> exn + (Db \<times> ToolResult)" where
  "demo_reprovision js =
    reprovision_system 12 (\<lambda>_. ''d'') (LocalLibvirtProfilePolicy None) [(''rootfs'', [''local''])] (\<lambda>_. Inr ())
      operator_ctx (uuid_str 5) resized_profile (ready_db js)"

text \<open>The database with other sizes on every allocation.\<close>

definition resized :: "int option \<Rightarrow> int option \<Rightarrow> int option \<Rightarrow> Db \<Rightarrow> Db" where
  "resized v m d db = db\<lparr>allocations :=
     map (\<lambda>a. a\<lparr>requested_vcpus := v, requested_memory_gb := m, requested_disk_gb := d\<rparr>) (allocations db)\<rparr>"

lemma resized_frame [simp]:
  "systems (resized v m d db) = systems db" "jobs (resized v m d db) = jobs db" "runs (resized v m d db) = runs db"
  "db_clock (resized v m d db) = db_clock db" "audit_log (resized v m d db) = audit_log db"
  "(resized v m d db)\<lparr>systems := ss\<rparr> = resized v m d (db\<lparr>systems := ss\<rparr>)"
  "(resized v m d db)\<lparr>jobs := js\<rparr> = resized v m d (db\<lparr>jobs := js\<rparr>)"
  "(resized v m d db)\<lparr>audit_log := l\<rparr> = resized v m d (db\<lparr>audit_log := l\<rparr>)"
  by (simp_all add: resized_def)

lemma resized_reads [simp]:
  "SYSTEMS_get k (resized v m d db) = SYSTEMS_get k db" "has_live_run k (resized v m d db) = has_live_run k db"
  "job_by_dedup key (resized v m d db) = job_by_dedup key db"
  by (simp_all add: SYSTEMS_get_def has_live_run_def job_by_dedup_def)

lemma tbl_get_map: "(\<And>r. key (f r) = key r) \<Longrightarrow> tbl_get key k (map f t) = map_option f (tbl_get key k t)"
  by (induction t) (auto simp: tbl_get_def)

lemma ALLOCATIONS_get_resized:
  "ALLOCATIONS_get k (resized v m d db) =
    map_option (\<lambda>a. a\<lparr>requested_vcpus := v, requested_memory_gb := m, requested_disk_gb := d\<rparr>) (ALLOCATIONS_get k db)"
  by (simp add: ALLOCATIONS_get_def resized_def tbl_get_map)

lemma gate_resized:
  "assert_destructive_allowed ctx (a\<lparr>requested_vcpus := v, requested_memory_gb := m, requested_disk_gb := d\<rparr>) op role =
    assert_destructive_allowed ctx a op role"
  by (simp add: assert_destructive_allowed_def missing_checks_def scope_permits_def)

abbreviation resized_result :: "int option \<Rightarrow> int option \<Rightarrow> int option \<Rightarrow> exn + (Db \<times> 'a) \<Rightarrow> exn + (Db \<times> 'a)" where
  "resized_result v m d \<equiv> map_sum id (apfst (resized v m d))"

lemma SYSTEMS_update_state_resized:
  "SYSTEMS_update_state k st (resized v m d db) = resized_result v m d (SYSTEMS_update_state k st db)"
  unfolding SYSTEMS_update_state_def resized_frame
  by (cases "update_state oid sys_state SystemSt (\<lambda>s. touch (db_clock db) (sys_state_update (\<lambda>_. s))) (\<lambda>_. True) k st (systems db)")
    auto

lemma audit_record_resized:
  "audit_record ctx ev (resized v m d db) = map_sum id (resized v m d) (audit_record ctx ev db)"
  by (simp add: audit_record_def guard_def)

lemma queue_enqueue_resized:
  "queue_enqueue jid kind p auth key n (resized v m d db) = resized_result v m d (queue_enqueue jid kind p auth key n db)"
  by (cases "dump_payload kind p") (auto simp: queue_enqueue_def guard_def Let_def tbl_insert_def split: option.splits)

lemma admit_reprovision_resized:
  "admit_reprovision jid ctx system p digest (resized v m d db) =
    resized_result v m d (admit_reprovision jid ctx system p digest db)"
proof (cases "SYSTEMS_update_state (oid system) SystemState.REPROVISIONING db")
  case (Inr x)
  let ?db = "fst x\<lparr>systems := tbl_update oid (oid system)
               (touch (db_clock (fst x)) (provisioning_profile_update (\<lambda>_. dump_profile p))) (systems (fst x))\<rparr>"
  show ?thesis
  proof (cases "audit_record ctx (system_event ''systems.reprovision'' (oid system) ''ready->reprovisioning'' (project system)) ?db")
    case (Inr db2)
    then show ?thesis
      by (cases "queue_enqueue jid REPROVISION (ReprovisionPayload (uuid_str (oid system)) digest)
            (job_authorizing ctx (project system)) (reprovision_key (oid system) digest) DEFAULT_MAX_ATTEMPTS db2"; cases x)
        (use \<open>SYSTEMS_update_state _ _ _ = Inr x\<close> in \<open>auto simp: admit_reprovision_def SYSTEMS_update_state_resized
            audit_record_resized queue_enqueue_resized Let_def\<close>)
  qed (use Inr in \<open>cases x; simp add: admit_reprovision_def SYSTEMS_update_state_resized audit_record_resized Let_def\<close>)
qed (simp add: admit_reprovision_def SYSTEMS_update_state_resized)

lemma reprovision_ungated_resized:
  "reprovision_ungated jid ctx system p digest policy w (resized v m d db) =
    resized_result v m d (reprovision_ungated jid ctx system p digest policy w db)"
  by (cases "validate_rootfs_for_provider p policy w")
    (auto simp: reprovision_ungated_def admit_reprovision_resized split: option.splits exn.splits)

lemma gated_resized:
  "gated tool ctx system (a\<lparr>requested_vcpus := v, requested_memory_gb := m, requested_disk_gb := d\<rparr>) kind opt role
      (resized v m d db) (resized_result v m d r) =
    resized_result v m d (gated tool ctx system a kind opt role db r)"
  by (auto simp: gated_def gate_resized audit_destructive_denied_def audit_record_def guard_def
      split: sum.splits exn.splits)

lemma reprovision_locked_resized:
  "reprovision_locked jid dg ctx k p policy w (resized v m d db) =
    resized_result v m d (reprovision_locked jid dg ctx k p policy w db)"
  by (cases "destructive_opt_in policy p ''reprovision''")
    (auto simp: reprovision_locked_def in_projects_def ALLOCATIONS_get_resized reprovision_ungated_resized gated_resized
      split: option.splits)

lemma reprovision_resized:
  "reprovision_system jid dg policy caps w ctx t profile (resized v m d db) =
    resized_result v m d (reprovision_system jid dg policy caps w ctx t profile db)"
proof (cases "as_uuid t")
  case (Some k)
  let ?checks = "rbind (parse_profile profile) (\<lambda>p. rbind (validate_profile_for_provider p policy caps) (\<lambda>_.
            rbind (reject_rootfs_upload_without_window policy p) (\<lambda>_. Inr p)))"
  show ?thesis
  proof (cases ?checks)
    case (Inl e)
    then show ?thesis by (cases e) (simp_all add: reprovision_system_def Some)
  next
    case (Inr p)
    then show ?thesis
      by (cases "reprovision_locked jid dg ctx k p policy w db")
        (auto simp: reprovision_system_def Some reprovision_locked_resized split: exn.splits)
  qed
qed (simp add: reprovision_system_def)

text \<open>
  C36. Reprovisioning does not look at sizes.  Its outcome is the same whatever sizes
  the allocations have, and when a ready System is admitted, the submitted profile is stored with
  the sizes it states, or without any: \<open>systems.provision\<close> would refuse both a size that differs
  from the allocation's and a missing one.
\<close>

theorem reprovision_sizes_unchecked:
  "reprovision_system jid dg policy caps w ctx t profile (resized v m d db) =
     map_sum id (apfst (resized v m d)) (reprovision_system jid dg policy caps w ctx t profile db) \<and>
   (reprovision_system jid dg policy caps w ctx t profile db = Inr (db', ToolJob job k) \<and>
    as_uuid t = Some k \<and> map_option sys_state (SYSTEMS_get k db) = Some SystemState.READY \<and> parse_profile profile = Inr p \<longrightarrow>
      map_option (parse_profile \<circ> provisioning_profile) (SYSTEMS_get k db') = Some (Inr p) \<and>
      allocations db' = allocations db)"
proof (intro conjI impI)
  assume a: "reprovision_system jid dg policy caps w ctx t profile db = Inr (db', ToolJob job k) \<and>
    as_uuid t = Some k \<and> map_option sys_state (SYSTEMS_get k db) = Some SystemState.READY \<and> parse_profile profile = Inr p"
  then obtain system where s: "SYSTEMS_get k db = Some system" "sys_state system = SystemState.READY" by auto
  have k: "oid system = k" using s(1) unfolding SYSTEMS_get_def by (rule tbl.get_key)
  have "reprovision_system jid dg policy caps w ctx t profile db = Inr (db', ToolJob job k)" using a by simp
  then have "admit_reprovision jid ctx system p (dg p) db = Inr (db', ToolJob job k)"
    by (cases rule: reprovision_system_Inr) (use a s in auto)
  note e = admit_reprovision_Inr [OF this, unfolded k]
  have "parse_profile (dump_profile p) = Inr p" using a profile_roundtrip parse_profile_ok by blast
  moreover have "SYSTEMS_get k db' = SYSTEMS_get k (set_system k (provisioning_profile_update (\<lambda>_. dump_profile p))
             (set_system k (sys_state_update (\<lambda>_. SystemState.REPROVISIONING)) db))"
    by (simp only: SYSTEMS_get_def e(1))
  ultimately show "map_option (parse_profile \<circ> provisioning_profile) (SYSTEMS_get k db') = Some (Inr p)"
    by (simp add: SYSTEMS_get_set_system s(1))
  show "allocations db' = allocations db" by (rule e(2))
qed (rule reprovision_resized)

lemma demo_reprovision_job: "\<exists>db' job. demo_reprovision [] = Inr (db', ToolJob job 5)"
proof -
  have "(case demo_reprovision [] of Inr (db', ToolJob job k) \<Rightarrow> k = 5 | _ \<Rightarrow> False)" by code_simp
  then show ?thesis by (auto split: sum.splits prod.splits ToolResult.splits)
qed

theorem reprovision_sizes_unchecked_witness:
  "snapshot_of (hd (allocations (ready_db []))) = Some (4, 2048, 10) \<and>
   (\<exists>db' job p. demo_reprovision [] = Inr (db', ToolJob job 5) \<and> pf_vcpu p = Some 64 \<and> pf_memory_mb p = None \<and>
      pf_disk_gb p = None \<and> map_option (parse_profile \<circ> provisioning_profile) (SYSTEMS_get 5 db') = Some (Inr p) \<and>
      allocations db' = allocations (ready_db []))"
proof
  show "snapshot_of (hd (allocations (ready_db []))) = Some (4, 2048, 10)" by code_simp
  obtain db' job where r: "demo_reprovision [] = Inr (db', ToolJob job 5)" using demo_reprovision_job by blast
  have "(case parse_profile resized_profile of
      Inr p \<Rightarrow> pf_vcpu p = Some 64 \<and> pf_memory_mb p = None \<and> pf_disk_gb p = None | Inl _ \<Rightarrow> False)" by code_simp
  then obtain p where p: "parse_profile resized_profile = Inr p" "pf_vcpu p = Some 64" "pf_memory_mb p = None" "pf_disk_gb p = None"
    by (auto split: sum.splits)
  have u: "as_uuid (uuid_str 5) = Some 5" by code_simp
  have s: "map_option sys_state (SYSTEMS_get 5 (ready_db [])) = Some SystemState.READY"
    by (simp add: ready_db_def SYSTEMS_get_def tbl_get_def demo_system_def)
  from reprovision_sizes_unchecked [THEN conjunct2, THEN mp, OF conjI [OF r [unfolded demo_reprovision_def] conjI [OF u conjI [OF s p(1)]]]]
  show "\<exists>db' job p. demo_reprovision [] = Inr (db', ToolJob job 5) \<and> pf_vcpu p = Some 64 \<and> pf_memory_mb p = None \<and>
      pf_disk_gb p = None \<and> map_option (parse_profile \<circ> provisioning_profile) (SYSTEMS_get 5 db') = Some (Inr p) \<and>
      allocations db' = allocations (ready_db [])"
    using r p(2-4) by blast
qed

theorem repeated_reprovision_stuck_witness:
  "\<exists>db'. demo_reprovision [old_reprovision] = Inr (db', ToolJob old_reprovision 5) \<and>
    job_state old_reprovision = JobState.SUCCEEDED \<and> jobs db' = [old_reprovision] \<and>
    map_option sys_state (SYSTEMS_get 5 db') = Some SystemState.REPROVISIONING \<and>
    pool_connection (teardown_handler (demo_env (Inr []) (\<lambda>_ db. db)) (demo_job\<lparr>job_kind := TEARDOWN\<rparr>)) db' =
      (db', [], Inl IllegalTransition)"
proof -
  have "(case demo_reprovision [old_reprovision] of Inr (db', ToolJob job k) \<Rightarrow> k = 5 | _ \<Rightarrow> False)" by code_simp
  then obtain db' job where r: "demo_reprovision [old_reprovision] = Inr (db', ToolJob job 5)"
    by (auto split: sum.splits prod.splits ToolResult.splits)
  have u: "as_uuid (uuid_str 5) = Some 5" by code_simp
  have s: "SYSTEMS_get 5 (ready_db [old_reprovision]) = Some (demo_system\<lparr>sys_state := SystemState.READY\<rparr>)"
    by (simp add: ready_db_def SYSTEMS_get_def tbl_get_def demo_system_def)
  have p: "\<exists>p. parse_profile resized_profile = Inr p"
  proof -
    have "(case parse_profile resized_profile of Inr p \<Rightarrow> True | Inl _ \<Rightarrow> False)" by code_simp
    then show ?thesis by (auto split: sum.splits)
  qed
  then obtain p where p: "parse_profile resized_profile = Inr p" ..
  have d: "job_by_dedup (reprovision_key 5 ''d'') (ready_db [old_reprovision]) = Some old_reprovision"
    by (simp add: job_by_dedup_def ready_db_def tbl_get_def old_reprovision_def new_job_def)
  have t: "system_of_job SystemC (demo_job\<lparr>job_kind := TEARDOWN\<rparr>) = Inr 5" by code_simp
  have j: "jobs (ready_db [old_reprovision]) = [old_reprovision]" by (simp add: ready_db_def)
  show ?thesis
    using repeated_reprovision_stuck [OF r [unfolded demo_reprovision_def] u s _ p d t,
        of "demo_env (Inr []) (\<lambda>_ db. db)"] r j
    by (auto simp: old_reprovision_def)
qed


section \<open>The gate of the destructive tools\<close>

text \<open>
  What a caller needs for a destructive operation on a System: a System and an allocation
  of the caller's projects, the operation in the allocation's scope, the role on its
  project, and the opt-in.
\<close>

definition may_destroy :: "RequestContext \<Rightarrow> uuid \<Rightarrow> JobKind \<Rightarrow> Role \<Rightarrow> (System \<Rightarrow> exn + bool) \<Rightarrow> Db \<Rightarrow> bool" where
  "may_destroy ctx k kind role opt_in db =
    (case SYSTEMS_get k db of None \<Rightarrow> False | Some system \<Rightarrow>
     (case ALLOCATIONS_get (allocation_id system) db of None \<Rightarrow> False | Some alloc \<Rightarrow>
        project system \<in> set (ctx_projects ctx) \<and> project alloc \<in> set (ctx_projects ctx) \<and>
        scope_permits alloc \<lparr>op_kind = kind, profile_opt_in = True\<rparr> \<and>
        (\<exists>held. map_of (ctx_roles ctx) (project alloc) = Some held \<and> role \<le> held) \<and>
        opt_in system = Inr True))"

text \<open>A refusal: nothing happens, or a denial is recorded and nothing else happens.\<close>

definition refused :: "RequestContext \<Rightarrow> JobKind \<Rightarrow> Db \<Rightarrow> Db \<Rightarrow> ToolResult \<Rightarrow> bool" where
  "refused ctx kind db db' r \<longleftrightarrow> (\<exists>c st. r = ToolFailure c st) \<and>
    (db' = db \<or> r = ToolFailure AUTHORIZATION_DENIED None \<and>
      (\<exists>row. db' = db\<lparr>audit_log := audit_log db @ [row]\<rparr> \<and> au_principal row = ctx_principal ctx \<and>
         au_transition row = JobKind_value kind @ '':denied''))"

lemma refused_failure: "tool_failure c st db = Inr (db', r) \<Longrightarrow> refused ctx kind db db' r"
  by (auto simp: refused_def)

lemma gated_cases:
  assumes "gated tool ctx system alloc kind opt_in role db continue = Inr (db', r)"
  obtains (open_gate) "scope_permits alloc \<lparr>op_kind = kind, profile_opt_in = True\<rparr>"
      "require_role ctx (project alloc) role = Inr ()" "opt_in" "continue = Inr (db', r)"
    | (denied) "refused ctx kind db db' r"
proof (cases "assert_destructive_allowed ctx alloc \<lparr>op_kind = kind, profile_opt_in = opt_in\<rparr> role = Inr ()")
  case True
  then have "scope_permits alloc \<lparr>op_kind = kind, profile_opt_in = True\<rparr>"
    "require_role ctx (project alloc) role = Inr ()" "opt_in"
    by (auto simp: destructive_gate_open)
  then show ?thesis using assms True by (intro open_gate) (simp_all add: gated_def)
next
  case False
  then obtain missing where "assert_destructive_allowed ctx alloc \<lparr>op_kind = kind, profile_opt_in = opt_in\<rparr> role =
      Inl (DestructiveOpDenied missing)" using destructive_gate_closed by blast
  then have "audit_destructive_denied tool ctx system kind db = Inr db'" and r: "r = ToolFailure AUTHORIZATION_DENIED None"
    using assms by (auto simp: gated_def)
  then obtain row where "au_principal row = ctx_principal ctx" "au_transition row = JobKind_value kind @ '':denied''"
      "db' = db\<lparr>audit_log := audit_log db @ [row]\<rparr>"
    unfolding audit_destructive_denied_def by (elim audit_record_Inr) (auto simp: system_event_def)
  then have "refused ctx kind db db' r" using r unfolding refused_def by blast
  then show ?thesis by (rule denied)
qed

lemma in_projects_cases:
  assumes "in_projects ctx k db continue = Inr (db', r)"
  obtains (absent) "tool_failure CONFIGURATION_ERROR None db = Inr (db', r)"
    | (present) system alloc where "SYSTEMS_get k db = Some system" "ALLOCATIONS_get (allocation_id system) db = Some alloc"
      "project system \<in> set (ctx_projects ctx)" "project alloc \<in> set (ctx_projects ctx)" "continue system alloc = Inr (db', r)"
  using assms unfolding in_projects_def by (auto split: option.splits if_splits)

lemma may_destroyI:
  assumes "SYSTEMS_get k db = Some system" "ALLOCATIONS_get (allocation_id system) db = Some alloc"
    "project system \<in> set (ctx_projects ctx)" "project alloc \<in> set (ctx_projects ctx)"
    "scope_permits alloc \<lparr>op_kind = kind, profile_opt_in = True\<rparr>"
    "require_role ctx (project alloc) role = Inr ()" "opt_in system = Inr True"
  shows "may_destroy ctx k kind role opt_in db"
  using assms by (auto simp: may_destroy_def require_role_exact split: if_splits)

lemma teardown_gated:
  assumes "teardown_system jid rs ctx t db = Inr (db', r)"
  shows "refused ctx TEARDOWN db db' r \<or>
    (\<exists>k. as_uuid t = Some k \<and> may_destroy ctx k TEARDOWN Role.ADMIN (\<lambda>s. op_opt_in rs s TEARDOWN db) db)"
proof (cases "as_uuid t")
  case None
  then show ?thesis using assms by (auto simp: teardown_system_def intro: refused_failure)
next
  case (Some k)
  note t = assms [unfolded teardown_system_def Some option.case]
  from t show ?thesis
  proof (cases rule: in_projects_cases)
    case absent
    then show ?thesis by (intro disjI1 refused_failure)
  next
    case (present system alloc)
    have k: "oid system = k" using present(1) unfolding SYSTEMS_get_def by (rule tbl.get_key)
    consider c where "tool_failure c None db = Inr (db', r)"
      | p runtime opt_in cont where "parse_profile (provisioning_profile system) = Inr p"
        "runtime_for_system rs k db = Inr runtime"
        "destructive_opt_in (profile_policy runtime) p ''teardown'' = Inr opt_in"
        "gated ''systems.teardown'' ctx system alloc TEARDOWN opt_in Role.ADMIN db cont = Inr (db', r)"
      using present(5) unfolding on_categorized_Inr rbind_Inr_iff by blast
    then show ?thesis
    proof cases
      case 1
      then show ?thesis by (intro disjI1 refused_failure)
    next
      case 2
      have "op_opt_in rs system TEARDOWN db = Inr opt_in" using 2(1-3) by (simp add: op_opt_in_def k)
      with 2(4) show ?thesis
        by (cases rule: gated_cases) (use present(1-4) Some in \<open>auto intro: may_destroyI\<close>)
    qed
  qed
qed

lemma system_in_projects_cases:
  assumes "system_in_projects ctx u db continue = Inr (db', r)"
  obtains (absent) "tool_failure CONFIGURATION_ERROR None db = Inr (db', r)"
    | (present) k system where "u = Some k" "SYSTEMS_get k db = Some system" "project system \<in> set (ctx_projects ctx)"
      "continue system = Inr (db', r)"
  using assms unfolding system_in_projects_def by (cases u) (auto split: option.splits if_splits)

lemma authorize_gated:
  assumes "authorize_destructive rs tool ctx system kind db continue = Inr (db', r)"
    and "SYSTEMS_get k db = Some system" "project system \<in> set (ctx_projects ctx)"
  shows "refused ctx kind db db' r \<or> may_destroy ctx k kind Role.ADMIN (\<lambda>s. op_opt_in rs s kind db) db"
proof -
  consider "tool_failure CONFIGURATION_ERROR None db = Inr (db', r)"
    | alloc opt_in where "ALLOCATIONS_get (allocation_id system) db = Some alloc" "project alloc \<in> set (ctx_projects ctx)"
      "op_opt_in rs system kind db = Inr opt_in"
      "gated tool ctx system alloc kind opt_in Role.ADMIN db continue = Inr (db', r)"
    using assms(1) unfolding authorize_destructive_def by (auto split: option.splits if_splits)
  then show ?thesis
  proof cases
    case 1
    then show ?thesis by (intro disjI1 refused_failure)
  next
    case 2
    from 2(4) show ?thesis by (cases rule: gated_cases) (use 2(1-3) assms(2,3) in \<open>auto intro: may_destroyI\<close>)
  qed
qed

lemma force_crash_gated:
  assumes "force_crash_system jid rs ctx t db = Inr (db', r)"
  shows "refused ctx FORCE_CRASH db db' r \<or>
    (\<exists>k. as_uuid t = Some k \<and> may_destroy ctx k FORCE_CRASH Role.ADMIN (\<lambda>s. op_opt_in rs s FORCE_CRASH db) db)"
  using assms [unfolded force_crash_system_def]
proof (cases rule: system_in_projects_cases)
  case absent
  then show ?thesis by (intro disjI1 refused_failure)
next
  case (present k system)
  then show ?thesis using authorize_gated [OF present(4,2,3)] by blast
qed

lemma power_gated:
  assumes "power_system jid nonce rs ctx t act db = Inr (db', r)" "act \<noteq> ''on''"
  shows "refused ctx POWER db db' r \<or>
    (\<exists>k. as_uuid t = Some k \<and> may_destroy ctx k POWER Role.ADMIN (\<lambda>s. op_opt_in rs s POWER db) db)"
proof (cases "find (\<lambda>a. PowerAction_value a = act) [PowerOn, PowerOff, PowerCycle, PowerReset]")
  case None
  then show ?thesis using assms(1) by (auto simp: power_system_def intro: refused_failure)
next
  case (Some action)
  then have d: "action \<in> set DESTRUCTIVE_POWER_ACTIONS"
    using assms(2) by (cases action) (auto simp: DESTRUCTIVE_POWER_ACTIONS_def split: if_splits)
  note p = assms(1) [unfolded power_system_def Some option.case]
  from p show ?thesis
  proof (cases rule: system_in_projects_cases)
    case absent
    then show ?thesis by (intro disjI1 refused_failure)
  next
    case (present k system)
    then show ?thesis
      using authorize_gated [OF present(4) [unfolded power_admitted_def Let_def if_P [OF d]] present(2,3)] by blast
  qed
qed

lemma reprovision_gated:
  assumes "reprovision_system jid dg policy caps v ctx t profile db = Inr (db', r)"
  shows "refused ctx REPROVISION db db' r \<or>
    (\<exists>k. as_uuid t = Some k \<and> may_destroy ctx k REPROVISION Role.OPERATOR
       (\<lambda>_. rbind (parse_profile profile) (\<lambda>p. destructive_opt_in policy p ''reprovision'')) db)"
proof (cases "as_uuid t")
  case None
  then show ?thesis using assms by (auto simp: reprovision_system_def intro: refused_failure)
next
  case (Some k)
  have locked: "refused ctx REPROVISION db db' r \<or> may_destroy ctx k REPROVISION Role.OPERATOR
       (\<lambda>_. rbind (parse_profile profile) (\<lambda>p. destructive_opt_in policy p ''reprovision'')) db"
    if "reprovision_locked jid dg ctx k p policy v db = Inr (db', r)" "parse_profile profile = Inr p" for p
    using that(1) [unfolded reprovision_locked_def]
  proof (cases rule: in_projects_cases)
    case absent
    then show ?thesis by (intro disjI1 refused_failure)
  next
    case (present system alloc)
    then obtain opt_in where o: "destructive_opt_in policy p ''reprovision'' = Inr opt_in"
      "gated ''systems.reprovision'' ctx system alloc REPROVISION opt_in Role.OPERATOR db
        (reprovision_ungated jid ctx system p (dg p) policy v db) = Inr (db', r)" unfolding rbind_Inr_iff by blast
    from o(2) show ?thesis
      by (cases rule: gated_cases) (use present(1-4) o(1) that(2) in \<open>auto intro!: may_destroyI\<close>)
  qed
  consider c where "tool_failure c None db = Inr (db', r)"
    | p where "parse_profile profile = Inr p"
      "(case reprovision_locked jid dg ctx k p policy v db of
          Inl IllegalTransition \<Rightarrow> tool_failure CONFIGURATION_ERROR (map_option sys_state (SYSTEMS_get k db)) db
        | r \<Rightarrow> r) = Inr (db', r)"
    using assms unfolding reprovision_system_def
    by (simp only: Some option.case on_categorized_Inr rbind_Inr_iff sum.inject) blast
  then show ?thesis
  proof cases
    case 1
    then show ?thesis by (intro disjI1 refused_failure)
  next
    case 2
    show ?thesis
    proof (cases "reprovision_locked jid dg ctx k p policy v db")
      case (Inl e)
      then show ?thesis using 2(2) by (cases e) (auto intro: refused_failure)
    next
      case (Inr x)
      then show ?thesis using 2 locked Some by simp
    qed
  qed
qed

text \<open>
  C8. The destructive tools are gated: whatever a caller, a request and the
  database look like, a teardown, a forced crash, a destructive power action or a reprovisioning
  that does anything, or queues or returns a job, was asked for by a caller who holds the role on the
  allocation's project (administrator, for reprovisioning operator), on a System and an
  allocation of the caller's projects, whose scope lists the operation and whose
  profile (for reprovisioning the submitted one) opts in; otherwise the answer is a failure and
  at most a denial is recorded.
\<close>

theorem destructive_tools_gated:
  "(teardown_system jid rs ctx t db = Inr (db', r) \<longrightarrow> refused ctx TEARDOWN db db' r \<or>
     (\<exists>k. as_uuid t = Some k \<and> may_destroy ctx k TEARDOWN Role.ADMIN (\<lambda>s. op_opt_in rs s TEARDOWN db) db)) \<and>
   (force_crash_system jid rs ctx t db = Inr (db', r) \<longrightarrow> refused ctx FORCE_CRASH db db' r \<or>
     (\<exists>k. as_uuid t = Some k \<and> may_destroy ctx k FORCE_CRASH Role.ADMIN (\<lambda>s. op_opt_in rs s FORCE_CRASH db) db)) \<and>
   (power_system jid nonce rs ctx t act db = Inr (db', r) \<and> act \<noteq> ''on'' \<longrightarrow> refused ctx POWER db db' r \<or>
     (\<exists>k. as_uuid t = Some k \<and> may_destroy ctx k POWER Role.ADMIN (\<lambda>s. op_opt_in rs s POWER db) db)) \<and>
   (reprovision_system jid dg policy caps v ctx t profile db = Inr (db', r) \<longrightarrow> refused ctx REPROVISION db db' r \<or>
     (\<exists>k. as_uuid t = Some k \<and> may_destroy ctx k REPROVISION Role.OPERATOR
        (\<lambda>_. rbind (parse_profile profile) (\<lambda>p. destructive_opt_in policy p ''reprovision'')) db))"
  by (intro conjI impI; (elim conjE)?) (rule teardown_gated force_crash_gated power_gated reprovision_gated; assumption)+

theorem destructive_tools_gated_witness:
  "\<exists>db' job. demo_reprovision [] = Inr (db', ToolJob job 5) \<and>
    may_destroy operator_ctx 5 REPROVISION Role.OPERATOR
      (\<lambda>_. rbind (parse_profile resized_profile) (\<lambda>p. destructive_opt_in (LocalLibvirtProfilePolicy None) p ''reprovision''))
      (ready_db [])"
proof -
  obtain db' job where r: "demo_reprovision [] = Inr (db', ToolJob job 5)" using demo_reprovision_job by blast
  have u: "as_uuid (uuid_str 5) = Some 5" by code_simp
  have "\<not> refused operator_ctx REPROVISION (ready_db []) db' (ToolJob job 5)" by (simp add: refused_def)
  then show ?thesis
    using destructive_tools_gated [THEN conjunct2, THEN conjunct2, THEN conjunct2, THEN mp,
        OF r [unfolded demo_reprovision_def]] r u by auto
qed

end
