(* ===== verification/Systems_Machine.thy ===== *)
theory Systems_Machine
  imports Systems_Facts
begin

text \<open>
  Admission of Systems, and the System plane as a state machine: tools, job handlers with
  everything other sessions do while a provider works, and the repair pass.
\<close>

section \<open>Admission\<close>

lemma find_system_None: "find_system_for_allocation k db = None \<longleftrightarrow> k \<notin> allocation_id ` set (systems db)"
proof -
  have "find_system_for_allocation k db = None \<longleftrightarrow>
      sort_key created_at (sort_key oid (filter (\<lambda>s. allocation_id s = k) (systems db))) = []"
    by (simp add: find_system_for_allocation_def split: list.splits)
  also have "\<dots> \<longleftrightarrow> filter (\<lambda>s. allocation_id s = k) (systems db) = []"
    by (metis length_0_conv length_sort)
  finally show ?thesis by (auto simp: filter_empty_conv)
qed

lemma insert_system_and_activate_Inr:
  assumes "insert_system_and_activate sid ctx alloc p st tool tr db = Inr (db', system)"
  shows "system = server_generated (db_clock db) (new_system sid ctx alloc p st)"
    "systems db' = systems db @ [system]" "sid \<notin> oid ` set (systems db)"
    "\<exists>row. ALLOCATIONS_get (oid alloc) db = Some row"
    "allocations db' = tbl_update oid (oid alloc)
       (touch (db_clock db) (al_state_update (\<lambda>_. AllocationState.ACTIVE))) (allocations db)"
    "jobs db' = jobs db" "quotas db' = quotas db" "ledger db' = ledger db" "budgets db' = budgets db"
proof -
  obtain db1 db2 db3 row where
    1: "SYSTEMS_insert (new_system sid ctx alloc p st) db = Inr (db1, system)"
    and 2: "audit_record ctx (system_event tool (oid system) tr (project alloc)) db1 = Inr db2"
    and 3: "ALLOCATIONS_update_state (oid alloc) AllocationState.ACTIVE db2 = Inr (db3, row)"
    and 4: "audit_record ctx \<lparr>ev_tool = tool, ev_object_kind = ''allocations'', ev_object_id = oid alloc,
             ev_transition = ''granted->active'', ev_project = project alloc\<rparr> db3 = Inr db'"
    using assms unfolding insert_system_and_activate_def by auto
  obtain l2 where l2: "db2 = db1\<lparr>audit_log := l2\<rparr>" using 2 by (rule audit_record_Inr)
  obtain l4 where l4: "db' = db3\<lparr>audit_log := l4\<rparr>" using 4 by (rule audit_record_Inr)
  have s: "system = server_generated (db_clock db) (new_system sid ctx alloc p st)"
    "db1 = db\<lparr>systems := systems db @ [system]\<rparr>" "sid \<notin> oid ` set (systems db)"
    using 1 by (auto simp: SYSTEMS_insert_def Let_def tbl_insert_def new_system_def split: if_splits)
  note a = 3 [unfolded ALLOCATIONS_update_state_Inr]
  show "system = server_generated (db_clock db) (new_system sid ctx alloc p st)" "systems db' = systems db @ [system]"
    "sid \<notin> oid ` set (systems db)" "\<exists>row. ALLOCATIONS_get (oid alloc) db = Some row"
    "allocations db' = tbl_update oid (oid alloc)
       (touch (db_clock db) (al_state_update (\<lambda>_. AllocationState.ACTIVE))) (allocations db)"
    "jobs db' = jobs db" "quotas db' = quotas db" "ledger db' = ledger db" "budgets db' = budgets db"
    using a s by (auto simp: l2 l4 ALLOCATIONS_get_def)
qed

lemma enqueue_provision_Inr:
  assumes "enqueue_provision_job jid ctx p aid sid db = Inr (db', r)"
  shows "systems db' = systems db" "allocations db' = allocations db" "ledger db' = ledger db" "budgets db' = budgets db"
    "\<exists>job. r = ProvisionJobAdmitted job sid \<and> job \<in> set (jobs db')"
proof -
  obtain job where q: "queue_enqueue jid PROVISION (SystemPayload (uuid_str sid)) (job_authorizing ctx p)
      (provision_key aid) DEFAULT_MAX_ATTEMPTS db = Inr (db', job)" and r: "r = ProvisionJobAdmitted job sid"
    using assms unfolding enqueue_provision_job_def by auto
  show "systems db' = systems db" "allocations db' = allocations db" using queue_enqueue_Inr [OF q] by simp_all
  show "ledger db' = ledger db" "budgets db' = budgets db"
    using q by (auto simp: queue_enqueue_def Let_def tbl_insert_def split: option.splits if_splits)
  have "job \<in> set (jobs db')"
    using queue_enqueue_Inr(3) [OF q] tbl.get_mem [of dedup_key "provision_key aid" "jobs db" job]
    by (auto simp: job_by_dedup_def split: option.splits)
  then show "\<exists>job. r = ProvisionJobAdmitted job sid \<and> job \<in> set (jobs db')" using r by blast
qed

lemma new_system_allowed_None:
  "new_system_allowed alloc p policy v db = Inr None \<longleftrightarrow>
    al_state alloc = AllocationState.GRANTED \<and> within_system_quota (project alloc) db \<and>
    validate_rootfs_for_provider p policy v = Inr ()"
  by (auto simp: new_system_allowed_def on_categorized_Inr)

text \<open>The three ways an admission can end.\<close>

definition created_by ::
  "uuid \<Rightarrow> uuid \<Rightarrow> ProfilePolicy \<Rightarrow> (RootfsSource \<Rightarrow> exn + unit) \<Rightarrow> RequestContext \<Rightarrow> Allocation \<Rightarrow> ProvisioningProfile \<Rightarrow>
   Db \<Rightarrow> Db \<Rightarrow> AdmissionResult \<Rightarrow> bool" where
  "created_by sid jid policy v ctx alloc p db db' r \<longleftrightarrow>
    new_system_allowed alloc p policy v db = Inr None \<and>
    (\<exists>st tool tr db1 system. insert_system_and_activate sid ctx alloc p st tool tr db = Inr (db1, system) \<and>
      (st = SystemState.DEFINED \<and> db' = db1 \<and> r = DefinedSystemAdmitted system \<or>
       st = SystemState.PROVISIONING \<and>
       enqueue_provision_job jid ctx (project alloc) (oid alloc) (oid system) db1 = Inr (db', r)))"

lemma insert_systems_Inr:
  "insert_defined_system sid ctx alloc p policy v db = Inr (db', r) \<Longrightarrow>
    db' = db \<and> (\<exists>j c s. r = AdmissionFailure j c s) \<or> created_by sid jid policy v ctx alloc p db db' r"
  "insert_provisioning_system sid jid ctx alloc p policy v db = Inr (db', r) \<Longrightarrow>
    db' = db \<and> (\<exists>j c s. r = AdmissionFailure j c s) \<or> created_by sid jid policy v ctx alloc p db db' r"
proof -
  have blocked: "\<exists>j c s. x = AdmissionFailure j c s" if "new_system_allowed alloc p policy v db = Inr (Some x)" for x
    using that by (auto simp: new_system_allowed_def on_categorized_Inr split: if_splits)
  show "insert_defined_system sid ctx alloc p policy v db = Inr (db', r) \<Longrightarrow>
    db' = db \<and> (\<exists>j c s. r = AdmissionFailure j c s) \<or> created_by sid jid policy v ctx alloc p db db' r"
    using blocked unfolding insert_defined_system_def created_by_def by (fastforce split: option.splits)
  show "insert_provisioning_system sid jid ctx alloc p policy v db = Inr (db', r) \<Longrightarrow>
    db' = db \<and> (\<exists>j c s. r = AdmissionFailure j c s) \<or> created_by sid jid policy v ctx alloc p db db' r"
    using blocked unfolding insert_provisioning_system_def created_by_def
    by (fastforce simp: on_categorized_Inr split: option.splits)
qed

lemma create_response_Inr:
  assumes "(case mode of
      ProvisionMode \<Rightarrow> provision_create_response sid jid ctx alloc existing p policy v db
    | DefineMode \<Rightarrow> define_create_response sid ctx alloc existing p policy v db) = Inr (db', r)"
  shows "db' = db \<and> (\<forall>job s. r \<noteq> ProvisionJobAdmitted job s) \<or>
    (\<exists>s. existing = Some s \<and> enqueue_provision_job jid ctx (project alloc) (oid alloc) (oid s) db = Inr (db', r)) \<or>
    existing = None \<and> created_by sid jid policy v ctx alloc p db db' r"
proof (cases existing)
  case None
  then show ?thesis
    using assms insert_systems_Inr(1) [of sid ctx alloc p policy v db db' r jid] insert_systems_Inr(2) [of sid jid ctx alloc p policy v db db' r]
    by (auto simp: provision_create_response_def define_create_response_def split: CreateSystemMode.splits)
next
  case (Some s)
  then show ?thesis
    using assms by (auto simp: provision_create_response_def define_create_response_def
        split: CreateSystemMode.splits if_splits)
qed

lemma create_for_allocation_Inr:
  assumes "create_for_allocation sid jid policy caps v ctx k profile mode probe db = Inr (db', r)"
  obtains (same) "db' = db" "\<And>job s. r \<noteq> ProvisionJobAdmitted job s"
    | (requeued) p aid s where "enqueue_provision_job jid ctx p aid s db = Inr (db', r)"
    | (created) alloc p where "ALLOCATIONS_get k db = Some alloc" "k \<notin> allocation_id ` set (systems db)"
        "stored_profile_for profile alloc = Inr p" "created_by sid jid policy v ctx alloc p db db' r"
proof -
  let ?body = "\<lambda>locked. case locked of
       None \<Rightarrow> failure k CONFIGURATION_ERROR None db
     | Some (alloc, existing) \<Rightarrow>
         on_categorized (stored_profile_for profile alloc) (\<lambda>c. failure (oid alloc) c None db) (\<lambda>stored.
           case mode of
             ProvisionMode \<Rightarrow> provision_create_response sid jid ctx alloc existing stored policy v db
           | DefineMode \<Rightarrow> define_create_response sid ctx alloc existing stored policy v db)"
  let ?m = "rbind (locked_allocation_system ctx k probe db) ?body"
  have "(\<exists>c. failure k c None db = Inr (db', r)) \<or>
      (case ?m of Inl IllegalTransition \<Rightarrow>
          failure k CONFIGURATION_ERROR (map_option (\<lambda>a. AllocationSt (al_state a)) (ALLOCATIONS_get k db)) db
        | x \<Rightarrow> x) = Inr (db', r)"
    using assms unfolding create_for_allocation_def on_categorized_Inr by blast
  then consider "db' = db" "\<exists>j c s. r = AdmissionFailure j c s" | "?m = Inr (db', r)"
    by (cases ?m) (auto split: exn.splits)
  then show thesis
  proof cases
    case 1
    then show ?thesis by (intro same) auto
  next
    case 2
    then obtain locked where l: "locked_allocation_system ctx k probe db = Inr locked" "?body locked = Inr (db', r)"
      unfolding rbind_Inr_iff by blast
    show ?thesis
    proof (cases locked)
      case None
      then show ?thesis using l(2) by (intro same) auto
    next
      case (Some ae)
      obtain alloc existing where ae: "ae = (alloc, existing)" by (cases ae)
      have a: "ALLOCATIONS_get k db = Some alloc" "existing = find_system_for_allocation k db"
        using l(1) unfolding Some ae locked_allocation_system_def by (auto split: option.splits if_splits)
      from l(2) consider "db' = db" "\<exists>j c s. r = AdmissionFailure j c s"
        | p where "stored_profile_for profile alloc = Inr p" "(case mode of
             ProvisionMode \<Rightarrow> provision_create_response sid jid ctx alloc existing p policy v db
           | DefineMode \<Rightarrow> define_create_response sid ctx alloc existing p policy v db) = Inr (db', r)"
        unfolding Some ae by (auto simp: on_categorized_Inr)
      then show ?thesis
      proof cases
        case 1
        then show ?thesis by (intro same) auto
      next
        case 2
        from create_response_Inr [OF 2(2)] a 2(1) find_system_None [of k db] show ?thesis
          by (elim disjE exE conjE) (auto intro: same requeued created)
      qed
    qed
  qed
qed

definition live_systems :: "string \<Rightarrow> Db \<Rightarrow> int" where
  "live_systems p db =
    int (count_rows (\<lambda>s. project s = p \<and> sys_state s \<in> set NON_TERMINAL_SYSTEM) (systems db))"

lemma within_quota_iff:
  "within_system_quota p db \<longleftrightarrow>
    (\<exists>q. tbl_get quo_project p (quotas db) = Some q \<and> live_systems p db < max_concurrent_systems q)"
  by (auto simp: within_system_quota_def live_systems_def split: option.splits)

lemma created_by_effect:
  assumes c: "created_by sid jid policy v ctx alloc p db db' r" and a: "ALLOCATIONS_get k db = Some alloc"
  shows "\<exists>s. systems db' = systems db @ [s] \<and> oid s = sid \<and> sid \<notin> oid ` set (systems db) \<and> allocation_id s = k \<and>
      project s = project alloc \<and> provisioning_profile s = dump_profile p \<and>
      sys_state s \<in> {SystemState.DEFINED, SystemState.PROVISIONING}"
    and "allocations db' = tbl_update oid k
       (touch (db_clock db) (al_state_update (\<lambda>_. AllocationState.ACTIVE))) (allocations db)"
    and "ledger db' = ledger db" "budgets db' = budgets db"
    and "(\<exists>s. r = DefinedSystemAdmitted s) \<or> (\<exists>job s. r = ProvisionJobAdmitted job s \<and> job \<in> set (jobs db'))"
proof -
  have k: "oid alloc = k" using a unfolding ALLOCATIONS_get_def by (rule tbl.get_key)
  obtain st tool tr db1 system where i: "insert_system_and_activate sid ctx alloc p st tool tr db = Inr (db1, system)"
    and st: "st \<in> {SystemState.DEFINED, SystemState.PROVISIONING}"
    and e: "db' = db1 \<and> r = DefinedSystemAdmitted system \<or>
      enqueue_provision_job jid ctx (project alloc) (oid alloc) (oid system) db1 = Inr (db', r)"
    using c unfolding created_by_def by blast
  note f = insert_system_and_activate_Inr [OF i, unfolded k]
  have same: "systems db' = systems db1" "allocations db' = allocations db1" "ledger db' = ledger db1" "budgets db' = budgets db1"
    using e enqueue_provision_Inr(1-4) [of jid ctx "project alloc" "oid alloc" "oid system" db1 db' r] by auto
  show "\<exists>s. systems db' = systems db @ [s] \<and> oid s = sid \<and> sid \<notin> oid ` set (systems db) \<and> allocation_id s = k \<and>
      project s = project alloc \<and> provisioning_profile s = dump_profile p \<and>
      sys_state s \<in> {SystemState.DEFINED, SystemState.PROVISIONING}"
    using f(1-3) st by (intro exI [of _ system]) (simp add: same server_generated_def new_system_def k)
  show "allocations db' = tbl_update oid k
       (touch (db_clock db) (al_state_update (\<lambda>_. AllocationState.ACTIVE))) (allocations db)"
    "ledger db' = ledger db" "budgets db' = budgets db" by (simp_all add: same f)
  show "(\<exists>s. r = DefinedSystemAdmitted s) \<or> (\<exists>job s. r = ProvisionJobAdmitted job s \<and> job \<in> set (jobs db'))"
    using e enqueue_provision_Inr(5) by blast
qed

text \<open>
  C9. Admission of a System is all or nothing and within quota.  Either no System and no
  allocation row changes, or exactly one System is created: on a granted allocation that had
  none, which becomes active, with the profile sized for that allocation, and the project's
  live Systems stay within its quota; the answer names a job that is in the queue unless the
  System was only defined.
\<close>

theorem system_admission:
  assumes "create_for_allocation sid jid policy caps v ctx k profile mode probe db = Inr (db', r)"
  shows "systems db' = systems db \<and> allocations db' = allocations db \<or>
    (\<exists>alloc q p s. ALLOCATIONS_get k db = Some alloc \<and> al_state alloc = AllocationState.GRANTED \<and>
      k \<notin> allocation_id ` set (systems db) \<and> stored_profile_for profile alloc = Inr p \<and>
      systems db' = systems db @ [s] \<and> allocation_id s = k \<and> provisioning_profile s = dump_profile p \<and>
      tbl_get quo_project (project alloc) (quotas db) = Some q \<and>
      live_systems (project alloc) db' \<le> max_concurrent_systems q \<and>
      map_option al_state (ALLOCATIONS_get k db') = Some AllocationState.ACTIVE \<and>
      ((\<exists>d. r = DefinedSystemAdmitted d) \<or> (\<exists>job i. r = ProvisionJobAdmitted job i \<and> job \<in> set (jobs db'))))"
  using assms
proof (cases rule: create_for_allocation_Inr)
  case (requeued p aid s)
  then show ?thesis by (simp add: enqueue_provision_Inr(1,2) [OF requeued])
next
  case (created alloc p)
  note e = created_by_effect [OF created(4,1)]
  obtain s where s: "systems db' = systems db @ [s]" "allocation_id s = k" "project s = project alloc"
      "provisioning_profile s = dump_profile p" using e(1) by blast
  have "new_system_allowed alloc p policy v db = Inr None" using created(4) by (simp add: created_by_def)
  then obtain q where g: "al_state alloc = AllocationState.GRANTED"
    and q: "tbl_get quo_project (project alloc) (quotas db) = Some q" "live_systems (project alloc) db < max_concurrent_systems q"
    unfolding new_system_allowed_None within_quota_iff by blast
  have "live_systems (project alloc) db' \<le> live_systems (project alloc) db + 1"
    by (simp add: live_systems_def s(1) count_rows_def)
  then have "live_systems (project alloc) db' \<le> max_concurrent_systems q" using q(2) by simp
  moreover have "map_option al_state (ALLOCATIONS_get k db') = Some AllocationState.ACTIVE"
    using created(1) by (simp add: ALLOCATIONS_get_def e(2) tbl_get_update)
  ultimately show ?thesis using created(1-3) g q(1) s(1,2,4) e(5) by blast
qed simp

lemma case_Inr_pair:
  "(case m of Inl e \<Rightarrow> False | Inr (a, b) \<Rightarrow> P a b) \<longleftrightarrow> (\<exists>a b. m = Inr (a, b) \<and> P a b)"
  by (cases m) auto

text \<open>A granted allocation, a quota of one System, and a request for it.\<close>

definition grant_db :: Db where
  "grant_db = demo_db\<lparr>allocations := [sized_alloc], systems := [],
     quotas := [\<lparr>quo_project = ''proj'', max_concurrent_allocations = 1, max_concurrent_systems = 1,
                max_pending_allocations = 1, quo_updated_at = 0\<rparr>]\<rparr>"

definition demo_create :: "exn + (Db \<times> AdmissionResult)" where
  "demo_create = create_for_allocation 5 9 (LocalLibvirtProfilePolicy None) [(''rootfs'', [''local''])] (\<lambda>_. Inr ())
     operator_ctx 7 sample_profile DefineMode grant_db grant_db"

lemma demo_create_one: obtains db' r where "demo_create = Inr (db', r)" "length (systems db') = 1"
proof -
  have "(case demo_create of Inr (db', r) \<Rightarrow> length (systems db') = 1 | _ \<Rightarrow> False)" by code_simp
  then show thesis unfolding case_Inr_pair using that by blast
qed

theorem system_admission_witness:
  "\<exists>db' r alloc q p s. demo_create = Inr (db', r) \<and> systems db' = [s] \<and>
     ALLOCATIONS_get 7 grant_db = Some alloc \<and> al_state alloc = AllocationState.GRANTED \<and>
     stored_profile_for sample_profile alloc = Inr p \<and> provisioning_profile s = dump_profile p \<and>
     tbl_get quo_project (project alloc) (quotas grant_db) = Some q \<and>
     live_systems (project alloc) db' \<le> max_concurrent_systems q \<and>
     map_option al_state (ALLOCATIONS_get 7 db') = Some AllocationState.ACTIVE"
proof -
  obtain db' r where d: "demo_create = Inr (db', r)" "length (systems db') = 1" by (rule demo_create_one)
  have e: "systems grant_db = []" by (simp add: grant_db_def)
  then have "\<not> (systems db' = systems grant_db \<and> allocations db' = allocations grant_db)" using d(2) by auto
  then obtain alloc q p s where "ALLOCATIONS_get 7 grant_db = Some alloc" "al_state alloc = AllocationState.GRANTED"
      "stored_profile_for sample_profile alloc = Inr p" "systems db' = systems grant_db @ [s]"
      "provisioning_profile s = dump_profile p" "tbl_get quo_project (project alloc) (quotas grant_db) = Some q"
      "live_systems (project alloc) db' \<le> max_concurrent_systems q"
      "map_option al_state (ALLOCATIONS_get 7 db') = Some AllocationState.ACTIVE"
    using system_admission [OF d(1) [unfolded demo_create_def]] by blast
  with d(1) e show ?thesis
    by (intro exI [of _ db'] exI [of _ r] exI [of _ alloc] exI [of _ q] exI [of _ p] exI [of _ s] conjI) simp_all
qed

text \<open>
  C24. The admitted size is the stored size: a System that creation adds
  stores a profile with three concrete positive sizes, equal to the
  allocation's snapshot when it has one, and never different from a size the submitted document
  states.  (Reprovisioning stores a profile without this step.)
\<close>

theorem created_system_sized:
  assumes "create_for_allocation sid jid policy caps v ctx k profile mode probe db = Inr (db', r)"
    and "s \<in> set (systems db')" "s \<notin> set (systems db)"
  shows "\<exists>alloc p c m d. ALLOCATIONS_get k db = Some alloc \<and> allocation_id s = k \<and>
    parse_profile (provisioning_profile s) = Inr p \<and>
    pf_vcpu p = Some c \<and> pf_memory_mb p = Some m \<and> pf_disk_gb p = Some d \<and> 0 < c \<and> 0 < m \<and> 0 < d \<and>
    snapshot_of alloc \<in> {None, Some (c, m, d)} \<and>
    agrees ''vcpu'' profile c \<and> agrees ''memory_mb'' profile m \<and> agrees ''disk_gb'' profile d"
  using assms(1)
proof (cases rule: create_for_allocation_Inr)
  case same
  then show ?thesis using assms(2,3) by simp
next
  case (requeued p aid i)
  then show ?thesis using assms(2,3) enqueue_provision_Inr(1) [OF requeued] by simp
next
  case (created alloc p)
  obtain i where i: "systems db' = systems db @ [i]" "allocation_id i = k" "provisioning_profile i = dump_profile p"
    using created_by_effect(1) [OF created(4,1)] by blast
  have s: "s = i" using assms(2,3) i(1) by simp
  show ?thesis using stored_profile_sized [OF created(3)] created(1) i(2,3) unfolding s by auto
qed

theorem created_system_sized_witness:
  "\<exists>db' r s p c m g. demo_create = Inr (db', r) \<and> s \<in> set (systems db') \<and> allocation_id s = 7 \<and>
    parse_profile (provisioning_profile s) = Inr p \<and> pf_vcpu p = Some c \<and> pf_memory_mb p = Some m \<and>
    pf_disk_gb p = Some g \<and> snapshot_of sized_alloc = Some (c, m, g)"
proof -
  obtain db' r where d: "demo_create = Inr (db', r)" "length (systems db') = 1" by (rule demo_create_one)
  then obtain s where s: "s \<in> set (systems db')" by (metis length_greater_0_conv nth_mem zero_less_one)
  have e: "s \<notin> set (systems grant_db)" "ALLOCATIONS_get 7 grant_db = Some sized_alloc"
    by (simp_all add: grant_db_def ALLOCATIONS_get_def tbl_get_def sized_alloc_def)
  have snap: "snapshot_of sized_alloc \<noteq> None" by (simp add: snapshot_of_def sized_alloc_def)
  obtain p c m g where "allocation_id s = 7" "parse_profile (provisioning_profile s) = Inr p" "pf_vcpu p = Some c"
      "pf_memory_mb p = Some m" "pf_disk_gb p = Some g" "snapshot_of sized_alloc = Some (c, m, g)"
    using created_system_sized [OF d(1) [unfolded demo_create_def] s e(1)] e(2) snap by auto
  then show ?thesis using d(1) s by blast
qed


section \<open>Sections of another provider\<close>

lemma creation_ignores_section:
  "create_for_allocation sid jid RemoteLibvirtProfilePolicy caps v ctx k profile mode probe db =
   create_for_allocation sid jid FaultInjectProfilePolicy caps v ctx k profile mode probe db"
proof -
  have src: "rootfs_source RemoteLibvirtProfilePolicy p = Inr None" "rootfs_source FaultInjectProfilePolicy p = Inr None"
    and val: "validate_profile RemoteLibvirtProfilePolicy p = Inr ()" "validate_profile FaultInjectProfilePolicy p = Inr ()" for p
    by (simp_all add: RemoteLibvirtProfilePolicy_def FaultInjectProfilePolicy_def)
  have "new_system_allowed a p RemoteLibvirtProfilePolicy v db = new_system_allowed a p FaultInjectProfilePolicy v db" for a p
    by (simp add: new_system_allowed_def validate_rootfs_for_provider_def src)
  then have create: "provision_create_response sid jid ctx a e p RemoteLibvirtProfilePolicy v db =
      provision_create_response sid jid ctx a e p FaultInjectProfilePolicy v db"
    "define_create_response sid ctx a e p RemoteLibvirtProfilePolicy v db =
      define_create_response sid ctx a e p FaultInjectProfilePolicy v db" for a e p
    by (simp_all add: provision_create_response_def define_create_response_def insert_provisioning_system_def
        insert_defined_system_def reject_rootfs_upload_without_window_def rootfs_upload_window_allowed_def src
        split: option.split)
  have "validate_profile_for_provider p RemoteLibvirtProfilePolicy caps = validate_profile_for_provider p FaultInjectProfilePolicy caps" for p
    by (simp add: validate_profile_for_provider_def src val)
  then show ?thesis unfolding create_for_allocation_def create by (simp only:)
qed

lemma opt_in_of_other_section:
  assumes "(policy, kind) \<in> {(LocalLibvirtProfilePolicy images, LOCAL_LIBVIRT), (RemoteLibvirtProfilePolicy, REMOTE_LIBVIRT),
      (FaultInjectProfilePolicy, FAULT_INJECT)}" "section_kind (pf_provider p) \<noteq> kind"
  shows "destructive_opt_in policy p op = Inl AttributeError"
  using assms by (cases "pf_provider p")
    (auto simp: LocalLibvirtProfilePolicy_def RemoteLibvirtProfilePolicy_def FaultInjectProfilePolicy_def)

text \<open>
  C35. A profile with the section of another provider is not noticed when the System is
  created and cannot be taken back.  Creation has the same outcome on a remote and on a
  fault-injection host whatever section the profile has; and on a System whose stored
  profile has a section of another kind than its host's provider, every request of a member of its
  project to tear it down, to crash it, or to power it off, cycle or reset it ends with an
  attribute error instead of an answer.
\<close>

theorem mismatched_section_strands:
  "create_for_allocation sid jid RemoteLibvirtProfilePolicy caps v ctx a profile mode probe db =
     create_for_allocation sid jid FaultInjectProfilePolicy caps v ctx a profile mode probe db \<and>
   (as_uuid t = Some k \<and> SYSTEMS_get k db = Some system \<and> project system \<in> set (ctx_projects ctx) \<and>
    ALLOCATIONS_get (allocation_id system) db = Some alloc \<and> project alloc \<in> set (ctx_projects ctx) \<and>
    parse_profile (provisioning_profile system) = Inr p \<and> runtime_for_system rs k db = Inr runtime \<and>
    (profile_policy runtime, kind) \<in> {(LocalLibvirtProfilePolicy images, LOCAL_LIBVIRT),
       (RemoteLibvirtProfilePolicy, REMOTE_LIBVIRT), (FaultInjectProfilePolicy, FAULT_INJECT)} \<and>
    section_kind (pf_provider p) \<noteq> kind \<longrightarrow>
      teardown_system jid rs ctx t db = Inl AttributeError \<and>
      force_crash_system jid rs ctx t db = Inl AttributeError \<and>
      (\<forall>act. act = ''off'' \<or> act = ''cycle'' \<or> act = ''reset'' \<longrightarrow>
         power_system jid nonce rs ctx t act db = Inl AttributeError))"
proof (intro conjI impI allI; (elim conjE)?)
  assume t: "as_uuid t = Some k" and s: "SYSTEMS_get k db = Some system" "project system \<in> set (ctx_projects ctx)"
    and a: "ALLOCATIONS_get (allocation_id system) db = Some alloc" "project alloc \<in> set (ctx_projects ctx)"
    and p: "parse_profile (provisioning_profile system) = Inr p" "runtime_for_system rs k db = Inr runtime"
    and m: "(profile_policy runtime, kind) \<in> {(LocalLibvirtProfilePolicy images, LOCAL_LIBVIRT),
       (RemoteLibvirtProfilePolicy, REMOTE_LIBVIRT), (FaultInjectProfilePolicy, FAULT_INJECT)}"
      "section_kind (pf_provider p) \<noteq> kind"
  note o = opt_in_of_other_section [OF m]
  have k: "oid system = k" using s(1) unfolding SYSTEMS_get_def by (rule tbl.get_key)
  have opt: "op_opt_in rs system j db = Inl AttributeError" for j using p o by (simp add: op_opt_in_def k)
  show "teardown_system jid rs ctx t db = Inl AttributeError"
    using t s a p o by (simp add: teardown_system_def in_projects_def)
  show "force_crash_system jid rs ctx t db = Inl AttributeError"
    using t s a opt by (simp add: force_crash_system_def system_in_projects_def authorize_destructive_def)
  show "power_system jid nonce rs ctx t act db = Inl AttributeError" if "act = ''off'' \<or> act = ''cycle'' \<or> act = ''reset''" for act
    using that t s a opt
    by (elim disjE) (simp_all add: power_system_def system_in_projects_def power_admitted_def DESTRUCTIVE_POWER_ACTIONS_def
        authorize_destructive_def)
qed (rule creation_ignores_section)

definition remote_db :: Db where
  "remote_db = grant_db\<lparr>resources := [example_host\<lparr>res_kind := REMOTE_LIBVIRT\<rparr>]\<rparr>"

definition remote_resolver :: ProviderResolver where
  "remote_resolver kind = (if kind = REMOTE_LIBVIRT
     then Some (demo_runtime (Inr [])\<lparr>profile_policy := RemoteLibvirtProfilePolicy\<rparr>) else None)"

definition remote_create :: "exn + (Db \<times> AdmissionResult)" where
  "remote_create = create_for_allocation 5 9 RemoteLibvirtProfilePolicy [] (\<lambda>_. Inr ()) operator_ctx 7 sample_profile
     DefineMode remote_db remote_db"

lemma remote_create_admits:
  obtains db' made system alloc where "remote_create = Inr (db', DefinedSystemAdmitted made)"
    "kind_for_system 5 db' = Some REMOTE_LIBVIRT" "SYSTEMS_get 5 db' = Some system" "project system = ''proj''"
    "ALLOCATIONS_get (allocation_id system) db' = Some alloc" "project alloc = ''proj''"
    "parse_profile (provisioning_profile system) = Inr sample_stored"
proof -
  have "(case remote_create of Inr (db', r) \<Rightarrow> length (systems db') = 1 \<and> map oid (resources db') = [1] \<and>
      map res_kind (resources db') = [REMOTE_LIBVIRT] \<and> (case r of DefinedSystemAdmitted _ \<Rightarrow> True | _ \<Rightarrow> False)
    | _ \<Rightarrow> False)" by code_simp
  then obtain db' made where d: "remote_create = Inr (db', DefinedSystemAdmitted made)" "length (systems db') = 1"
      "map oid (resources db') = [1]" "map res_kind (resources db') = [REMOTE_LIBVIRT]"
    by (auto split: sum.splits prod.splits AdmissionResult.splits)
  have e: "systems remote_db = []" "ALLOCATIONS_get 7 remote_db = Some sized_alloc" "allocations remote_db = [sized_alloc]"
    by (simp_all add: remote_db_def grant_db_def ALLOCATIONS_get_def tbl_get_def sized_alloc_def)
  note c = d(1) [unfolded remote_create_def]
  from c obtain s where s: "systems db' = [s]" "oid s = 5" "allocation_id s = 7" "project s = ''proj''"
      "provisioning_profile s = dump_profile sample_stored"
      "allocations db' = tbl_update oid 7 (touch (db_clock remote_db) (al_state_update (\<lambda>_. AllocationState.ACTIVE))) [sized_alloc]"
  proof (cases rule: create_for_allocation_Inr)
    case same
    then show ?thesis using d(2) e(1) by simp
  next
    case (requeued p aid i)
    then show ?thesis using d(2) e(1) enqueue_provision_Inr(1) [OF requeued] by simp
  next
    case (created alloc p)
    then have "alloc = sized_alloc" "p = sample_stored" using e(2) sample_stores by simp_all
    then show ?thesis
      using that created_by_effect(1,2) [OF created(4,1)] e(1,3) by (auto simp: sized_alloc_def)
  qed
  let ?a = "touch (db_clock remote_db) (al_state_update (\<lambda>_. AllocationState.ACTIVE)) sized_alloc"
  have a: "ALLOCATIONS_get 7 db' = Some ?a" "project ?a = ''proj''" "resource_id ?a = Some 1"
    by (simp_all add: ALLOCATIONS_get_def tbl_get_def s(6) tbl_update_def touch_def sized_alloc_def)
  have g: "SYSTEMS_get 5 db' = Some s" by (simp add: SYSTEMS_get_def tbl_get_def s(1,2))
  obtain h where "resources db' = [h]" "oid h = 1" "res_kind h = REMOTE_LIBVIRT" using d(3,4) by (cases "resources db'") auto
  then have "kind_for_system 5 db' = Some REMOTE_LIBVIRT"
    using a by (simp add: kind_for_system_def kind_for_allocation_def g s(3) tbl_get_def)
  moreover have "parse_profile (provisioning_profile s) = Inr sample_stored"
    using demo_facts(5) by (simp add: s(5) demo_system_def)
  ultimately show thesis using that d(1) g s(3,4) a by simp
qed

theorem mismatched_section_strands_witness:
  "\<exists>db' made. remote_create = Inr (db', DefinedSystemAdmitted made) \<and>
    teardown_system 12 remote_resolver operator_ctx (uuid_str 5) db' = Inl AttributeError"
proof -
  obtain db' made system alloc where d: "remote_create = Inr (db', DefinedSystemAdmitted made)"
      "kind_for_system 5 db' = Some REMOTE_LIBVIRT" "SYSTEMS_get 5 db' = Some system" "project system = ''proj''"
      "ALLOCATIONS_get (allocation_id system) db' = Some alloc" "project alloc = ''proj''"
      "parse_profile (provisioning_profile system) = Inr sample_stored"
    by (rule remote_create_admits)
  let ?rt = "demo_runtime (Inr [])\<lparr>profile_policy := RemoteLibvirtProfilePolicy\<rparr>"
  have r: "runtime_for_system remote_resolver 5 db' = Inr ?rt"
    by (simp add: runtime_for_system_def resolve_def d(2) remote_resolver_def)
  have c: "project system \<in> set (ctx_projects operator_ctx)" "project alloc \<in> set (ctx_projects operator_ctx)"
    by (simp_all add: operator_ctx_def d(4,6))
  have u: "as_uuid (uuid_str 5) = Some 5" by code_simp
  have m: "(profile_policy ?rt, REMOTE_LIBVIRT) \<in> {(LocalLibvirtProfilePolicy None, LOCAL_LIBVIRT),
       (RemoteLibvirtProfilePolicy, REMOTE_LIBVIRT), (FaultInjectProfilePolicy, FAULT_INJECT)}" by simp
  have n: "section_kind (pf_provider sample_stored) \<noteq> REMOTE_LIBVIRT" by (simp add: sample_stored_def sample_parsed_def)
  have "teardown_system 12 remote_resolver operator_ctx (uuid_str 5) db' = Inl AttributeError"
    by (rule mismatched_section_strands [THEN conjunct2, THEN mp, THEN conjunct1,
        OF conjI [OF u conjI [OF d(3) conjI [OF c(1) conjI [OF d(5) conjI [OF c(2) conjI [OF d(7) conjI [OF r conjI [OF m n]]]]]]]]])
  then show ?thesis using d(1) by blast
qed


section \<open>The System plane as a state machine\<close>

text \<open>
  A step is a committed tool call, a run of a handler, during whose provider calls other
  sessions may take any number of steps, a repair pass, or a write elsewhere, which leaves
  the Systems alone.
\<close>

inductive system_step :: "Db \<Rightarrow> Db \<Rightarrow> bool" where
  create: "create_for_allocation sid jid policy caps v ctx k profile mode probe db = Inr (db', r) \<Longrightarrow> system_step db db'"
| provision: "provision_defined jid policy caps v ctx k probe db = Inr (db', r) \<Longrightarrow> system_step db db'"
| reprovision: "reprovision_system jid dg policy caps v ctx t profile db = Inr (db', a) \<Longrightarrow> system_step db db'"
| teardown: "teardown_system jid rs ctx t db = Inr (db', a) \<Longrightarrow> system_step db db'"
| power: "power_system jid nonce rs ctx t act db = Inr (db', a) \<Longrightarrow> system_step db db'"
| crash: "force_crash_system jid rs ctx t db = Inr (db', a) \<Longrightarrow> system_step db db'"
| handler: "(\<And>c d. system_step\<^sup>*\<^sup>* d (others env c d)) \<Longrightarrow> system_handlers env (job_kind job) = Some h \<Longrightarrow>
    pool_connection (h job) db = (db', cs, o') \<Longrightarrow> system_step db db'"
| repair: "system_step db (fst (fst (repair_orphaned_systems jids db)))"
| elsewhere: "systems db' = systems db \<Longrightarrow> system_step db db'"
  monos rtranclp_mono

inductive systems_reachable :: "Db \<Rightarrow> bool" where
  none: "systems db = [] \<Longrightarrow> systems_reachable db"
| step: "systems_reachable db \<Longrightarrow> system_step db db' \<Longrightarrow> systems_reachable db'"

definition stored_ok :: "System \<Rightarrow> bool" where
  "stored_ok s \<longleftrightarrow> (\<exists>p. provisioning_profile s = dump_profile p \<and> profile_ok p)"

definition systems_ok :: "Db \<Rightarrow> bool" where
  "systems_ok db \<longleftrightarrow> distinct (map oid (systems db)) \<and> distinct (map allocation_id (systems db)) \<and>
    list_all stored_ok (systems db)"

lemma systems_ok_frame: "systems db' = systems db \<Longrightarrow> systems_ok db' = systems_ok db"
  by (simp add: systems_ok_def)

lemma systems_ok_set:
  assumes "systems_ok db" "\<And>s. oid (f s) = oid s" "\<And>s. allocation_id (f s) = allocation_id s"
    "\<And>s. stored_ok s \<Longrightarrow> stored_ok (f s)"
  shows "systems_ok (set_system k f db)"
proof -
  have "map oid (systems (set_system k f db)) = map oid (systems db)"
    "map allocation_id (systems (set_system k f db)) = map allocation_id (systems db)"
    using assms(2,3) by (auto simp: set_system_def tbl_update_def)
  moreover have "stored_ok (touch (db_clock db) f s)" if "stored_ok s" for s
    using assms(4) [OF that] by (simp add: stored_ok_def)
  then have "list_all stored_ok (systems (set_system k f db))"
    using assms(1) by (auto simp: systems_ok_def set_system_def tbl_update_def list_all_iff)
  ultimately show ?thesis using assms(1) by (simp add: systems_ok_def)
qed

lemma systems_ok_state: "systems_ok db \<Longrightarrow> systems_ok (set_system k (sys_state_update (\<lambda>_. st)) db)"
  by (rule systems_ok_set) (simp_all add: stored_ok_def)

lemma SYSTEMS_update_state_ok:
  assumes "SYSTEMS_update_state k st db = Inr (db', row)" "systems_ok db"
  shows "systems_ok db'"
  using assms(1) by (rule SYSTEMS_update_state_Inr) (simp add: systems_ok_state assms(2))

lemma audit_record_systems: "audit_record ctx ev db = Inr db' \<Longrightarrow> systems_ok db' = systems_ok db"
  by (erule audit_record_Inr) (simp add: systems_ok_def)

lemma safe_branch:
  "safe I a \<Longrightarrow> safe I b \<Longrightarrow> safe I (if P then a else b)"
  "safe I n \<Longrightarrow> (\<And>x. safe I (f x)) \<Longrightarrow> safe I (case y of None \<Rightarrow> n | Some x \<Rightarrow> f x)"
  "(\<And>u v. safe I (g u v)) \<Longrightarrow> safe I (case z of (u, v) \<Rightarrow> g u v)"
  by (auto split: option.splits prod.splits)

text \<open>
  What an invariant of the database must withstand to survive the handlers: the writes they
  make.  The handlers' safety is proved once from it.
\<close>

locale handler_invariant =
  fixes I :: "Db \<Rightarrow> bool"
  assumes audit: "audit_record ctx ev db = Inr db' \<Longrightarrow> I db' = I db"
    and state: "I db \<Longrightarrow> I (set_system k (sys_state_update (\<lambda>_. st)) db)"
    and ready: "I db \<Longrightarrow> I (set_system k (\<lambda>s. s\<lparr>sys_state := st, domain_name := dn\<rparr>) db)"
    and stamped: "I db \<Longrightarrow> I (set_system k (\<lambda>s. s\<lparr>sys_state := st, domain_name := dn, target_fingerprint := fp\<rparr>) db)"
    and billing: "I db \<Longrightarrow> I (open_billing_interval k db)"
    and uploads: "I (db\<lparr>artifacts := as\<rparr>) = I db" "I (db\<lparr>upload_manifests := ms\<rparr>) = I db"
    and sessions: "I (db\<lparr>debug_sessions := ds\<rparr>) = I db"
begin

lemma update_state_keeps: "SYSTEMS_update_state k st db = Inr (db', row) \<Longrightarrow> I db \<Longrightarrow> I db'"
  by (erule SYSTEMS_update_state_Inr) (simp add: state)

lemma audit_transition_keeps: "audit_transition job p k tr tool db = Inr db' \<Longrightarrow> I db \<Longrightarrow> I db'"
  by (simp add: audit_transition_def audit)

lemma finalize_keeps:
  assumes "finalize_provision_ready env job system p policy db = Inr db'" "I db"
  shows "I db'"
proof -
  obtain db1 where 1: "commit_uploaded_rootfs env system p policy db = Inr db1"
    and 2: "audit_transition job (project system) (oid system) ''provisioning->ready'' ''systems.provision''
      (open_billing_interval (allocation_id system) db1) = Inr db'"
    using assms(1) unfolding finalize_provision_ready_def rbind_Inr_iff by blast
  have "I db1"
    using 1 assms(2) uploads unfolding commit_uploaded_rootfs_def
    by (auto simp: ARTIFACTS_insert_def delete_manifest_def split: if_splits option.splits)
  with 2 show ?thesis by (blast intro: audit_transition_keeps billing)
qed

lemma failure_safe: "safe I (record_system_failure job k p tr tool)"
  unfolding record_system_failure_def
  by (intro safe_best_effort safe_transaction safe_execute)
    (auto intro: audit_transition_keeps update_state_keeps)

lemma provision_safe:
  assumes "\<And>c d. I d \<Longrightarrow> I (others env c d)"
  shows "safe I (provision_handler env job)"
proof -
  have commit: "safe I (commit_provision_result env job system p policy dn)" for system p policy dn
    unfolding commit_provision_result_def
    by (intro safe_transaction safe_execute)
      (auto simp: Let_def split: if_splits intro: finalize_keeps ready)
  show ?thesis
    unfolding provision_handler_def
    by (intro safe_intros safe_branch safe_call failure_safe commit assms)
qed

lemma reprovision_safe:
  assumes "\<And>c d. I d \<Longrightarrow> I (others env c d)"
  shows "safe I (reprovision_handler env job)"
  unfolding reprovision_handler_def
  by (intro safe_intros safe_branch safe_call failure_safe assms safe_execute)
    (auto simp: Let_def split: if_splits intro: audit_transition_keeps stamped)

lemma teardown_safe:
  assumes "\<And>c d. I d \<Longrightarrow> I (others env c d)"
  shows "safe I (teardown_handler env job)"
  unfolding teardown_handler_def
  by (intro safe_intros safe_branch safe_call assms safe_execute)
    (auto simp: tear_down_row_def split: option.splits if_splits intro: audit_transition_keeps update_state_keeps)

lemma power_safe:
  assumes "\<And>c d. I d \<Longrightarrow> I (others env c d)"
  shows "safe I (power_handler env job)"
  unfolding power_handler_def control_target_def
  by (intro safe_intros safe_branch safe_call assms safe_execute) (auto simp: audit)

lemma detach_keeps: "detach_sessions job system db = Inr db' \<Longrightarrow> I db' = I db"
proof -
  have "audit_detached job system ds d = Inr d' \<Longrightarrow> I d' = I d" for ds d d'
    by (induction job system ds d rule: audit_detached.induct) (auto simp: audit)
  then show "detach_sessions job system db = Inr db' \<Longrightarrow> I db' = I db"
    unfolding detach_sessions_def using sessions by blast
qed

lemma force_crash_safe:
  assumes "\<And>c d. I d \<Longrightarrow> I (others env c d)"
  shows "safe I (force_crash_handler env job)"
proof -
  have "I d'" if "I d" "finalize_force_crash job k p d = Inr (d', u)" for d d' k p u
    using that unfolding finalize_force_crash_def
    by (auto simp: detach_keeps audit split: if_splits intro: update_state_keeps)
  then show ?thesis
    unfolding force_crash_handler_def force_crash_target_def
    by (intro safe_intros safe_branch safe_call assms safe_execute) auto
qed

lemma handler_keeps:
  assumes "\<And>c d. I d \<Longrightarrow> I (others env c d)" "system_handlers env kind = Some h"
    "pool_connection (h job) db = (db', cs, r)" "I db"
  shows "I db'"
proof -
  have "safe I (h job)"
    using assms(1,2) provision_safe reprovision_safe teardown_safe power_safe force_crash_safe
    by (cases kind) (auto simp: system_handlers_def)
  then show ?thesis using assms(3,4) by (blast intro: safe_pool)
qed

end

interpretation typed: handler_invariant systems_ok
proof
  show "audit_record ctx ev db = Inr db' \<Longrightarrow> systems_ok db' = systems_ok db" for ctx ev db db'
    by (rule audit_record_systems)
  show "systems_ok db \<Longrightarrow> systems_ok (set_system k (sys_state_update (\<lambda>_. st)) db)"
    "systems_ok db \<Longrightarrow> systems_ok (set_system k (\<lambda>s. s\<lparr>sys_state := st, domain_name := dn\<rparr>) db)"
    "systems_ok db \<Longrightarrow>
      systems_ok (set_system k (\<lambda>s. s\<lparr>sys_state := st, domain_name := dn, target_fingerprint := fp\<rparr>) db)" for db k st dn fp
    by (rule systems_ok_set, simp_all add: stored_ok_def)+
qed (simp_all add: systems_ok_def open_billing_interval_def)

lemma queue_enqueue_ok: "queue_enqueue jid kind p auth key n db = Inr (db', job) \<Longrightarrow> systems_ok db' = systems_ok db"
  by (rule systems_ok_frame) (rule queue_enqueue_Inr)

lemma enqueue_provision_ok: "enqueue_provision_job jid ctx p aid sid db = Inr (db', r) \<Longrightarrow> systems_ok db' = systems_ok db"
  by (rule systems_ok_frame) (rule enqueue_provision_Inr)

lemma create_keeps:
  assumes "create_for_allocation sid jid policy caps v ctx k profile mode probe db = Inr (db', r)" "systems_ok db"
  shows "systems_ok db'"
  using assms(1)
proof (cases rule: create_for_allocation_Inr)
  case (created alloc p)
  obtain s where "systems db' = systems db @ [s]" "oid s \<notin> oid ` set (systems db)" "allocation_id s = k"
      "provisioning_profile s = dump_profile p"
    using created_by_effect(1) [OF created(4,1)] by blast
  moreover have "profile_ok p"
    using created(3) parse_profile_ok by (auto simp: stored_profile_for_snapshot split: option.splits)
  ultimately show ?thesis using assms(2) created(2) by (auto simp: systems_ok_def stored_ok_def)
qed (use assms(2) enqueue_provision_ok in auto)

lemma provision_defined_keeps:
  assumes "provision_defined jid policy caps v ctx k probe db = Inr (db', r)" "systems_ok db"
  shows "systems_ok db'"
proof -
  have admit: "systems_ok d'" if "admit_defined jid ctx alloc system db = Inr (d', r')" for alloc system d' r'
    using that assms(2) unfolding admit_defined_def
    by (auto simp: enqueue_provision_ok audit_record_systems intro: SYSTEMS_update_state_ok)
  have "systems_ok d'" if "provision_defined_response jid ctx system alloc policy caps v db = Inr (d', r')"
    for alloc system d' r'
    using that assms(2) admit unfolding provision_defined_response_def
    by (auto simp: on_categorized_Inr enqueue_provision_ok split: if_splits)
  then show ?thesis
    using assms unfolding provision_defined_def by (auto split: option.splits if_splits)
qed

lemma reprovision_keeps:
  assumes "reprovision_system jid dg policy caps v ctx t profile db = Inr (db', a)" "systems_ok db"
  shows "systems_ok db'"
  using assms(1)
proof (cases rule: reprovision_system_Inr)
  case (denied system)
  then show ?thesis using assms(2) by (simp add: audit_destructive_denied_def audit_record_systems)
next
  case (admitted k system p)
  have "profile_ok p" using admitted(2) by (rule parse_profile_ok)
  then have "systems_ok (set_system (oid system) (provisioning_profile_update (\<lambda>_. dump_profile p))
      (set_system (oid system) (sys_state_update (\<lambda>_. SystemState.REPROVISIONING)) db))"
    using assms(2) by (intro systems_ok_set systems_ok_state) (auto simp: stored_ok_def)
  then show ?thesis using systems_ok_frame [OF admit_reprovision_Inr(1) [OF admitted(5)]] by simp
qed (use assms(2) in simp)

text \<open>The other tools only audit and enqueue.\<close>

lemma gated_keeps:
  assumes "gated tool ctx system alloc kind opt_in role db continue = Inr (db', r)"
    "\<And>d a. continue = Inr (d, a) \<Longrightarrow> systems_ok d" "systems_ok db"
  shows "systems_ok db'"
  using gated_Inr [OF assms(1)] assms(2,3) by (auto simp: audit_destructive_denied_def audit_record_systems)

lemma enqueue_tool_keeps:
  assumes "rbind (queue_enqueue jid kind p auth key n db) (\<lambda>(db, job). Inr (db, ToolJob job k)) = Inr (d, a)" "systems_ok db"
  shows "systems_ok d"
  using assms queue_enqueue_ok by auto

lemma teardown_keeps:
  assumes "teardown_system jid rs ctx t db = Inr (db', a)" "systems_ok db"
  shows "systems_ok db'"
proof (cases "as_uuid t")
  case (Some k)
  consider "db' = db" | system alloc opt_in where
      "gated ''systems.teardown'' ctx system alloc TEARDOWN opt_in Role.ADMIN db (
           if sys_state system = SystemState.TORN_DOWN then Inr (db, AlreadyTornDown k)
           else rbind (queue_enqueue jid TEARDOWN (SystemPayload (uuid_str k)) (job_authorizing ctx (project system))
                         (teardown_key k) DEFAULT_MAX_ATTEMPTS db)
                  (\<lambda>(db, job). Inr (db, ToolJob job k))) = Inr (db', a)"
    using assms(1) Some unfolding teardown_system_def
    by (auto dest!: in_projects_Inr simp: on_categorized_Inr)
  then show ?thesis
    using assms(2) by cases (auto elim!: gated_keeps simp: queue_enqueue_ok split: if_splits)
qed (use assms in \<open>auto simp: teardown_system_def\<close>)

lemma authorize_keeps:
  assumes "authorize_destructive rs tool ctx system kind db continue = Inr (db', r)"
    "\<And>d a. continue = Inr (d, a) \<Longrightarrow> systems_ok d" "systems_ok db"
  shows "systems_ok db'"
  using assms unfolding authorize_destructive_def by (auto elim: gated_keeps split: option.splits if_splits)

lemma admit_control_keeps:
  "admit_control_job jid kind pl key admissible ctx system db = Inr (d, a) \<Longrightarrow> systems_ok db \<Longrightarrow> systems_ok d"
  unfolding admit_control_job_def by (auto simp: queue_enqueue_ok split: if_splits)

lemma system_in_projects_Inr:
  "system_in_projects ctx k db continue = Inr (db', r) \<Longrightarrow> db' = db \<or> (\<exists>system. continue system = Inr (db', r))"
  unfolding system_in_projects_def by (auto split: option.splits if_splits)

lemma power_keeps:
  assumes "power_system jid nonce rs ctx t act db = Inr (db', a)" "systems_ok db"
  shows "systems_ok db'"
proof -
  consider "db' = db" | action system where "power_admitted jid nonce rs ctx t action system db = Inr (db', a)"
    using assms(1) unfolding power_system_def by (auto split: option.splits dest: system_in_projects_Inr)
  then show ?thesis
    using assms(2) unfolding power_admitted_def Let_def
    by cases (auto split: if_splits intro: admit_control_keeps authorize_keeps)
qed

lemma crash_keeps:
  assumes "force_crash_system jid rs ctx t db = Inr (db', a)" "systems_ok db"
  shows "systems_ok db'"
  using system_in_projects_Inr [OF assms(1) [unfolded force_crash_system_def]] assms(2)
  by (auto intro: admit_control_keeps authorize_keeps)

lemma repair_orphan_systems: "repair_orphan jid c db = Inr (db', n) \<Longrightarrow> systems_ok db' = systems_ok db"
  unfolding repair_orphan_def by (auto simp: queue_enqueue_ok split: option.splits if_splits)

lemma repair_keeps: "systems_ok (fst (fst (repair_orphans jids cs db n))) = systems_ok db"
proof (induction jids cs db n rule: repair_orphans.induct)
  case (2 jids c cs db n)
  show ?case
  proof (cases "repair_orphan (jids (oid c)) c db")
    case (Inr x)
    obtain d new where x: "x = (d, new)" by (cases x)
    show ?thesis using "2.IH" [OF Inr x [symmetric]] repair_orphan_systems [of _ c db d new] Inr x by simp
  qed simp
qed simp

lemma system_step_keeps: "system_step db db' \<Longrightarrow> systems_ok db \<Longrightarrow> systems_ok db'"
proof (induction rule: system_step.induct)
  case (handler env job h db db' cs o')
  have "systems_ok (others env c d)" if "systems_ok d" for c d
    using handler.IH(1) [of d c] that by (induction rule: rtranclp_induct) auto
  then show ?case using handler by (blast intro: typed.handler_keeps)
next
  case (repair db jids)
  then show ?case by (simp add: repair_orphaned_systems_def repair_keeps)
next
  case (elsewhere db' db)
  then show ?case using systems_ok_frame [OF elsewhere(1)] by blast
qed (erule (1) create_keeps provision_defined_keeps reprovision_keeps teardown_keeps power_keeps crash_keeps)+

lemma systems_reachable_ok: "systems_reachable db \<Longrightarrow> systems_ok db"
proof (induction rule: systems_reachable.induct)
  case (none db)
  then show ?case by (simp add: systems_ok_def)
qed (rule system_step_keeps)

text \<open>
  C10. The System table stays well typed under every interleaving of tools, handlers and
  repair: identifiers are unique, no allocation ever has a second System, and the profile
  stored with every System is one that parses, to the very profile it is the
  serialization of.
\<close>

theorem systems_sound:
  assumes "systems_reachable db"
  shows "distinct (map oid (systems db)) \<and> distinct (map allocation_id (systems db)) \<and>
    (\<forall>s\<in>set (systems db). \<exists>p. parse_profile (provisioning_profile s) = Inr p \<and> provisioning_profile s = dump_profile p)"
  using systems_reachable_ok [OF assms] profile_roundtrip
  by (auto simp: systems_ok_def stored_ok_def list_all_iff)

theorem systems_sound_witness:
  "\<exists>db' s p. systems_reachable db' \<and> systems db' = [s] \<and> allocation_id s = 7 \<and>
     parse_profile (provisioning_profile s) = Inr p \<and> provisioning_profile s = dump_profile p"
proof -
  have "(case demo_create of Inr (db', r) \<Rightarrow> map allocation_id (systems db') = [7] | _ \<Rightarrow> False)" by code_simp
  then obtain db' r where d: "demo_create = Inr (db', r)" "map allocation_id (systems db') = [7]"
    unfolding case_Inr_pair by (elim exE conjE) (rule that)
  have "systems_reachable grant_db" by (rule systems_reachable.none) (simp add: grant_db_def)
  moreover have "system_step grant_db db'" using d(1) unfolding demo_create_def by (rule system_step.create)
  ultimately have r: "systems_reachable db'" by (rule systems_reachable.step)
  obtain s where s: "systems db' = [s]" "allocation_id s = 7" using d(2) by (cases "systems db'") auto
  show ?thesis using systems_sound [OF r] r s by auto
qed

end
