(* ===== verification/Build_Hosts.thy ===== *)
theory Build_Hosts
  imports Systems
begin

text \<open>
  Build profiles (\<open>profiles/build.py\<close>), build hosts and their capacity leases
  (\<open>db/build_hosts.py\<close>), the choice of a host for a build
  (\<open>services/runs/build_host_selection.py\<close>), the tools that admit a build, an install or a
  boot (\<open>mcp/tools/lifecycle/runs\<close>), the operators' tools (\<open>mcp/tools/ops/build_hosts\<close>) and
  the reconciler's build-host passes (\<open>reconciler/build_hosts.py\<close>).
\<close>

section \<open>Build profiles\<close>

datatype ComponentRef =
    ComponentRef RootfsSource
  | ComponentUploadRef uuid "string option"

definition component_upload_ref :: "json \<Rightarrow> exn + ComponentRef" where
  "component_upload_ref j =
    rbind (only_keys [''kind'', ''upload_id'', ''sha256''] j) (\<lambda>_.
    rbind (required uuid_field ''upload_id'' j) (\<lambda>k.
    rbind (nullable plain_str ''sha256'' j) (\<lambda>s.
    rbind (validate_sha256_value s) (\<lambda>s. Inr (ComponentUploadRef k s)))))"

definition component_ref_field :: "json \<Rightarrow> exn + ComponentRef" where
  "component_ref_field j =
    (case json_get ''kind'' j of
       Some (JStr k) \<Rightarrow>
         if k = ''local'' then rbind (local_ref j) (\<lambda>r. Inr (ComponentRef r))
         else if k = ''artifact'' then rbind (artifact_ref j) (\<lambda>r. Inr (ComponentRef r))
         else if k = ''component-upload'' then component_upload_ref j
         else if k = ''catalog'' then rbind (catalog_ref j) (\<lambda>r. Inr (ComponentRef r))
         else bad
     | _ \<Rightarrow> bad)"

record ProfileRequirementsRef =
  rq_provider :: string
  rq_name :: string

definition requirements_ref :: "json \<Rightarrow> exn + ProfileRequirementsRef" where
  "requirements_ref j =
    rbind (only_keys [''provider'', ''name''] j) (\<lambda>_.
    rbind (required NonEmptyStr ''provider'' j) (\<lambda>p.
    rbind (required NonEmptyStr ''name'' j) (\<lambda>n. Inr \<lparr>rq_provider = p, rq_name = n\<rparr>)))"

datatype KernelSource =
    WarmTree string
  | GitKernelSource string string

definition git_source_ref :: "json \<Rightarrow> exn + KernelSource" where
  "git_source_ref j =
    rbind (only_keys [''remote'', ''ref''] j) (\<lambda>_.
    rbind (required NonEmptyStr ''remote'' j) (\<lambda>m.
    rbind (required NonEmptyStr ''ref'' j) (\<lambda>r. Inr (GitKernelSource m r))))"

fun kernel_source_field :: "json \<Rightarrow> exn + KernelSource" where
  "kernel_source_field (JStr s) = rbind (NonEmptyStr (JStr s)) (\<lambda>s. Inr (WarmTree s))"
| "kernel_source_field j = rbind (only_keys [''git''] j) (\<lambda>_. required git_source_ref ''git'' j)"

record ServerBuildProfile =
  sb_kernel_source_ref :: KernelSource
  sb_config :: "ComponentRef option"
  sb_profile_requirements :: "ProfileRequirementsRef option"
  sb_patch_ref :: "string option"
  sb_build_host :: "string option"

datatype ParsedBuildProfile =
    ServerBuild ServerBuildProfile
  | ExternalBuild "ProfileRequirementsRef option"

definition server_build_profile :: "json \<Rightarrow> exn + ParsedBuildProfile" where
  "server_build_profile j =
    rbind (only_keys [''schema_version'', ''source'', ''kernel_source_ref'', ''config'',
             ''profile_requirements'', ''patch_ref'', ''build_host''] j) (\<lambda>_.
    rbind (required schema_version ''schema_version'' j) (\<lambda>_.
    rbind (required kernel_source_field ''kernel_source_ref'' j) (\<lambda>src.
    rbind (nullable component_ref_field ''config'' j) (\<lambda>cfg.
    rbind (nullable requirements_ref ''profile_requirements'' j) (\<lambda>req.
    rbind (nullable NonEmptyStr ''patch_ref'' j) (\<lambda>patch.
    rbind (nullable NonEmptyStr ''build_host'' j) (\<lambda>host.
      Inr (ServerBuild \<lparr>sb_kernel_source_ref = src, sb_config = cfg, sb_profile_requirements = req,
             sb_patch_ref = patch, sb_build_host = host\<rparr>))))))))"

definition external_build_profile :: "json \<Rightarrow> exn + ParsedBuildProfile" where
  "external_build_profile j =
    rbind (only_keys [''schema_version'', ''source'', ''profile_requirements''] j) (\<lambda>_.
    rbind (required schema_version ''schema_version'' j) (\<lambda>_.
    rbind (nullable requirements_ref ''profile_requirements'' j) (\<lambda>req. Inr (ExternalBuild req))))"

fun is_mapping :: "json \<Rightarrow> bool" where
  "is_mapping (JObj _) = True"
| "is_mapping _ = False"

definition parse_build_profile :: "json \<Rightarrow> exn + ParsedBuildProfile" where
  "parse_build_profile j =
    (if \<not> is_mapping j then bad
     else case json_get ''source'' j of
            None \<Rightarrow> server_build_profile j
          | Some v \<Rightarrow>
              if v = JStr ''server'' then server_build_profile j
              else if v = JStr ''external'' then external_build_profile j
              else bad)"

fun is_git :: "KernelSource \<Rightarrow> bool" where
  "is_git (GitKernelSource _ _) = True"
| "is_git (WarmTree _) = False"

definition is_git_source :: "ServerBuildProfile \<Rightarrow> bool" where
  "is_git_source p = is_git (sb_kernel_source_ref p)"


section \<open>Hosts and leases\<close>

definition WORKER_LOCAL_ID :: uuid where "WORKER_LOCAL_ID = 192"

definition get_by_name :: "string \<Rightarrow> Db \<Rightarrow> BuildHost option" where
  "get_by_name name db = find (\<lambda>h. bh_name h = name) (build_hosts db)"

definition get_by_id :: "uuid \<Rightarrow> Db \<Rightarrow> BuildHost option" where
  "get_by_id k db = tbl_get bh_id k (build_hosts db)"

text \<open>\<open>ORDER BY name\<close> depends on the database's collation, the argument \<open>by_name\<close>.\<close>

definition list_probeable_ssh_hosts :: "(BuildHost list \<Rightarrow> BuildHost list) \<Rightarrow> Db \<Rightarrow> BuildHost list" where
  "list_probeable_ssh_hosts by_name db = by_name (filter (\<lambda>h. bh_kind h = SSH \<and> bh_enabled h) (build_hosts db))"

definition mark_state :: "uuid \<Rightarrow> BuildHostState \<Rightarrow> BuildHostState \<Rightarrow> Db \<Rightarrow> Db \<times> nat" where
  "mark_state k new expected db =
    (db\<lparr>build_hosts := map (\<lambda>h. if bh_id h = k \<and> bh_state h = expected then h\<lparr>bh_state := new\<rparr> else h) (build_hosts db)\<rparr>,
     count_rows (\<lambda>h. bh_id h = k \<and> bh_state h = expected) (build_hosts db))"

definition lease_count :: "uuid \<Rightarrow> Db \<Rightarrow> nat" where
  "lease_count k db = count_rows (\<lambda>l. bl_build_host_id l = k) (build_host_leases db)"

definition try_acquire_lease :: "BuildHost \<Rightarrow> uuid \<Rightarrow> Db \<Rightarrow> exn + (Db \<times> bool)" where
  "try_acquire_lease host run_id db =
    (if list_ex (\<lambda>l. bl_run_id l = run_id \<and> bl_build_host_id l = bh_id host) (build_host_leases db)
     then Inr (db, True)
     else if max_concurrent host \<le> int (lease_count (bh_id host) db) then Inr (db, False)
     else rbind (tbl_insert bl_run_id \<lparr>bl_run_id = run_id, bl_build_host_id = bh_id host\<rparr> (build_host_leases db)) (\<lambda>t.
          rbind (guard (bh_id host \<in> bh_id ` set (build_hosts db)) ForeignKeyViolation) (\<lambda>_.
            Inr (db\<lparr>build_host_leases := t\<rparr>, True))))"

definition release_lease :: "uuid \<Rightarrow> Db \<Rightarrow> Db" where
  "release_lease run_id db = db\<lparr>build_host_leases := filter (\<lambda>l. bl_run_id l \<noteq> run_id) (build_host_leases db)\<rparr>"

definition resolve_and_admit :: "ServerBuildProfile \<Rightarrow> uuid \<Rightarrow> Db \<Rightarrow> exn + (Db \<times> BuildHost)" where
  "resolve_and_admit p run_id db =
    (case get_by_name (case sb_build_host p of None \<Rightarrow> ''worker-local'' | Some n \<Rightarrow> n) db of
       None \<Rightarrow> Inl (CategorizedError NOT_FOUND)
     | Some host \<Rightarrow>
         rbind (guard (bh_enabled host \<and> bh_state host \<noteq> UNREACHABLE) config_error) (\<lambda>_.
         rbind (guard (\<not> (bh_kind host = LOCAL \<and> is_git_source p)) config_error) (\<lambda>_.
         rbind (guard (bh_kind host = LOCAL \<or> is_git_source p) config_error) (\<lambda>_.
           if bh_kind host = LOCAL then Inr (db, host)
           else rbind (try_acquire_lease host run_id db) (\<lambda>(db, ok).
                rbind (guard ok (CategorizedError CAPACITY_EXHAUSTED)) (\<lambda>_. Inr (db, host)))))))"


section \<open>Admission of builds, installs and boots\<close>

datatype RunResult =
    RunFailure ErrorCategory
  | RunJob Job uuid

abbreviation run_failure :: "ErrorCategory \<Rightarrow> Db \<Rightarrow> exn + (Db \<times> RunResult)" where
  "run_failure c db \<equiv> Inr (db, RunFailure c)"

definition RUNS_get :: "uuid \<Rightarrow> Db \<Rightarrow> Run option" where
  "RUNS_get k db = tbl_get oid k (runs db)"

definition RUN_BUILD_TERMINAL :: "RunState list" where
  "RUN_BUILD_TERMINAL = [RunState.FAILED, RunState.CANCELED]"

definition run_event :: "string \<Rightarrow> uuid \<Rightarrow> string \<Rightarrow> string \<Rightarrow> AuditEvent" where
  "run_event tool k transition p =
    \<lparr>ev_tool = tool, ev_object_kind = ''runs'', ev_object_id = k, ev_transition = transition, ev_project = p\<rparr>"

definition set_run :: "uuid \<Rightarrow> RunState \<Rightarrow> (Run \<Rightarrow> Run) \<Rightarrow> Db \<Rightarrow> Db" where
  "set_run k from f db = db\<lparr>runs := map (\<lambda>r. if oid r = k \<and> run_state r = from
     then touch (db_clock db) f r else r) (runs db)\<rparr>"

definition build_key :: "uuid \<Rightarrow> string" where
  "build_key k = uuid_str k @ '':build''"

text \<open>
  The payload's constructor strips the command line and raises on a blank one, the
  validation library's error, which is a \<open>ValueError\<close>.
\<close>

definition enqueue_build ::
  "uuid \<Rightarrow> RequestContext \<Rightarrow> Run \<Rightarrow> string option \<Rightarrow> uuid \<Rightarrow> Db \<Rightarrow> exn + (Db \<times> Job)" where
  "enqueue_build jid ctx run cmdline host_id db =
    (case nonblank_cmdline (if cmdline = Some [] then None else cmdline) of
       Inl _ \<Rightarrow> Inl ValueError
     | Inr cmdline \<Rightarrow>
         queue_enqueue jid BUILD (BuildPayload (uuid_str (oid run)) cmdline (uuid_str host_id))
           (job_authorizing ctx (project run)) (build_key (oid run)) DEFAULT_MAX_ATTEMPTS db)"

definition start_build :: "RequestContext \<Rightarrow> Run \<Rightarrow> RunState \<Rightarrow> Db \<Rightarrow> exn + Db" where
  "start_build ctx run state db =
    (if state = RunState.CREATED
     then audit_record ctx (run_event ''runs.build'' (oid run) ''created->running'' (project run))
            (set_run (oid run) RunState.CREATED (run_state_update (\<lambda>_. RunState.RUNNING)) db)
     else Inr db)"

definition admit_build ::
  "uuid \<Rightarrow> RequestContext \<Rightarrow> Run \<Rightarrow> string option \<Rightarrow> ServerBuildProfile \<Rightarrow> Db \<Rightarrow> exn + (Db \<times> Job)" where
  "admit_build jid ctx run cmdline p db =
    rbind (resolve_and_admit p (oid run) db) (\<lambda>(db, host).
      case RUNS_get (oid run) db of
        None \<Rightarrow> Inl config_error
      | Some row \<Rightarrow>
          rbind (guard (run_state row \<notin> set RUN_BUILD_TERMINAL) config_error) (\<lambda>_.
          rbind (start_build ctx run (run_state row) db) (\<lambda>db.
            enqueue_build jid ctx run cmdline (bh_id host) db)))"

definition build_locked ::
  "uuid \<Rightarrow> RequestContext \<Rightarrow> Run \<Rightarrow> string option \<Rightarrow> ServerBuildProfile \<Rightarrow> Db \<Rightarrow> exn + (Db \<times> RunResult)" where
  "build_locked jid ctx run cmdline p db =
    on_categorized (admit_build jid ctx run cmdline p db) (\<lambda>c. run_failure c db)
      (\<lambda>(db, job). Inr (db, RunJob job (oid run)))"

definition PLATFORM_OWNED_CMDLINE_TOKENS :: "string list" where
  "PLATFORM_OWNED_CMDLINE_TOKENS = [''root='', ''console='', ''crashkernel='']"

definition platform_owned_cmdline_token :: "string option \<Rightarrow> string option" where
  "platform_owned_cmdline_token cmdline =
    (case cmdline of None \<Rightarrow> None | Some c \<Rightarrow> find (\<lambda>tok. sublist tok c) PLATFORM_OWNED_CMDLINE_TOKENS)"

definition DEFAULT_CONFIG_REF :: ComponentRef where
  "DEFAULT_CONFIG_REF = ComponentRef (CatalogComponentRef ''system'' ''kdump'')"

fun component_ref_kind :: "ComponentRef \<Rightarrow> string" where
  "component_ref_kind (ComponentRef r) = ref_kind r"
| "component_ref_kind (ComponentUploadRef _ _) = ''component-upload''"

definition reject_unsupported_config :: "(string \<times> string list) list \<Rightarrow> ComponentRef \<Rightarrow> exn + unit" where
  "reject_unsupported_config caps ref =
    guard (component_ref_kind ref \<in> set (case map_of caps ''config'' of None \<Rightarrow> [] | Some ks \<Rightarrow> ks)) config_error"

text \<open>A Run of the caller's projects, with the operator's role, or the not-found answer.\<close>

definition operator_run ::
  "RequestContext \<Rightarrow> string \<Rightarrow> Db \<Rightarrow> (Run \<Rightarrow> exn + (Db \<times> RunResult)) \<Rightarrow> exn + (Db \<times> RunResult)" where
  "operator_run ctx run_id db continue =
    (case as_uuid run_id of
       None \<Rightarrow> run_failure CONFIGURATION_ERROR db
     | Some k \<Rightarrow>
         (case RUNS_get k db of
            None \<Rightarrow> run_failure CONFIGURATION_ERROR db
          | Some run \<Rightarrow>
              if project run \<notin> set (ctx_projects ctx) then run_failure CONFIGURATION_ERROR db
              else rbind (require_role ctx (project run) Role.OPERATOR) (\<lambda>_. continue run)))"

definition build_with ::
  "uuid \<Rightarrow> (string \<times> string list) list \<Rightarrow> (ComponentRef \<Rightarrow> exn + unit) \<Rightarrow> RequestContext \<Rightarrow> string option \<Rightarrow> Run \<Rightarrow>
   ServerBuildProfile \<Rightarrow> Db \<Rightarrow> exn + (Db \<times> RunResult)" where
  "build_with jid caps config_validator ctx cmdline run p db =
    (let cfg = (case sb_config p of None \<Rightarrow> DEFAULT_CONFIG_REF | Some r \<Rightarrow> r)
     in on_categorized (reject_unsupported_config caps cfg) (\<lambda>c. run_failure c db) (\<lambda>_.
        on_categorized (config_validator cfg) (\<lambda>c. run_failure c db) (\<lambda>_.
          build_locked jid ctx run cmdline p db)))"

definition server_build_of ::
  "uuid \<Rightarrow> (string \<times> string list) list \<Rightarrow> (ComponentRef \<Rightarrow> exn + unit) \<Rightarrow> RequestContext \<Rightarrow> string option \<Rightarrow> Run \<Rightarrow>
   Db \<Rightarrow> exn + (Db \<times> RunResult)" where
  "server_build_of jid caps config_validator ctx cmdline run db =
    on_categorized (parse_build_profile (build_profile run)) (\<lambda>c. run_failure c db) (\<lambda>parsed.
      case parsed of
        ExternalBuild _ \<Rightarrow> run_failure CONFIGURATION_ERROR db
      | ServerBuild p \<Rightarrow> build_with jid caps config_validator ctx cmdline run p db)"

definition build_run ::
  "uuid \<Rightarrow> (string \<times> string list) list \<Rightarrow> (ComponentRef \<Rightarrow> exn + unit) \<Rightarrow> RequestContext \<Rightarrow> string \<Rightarrow>
   string option \<Rightarrow> Db \<Rightarrow> exn + (Db \<times> RunResult)" where
  "build_run jid caps config_validator ctx run_id cmdline db =
    (if as_uuid run_id = None \<or> platform_owned_cmdline_token cmdline \<noteq> None
     then run_failure CONFIGURATION_ERROR db
     else operator_run ctx run_id db (\<lambda>run. server_build_of jid caps config_validator ctx cmdline run db))"

definition enqueue_step ::
  "uuid \<Rightarrow> RequestContext \<Rightarrow> Run \<Rightarrow> JobKind \<Rightarrow> string \<Rightarrow> string \<Rightarrow> Db \<Rightarrow> exn + (Db \<times> RunResult)" where
  "enqueue_step jid ctx run kind step tool db =
    rbind (queue_enqueue jid kind (RunPayload (uuid_str (oid run))) (job_authorizing ctx (project run))
             (uuid_str (oid run) @ '':'' @ step) DEFAULT_MAX_ATTEMPTS db) (\<lambda>(db, job).
    rbind (audit_record ctx (run_event tool (oid run) step (project run)) db) (\<lambda>db.
      Inr (db, RunJob job (oid run))))"

definition has_succeeded_step :: "uuid \<Rightarrow> string \<Rightarrow> Db \<Rightarrow> bool" where
  "has_succeeded_step k step db =
    list_ex (\<lambda>s. rs_run_id s = k \<and> rs_step s = step \<and> rs_state s = ''succeeded'') (run_steps db)"

definition install_run :: "uuid \<Rightarrow> RequestContext \<Rightarrow> string \<Rightarrow> Db \<Rightarrow> exn + (Db \<times> RunResult)" where
  "install_run jid ctx run_id db = operator_run ctx run_id db (\<lambda>run.
     if run_state run \<noteq> RunState.SUCCEEDED then run_failure CONFIGURATION_ERROR db
     else enqueue_step jid ctx run INSTALL ''install'' ''runs.install'' db)"

definition boot_run :: "uuid \<Rightarrow> RequestContext \<Rightarrow> string \<Rightarrow> Db \<Rightarrow> exn + (Db \<times> RunResult)" where
  "boot_run jid ctx run_id db = operator_run ctx run_id db (\<lambda>run.
     if run_state run \<noteq> RunState.SUCCEEDED then run_failure CONFIGURATION_ERROR db
     else if \<not> has_succeeded_step (oid run) ''install'' db then run_failure CONFIGURATION_ERROR db
     else enqueue_step jid ctx run BOOT ''boot'' ''runs.boot'' db)"


section \<open>Operators' tools\<close>

fun PlatformRole_value :: "PlatformRole \<Rightarrow> string" where
  "PlatformRole_value PLATFORM_ADMIN = ''platform_admin''"
| "PlatformRole_value PLATFORM_OPERATOR = ''platform_operator''"
| "PlatformRole_value PLATFORM_AUDITOR = ''platform_auditor''"

fun join_comma :: "string list \<Rightarrow> string" where
  "join_comma [] = []"
| "join_comma [x] = x"
| "join_comma (x # xs) = x @ '','' @ join_comma xs"

text \<open>The sorted, comma-separated roles: in the order of the texts.\<close>

definition held_platform_roles :: "RequestContext \<Rightarrow> string option" where
  "held_platform_roles ctx =
    (if ctx_platform_roles ctx = [] then None
     else Some (join_comma (map PlatformRole_value
       (filter (\<lambda>r. r \<in> set (ctx_platform_roles ctx)) [PLATFORM_ADMIN, PLATFORM_AUDITOR, PLATFORM_OPERATOR]))))"

definition resolve_actor :: "string option \<Rightarrow> string option \<Rightarrow> string \<Rightarrow> string" where
  "resolve_actor client_id session cli_client_id =
    (if client_id = Some cli_client_id then ''operator-cli''
     else if session \<noteq> None \<and> session \<noteq> Some [] then ''agent''
     else ''unknown'')"

definition actor_for :: "string \<Rightarrow> RequestContext \<Rightarrow> string" where
  "actor_for cli_client_id ctx = resolve_actor (ctx_client_id ctx) (ctx_agent_session ctx) cli_client_id"

definition record_host_event :: "string \<Rightarrow> RequestContext \<Rightarrow> string \<Rightarrow> string \<Rightarrow> Db \<Rightarrow> Db" where
  "record_host_event cli ctx tool scope =
    record_platform (ctx_principal ctx) (ctx_agent_session ctx)
      \<lparr>pe_tool = tool, pe_scope = scope, pe_platform_role = held_platform_roles ctx, pe_actor = actor_for cli ctx\<rparr>"

definition audit_platform_denial :: "string \<Rightarrow> RequestContext \<Rightarrow> string \<Rightarrow> string \<Rightarrow> Db \<Rightarrow> Db" where
  "audit_platform_denial cli ctx tool scope db =
    (if held_platform_roles ctx = None then db else record_host_event cli ctx tool scope db)"

datatype HostResult =
    HostFailure ErrorCategory
  | HostDone uuid string

definition as_platform_admin ::
  "string \<Rightarrow> RequestContext \<Rightarrow> string \<Rightarrow> string \<Rightarrow> Db \<Rightarrow> (unit \<Rightarrow> exn + (Db \<times> HostResult)) \<Rightarrow> exn + (Db \<times> HostResult)" where
  "as_platform_admin cli ctx tool name db continue =
    (case require_platform_role ctx PLATFORM_ADMIN of
       Inl AuthorizationError \<Rightarrow>
         Inr (audit_platform_denial cli ctx tool (''denied:'' @ name) db, HostFailure AUTHORIZATION_DENIED)
     | Inl e \<Rightarrow> Inl e
     | Inr _ \<Rightarrow> continue ())"

record HostRegistration =
  hr_kind :: BuildHostKind
  hr_name :: string
  hr_address :: "string option"
  hr_ssh_credential_ref :: "string option"
  hr_base_image_volume :: "string option"
  hr_workspace_root :: string
  hr_max_concurrent :: int

definition nonblank :: "string option \<Rightarrow> bool" where
  "nonblank v = (case v of None \<Rightarrow> False | Some s \<Rightarrow> py_strip s \<noteq> [])"

definition nonempty :: "string option \<Rightarrow> bool" where
  "nonempty v \<longleftrightarrow> v \<noteq> None \<and> v \<noteq> Some []"

definition new_host :: "uuid \<Rightarrow> HostRegistration \<Rightarrow> BuildHost" where
  "new_host k r =
    \<lparr>bh_id = k, bh_name = hr_name r, bh_kind = hr_kind r,
     bh_address = (if hr_kind r = SSH then hr_address r else None),
     bh_ssh_credential_ref = (if hr_kind r = SSH then hr_ssh_credential_ref r else None),
     bh_base_image_volume = (if hr_kind r = SSH then None else hr_base_image_volume r),
     bh_workspace_root = hr_workspace_root r, max_concurrent = hr_max_concurrent r,
     bh_enabled = True, bh_state = READY, bh_managed_by = ByRuntime\<rparr>"

fun registration_plan :: "HostRegistration \<Rightarrow> bool" where
  "registration_plan r =
    (case hr_kind r of
       SSH \<Rightarrow> nonblank (hr_ssh_credential_ref r) \<and> nonblank (hr_address r) \<and> \<not> nonempty (hr_base_image_volume r)
     | EPHEMERAL_LIBVIRT \<Rightarrow>
         nonblank (hr_base_image_volume r) \<and> \<not> nonempty (hr_address r) \<and> \<not> nonempty (hr_ssh_credential_ref r)
     | LOCAL \<Rightarrow> False)"

definition insert_build_host :: "BuildHost \<Rightarrow> Db \<Rightarrow> exn + Db" where
  "insert_build_host h db =
    rbind (guard (int4 (Some (max_concurrent h))) NumericOutOfRange) (\<lambda>_.
    rbind (tbl_insert bh_id h (build_hosts db)) (\<lambda>t.
    rbind (guard (bh_name h \<notin> bh_name ` set (build_hosts db)) UniqueViolation) (\<lambda>_. Inr (db\<lparr>build_hosts := t\<rparr>))))"

definition register_build_host ::
  "string \<Rightarrow> uuid \<Rightarrow> RequestContext \<Rightarrow> string \<Rightarrow> HostRegistration \<Rightarrow> Db \<Rightarrow> exn + (Db \<times> HostResult)" where
  "register_build_host cli k ctx tool r db =
    as_platform_admin cli ctx tool (hr_name r) db (\<lambda>_.
      if hr_max_concurrent r \<le> 0 \<or> \<not> registration_plan r then Inr (db, HostFailure CONFIGURATION_ERROR)
      else case insert_build_host (new_host k r) db of
             Inl UniqueViolation \<Rightarrow> Inr (db, HostFailure CONFLICT)
           | Inl e \<Rightarrow> Inl e
           | Inr db \<Rightarrow> Inr (record_host_event cli ctx tool (''build_host:'' @ uuid_str k) db, HostDone k ''registered''))"

text \<open>The named host, unless it is the seeded local one.\<close>

definition unprotected_host ::
  "string \<Rightarrow> Db \<Rightarrow> (BuildHost \<Rightarrow> exn + (Db \<times> HostResult)) \<Rightarrow> exn + (Db \<times> HostResult)" where
  "unprotected_host name db continue =
    (if name = ''worker-local'' then Inr (db, HostFailure CONFLICT)
     else case get_by_name name db of
            None \<Rightarrow> Inr (db, HostFailure NOT_FOUND)
          | Some h \<Rightarrow> if bh_id h = WORKER_LOCAL_ID then Inr (db, HostFailure CONFLICT) else continue h)"

definition disable_build_host ::
  "string \<Rightarrow> RequestContext \<Rightarrow> string \<Rightarrow> Db \<Rightarrow> exn + (Db \<times> HostResult)" where
  "disable_build_host cli ctx name db =
    as_platform_admin cli ctx ''build_hosts.disable'' name db (\<lambda>_. unprotected_host name db (\<lambda>h.
      Inr (record_host_event cli ctx ''build_hosts.disable'' (''build_host:'' @ uuid_str (bh_id h))
             (db\<lparr>build_hosts := tbl_update bh_id (bh_id h) (bh_enabled_update (\<lambda>_. False)) (build_hosts db)\<rparr>),
           HostDone (bh_id h) ''disabled'')))"

definition remove_build_host ::
  "string \<Rightarrow> RequestContext \<Rightarrow> string \<Rightarrow> Db \<Rightarrow> exn + (Db \<times> HostResult)" where
  "remove_build_host cli ctx name db =
    as_platform_admin cli ctx ''build_hosts.remove'' name db (\<lambda>_. unprotected_host name db (\<lambda>h.
      if bh_id h \<in> bl_build_host_id ` set (build_host_leases db) then Inr (db, HostFailure CONFLICT)
      else Inr (record_host_event cli ctx ''build_hosts.remove'' (''build_host:'' @ uuid_str (bh_id h))
                  (db\<lparr>build_hosts := filter (\<lambda>g. bh_id g \<noteq> bh_id h) (build_hosts db)\<rparr>),
                HostDone (bh_id h) ''removed'')))"


section \<open>The reconciler's passes\<close>

text \<open>
  \<open>(payload->>'run_id')::uuid = run_id\<close>: payloads are dumped with the canonical text of the
  identifier, which the database and Python read alike.
\<close>

definition names_run :: "uuid \<Rightarrow> Job \<Rightarrow> bool" where
  "names_run run_id j =
    (case json_get ''run_id'' (payload j) of Some (JStr s) \<Rightarrow> UUID s = Inr run_id | _ \<Rightarrow> False)"

definition build_job_is_live :: "uuid \<Rightarrow> Db \<Rightarrow> bool" where
  "build_job_is_live run_id db =
    list_ex (\<lambda>j. job_kind j = BUILD \<and> names_run run_id j \<and> job_state j \<in> {JobState.QUEUED, JobState.RUNNING}) (jobs db)"

definition reclaim_orphan_build_host_leases :: "Db \<Rightarrow> Db \<times> nat" where
  "reclaim_orphan_build_host_leases db =
    (db\<lparr>build_host_leases := filter (\<lambda>l. build_job_is_live (bl_run_id l) db) (build_host_leases db)\<rparr>,
     count_rows (\<lambda>l. \<not> build_job_is_live (bl_run_id l) db) (build_host_leases db))"

text \<open>
  The probe of one host: \<open>others\<close> is what other sessions commit while the host is
  contacted.  A failure of the probe or of the write skips the host.
\<close>

definition probe_one :: "(BuildHost \<Rightarrow> Db \<Rightarrow> Db) \<Rightarrow> (BuildHost \<Rightarrow> exn + bool) \<Rightarrow> BuildHost \<Rightarrow> Db \<Rightarrow> Db \<times> nat" where
  "probe_one others prober h db =
    (let db = others h db
     in case prober h of
          Inl _ \<Rightarrow> (db, 0)
        | Inr reachable \<Rightarrow>
            let new = (if reachable then READY else UNREACHABLE)
            in if new \<noteq> bh_state h then mark_state (bh_id h) new (bh_state h) db else (db, 0))"

fun probe_all :: "(BuildHost \<Rightarrow> Db \<Rightarrow> Db) \<Rightarrow> (BuildHost \<Rightarrow> exn + bool) \<Rightarrow> BuildHost list \<Rightarrow> Db \<Rightarrow> Db \<times> nat" where
  "probe_all others prober [] db = (db, 0)"
| "probe_all others prober (h # hs) db =
    (case probe_one others prober h db of (db', n) \<Rightarrow>
      (case probe_all others prober hs db' of (db'', m) \<Rightarrow> (db'', n + m)))"

definition probe_build_host_reachability ::
  "(BuildHost list \<Rightarrow> BuildHost list) \<Rightarrow> (BuildHost \<Rightarrow> Db \<Rightarrow> Db) \<Rightarrow> (BuildHost \<Rightarrow> exn + bool) \<Rightarrow> Db \<Rightarrow> Db \<times> nat" where
  "probe_build_host_reachability by_name others prober db =
    probe_all others prober (list_probeable_ssh_hosts by_name db) db"

record BuildVm =
  vm_domain_name :: string
  vm_run_id :: "uuid option"

text \<open>The domains deleted, and the exception that ended the pass.\<close>

fun reap_vms :: "(string \<Rightarrow> exn + unit) \<Rightarrow> BuildVm list \<Rightarrow> Db \<Rightarrow> string list \<Rightarrow> string list \<times> exn option" where
  "reap_vms delete [] db done = (done, None)"
| "reap_vms delete (vm # vms) db done =
    (if (case vm_run_id vm of None \<Rightarrow> True | Some r \<Rightarrow> build_job_is_live r db) then reap_vms delete vms db done
     else case delete (vm_domain_name vm) of
            Inl e \<Rightarrow> (done, Some e)
          | Inr _ \<Rightarrow> reap_vms delete vms db (done @ [vm_domain_name vm]))"

definition reap_orphan_build_vms ::
  "(string \<Rightarrow> exn + unit) \<Rightarrow> exn + BuildVm list \<Rightarrow> Db \<Rightarrow> string list \<times> exn option" where
  "reap_orphan_build_vms delete vms db =
    (case vms of Inl e \<Rightarrow> ([], Some e) | Inr vs \<Rightarrow> reap_vms delete vs db [])"

end
