(* ===== verification/Alloc_Service.thy ===== *)
theory Alloc_Service
  imports Alloc_Invariants Systems_Machine Build_Hosts
begin

text \<open>
  The allocation services as one state machine.  A step is one committed request of
  a client (\<open>allocations.request\<close>, \<open>renew\<close>, \<open>release\<close>, the creation of a
  System on an allocation, the accounting administration of
  \<open>mcp/tools/accounting/admin.py\<close>), a break-glass release
  (\<open>mcp/tools/ops/breakglass.py\<close>), the seeding of a project, one run of a System job's
  handler, one candidate of a reconciler sweep or a whole sweep, or the passing of time; an
  exception is no step, since its transaction rolls back.  The sweeps commit after each
  candidate, so a sweep with other sessions' commits between its candidates is a
  sequence of candidate steps.  The accounting invariant holds in every reachable state.
\<close>

section \<open>Budgets and quotas\<close>

record QuotaSetRequest =
  qs_project :: string
  qs_max_concurrent_allocations :: int
  qs_max_concurrent_systems :: int
  qs_max_pending_allocations :: int

definition parse_non_negative_kcu :: "string \<Rightarrow> exn + rat" where
  "parse_non_negative_kcu value =
    (case dec_of_string value of
       None \<Rightarrow> Inl config_error
     | Some (Fin r) \<Rightarrow> if r < 0 then Inl config_error else Inr r
     | Some _ \<Rightarrow> Inl config_error)"

definition audit_set :: "RequestContext \<Rightarrow> string \<Rightarrow> string \<Rightarrow> Db \<Rightarrow> exn + Db" where
  "audit_set ctx p tool db =
    audit_record ctx
      \<lparr>ev_tool = ''accounting.'' @ tool,
       ev_object_kind = (if tool = ''set_budget'' then ''budgets'' else ''quotas''), ev_object_id = 0,
       ev_transition = tool @ '':applied'', ev_project = p\<rparr> db"

text \<open>The response is \<open>None\<close> on success and the error category otherwise.\<close>

definition set_budget ::
  "RequestContext \<Rightarrow> string \<Rightarrow> string \<Rightarrow> Db \<Rightarrow> exn + (Db \<times> ErrorCategory option)" where
  "set_budget ctx p limit db =
    rbind (require_project ctx p) (\<lambda>_.
    rbind (require_role ctx p Role.ADMIN) (\<lambda>_.
      case parse_non_negative_kcu limit of
        Inl (CategorizedError c) \<Rightarrow> Inr (db, Some c)
      | Inl e \<Rightarrow> Inl e
      | Inr l \<Rightarrow>
          rbind (audit_set ctx p ''set_budget''
                   (BUDGETS_upsert \<lparr>bud_project = p, limit_kcu = l, spent_kcu = 0, bud_updated_at = 0\<rparr> db))
            (\<lambda>db. Inr (db, None))))"

definition set_quota ::
  "RequestContext \<Rightarrow> QuotaSetRequest \<Rightarrow> Db \<Rightarrow> exn + (Db \<times> ErrorCategory option)" where
  "set_quota ctx request db =
    rbind (require_project ctx (qs_project request)) (\<lambda>_.
    rbind (require_role ctx (qs_project request) Role.ADMIN) (\<lambda>_.
      if qs_max_concurrent_allocations request < 0 \<or> qs_max_concurrent_systems request < 0 \<or>
         qs_max_pending_allocations request < 0
      then Inr (db, Some CONFIGURATION_ERROR)
      else rbind (QUOTAS_upsert \<lparr>quo_project = qs_project request,
                    max_concurrent_allocations = qs_max_concurrent_allocations request,
                    max_concurrent_systems = qs_max_concurrent_systems request,
                    max_pending_allocations = qs_max_pending_allocations request, quo_updated_at = 0\<rparr> db) (\<lambda>db.
           rbind (audit_set ctx (qs_project request) ''set_quota'' db) (\<lambda>db. Inr (db, None)))))"

lemma audit_set_frame:
  assumes "audit_set ctx p tool db = Inr db'"
  obtains log where "db' = db\<lparr>audit_log := log\<rparr>"
  using assms unfolding audit_set_def by (rule audit_record_Inr)

lemma BUDGETS_upsert_balanced:
  assumes "balanced db" "spent_kcu b = 0"
  shows "balanced (BUDGETS_upsert b db)"
proof -
  let ?new = "b\<lparr>bud_updated_at := db_clock db\<rparr>"
  let ?m = "\<lambda>old. if limit_kcu old = limit_kcu ?new then old
       else old\<lparr>limit_kcu := limit_kcu ?new, bud_updated_at := db_clock db\<rparr>"
  have m: "bud_project (?m old) = bud_project old" "spent_kcu (?m old) = spent_kcu old" for old by simp_all
  have led: "ledger (BUDGETS_upsert b db) = ledger db" by (simp add: BUDGETS_upsert_def)
  have sums: "sum_ledger P (BUDGETS_upsert b db) = sum_ledger P db" for P by (rule sum_ledger_same [OF led])
  show ?thesis
  proof (cases "bud_project b \<in> bud_project ` set (budgets db)")
    case True
    then have bs: "budgets (BUDGETS_upsert b db) = tbl_update bud_project (bud_project b) ?m (budgets db)"
      by (simp add: BUDGETS_upsert_def tbl_upsert_def)
    have keys: "map bud_project (budgets (BUDGETS_upsert b db)) = map bud_project (budgets db)"
      unfolding bs by (rule tbl.upd_keys) simp
    have "\<exists>old\<in>set (budgets db). bud_project x = bud_project old \<and> spent_kcu x = spent_kcu old"
      if x: "x \<in> set (budgets (BUDGETS_upsert b db))" for x
    proof -
      obtain old where "old \<in> set (budgets db)" "x = (if bud_project old = bud_project b then ?m old else old)"
        using x unfolding bs tbl_update_def by auto
      then show ?thesis by (intro bexI [of _ old]) auto
    qed
    moreover have "bud_project ` set (budgets (BUDGETS_upsert b db)) = bud_project ` set (budgets db)"
      using keys by (metis list.set_map)
    ultimately show ?thesis
      using assms(1) keys unfolding balanced_def list_all_iff sums led by metis
  next
    case False
    then have bs: "budgets (BUDGETS_upsert b db) = budgets db @ [?new]"
      by (simp add: BUDGETS_upsert_def tbl_upsert_def)
    have "le_project e \<noteq> bud_project b" if "e \<in> set (ledger db)" for e
      using assms(1) False that unfolding balanced_def list_all_iff by metis
    then have "sum_ledger (\<lambda>e. le_project e = bud_project b) db = 0" by (rule sum_ledger_none)
    then show ?thesis using assms False unfolding balanced_def list_all_iff sums led bs by auto
  qed
qed

lemma seed_inv:
  assumes "acct_inv db"
  shows "acct_inv (BUDGETS_upsert \<lparr>bud_project = p, limit_kcu = l, spent_kcu = 0, bud_updated_at = 0\<rparr> db)"
  using assms BUDGETS_upsert_balanced [of db "\<lparr>bud_project = p, limit_kcu = l, spent_kcu = 0, bud_updated_at = 0\<rparr>"]
  unfolding acct_inv_def charges_ok_but_def n_rows_def by (simp add: BUDGETS_upsert_def)

lemma set_budget_inv:
  assumes "acct_inv db" "set_budget ctx p limit db = Inr (db', r)"
  shows "acct_inv db'"
proof -
  let ?up = "\<lambda>l. BUDGETS_upsert \<lparr>bud_project = p, limit_kcu = l, spent_kcu = 0, bud_updated_at = 0\<rparr> db"
  consider "db' = db" | l where "audit_set ctx p ''set_budget'' (?up l) = Inr db'"
    using assms(2) unfolding set_budget_def by (auto split: sum.splits exn.splits)
  then show ?thesis
  proof cases
    case 2
    have "acct_inv (?up l)" using assms(1) by (rule seed_inv)
    moreover obtain log where "db' = (?up l)\<lparr>audit_log := log\<rparr>" using 2 by (rule audit_set_frame)
    then have "acct_inv db' = acct_inv (?up l)" by (intro acct_inv_frame) simp_all
    ultimately show ?thesis by simp
  qed (use assms(1) in simp)
qed

lemma set_quota_inv:
  assumes "acct_inv db" "set_quota ctx request db = Inr (db', r)"
  shows "acct_inv db'"
proof -
  consider "db' = db" | q db1 where "QUOTAS_upsert q db = Inr db1"
      "audit_set ctx (qs_project request) ''set_quota'' db1 = Inr db'"
    using assms(2) unfolding set_quota_def by (auto split: if_splits)
  then show ?thesis
  proof cases
    case 2
    obtain log where "db' = db1\<lparr>audit_log := log\<rparr>" using 2(2) by (rule audit_set_frame)
    moreover obtain qs where "db1 = db\<lparr>quotas := qs\<rparr>" using 2(1) unfolding QUOTAS_upsert_def by auto
    ultimately have "acct_inv db' = acct_inv db" by (intro acct_inv_frame) simp_all
    then show ?thesis using assms(1) by simp
  qed (use assms(1) in simp)
qed


section \<open>Break-glass release\<close>

definition breakglass_audit_writer :: "string \<Rightarrow> AuditWriter" where
  "breakglass_audit_writer who event db = Inr (record_system who None event db)"

text \<open>
  The accountability row is committed before the release, so that it stays when the release
  raises; \<open>meanwhile\<close> is what other sessions commit in between.
\<close>

definition breakglass_release_allocation ::
  "Env \<Rightarrow> string \<Rightarrow> (Db \<Rightarrow> Db) \<Rightarrow> RequestContext \<Rightarrow> Allocation \<Rightarrow> string \<Rightarrow> Db \<Rightarrow> Db \<times> (exn + ReleaseOutcome)" where
  "breakglass_release_allocation env cli meanwhile ctx alloc tool db =
    (let db = meanwhile (record_host_event cli ctx tool (project alloc @ '':'' @ uuid_str (oid alloc)) db)
     in case release_with_backstops env (breakglass_audit_writer (ctx_principal ctx)) (oid alloc) (project alloc) db of
          Inl e \<Rightarrow> (db, Inl e)
        | Inr (db', outcome) \<Rightarrow> (db', Inr outcome))"

text \<open>The response is \<open>None\<close> on success and the error category otherwise.\<close>

definition force_release_response :: "ReleaseOutcome \<Rightarrow> ErrorCategory option" where
  "force_release_response outcome =
    (if released outcome then None
     else Some (case rl_category outcome of None \<Rightarrow> CONFIGURATION_ERROR | Some c \<Rightarrow> c))"

definition force_release ::
  "Env \<Rightarrow> string \<Rightarrow> (Db \<Rightarrow> Db) \<Rightarrow> RequestContext \<Rightarrow> string \<Rightarrow> string \<Rightarrow> Db \<Rightarrow> Db \<times> (exn + ErrorCategory option)" where
  "force_release env cli meanwhile ctx alloc_text why db =
    (case require_platform_role ctx PLATFORM_ADMIN of
       Inl AuthorizationError \<Rightarrow>
         (audit_platform_denial cli ctx ''ops.force_release'' (''denied:'' @ alloc_text) db,
          Inr (Some AUTHORIZATION_DENIED))
     | Inl e \<Rightarrow> (db, Inl e)
     | Inr _ \<Rightarrow>
         (case if py_strip why = [] then None else Option.bind (as_uuid alloc_text) (\<lambda>k. ALLOCATIONS_get k db) of
            None \<Rightarrow> (db, Inr (Some CONFIGURATION_ERROR))
          | Some alloc \<Rightarrow>
              (case breakglass_release_allocation env cli meanwhile ctx alloc ''ops.force_release'' db of
                 (db', r) \<Rightarrow> (db', map_sum id force_release_response r))))"

interpretation breakglass_writer: audit_writer "breakglass_audit_writer who" for who
  by unfold_locales (auto simp: breakglass_audit_writer_def record_system_def)

lemma breakglass_inv:
  assumes "\<And>d. acct_inv d \<Longrightarrow> acct_inv (ot d)" "acct_inv db"
    and "breakglass_release_allocation env cli ot ctx alloc tool db = (db', r)"
  shows "acct_inv db'"
proof -
  let ?db = "ot (record_host_event cli ctx tool (project alloc @ '':'' @ uuid_str (oid alloc)) db)"
  have "acct_inv (record_host_event cli ctx tool (project alloc @ '':'' @ uuid_str (oid alloc)) db) = acct_inv db"
    by (rule acct_inv_frame) (simp_all add: record_host_event_def record_platform_def)
  then have "acct_inv ?db" using assms(1,2) by simp
  then show ?thesis
    using assms(3) breakglass_writer.release_with_backstops_inv [of ?db]
    by (auto simp: breakglass_release_allocation_def Let_def split: sum.splits prod.splits)
qed

lemma force_release_inv:
  assumes "\<And>d. acct_inv d \<Longrightarrow> acct_inv (ot d)" "acct_inv db"
    and "force_release env cli ot ctx t why db = (db', r)"
  shows "acct_inv db'"
proof -
  have "acct_inv (audit_platform_denial cli ctx tool scope db) = acct_inv db" for tool scope
    by (rule acct_inv_frame) (simp_all add: audit_platform_denial_def record_host_event_def record_platform_def)
  then show ?thesis
    using assms(2,3) breakglass_inv [of ot db env cli ctx _ "''ops.force_release''", OF assms(1,2)]
    unfolding force_release_def by (auto split: sum.splits exn.splits option.splits prod.splits)
qed


section \<open>The state machine\<close>

text \<open>
  \<open>elsewhere\<close> is a write of another component, or the passing of time: it leaves the
  allocations, the ledger and the budgets alone.
\<close>

inductive service_step :: "Db \<Rightarrow> Db \<Rightarrow> bool" where
  request: "request_admission env ctx p spec key db = Inr (db', r) \<Longrightarrow> service_step db db'"
| renew: "renew env ctx k extend_text key db = Inr (db', oc) \<Longrightarrow> service_step db db'"
| release: "release_with_backstops env (ctx_audit_writer ctx) k p db = Inr (db', oc') \<Longrightarrow> service_step db db'"
| breakglass: "(\<And>d. service_step\<^sup>*\<^sup>* d (ot d)) \<Longrightarrow>
    breakglass_release_allocation env cli ot ctx alloc tool db = (db', out) \<Longrightarrow> service_step db db'"
| force: "(\<And>d. service_step\<^sup>*\<^sup>* d (ot d)) \<Longrightarrow> force_release env cli ot ctx t why db = (db', c) \<Longrightarrow> service_step db db'"
| seed: "service_step db (BUDGETS_upsert \<lparr>bud_project = p, limit_kcu = l, spent_kcu = 0, bud_updated_at = 0\<rparr> db)"
| promote_candidate: "promote_one (envs k) k db = Inr (db', ok) \<Longrightarrow> service_step db db'"
| reap_candidate: "reap_one max_wait cand db = Inr (db', ok) \<Longrightarrow> service_step db db'"
| expire_candidate: "expire_one envs cand db = Inr (db', ok) \<Longrightarrow> service_step db db'"
| orphan_candidate: "reclaim_orphaned_active envs cand db = Inr (db', ok) \<Longrightarrow> service_step db db'"
| promote: "service_step db (fst (promote_pending envs db))"
| reap: "service_step db (fst (reap_queue_timeouts max_wait db))"
| expire: "service_step db (fst (sweep_expired_allocations envs db))"
| orphans: "service_step db (fst (reap_orphaned_active_allocations envs grace db))"
| budget: "set_budget ctx p limit db = Inr (db', c) \<Longrightarrow> service_step db db'"
| quota: "set_quota ctx q db = Inr (db', c) \<Longrightarrow> service_step db db'"
| system: "create_for_allocation sid jid policy caps v ctx k profile mode probe db = Inr (db', adm) \<Longrightarrow> service_step db db'"
| handler: "(\<And>c d. service_step\<^sup>*\<^sup>* d (others henv c d)) \<Longrightarrow> system_handlers henv (job_kind job) = Some h \<Longrightarrow>
    pool_connection (h job) db = (db', cs, res) \<Longrightarrow> service_step db db'"
| elsewhere: "allocations db' = allocations db \<Longrightarrow> ledger db' = ledger db \<Longrightarrow> budgets db' = budgets db \<Longrightarrow>
    service_step db db'"
  monos rtranclp_mono

text \<open>A fresh deployment has no allocation and no ledger row, and its budgets are unspent.\<close>

definition fresh_db :: "Db \<Rightarrow> bool" where
  "fresh_db db \<longleftrightarrow> allocations db = [] \<and> ledger db = [] \<and> distinct (map bud_project (budgets db)) \<and>
    list_all (\<lambda>b. spent_kcu b = 0) (budgets db)"

inductive reachable :: "Db \<Rightarrow> bool" where
  init: "fresh_db db \<Longrightarrow> reachable db"
| step: "reachable db \<Longrightarrow> service_step db db' \<Longrightarrow> reachable db'"

lemma fresh_inv: "fresh_db db \<Longrightarrow> acct_inv db"
  by (auto simp: fresh_db_def acct_inv_def charges_ok_but_def balanced_def list_all_iff sum_ledger_def)

text \<open>A write to one allocation row that keeps its state and lease is nothing to the accounts.\<close>

lemma acct_inv_touch:
  assumes "acct_inv db" "allocations db' = tbl_update oid k f (allocations db)" "ledger db' = ledger db"
    "budgets db' = budgets db" "\<And>a. oid (f a) = oid a" "\<And>a. project (f a) = project a"
    and same: "\<And>a n m. ALLOCATIONS_get k db = Some a \<Longrightarrow> charge_ok a n m \<Longrightarrow> charge_ok (f a) n m"
  shows "acct_inv db'"
proof (rule acct_invI)
  show "charges_ok_but {k} db'"
    using acct_inv_but [OF assms(1)] assms(3,4,2,5,6) by (rule charges_update)
  show "charge_ok a (n_rows RESERVED k db') (n_rows RECONCILED k db')" if a: "ALLOCATIONS_get k db' = Some a" for a
  proof -
    obtain a0 where "ALLOCATIONS_get k db = Some a0" "a = f a0"
      using a assms(2,5) by (auto simp: ALLOCATIONS_get_def tbl_get_update)
    then show ?thesis using same acct_inv_charge [OF assms(1)] by (simp add: n_rows_def assms(3))
  qed
qed

lemma create_inv:
  assumes "create_for_allocation sid jid policy caps v ctx k profile mode probe db = Inr (db', r)" "acct_inv db"
  shows "acct_inv db'"
  using assms(1)
proof (cases rule: create_for_allocation_Inr)
  case (requeued p aid s)
  show ?thesis using acct_inv_frame [OF enqueue_provision_Inr(2-4) [OF requeued]] assms(2) by blast
next
  case (created alloc p)
  note e = created_by_effect [OF created(4,1)]
  have "al_state alloc = AllocationState.GRANTED"
    using created(4) by (simp add: created_by_def new_system_allowed_None)
  then show ?thesis
    by (intro acct_inv_touch [OF assms(2) e(2-4)]) (auto simp: created(1) charge_ok_def)
qed (use assms(2) in simp)

interpretation charged: handler_invariant acct_inv
proof
  show "audit_record ctx ev db = Inr db' \<Longrightarrow> acct_inv db' = acct_inv db" for ctx ev db db'
    by (erule audit_record_Inr, rule acct_inv_frame) simp_all
  show "acct_inv db \<Longrightarrow> acct_inv (open_billing_interval k db)" for db k
    by (rule acct_inv_touch [where f = "touch (db_clock db) (\<lambda>a.
          if active_started_at a = None then a\<lparr>active_started_at := Some (db_clock db)\<rparr> else a)"])
      (auto simp: open_billing_interval_def charge_ok_def split: AllocationState.splits)
  have sys: "acct_inv (set_system k f db) = acct_inv db" for db k f by (rule acct_inv_frame) simp_all
  show "acct_inv db \<Longrightarrow> acct_inv (set_system k (sys_state_update (\<lambda>_. st)) db)"
    "acct_inv db \<Longrightarrow> acct_inv (set_system k (\<lambda>s. s\<lparr>sys_state := st, domain_name := dn\<rparr>) db)"
    "acct_inv db \<Longrightarrow> acct_inv (set_system k (\<lambda>s. s\<lparr>sys_state := st, domain_name := dn, target_fingerprint := fp\<rparr>) db)"
    for db k st dn fp by (simp_all add: sys)
qed (rule acct_inv_frame; simp)+

lemma service_step_inv: "service_step db db' \<Longrightarrow> acct_inv db \<Longrightarrow> acct_inv db'"
proof (induction rule: service_step.induct)
  case (elsewhere db' db)
  then show ?case by (simp add: acct_inv_frame [of db' db])
next
  case (system sid jid policy caps v ctx k profile mode probe db db' adm)
  then show ?case by (rule create_inv)
next
  case (handler henv job h db db' cs res)
  have "acct_inv (others henv c d)" if "acct_inv d" for c d
    using handler.IH(1) [of d c] that by (induction rule: rtranclp_induct) auto
  then show ?case using handler by (blast intro: charged.handler_keeps)
next
  case (breakglass ot env cli ctx alloc tool db db' out)
  have "acct_inv (ot d)" if "acct_inv d" for d
    using breakglass.IH [of d] that by (induction rule: rtranclp_induct) auto
  then show ?case using breakglass.prems breakglass.hyps by (rule breakglass_inv)
next
  case (force ot env cli ctx t why db db' c)
  have "acct_inv (ot d)" if "acct_inv d" for d
    using force.IH [of d] that by (induction rule: rtranclp_induct) auto
  then show ?case using force.prems force.hyps by (rule force_release_inv)
next
  case (seed db p l)
  then show ?case by (rule seed_inv)
qed (auto intro: request_admission_inv renew_inv ctx_writer.release_with_backstops_inv set_budget_inv set_quota_inv
       promote_one_inv reap_one_inv expire_one_inv reclaim_orphaned_active_inv promoting.sweep_keeps reaping.sweep_keeps expiring.sweep_keeps reclaiming.sweep_keeps
       simp: promote_pending_def reap_queue_timeouts_def sweep_expired_allocations_def
         reap_orphaned_active_allocations_def)

lemma reachable_inv: "reachable db \<Longrightarrow> acct_inv db"
  by (induction rule: reachable.induct) (auto intro: fresh_inv service_step_inv)

text \<open>
  C2. In every state the services can reach, a project's running spend equals the sum
  of its ledger rows, no ended allocation that reserved credit is left unreconciled or
  is reconciled twice, a live one is not reconciled yet, and a queued or failed request
  was never charged.
\<close>

theorem reachable_accounting:
  assumes "reachable db"
  shows "(\<forall>b\<in>set (budgets db). spent_kcu b = sum_ledger (\<lambda>e. le_project e = bud_project b) db) \<and>
    (\<forall>e\<in>set (ledger db). \<exists>a\<in>set (allocations db). oid a = le_allocation_id e \<and> project a = le_project e) \<and>
    (\<forall>a\<in>set (allocations db).
      (if al_state a \<in> {AllocationState.RELEASED, AllocationState.EXPIRED}
       then n_rows RECONCILED (oid a) db \<le> 1 \<and>
            (0 < n_rows RESERVED (oid a) db \<longrightarrow> n_rows RECONCILED (oid a) db = 1)
       else n_rows RECONCILED (oid a) db = 0) \<and>
      (al_state a \<in> {AllocationState.REQUESTED, AllocationState.FAILED} \<longrightarrow> n_rows RESERVED (oid a) db = 0))"
proof (intro conjI)
  have inv: "acct_inv db" by (rule reachable_inv [OF assms])
  then show "\<forall>b\<in>set (budgets db). spent_kcu b = sum_ledger (\<lambda>e. le_project e = bud_project b) db"
    and "\<forall>e\<in>set (ledger db). \<exists>a\<in>set (allocations db). oid a = le_allocation_id e \<and> project a = le_project e"
    by (simp_all add: acct_inv_def charges_ok_but_def balanced_def list_all_iff)
  have "charge_ok a (n_rows RESERVED (oid a) db) (n_rows RECONCILED (oid a) db)"
    if "a \<in> set (allocations db)" for a
    using that inv by (simp add: acct_inv_def charges_ok_but_def)
  then show "\<forall>a\<in>set (allocations db).
      (if al_state a \<in> {AllocationState.RELEASED, AllocationState.EXPIRED}
       then n_rows RECONCILED (oid a) db \<le> 1 \<and>
            (0 < n_rows RESERVED (oid a) db \<longrightarrow> n_rows RECONCILED (oid a) db = 1)
       else n_rows RECONCILED (oid a) db = 0) \<and>
      (al_state a \<in> {AllocationState.REQUESTED, AllocationState.FAILED} \<longrightarrow> n_rows RESERVED (oid a) db = 0)"
    unfolding charge_ok_def by (intro ballI) (rename_tac a, case_tac "al_state a"; fastforce)
qed

text \<open>A fresh deployment with one host and one funded project, and its first request.\<close>

definition example_fresh :: Db where
  "example_fresh = example_db\<lparr>allocations := [], ledger := [],
     budgets := [\<lparr>bud_project = ''kernel'', limit_kcu = 100, spent_kcu = 0, bud_updated_at = 0\<rparr>]\<rparr>"

definition example_spec :: AdmissionRequestSpec where
  "example_spec = \<lparr>sp_resource_id = None, sp_kind = LOCAL_LIBVIRT, sp_shape = None, sp_vcpus = Some 4,
     sp_memory_gb = Some 8, sp_disk_gb = Some 20, sp_window = None, sp_pcie_devices = [], sp_on_capacity = Deny\<rparr>"

definition example_sized :: AllocationRequest where
  "example_sized = example_request\<lparr>ar_requested_kind := Some LOCAL_LIBVIRT\<rparr>"

lemma example_sized_price: "price_window_and_estimate example_env example_sized example_fresh = Inr (4, 24)"
  using example_price by (simp add: price_window_and_estimate_def example_sized_def example_fresh_def)

lemma example_fresh_gate:
  "admission_gate example_sized 24 example_fresh = Inr \<lparr>gr_denial = None, gr_devices = []\<rparr>"
proof -
  have "dec_sub 100 0 = Inr 100" using kcu_exact(2) [of 0 100] by (simp add: on_kcu_grid_def)
  then show ?thesis
    by (simp add: admission_gate_def example_sized_def example_request_defs example_fresh_def example_defs
        project_may_place_def within_alloc_quota_def within_budget_def host_cap_check_def resolve_cap_def
        count_occupying_def project_occupying_def OCCUPYING_def tbl_get_def Let_def resolve_pcie_claim_def)
qed

lemma example_fresh_grant:
  "\<exists>db' a. grant example_env example_sized 4 24 [] example_fresh = Inr (db', grant_outcome a) \<and>
     allocations db' = [a] \<and> oid a = 11 \<and> n_rows RESERVED 11 db' = 1"
proof -
  have "add_hours 0 4 = Inr 14400000000"
    using add_hours_computes [of 4 14400 0] by (simp add: DATETIME_MIN_def DATETIME_MAX_def)
  moreover have "quantize_kcu 24 = Inr 24" by (rule quantize_kcu_grid) (simp_all add: on_kcu_grid_def)
  ultimately show ?thesis
    by (simp add: grant_def example_sized_def example_request_defs example_fresh_def example_defs request_row_def
        ALLOCATIONS_insert_def server_generated_def Let_def int4_def INT32_MAX_def allocations_check_def
        tbl_insert_def fk_def reserve_def write_delta_def ledger_cost_class_def tbl_get_def LEDGER_insert_def
        apply_to_spent_def has_budget_def record_key_if_def record_key_def audit_record_def request_event_def
        n_rows_def del: rbind_Inr_iff)
qed

lemma example_reachable:
  "\<exists>db' a. request_admission example_env example_ctx ''kernel'' example_spec (Some ''k1'') example_fresh = Inr (db', a) \<and>
     reachable db' \<and> map oid (allocations db') = [11] \<and> n_rows RESERVED 11 db' = 1"
proof -
  have "replay_of example_sized example_fresh = Inr None"
    by (simp add: replay_of_def resolve_replay_def example_sized_def example_request_defs example_fresh_def example_defs)
  then have "admit example_env example_sized example_fresh = grant example_env example_sized 4 24 [] example_fresh"
    if "grant example_env example_sized 4 24 [] example_fresh = Inr x" for x
    using that
    by (simp add: admit_def admit_under_project_lock_def example_sized_price example_fresh_gate categorized_denial_def)
  then obtain db' a where "admit example_env example_sized example_fresh = Inr (db', grant_outcome a)"
    and a: "allocations db' = [a]" "oid a = 11" "n_rows RESERVED 11 db' = 1"
    using example_fresh_grant by (elim exE conjE) (rule that, simp)
  moreover have "select_target None LOCAL_LIBVIRT [] ''kernel'' example_fresh = Inr (Some example_host)"
    by (simp add: select_target_def resolve_placement_candidates_def schedulable_candidates_def affinity_ok_def
        project_may_place_def example_fresh_def example_defs)
  moreover have "sized_request example_ctx ''kernel'' example_spec (Some ''k1'')
      \<lparr>rs_vcpus = 4, rs_memory_gb = 8, rs_disk_gb = 20, rs_pcie_match = None, rs_shape = None\<rparr> [] example_host =
      example_sized"
    by (simp add: sized_request_def example_spec_def example_sized_def example_request_def)
  ultimately obtain r where
    r: "request_admission example_env example_ctx ''kernel'' example_spec (Some ''k1'') example_fresh = Inr (db', r)"
    by (simp add: request_admission_def resolve_request_sizing_def compose_pcie_specs_def example_spec_def
        grant_outcome_def)
  have "fresh_db example_fresh" by (simp add: fresh_db_def example_fresh_def)
  then have "reachable db'" using r by (blast intro: reachable.intros service_step.request)
  with r a show ?thesis by auto
qed

theorem reachable_accounting_witness:
  "\<exists>db. reachable db \<and> map oid (allocations db) = [11] \<and> n_rows RESERVED 11 db = 1 \<and>
     (\<forall>b\<in>set (budgets db). spent_kcu b = sum_ledger (\<lambda>e. le_project e = bud_project b) db)"
proof -
  obtain db where db: "reachable db" "map oid (allocations db) = [11]" "n_rows RESERVED 11 db = 1"
    using example_reachable by (elim exE conjE) (rule that)
  with reachable_accounting [OF db(1), THEN conjunct1] show ?thesis by (intro exI [of _ db] conjI)
qed

end
