(* ===== verification/Job_Queue_Facts.thy ===== *)
theory Job_Queue_Facts
  imports Job_Queue Ledger
begin

text \<open>
  Correctness of the job queue.  The queue and the jobs the workers have in hand form
  one state machine; its invariant bounds the attempts of a job, keeps deduplication
  keys unique and ties the fence of a claimed job to its claim.  Terminal jobs are
  final, no job is stuck once its lease has lapsed, and a worker drains the queue.
\<close>

section \<open>Writes on one job\<close>

text \<open>A write that leaves a job's identity and its attempts alone.\<close>

locale job_write =
  fixes f :: "Job \<Rightarrow> Job"
  assumes same_id: "oid (f j) = oid j"
    and same_dedup: "dedup_key (f j) = dedup_key j"
    and same_attempts: "attempt (f j) = attempt j" "max_attempts (f j) = max_attempts j"
begin

lemma touched [simp]:
  "oid (touch clk f j) = oid j" "dedup_key (touch clk f j) = dedup_key j"
  "attempt (touch clk f j) = attempt j" "max_attempts (touch clk f j) = max_attempts j"
  by (simp_all add: touch_def same_id same_dedup same_attempts)

lemma fenced_attempts:
  "map (\<lambda>j. max_attempts j - attempt j) (jobs (fst (fenced k w f db))) = map (\<lambda>j. max_attempts j - attempt j) (jobs db)"
  by (auto simp: fenced_def tbl_update_def split: option.splits)

end

interpretation renewing: job_write "renew_lease lease clk" for lease clk
  by unfold_locales (simp_all add: renew_lease_def)

interpretation completing: job_write "complete_job ref" for ref
  by unfold_locales (simp_all add: complete_job_def)

interpretation dead_lettering: job_write "dead_letter c fc" for c fc
  by unfold_locales (simp_all add: dead_letter_def)

interpretation requeueing: job_write requeue
  by unfold_locales (simp_all add: requeue_def)

interpretation expiring_job: job_write expire_job
  by unfold_locales (simp_all add: expire_job_def)

interpretation job_state_write: job_write "job_state_update (\<lambda>_. s)" for s
  by unfold_locales simp_all

lemma fenced_cases:
  obtains (missed) "fenced k w f db = (db, None)"
  | (hit) r where "tbl_get oid k (jobs db) = Some r" "owns w r"
      "fenced k w f db = (db\<lparr>jobs := tbl_update oid k (touch (db_clock db) f) (jobs db)\<rparr>,
                          Some (touch (db_clock db) f r))"
proof (cases "tbl_get oid k (jobs db)")
  case None
  then have "fenced k w f db = (db, None)" by (simp add: fenced_def)
  then show thesis by (rule missed)
next
  case (Some r)
  show thesis
  proof (cases "owns w r")
    case True
    then have "fenced k w f db = (db\<lparr>jobs := tbl_update oid k (touch (db_clock db) f) (jobs db)\<rparr>,
        Some (touch (db_clock db) f r))" by (simp add: fenced_def Some)
    with Some True show thesis by (rule hit)
  next
    case False
    then have "fenced k w f db = (db, None)" by (simp add: fenced_def Some)
    then show thesis by (rule missed)
  qed
qed

lemma dequeue_cases:
  assumes "dequeue locked w lease db = (db', r)"
  obtains (idle) "r = None" "db' = db" "\<And>j. j \<in> set (jobs db) \<Longrightarrow> oid j \<notin> locked \<Longrightarrow> \<not> claimable (db_clock db) j"
  | (claimed) j where "j \<in> set (jobs db)" "claimable (db_clock db) j" "oid j \<notin> locked"
      "\<And>i. i \<in> set (jobs db) \<Longrightarrow> claimable (db_clock db) i \<Longrightarrow> oid i \<notin> locked \<Longrightarrow> created_at j \<le> created_at i"
      "r = Some (touch (db_clock db) (claim_job w lease (db_clock db)) j)"
      "db' = db\<lparr>jobs := tbl_update oid (oid j) (touch (db_clock db) (claim_job w lease (db_clock db))) (jobs db)\<rparr>"
proof -
  let ?P = "\<lambda>j. claimable (db_clock db) j \<and> oid j \<notin> locked" and ?q = "sort_key created_at (jobs db)"
  show thesis
  proof (cases "filter ?P ?q")
    case Nil
    then have "r = None" "db' = db" using assms by (simp_all add: dequeue_def)
    moreover have "\<not> claimable (db_clock db) j" if "j \<in> set (jobs db)" "oid j \<notin> locked" for j
      using Nil that by (auto simp: filter_empty_conv)
    ultimately show thesis by (rule idle)
  next
    case (Cons j js)
    have "j \<in> set (filter ?P ?q)" by (simp add: Cons)
    then have j: "j \<in> set (jobs db)" "claimable (db_clock db) j" "oid j \<notin> locked" by simp_all
    have "sorted (map created_at (filter ?P ?q))" by (rule sorted_filter) simp
    then have "created_at j \<le> created_at i" if "i \<in> set (filter ?P ?q)" for i
      using that by (auto simp: Cons)
    then have "created_at j \<le> created_at i" if "i \<in> set (jobs db)" "?P i" for i using that by simp
    with j show thesis using assms Cons by (intro claimed [of j]) (auto simp: dequeue_def Let_def)
  qed
qed

lemma claim_touched [simp]:
  "oid (touch c (claim_job w lease clk) j) = oid j"
  "dedup_key (touch c (claim_job w lease clk) j) = dedup_key j"
  "max_attempts (touch c (claim_job w lease clk) j) = max_attempts j"
  "attempt (touch c (claim_job w lease clk) j) = attempt j + 1"
  "worker_id (touch c (claim_job w lease clk) j) = Some w"
  "job_state (touch c (claim_job w lease clk) j) = JobState.RUNNING"
  "job_lease_expires_at (touch c (claim_job w lease clk) j) = Some (clk + lease)"
  by (auto simp: touch_def claim_job_def dest: arg_cong [where f = attempt])

section \<open>The queue as a state machine\<close>

text \<open>
  The job each worker process has in hand is what its last \<open>dequeue\<close> returned; a
  worker claims only with empty hands, and a crash empties them.  A repair names a job
  it read in an earlier transaction, so any job may be named.
\<close>

record QState =
  q_db :: Db
  holding :: "string \<Rightarrow> Job option"

inductive queue_step :: "QState \<Rightarrow> QState \<Rightarrow> bool" where
  enq: "queue_enqueue jid kind p auth dedup attempts (q_db s) = Inr (db', j) \<Longrightarrow> queue_step s (s\<lparr>q_db := db'\<rparr>)"
| claim: "holding s w = None \<Longrightarrow> dequeue locked w lease (q_db s) = (db', Some j) \<Longrightarrow>
    queue_step s \<lparr>q_db = db', holding = (holding s)(w := Some j)\<rparr>"
| beat: "holding s w = Some j \<Longrightarrow> queue_step s (s\<lparr>q_db := fst (heartbeat (oid j) w lease (q_db s))\<rparr>)"
| finish: "holding s w = Some j \<Longrightarrow>
    queue_step s \<lparr>q_db = fst (complete (oid j) w ref (q_db s)), holding = (holding s)(w := None)\<rparr>"
| give_up: "holding s w = Some j \<Longrightarrow>
    queue_step s \<lparr>q_db = fst (fail j c terminal fc (q_db s)), holding = (holding s)(w := None)\<rparr>"
| crash: "queue_step s (s\<lparr>holding := (holding s)(w := None)\<rparr>)"
| cancel: "cancel_job ctx job_id (q_db s) = Inr (db', resp) \<Longrightarrow> queue_step s (s\<lparr>q_db := db'\<rparr>)"
| repair: "queue_step s (s\<lparr>q_db := fst (repair_one jid (q_db s))\<rparr>)"
| other: "jobs db' = jobs (q_db s) \<Longrightarrow> queue_step s (s\<lparr>q_db := db'\<rparr>)"

inductive queue_reachable :: "QState \<Rightarrow> bool" where
  init: "jobs (q_db s) = [] \<Longrightarrow> holding s = (\<lambda>_. None) \<Longrightarrow> queue_reachable s"
| step: "queue_reachable s \<Longrightarrow> queue_step s s' \<Longrightarrow> queue_reachable s'"

definition terminal_job :: "Job \<Rightarrow> bool" where
  "terminal_job j \<longleftrightarrow> job_state j \<in> {JobState.SUCCEEDED, JobState.FAILED, JobState.CANCELED}"

definition job_ok :: "Job \<Rightarrow> bool" where
  "job_ok r \<longleftrightarrow> 0 \<le> attempt r \<and> attempt r \<le> max_attempts r \<and>
    (job_state r = JobState.QUEUED \<longrightarrow> attempt r < max_attempts r \<and> worker_id r = None) \<and>
    (job_state r = JobState.RUNNING \<longrightarrow> worker_id r \<noteq> None \<and> job_lease_expires_at r \<noteq> None)"

text \<open>The fence of a job in hand can only match the attempt that was claimed.\<close>

definition held_ok :: "(string \<Rightarrow> Job option) \<Rightarrow> Job \<Rightarrow> bool" where
  "held_ok h r \<longleftrightarrow> (\<forall>w j. h w = Some j \<and> oid j = oid r \<longrightarrow>
    max_attempts j = max_attempts r \<and> (owns (Some w) r \<longrightarrow> attempt j = attempt r))"

definition queue_inv :: "QState \<Rightarrow> bool" where
  "queue_inv s \<longleftrightarrow> distinct (map oid (jobs (q_db s))) \<and> distinct (map dedup_key (jobs (q_db s))) \<and>
    (\<forall>r\<in>set (jobs (q_db s)). job_ok r \<and> held_ok (holding s) r) \<and>
    (\<forall>w j. holding s w = Some j \<longrightarrow> worker_id j = Some w \<and> oid j \<in> oid ` set (jobs (q_db s)))"

lemma queue_inv_get:
  assumes "queue_inv s" "tbl_get oid k (jobs (q_db s)) = Some r"
  shows "r \<in> set (jobs (q_db s))" "oid r = k" "job_ok r" "held_ok (holding s) r"
  using assms tbl.get_mem [OF assms(2)] tbl.get_key [OF assms(2)] by (auto simp: queue_inv_def)

text \<open>A write on one row, with what the workers then have in hand.\<close>

lemma queue_inv_row:
  assumes "queue_inv s" "jobs db' = tbl_update oid k f (jobs (q_db s))"
    and "\<And>j. oid (f j) = oid j" "\<And>j. dedup_key (f j) = dedup_key j"
    and "\<And>w j. h w = Some j \<Longrightarrow> worker_id j = Some w \<and> oid j \<in> oid ` set (jobs (q_db s))"
    and "\<And>r. r \<in> set (jobs (q_db s)) \<Longrightarrow> oid r \<noteq> k \<Longrightarrow> held_ok h r"
    and "\<And>r. r \<in> set (jobs (q_db s)) \<Longrightarrow> oid r = k \<Longrightarrow> job_ok (f r) \<and> held_ok h (f r)"
  shows "queue_inv \<lparr>q_db = db', holding = h\<rparr>"
proof -
  have ids: "map oid (jobs db') = map oid (jobs (q_db s))"
    unfolding assms(2) by (rule tbl.upd_keys) (rule assms(3))
  have "map dedup_key (jobs db') = map dedup_key (jobs (q_db s))"
    unfolding assms(2) tbl_update_def by (simp add: assms(4))
  moreover have "job_ok x \<and> held_ok h x" if "x \<in> set (jobs db')" for x
  proof -
    have "x \<in> (\<lambda>r. if oid r = k then f r else r) ` set (jobs (q_db s))"
      using that unfolding assms(2) tbl_update_def by simp
    then obtain r where r: "r \<in> set (jobs (q_db s))" "x = (if oid r = k then f r else r)" by (rule imageE)
    have "job_ok r" using assms(1) r(1) by (simp add: queue_inv_def)
    with assms(6,7) [OF r(1)] r(2) show ?thesis by auto
  qed
  moreover have "oid ` set (jobs db') = oid ` set (jobs (q_db s))" using ids by (metis list.set_map)
  moreover have "distinct (map oid (jobs (q_db s)))" "distinct (map dedup_key (jobs (q_db s)))"
    using assms(1) by (simp_all add: queue_inv_def)
  ultimately show ?thesis using ids assms(5) by (simp add: queue_inv_def)
qed

lemma queue_inv_update:
  assumes "queue_inv s" "jobs db' = tbl_update oid k f (jobs (q_db s))"
    and "\<And>j. oid (f j) = oid j" "\<And>j. dedup_key (f j) = dedup_key j"
    and h: "\<And>w j. h w = Some j \<Longrightarrow> holding s w = Some j"
    and "\<And>r. r \<in> set (jobs (q_db s)) \<Longrightarrow> oid r = k \<Longrightarrow> job_ok (f r) \<and> held_ok h (f r)"
  shows "queue_inv \<lparr>q_db = db', holding = h\<rparr>"
proof (rule queue_inv_row [OF assms(1-4)])
  show "worker_id j = Some w \<and> oid j \<in> oid ` set (jobs (q_db s))" if "h w = Some j" for w j
    using assms(1) h [OF that] unfolding queue_inv_def by blast
  show "held_ok h r" if "r \<in> set (jobs (q_db s))" for r
    using assms(1) that h unfolding queue_inv_def held_ok_def by metis
qed (rule assms(6))

text \<open>The trigger column matters to none of this.\<close>

lemma touch_irrelevant [simp]:
  "job_ok (touch c f r) = job_ok (f r)" "held_ok h (touch c f r) = held_ok h (f r)"
  "terminal_job (touch c f r) = terminal_job (f r)"
  by (simp_all add: touch_def job_ok_def held_ok_def owns_def terminal_job_def)

lemma held_ok_mono: "held_ok h r \<Longrightarrow> (\<And>w j. h' w = Some j \<Longrightarrow> h w = Some j) \<Longrightarrow> held_ok h' r"
  unfolding held_ok_def by blast

lemma held_ok_released: "held_ok h r \<Longrightarrow> held_ok (h(w := None)) r"
  by (auto simp: held_ok_def split: if_splits)

lemma held_ok_stopped:
  "held_ok h r \<Longrightarrow> oid x = oid r \<Longrightarrow> max_attempts x = max_attempts r \<Longrightarrow> job_state x \<noteq> JobState.RUNNING \<Longrightarrow>
    held_ok h x"
  by (auto simp: held_ok_def owns_def)

lemma held_ok_same:
  "held_ok h r \<Longrightarrow> oid x = oid r \<Longrightarrow> max_attempts x = max_attempts r \<Longrightarrow> attempt x = attempt r \<Longrightarrow>
    worker_id x = worker_id r \<Longrightarrow> job_state x = job_state r \<Longrightarrow> held_ok h x"
  by (auto simp: held_ok_def owns_def)

lemma fenced_inv:
  assumes "queue_inv s" "\<And>j. oid (f j) = oid j" "\<And>j. dedup_key (f j) = dedup_key j"
    and "\<And>w j. h w = Some j \<Longrightarrow> holding s w = Some j"
    and "\<And>r. job_ok r \<Longrightarrow> held_ok (holding s) r \<Longrightarrow> oid r = k \<Longrightarrow> owns w r \<Longrightarrow> job_ok (f r) \<and> held_ok h (f r)"
  shows "queue_inv \<lparr>q_db = fst (fenced k w f (q_db s)), holding = h\<rparr>"
proof (cases rule: fenced_cases [of k w f "q_db s"])
  case missed
  have "job_ok r \<and> held_ok h r" if "r \<in> set (jobs (q_db s))" for r
    using assms(1) that held_ok_mono [of "holding s" r h] assms(4) unfolding queue_inv_def by blast
  moreover have "worker_id j = Some w \<and> oid j \<in> oid ` set (jobs (q_db s))" if "h w = Some j" for w j
    using assms(1) assms(4) [OF that] unfolding queue_inv_def by blast
  ultimately show ?thesis using assms(1) missed by (simp add: queue_inv_def)
next
  case (hit r)
  note r = queue_inv_get [OF assms(1) hit(1)]
  have x: "x = r" if "x \<in> set (jobs (q_db s))" "oid x = k" for x
    using assms(1) r(1,2) that unfolding queue_inv_def by (metis distinct_map inj_onD)
  have ok: "job_ok (f r) \<and> held_ok h (f r)" by (rule assms(5) [OF r(3,4,2) hit(2)])
  have "jobs (fst (fenced k w f (q_db s))) = tbl_update oid k (touch (db_clock (q_db s)) f) (jobs (q_db s))"
    by (simp add: hit(3))
  then show ?thesis
  proof (rule queue_inv_update [OF assms(1) _ _ _ assms(4)])
    show "job_ok (touch c f x) \<and> held_ok h (touch c f x)" if "x \<in> set (jobs (q_db s))" "oid x = k" for c x
      using x [OF that] ok by simp
  qed (simp_all add: touch_def assms(2,3))
qed

lemma finish_inv:
  assumes "queue_inv s"
  shows "queue_inv \<lparr>q_db = fst (complete k w ref (q_db s)), holding = (holding s)(w' := None)\<rparr>"
  unfolding complete_def
proof (rule fenced_inv [OF assms])
  show "job_ok (complete_job ref r) \<and> held_ok ((holding s)(w' := None)) (complete_job ref r)"
    if "job_ok r" "held_ok (holding s) r" for r
    using that(1) held_ok_released [OF held_ok_stopped [OF that(2), of "complete_job ref r"]]
    by (simp add: job_ok_def complete_job_def)
qed (auto simp: complete_job_def split: if_splits)

lemma give_up_inv:
  assumes "queue_inv s" "holding s w = Some j"
  shows "queue_inv \<lparr>q_db = fst (fail j c terminal fc (q_db s)), holding = (holding s)(w := None)\<rparr>"
proof -
  let ?f = "if terminal \<or> max_attempts j \<le> attempt j then dead_letter c fc else requeue"
  have w: "worker_id j = Some w" using assms by (simp add: queue_inv_def)
  have "queue_inv \<lparr>q_db = fst (fenced (oid j) (Some w) ?f (q_db s)), holding = (holding s)(w := None)\<rparr>"
  proof (rule fenced_inv [OF assms(1)])
    show "job_ok (?f r) \<and> held_ok ((holding s)(w := None)) (?f r)"
      if "job_ok r" "held_ok (holding s) r" "oid r = oid j" "owns (Some w) r" for r
    proof -
      have "max_attempts j = max_attempts r" "attempt j = attempt r"
        using that assms(2) unfolding held_ok_def by metis+
      then show ?thesis
        using that(1) held_ok_released [OF held_ok_stopped [OF that(2), of "?f r"]]
        by (simp add: job_ok_def dead_letter_def requeue_def)
    qed
  qed (auto simp: dead_letter_def requeue_def split: if_splits)
  then show ?thesis by (simp add: fail_def w split_def)
qed

lemma beat_inv:
  assumes "queue_inv s"
  shows "queue_inv (s\<lparr>q_db := fst (heartbeat k w lease (q_db s))\<rparr>)"
proof -
  have "queue_inv \<lparr>q_db = fst (fenced k (Some w) (renew_lease lease (db_clock (q_db s))) (q_db s)), holding = holding s\<rparr>"
  proof (rule fenced_inv [OF assms])
    show "job_ok (renew_lease lease clk r) \<and> held_ok (holding s) (renew_lease lease clk r)"
      if "job_ok r" "held_ok (holding s) r" for clk r
      using that(1) held_ok_same [OF that(2), of "renew_lease lease clk r"] by (simp add: job_ok_def renew_lease_def)
  qed (simp_all add: renew_lease_def)
  then show ?thesis by (cases s) (simp add: heartbeat_def split_def)
qed

lemma claim_inv:
  assumes "queue_inv s" "holding s w = None" "dequeue locked w lease (q_db s) = (db', Some j)"
  shows "queue_inv \<lparr>q_db = db', holding = (holding s)(w := Some j)\<rparr>"
  using assms(3)
proof (cases rule: dequeue_cases)
  case (claimed r)
  let ?c = "db_clock (q_db s)"
  let ?f = "touch ?c (claim_job w lease ?c)"
  have j: "j = ?f r" using claimed(5) by simp
  have other: "held_ok ((holding s)(w := Some j)) x" if "x \<in> set (jobs (q_db s))" "oid x \<noteq> oid r" for x
  proof -
    have "held_ok (holding s) x" "oid j = oid r" using assms(1) that j by (auto simp: queue_inv_def claim_job_def)
    with that(2) show ?thesis by (auto simp: held_ok_def split: if_splits)
  qed
  have "x = r" if "x \<in> set (jobs (q_db s))" "oid x = oid r" for x
    using assms(1) claimed(1) that unfolding queue_inv_def by (metis distinct_map inj_onD)
  moreover have "job_ok r" "held_ok (holding s) r" using assms(1) claimed(1) by (auto simp: queue_inv_def)
  then have "job_ok (claim_job w lease ?c r)" "held_ok ((holding s)(w := Some j)) (claim_job w lease ?c r)"
    using claimed(2) by (auto simp: job_ok_def held_ok_def owns_def j claimable_def claim_job_def split: if_splits)
  ultimately show ?thesis
    using claimed(6) other assms(1) claimed(1)
    by (intro queue_inv_row [OF assms(1), where k = "oid r" and f = ?f])
      (auto simp: j queue_inv_def claim_job_def split: if_splits)
qed simp

lemma enq_inv:
  assumes "queue_inv s" "queue_enqueue jid kind p auth dedup attempts (q_db s) = Inr (db', j)"
  shows "queue_inv (s\<lparr>q_db := db'\<rparr>)"
proof (cases "job_by_dedup dedup (q_db s)")
  case (Some e)
  then have "db' = q_db s" using assms(2) by (auto simp: queue_enqueue_def)
  then show ?thesis using assms(1) by simp
next
  case None
  then obtain pj where j: "j = new_job jid (db_clock (q_db s)) kind pj auth dedup attempts" "1 \<le> attempts"
    and i: "tbl_insert oid j (jobs (q_db s)) = Inr (jobs db')"
    using assms(2) by (auto simp: queue_enqueue_def Let_def)
  have db': "jobs db' = jobs (q_db s) @ [j]" and new: "oid j \<notin> oid ` set (jobs (q_db s))"
    using i by (auto simp: tbl_insert_def split: if_splits)
  have "dedup \<notin> dedup_key ` set (jobs (q_db s))"
    using tbl.get_none [OF None [unfolded job_by_dedup_def]] by blast
  moreover have "job_ok j" using j by (simp add: new_job_def job_ok_def)
  moreover have "held_ok (holding s) j" using assms(1) new unfolding queue_inv_def held_ok_def by metis
  ultimately show ?thesis
    using assms(1) new j(1) by (auto simp: queue_inv_def db' new_job_def)
qed

lemma stop_job_inv:
  assumes "queue_inv s" "jobs db' = tbl_update oid k (touch c f) (jobs (q_db s))" "job_write f"
    and "\<And>r. job_state (f r) \<in> {JobState.FAILED, JobState.CANCELED}"
  shows "queue_inv (s\<lparr>q_db := db'\<rparr>)"
proof -
  note w = job_write.same_id [OF assms(3)] job_write.same_dedup [OF assms(3)] job_write.same_attempts [OF assms(3)]
  have "queue_inv \<lparr>q_db = db', holding = holding s\<rparr>"
    using assms(1)
  proof (rule queue_inv_update [OF _ assms(2)])
    show "job_ok (touch c f r) \<and> held_ok (holding s) (touch c f r)" if "r \<in> set (jobs (q_db s))" for r
    proof -
      have "job_ok r" "held_ok (holding s) r" using assms(1) that by (auto simp: queue_inv_def)
      then have "job_ok (f r)" "held_ok (holding s) (f r)"
        using assms(4) [of r] held_ok_stopped [of "holding s" r "f r"] by (auto simp: job_ok_def w)
      then show ?thesis by simp
    qed
  qed (simp_all add: touch_def w)
  then show ?thesis by (cases s) simp
qed

lemma cancel_job_cases:
  assumes "cancel_job ctx job_id db = Inr (db', resp)"
  obtains (refused) "db' = db" | (canceled) k j where "JOBS_update_state k JobState.CANCELED db = Inr (db', j)"
    "resp = Canceled j"
proof (cases "as_uuid job_id")
  case None
  then show thesis using assms by (intro refused) (simp add: cancel_job_def)
next
  case (Some k)
  have "db' = db \<or> (\<exists>j. JOBS_update_state k JobState.CANCELED db = Inr (db', j) \<and> resp = Canceled j)"
    using assms Some by (auto simp: cancel_job_def split: option.splits if_splits sum.splits exn.splits)
  then show thesis using refused canceled by blast
qed

lemma JOBS_update_state_Inr:
  "JOBS_update_state k s db = Inr (db', row') \<longleftrightarrow>
    (\<exists>row. tbl_get oid k (jobs db) = Some row \<and> can_transition (JobSt (job_state row)) (JobSt s) = Inr True \<and>
       row' = touch (db_clock db) (job_state_update (\<lambda>_. s)) row \<and>
       db' = db\<lparr>jobs := tbl_update oid k (touch (db_clock db) (job_state_update (\<lambda>_. s))) (jobs db)\<rparr>)"
  unfolding JOBS_update_state_def by (auto simp: update_state_Inr split: prod.splits)

lemma repair_one_jobs:
  obtains (none) "jobs (fst (repair_one k db)) = jobs db"
  | (expired) r where "tbl_get oid k (jobs db) = Some r" "job_state r = JobState.RUNNING"
      "jobs (fst (repair_one k db)) = tbl_update oid k (touch (db_clock db) expire_job) (jobs db)"
proof (cases "tbl_get oid k (jobs db)")
  case None
  then show thesis by (intro none) (simp add: repair_one_def)
next
  case (Some r)
  show thesis
  proof (cases "job_state r = JobState.RUNNING")
    case True
    then have "jobs (fst (repair_one k db)) = tbl_update oid k (touch (db_clock db) expire_job) (jobs db)"
      using Some by (simp add: repair_one_def Let_def compensate_run_def split: sum.split option.split)
    with Some True show thesis by (rule expired)
  next
    case False
    then show thesis using Some by (intro none) (simp add: repair_one_def)
  qed
qed

lemma same_jobs_inv: "queue_inv s \<Longrightarrow> jobs db' = jobs (q_db s) \<Longrightarrow> queue_inv (s\<lparr>q_db := db'\<rparr>)"
  by (simp add: queue_inv_def)

lemma cancel_inv:
  assumes "queue_inv s" "cancel_job ctx job_id (q_db s) = Inr (db', resp)"
  shows "queue_inv (s\<lparr>q_db := db'\<rparr>)"
  using assms(2)
proof (cases rule: cancel_job_cases)
  case (canceled k j)
  then have "jobs db' = tbl_update oid k (touch (db_clock (q_db s)) (job_state_update (\<lambda>_. JobState.CANCELED))) (jobs (q_db s))"
    by (auto simp: JOBS_update_state_Inr)
  then show ?thesis by (rule stop_job_inv [OF assms(1)]) (simp_all add: job_state_write.job_write_axioms)
qed (use assms(1) in simp)

lemma repair_inv:
  assumes "queue_inv s"
  shows "queue_inv (s\<lparr>q_db := fst (repair_one k (q_db s))\<rparr>)"
proof (cases rule: repair_one_jobs [of k "q_db s"])
  case none
  then show ?thesis by (rule same_jobs_inv [OF assms])
next
  case (expired r)
  from expired(3) show ?thesis
    by (rule stop_job_inv [OF assms]) (simp_all add: expiring_job.job_write_axioms expire_job_def)
qed

lemma crash_inv: "queue_inv s \<Longrightarrow> queue_inv (s\<lparr>holding := (holding s)(w := None)\<rparr>)"
  by (auto simp: queue_inv_def intro: held_ok_released split: if_splits)

lemma queue_step_inv: "queue_step s s' \<Longrightarrow> queue_inv s \<Longrightarrow> queue_inv s'"
  by (induction rule: queue_step.induct)
    (blast intro: enq_inv claim_inv beat_inv finish_inv give_up_inv crash_inv cancel_inv repair_inv same_jobs_inv)+

lemma queue_reachable_inv: "queue_reachable s \<Longrightarrow> queue_inv s"
proof (induction rule: queue_reachable.induct)
  case (init s)
  then show ?case by (simp add: queue_inv_def)
qed (rule queue_step_inv)

section \<open>Safety\<close>

text \<open>
  C5. In every state the queue can reach, no two jobs share a deduplication key, no job
  has been claimed more often than its attempts allow, a queued job has an attempt left
  and no owner, and a running one has an owner and a lease.
\<close>

theorem queue_safe:
  assumes "queue_reachable s"
  shows "distinct (map dedup_key (jobs (q_db s))) \<and>
    (\<forall>j\<in>set (jobs (q_db s)). 0 \<le> attempt j \<and> attempt j \<le> max_attempts j \<and>
      (job_state j = JobState.QUEUED \<longrightarrow> attempt j < max_attempts j \<and> worker_id j = None) \<and>
      (job_state j = JobState.RUNNING \<longrightarrow> worker_id j \<noteq> None \<and> job_lease_expires_at j \<noteq> None))"
  using queue_reachable_inv [OF assms] unfolding queue_inv_def job_ok_def by simp

text \<open>A write on a job that is not terminal leaves the terminal ones alone.\<close>

lemma update_keeps_terminal:
  assumes "queue_inv s" "tbl_get oid k (jobs (q_db s)) = Some r" "\<not> terminal_job r"
    and "j \<in> set (jobs (q_db s))" "terminal_job j"
  shows "j \<in> set (tbl_update oid k f (jobs (q_db s)))"
proof -
  have "oid j \<noteq> k"
    using assms queue_inv_get(1,2) [OF assms(1,2)] unfolding queue_inv_def by (metis distinct_map inj_onD)
  then show ?thesis using assms(4) unfolding tbl_update_def by force
qed

lemma running_not_terminal: "job_state r = JobState.RUNNING \<Longrightarrow> \<not> terminal_job r"
  by (simp add: terminal_job_def)

lemma fenced_keeps_terminal:
  assumes "queue_inv s" "j \<in> set (jobs (q_db s))" "terminal_job j"
  shows "j \<in> set (jobs (fst (fenced k w f (q_db s))))"
proof (cases rule: fenced_cases [of k w f "q_db s"])
  case (hit r)
  then have "\<not> terminal_job r" by (simp add: owns_def running_not_terminal)
  then show ?thesis using update_keeps_terminal [OF assms(1) hit(1) _ assms(2,3)] by (simp add: hit(3))
qed (use assms(2) in simp)

lemma dequeue_keeps_terminal:
  assumes "queue_inv s" "j \<in> set (jobs (q_db s))" "terminal_job j" "dequeue locked w lease (q_db s) = (db', r)"
  shows "j \<in> set (jobs db')"
  using assms(4)
proof (cases rule: dequeue_cases)
  case (claimed i)
  have "\<not> terminal_job i" using claimed(2) by (auto simp: claimable_def terminal_job_def)
  moreover have "tbl_get oid (oid i) (jobs (q_db s)) = Some i"
    using assms(1) claimed(1) by (intro tbl.mem_get) (simp_all add: queue_inv_def)
  ultimately show ?thesis using update_keeps_terminal [OF assms(1) _ _ assms(2,3)] by (simp add: claimed(6))
qed (use assms(2) in simp)

lemma cancel_keeps_terminal:
  assumes "queue_inv s" "j \<in> set (jobs (q_db s))" "terminal_job j" "cancel_job ctx job_id (q_db s) = Inr (db', resp)"
  shows "j \<in> set (jobs db')"
  using assms(4)
proof (cases rule: cancel_job_cases)
  case (canceled k i)
  then obtain r where r: "tbl_get oid k (jobs (q_db s)) = Some r"
      "can_transition (JobSt (job_state r)) (JobSt JobState.CANCELED) = Inr True"
    and db': "jobs db' = tbl_update oid k (touch (db_clock (q_db s)) (job_state_update (\<lambda>_. JobState.CANCELED))) (jobs (q_db s))"
    by (auto simp: JOBS_update_state_Inr)
  have "\<not> terminal_job r"
    using r(2) by (cases "job_state r") (auto simp: terminal_job_def can_transition_def TRANSITIONS_def)
  then show ?thesis using update_keeps_terminal [OF assms(1) r(1) _ assms(2,3)] by (simp add: db')
qed (use assms(2) in simp)

lemma repair_keeps_terminal:
  assumes "queue_inv s" "j \<in> set (jobs (q_db s))" "terminal_job j"
  shows "j \<in> set (jobs (fst (repair_one k (q_db s))))"
proof (cases rule: repair_one_jobs [of k "q_db s"])
  case (expired r)
  then show ?thesis
    using update_keeps_terminal [OF assms(1) expired(1) _ assms(2,3)] running_not_terminal by simp
qed (use assms(2) in simp)

lemma enq_keeps:
  assumes "j \<in> set (jobs db)" "queue_enqueue jid kind p auth dedup attempts db = Inr (db', r)"
  shows "j \<in> set (jobs db')"
  using assms by (auto simp: queue_enqueue_def Let_def tbl_insert_def split: option.splits if_splits)

text \<open>
  C6. A job that has succeeded, failed or been canceled is final: no operation of any
  worker, client or reconciler changes its row again, whatever it still has in hand.
\<close>

theorem terminal_jobs_final:
  assumes "queue_reachable s" "queue_step s s'" "j \<in> set (jobs (q_db s))" "terminal_job j"
  shows "j \<in> set (jobs (q_db s'))"
proof -
  note inv = queue_reachable_inv [OF assms(1)]
  from assms(2) show ?thesis
  proof cases
    case (claim w locked lease db' i)
    then show ?thesis using dequeue_keeps_terminal [OF inv assms(3,4) claim(3)] by simp
  next
    case (cancel ctx job_id db' resp)
    then show ?thesis using cancel_keeps_terminal [OF inv assms(3,4) cancel(2)] by simp
  next
    case (enq jid kind p auth dedup attempts db' i)
    then show ?thesis using enq_keeps [OF assms(3) enq(2)] by simp
  qed (use assms(3) fenced_keeps_terminal [OF inv assms(3,4)] repair_keeps_terminal [OF inv assms(3,4)] in
      \<open>simp_all add: heartbeat_def complete_def fail_def split_def\<close>)
qed

section \<open>Progress\<close>

lemma expire_running:
  assumes "tbl_get oid k (jobs db) = Some r" "job_state r = JobState.RUNNING"
  shows "jobs (fst (repair_one k db)) = tbl_update oid k (touch (db_clock db) expire_job) (jobs db)"
  using assms by (simp add: repair_one_def Let_def compensate_run_def split: sum.split option.split)

lemma repair_one_progress:
  assumes "\<And>x. x \<in> set (jobs db) \<Longrightarrow> terminal_job x \<or> (job_state x = JobState.RUNNING \<and> oid x \<in> insert k ks)"
    and "distinct (map oid (jobs db))" "y \<in> set (jobs (fst (repair_one k db)))"
  shows "terminal_job y \<or> (job_state y = JobState.RUNNING \<and> oid y \<in> ks)"
proof (cases "\<exists>r. tbl_get oid k (jobs db) = Some r \<and> job_state r = JobState.RUNNING")
  case True
  then have "y \<in> (\<lambda>x. if oid x = k then touch (db_clock db) expire_job x else x) ` set (jobs db)"
    using assms(3) expire_running [of k db] by (auto simp: tbl_update_def)
  then obtain x where x: "x \<in> set (jobs db)" "y = (if oid x = k then touch (db_clock db) expire_job x else x)" ..
  have "terminal_job (expire_job x)" by (simp add: terminal_job_def expire_job_def)
  then have "terminal_job (touch (db_clock db) expire_job x)" by simp
  with x assms(1) [OF x(1)] show ?thesis by (auto split: if_splits)
next
  case False
  then have y: "y \<in> set (jobs db)" using assms(3) by (auto simp: repair_one_def split: option.splits)
  have "job_state y \<noteq> JobState.RUNNING" if "oid y = k"
    using False tbl.mem_get [OF assms(2) y] that by auto
  with assms(1) [OF y] show ?thesis by auto
qed

lemma repair_one_ids: "map oid (jobs (fst (repair_one k db))) = map oid (jobs db)"
proof (cases rule: repair_one_jobs [of k db])
  case (expired r)
  show ?thesis unfolding expired(3) by (rule tbl.upd_keys) (simp add: expire_job_def)
qed simp

lemma repair_jobs_progress:
  assumes "\<And>x. x \<in> set (jobs db) \<Longrightarrow> terminal_job x \<or> (job_state x = JobState.RUNNING \<and> oid x \<in> set ks)"
    and "distinct (map oid (jobs db))"
  shows "\<forall>x\<in>set (jobs (fst (repair_jobs ks db))). terminal_job x"
  using assms
proof (induction ks arbitrary: db)
  case (Cons k ks)
  have "\<forall>x\<in>set (jobs (fst (repair_jobs ks (fst (repair_one k db))))). terminal_job x"
  proof (rule Cons.IH)
    show "terminal_job x \<or> (job_state x = JobState.RUNNING \<and> oid x \<in> set ks)"
      if "x \<in> set (jobs (fst (repair_one k db)))" for x
      using repair_one_progress [OF _ Cons.prems(2) that, of "set ks"] Cons.prems(1) by simp
  qed (simp add: repair_one_ids Cons.prems(2))
  then show ?case by (simp add: split_def)
qed auto

text \<open>
  C7. No job is ever stuck: once every running lease has lapsed, either an idle worker
  claims a job, or one repair pass leaves every job in the queue terminal.
\<close>

theorem no_job_stuck:
  assumes "queue_reachable s"
    and "\<And>j. j \<in> set (jobs (q_db s)) \<Longrightarrow> job_state j = JobState.RUNNING \<Longrightarrow> lease_lapsed (db_clock (q_db s)) j"
  shows "snd (dequeue {} w lease (q_db s)) \<noteq> None \<or>
    (\<forall>j\<in>set (jobs (fst (repair_abandoned_jobs (q_db s)))). terminal_job j)"
proof (cases "snd (dequeue {} w lease (q_db s)) = None")
  case True
  note inv = queue_reachable_inv [OF assms(1)]
  obtain db' where d: "dequeue {} w lease (q_db s) = (db', None)" using True by (metis prod.collapse)
  from d have none: "\<not> claimable (db_clock (q_db s)) j" if "j \<in> set (jobs (q_db s))" for j
    by (cases rule: dequeue_cases) (use that in auto)
  have "terminal_job j \<or> (job_state j = JobState.RUNNING \<and> abandoned (db_clock (q_db s)) j)"
    if j: "j \<in> set (jobs (q_db s))" for j
  proof -
    have "job_ok j" using inv j by (simp add: queue_inv_def)
    then show ?thesis
      using none [OF j] assms(2) [OF j]
      by (cases "job_state j") (auto simp: terminal_job_def claimable_def job_ok_def abandoned_def)
  qed
  then have "terminal_job j \<or> (job_state j = JobState.RUNNING \<and>
      oid j \<in> set (map oid (filter (abandoned (db_clock (q_db s))) (jobs (q_db s)))))"
    if "j \<in> set (jobs (q_db s))" for j using that by auto
  from repair_jobs_progress [OF this] inv show ?thesis
    by (simp add: queue_inv_def repair_abandoned_jobs_def)
qed simp

text \<open>The claims a queue can still grant.\<close>

definition claims_left :: "Db \<Rightarrow> nat" where
  "claims_left db = (\<Sum>j\<leftarrow>jobs db. nat (max_attempts j - attempt j))"

lemma claims_left_map: "claims_left db = sum_list (map nat (map (\<lambda>j. max_attempts j - attempt j) (jobs db)))"
  by (simp add: claims_left_def comp_def)

lemma fenced_claims_left:
  "job_write f \<Longrightarrow> claims_left (fst (fenced k w f db)) = claims_left db"
  unfolding claims_left_map by (simp only: job_write.fenced_attempts)

lemma fail_claims_left: "claims_left (fst (fail j c t fc db)) = claims_left db"
  using fenced_claims_left [OF dead_lettering.job_write_axioms] fenced_claims_left [OF requeueing.job_write_axioms]
  by (simp add: fail_def split_def)

lemma complete_claims_left: "claims_left (fst (complete k w ref db)) = claims_left db"
  by (simp add: complete_def fenced_claims_left [OF completing.job_write_axioms])

lemma sum_list_map_less:
  fixes g :: "'a \<Rightarrow> nat"
  assumes "\<And>x. x \<in> set xs \<Longrightarrow> g (f x) \<le> g x" "y \<in> set xs" "g (f y) < g y"
  shows "(\<Sum>x\<leftarrow>xs. g (f x)) < (\<Sum>x\<leftarrow>xs. g x)"
proof -
  obtain as bs where xs: "xs = as @ y # bs" using assms(2) by (auto dest: split_list)
  have "(\<Sum>x\<leftarrow>as. g (f x)) \<le> (\<Sum>x\<leftarrow>as. g x)" "(\<Sum>x\<leftarrow>bs. g (f x)) \<le> (\<Sum>x\<leftarrow>bs. g x)"
    using assms(1) by (auto intro!: sum_list_mono simp: xs)
  then show ?thesis using assms(3) by (simp add: xs)
qed

lemma dequeue_claims_left:
  assumes "dequeue locked w lease db = (db', Some j)"
  shows "claims_left db' < claims_left db"
  using assms
proof (cases rule: dequeue_cases)
  case (claimed i)
  let ?f = "\<lambda>j. if oid j = oid i then touch (db_clock db) (claim_job w lease (db_clock db)) j else j"
  have "attempt i < max_attempts i" using claimed(2) by (simp add: claimable_def)
  then have "(\<Sum>j\<leftarrow>jobs db. nat (max_attempts (?f j) - attempt (?f j))) < (\<Sum>j\<leftarrow>jobs db. nat (max_attempts j - attempt j))"
    by (intro sum_list_map_less [where y = i]) (auto simp: claim_job_def claimed(1))
  then show ?thesis by (simp add: claims_left_def claimed(6) tbl_update_def comp_def)
qed simp

lemma run_once_claims_left:
  assumes "\<And>kind h j db. registry kind = Some h \<Longrightarrow> jobs (fst (h j db)) = jobs db"
    and "run_once ready locked w lease context registry db = (db', Some j)"
  shows "claims_left db' < claims_left db"
proof -
  obtain db1 where d: "dequeue locked w lease db = (db1, Some j)"
    and r: "db' = (case registry (job_kind j) of None \<Rightarrow> fst (fail j NOT_IMPLEMENTED True [] db1)
                   | Some h \<Rightarrow> run_handler w context h j db1)"
    using assms(2) by (auto simp: run_once_def split: if_splits option.splits prod.splits)
  have "claims_left (fst (h j db1)) = claims_left db1" if "registry (job_kind j) = Some h" for h
    using assms(1) [OF that] by (simp add: claims_left_def)
  then have "claims_left db' = claims_left db1"
    by (auto simp: r run_handler_def fail_claims_left complete_claims_left split: option.split prod.split sum.split)
  with dequeue_claims_left [OF d] show ?thesis by simp
qed

lemma run_once_idle:
  assumes "snd (run_once ready locked w lease context registry db) = None" "ready" "\<not> queue_paused db"
    and "j \<in> set (jobs db)" "oid j \<notin> locked"
  shows "\<not> claimable (db_clock db) j"
proof -
  obtain db' where d: "dequeue locked w lease db = (db', None)"
    using assms(1-3) by (auto simp: run_once_def split: option.splits prod.splits)
  from d show ?thesis by (cases rule: dequeue_cases) (use assms(4,5) in auto)
qed

lemma drain_idle:
  assumes "\<And>kind h j db. registry kind = Some h \<Longrightarrow> jobs (fst (h j db)) = jobs db"
  shows "\<exists>n \<le> claims_left db. snd (run_once ready locked w lease context registry
    (((\<lambda>db. fst (run_once ready locked w lease context registry db)) ^^ n) db)) = None"
proof (induction "claims_left db" arbitrary: db rule: less_induct)
  case less
  let ?step = "run_once ready locked w lease context registry"
  show ?case
  proof (cases "snd (?step db)")
    case None
    then show ?thesis by (intro exI [of _ 0]) simp
  next
    case (Some j)
    obtain db' where s: "?step db = (db', Some j)" using Some by (metis prod.collapse)
    have lt: "claims_left db' < claims_left db" by (rule run_once_claims_left [OF _ s]) (rule assms)
    from less [OF lt] obtain n where "n \<le> claims_left db'"
        "snd (?step (((\<lambda>db. fst (?step db)) ^^ n) db')) = None" by blast
    moreover have "((\<lambda>db. fst (?step db)) ^^ Suc n) db = ((\<lambda>db. fst (?step db)) ^^ n) db'"
      by (simp only: funpow_Suc_right comp_apply s fst_conv)
    ultimately show ?thesis using lt by (intro exI [of _ "Suc n"]) (simp del: funpow.simps)
  qed
qed

text \<open>
  A worker drains the queue: when its handlers leave the queue alone, it goes idle
  after at most as many claims as the jobs have attempts left, and, if it is ready and
  the queue is not paused, it then leaves nothing it could claim.
\<close>

lemma drains_to_idle:
  assumes "\<And>kind h j db. registry kind = Some h \<Longrightarrow> jobs (fst (h j db)) = jobs db"
  shows "\<exists>n \<le> claims_left db. \<exists>db'.
    db' = ((\<lambda>db. fst (run_once ready locked w lease context registry db)) ^^ n) db \<and>
    snd (run_once ready locked w lease context registry db') = None \<and>
    (ready \<and> \<not> queue_paused db' \<longrightarrow> (\<forall>j\<in>set (jobs db'). oid j \<notin> locked \<longrightarrow> \<not> claimable (db_clock db') j))"
proof -
  let ?step = "run_once ready locked w lease context registry"
  have "\<exists>n \<le> claims_left db. snd (?step (((\<lambda>db. fst (?step db)) ^^ n) db)) = None"
    using assms by (rule drain_idle)
  then obtain n where n: "n \<le> claims_left db" "snd (?step (((\<lambda>db. fst (?step db)) ^^ n) db)) = None" by blast
  then show ?thesis using run_once_idle [OF n(2)] by blast
qed

section \<open>An example\<close>

text \<open>One teardown job, claimed by a worker.\<close>

definition example_job :: Job where
  "example_job = new_job 5 0 TEARDOWN (JObj [(''system_id'', JStr (uuid_str 7))])
     \<lparr>auth_principal = ''alice'', auth_agent_session = None, auth_project = ''kernel''\<rparr> ''7:teardown'' 3"

definition example_queue :: Db where
  "example_queue = empty_db\<lparr>jobs := [example_job]\<rparr>"

definition example_qstate :: QState where
  "example_qstate = \<lparr>q_db = example_queue, holding = (\<lambda>_. None)\<rparr>"

lemma example_queue_reachable: "queue_reachable example_qstate"
proof (rule queue_reachable.step)
  let ?s = "\<lparr>q_db = empty_db, holding = (\<lambda>_. None)\<rparr>"
  show "queue_reachable ?s" by (rule queue_reachable.init) (simp_all add: empty_db_def)
  have "queue_enqueue 5 TEARDOWN (SystemPayload (uuid_str 7)) (authorizing example_job) ''7:teardown'' 3 (q_db ?s) =
      Inr (example_queue, example_job)"
    by (simp add: queue_enqueue_def dump_payload_def issubclass_def job_by_dedup_def tbl_get_def empty_db_def Let_def
        tbl_insert_def int4_def INT32_MAX_def example_queue_def example_job_def new_job_def)
  from queue_step.enq [OF this] show "queue_step ?s example_qstate" by (simp add: example_qstate_def)
qed

lemmas example_queue_defs = example_qstate_def example_queue_def example_job_def new_job_def empty_db_def

text \<open>A worker claims the job and finishes it.\<close>

lemma example_dequeue:
  "dequeue {} ''w1'' 60 example_queue =
     (example_queue\<lparr>jobs := [claim_job ''w1'' 60 0 example_job]\<rparr>, Some (claim_job ''w1'' 60 0 example_job))"
proof -
  have "claim_job ''w1'' 60 0 example_job \<noteq> example_job"
    by (auto simp: claim_job_def example_job_def new_job_def dest!: arg_cong [where f = attempt])
  moreover have "(claim_job ''w1'' 60 0 example_job)\<lparr>updated_at := 0\<rparr> = claim_job ''w1'' 60 0 example_job"
    by (simp add: claim_job_def example_job_def new_job_def)
  moreover have "claimable 0 example_job" by (simp add: claimable_def example_job_def new_job_def)
  ultimately show ?thesis
    by (simp add: dequeue_def example_queue_def empty_db_def tbl_update_def touch_def Let_def)
qed

definition example_done :: QState where
  "example_done = \<lparr>q_db = fst (complete 5 ''w1'' (Some ''7'') (example_queue\<lparr>jobs := [claim_job ''w1'' 60 0 example_job]\<rparr>)),
     holding = (\<lambda>_. None)\<rparr>"

lemma example_done_reachable: "queue_reachable example_done"
proof (rule queue_reachable.step)
  let ?j = "claim_job ''w1'' 60 0 example_job"
  let ?s = "\<lparr>q_db = example_queue\<lparr>jobs := [?j]\<rparr>, holding = (\<lambda>_. None)(''w1'' := Some ?j)\<rparr>"
  have "dequeue {} ''w1'' 60 (q_db example_qstate) = (example_queue\<lparr>jobs := [?j]\<rparr>, Some ?j)"
    by (simp add: example_qstate_def example_dequeue)
  from queue_step.claim [OF _ this] have "queue_step example_qstate ?s" by (simp add: example_qstate_def)
  then show "queue_reachable ?s" by (rule queue_reachable.step [OF example_queue_reachable])
  have "oid ?j = 5" by (simp add: claim_job_def example_job_def new_job_def)
  with queue_step.finish [of ?s "''w1''" ?j "Some ''7''"] show "queue_step ?s example_done"
    by (simp add: example_done_def)
qed

lemma touch_outcome [simp]:
  "job_state (touch c f r) = job_state (f r)" "result_ref (touch c f r) = result_ref (f r)"
  by (simp_all add: touch_def)

lemma example_done_jobs:
  "\<exists>j. jobs (q_db example_done) = [j] \<and> terminal_job j \<and> result_ref j = Some ''7''"
  by (simp add: example_done_def complete_def fenced_def tbl_get_def claim_job_def owns_def example_queue_def
      example_job_def new_job_def empty_db_def tbl_update_def terminal_job_def complete_job_def)

theorem queue_safe_witness: "attempt example_job < max_attempts example_job \<and> worker_id example_job = None"
  using queue_safe [OF example_queue_reachable] by (auto simp: example_queue_defs)

theorem terminal_jobs_final_witness:
  "\<exists>s j. queue_reachable s \<and> terminal_job j \<and> j \<in> set (jobs (set_queue_paused True (q_db s)))"
proof -
  obtain j where j: "j \<in> set (jobs (q_db example_done))" "terminal_job j" using example_done_jobs by auto
  have "queue_step example_done (example_done\<lparr>q_db := set_queue_paused True (q_db example_done)\<rparr>)"
    by (rule queue_step.other) (simp add: set_queue_paused_def)
  from terminal_jobs_final [OF example_done_reachable this j] j example_done_reachable show ?thesis by auto
qed

theorem no_job_stuck_witness: "\<exists>j. snd (dequeue {} ''w1'' 60 example_queue) = Some j"
proof -
  have "jobs (fst (repair_abandoned_jobs example_queue)) = [example_job]"
    by (simp add: repair_abandoned_jobs_def abandoned_def example_queue_defs)
  moreover have "\<not> terminal_job example_job" by (simp add: terminal_job_def example_queue_defs)
  ultimately show ?thesis
    using no_job_stuck [OF example_queue_reachable, of "''w1''" 60] by (auto simp: example_queue_defs)
qed

end
