(* ===== verification/Run_Handlers.thy ===== *)
theory Run_Handlers
  imports Build_Hosts System_Handlers
begin

text \<open>
  The worker's handlers of the Run jobs (\<open>jobs/handlers/runs.py\<close>,
  \<open>jobs/handlers/runs_shared.py\<close>) as actions on a pooled connection, with the recorded
  steps of a Run (\<open>db/idempotency.py\<close>, \<open>services/runs/steps.py\<close>).  The builder, installer,
  booter, console log and object store are arguments, and so is what other sessions commit
  while one of them is called.
\<close>

section \<open>Recorded steps\<close>

record BuildStepResult =
  br_kernel_ref :: "string option"
  br_debuginfo_ref :: "string option"
  br_build_id :: "string option"
  br_initrd_ref :: "string option"
  br_cmdline :: "string option"

fun optional_str :: "json option \<Rightarrow> string option" where
  "optional_str (Some (JStr s)) = (if s = [] then None else Some s)"
| "optional_str _ = None"

definition load_result :: "json \<Rightarrow> BuildStepResult option" where
  "load_result v =
    (if \<not> is_mapping v then None
     else Some \<lparr>br_kernel_ref = optional_str (json_get ''kernel_ref'' v),
                br_debuginfo_ref = optional_str (json_get ''debuginfo_ref'' v),
                br_build_id = optional_str (json_get ''build_id'' v),
                br_initrd_ref = optional_str (json_get ''initrd_ref'' v),
                br_cmdline = optional_str (json_get ''cmdline'' v)\<rparr>)"

definition dump_result :: "BuildStepResult \<Rightarrow> json" where
  "dump_result r = JObj
    (if_some ''kernel_ref'' (map_option JStr (br_kernel_ref r)) @
     if_some ''debuginfo_ref'' (map_option JStr (br_debuginfo_ref r)) @
     if_some ''initrd_ref'' (map_option JStr (br_initrd_ref r)) @
     if_some ''build_id'' (map_option JStr (br_build_id r)) @
     if_some ''cmdline'' (map_option JStr (br_cmdline r)))"

definition step_of :: "uuid \<Rightarrow> string \<Rightarrow> RunStep \<Rightarrow> bool" where
  "step_of k step s \<longleftrightarrow> rs_run_id s = k \<and> rs_step s = step"

definition existing_build_result :: "uuid \<Rightarrow> Db \<Rightarrow> BuildStepResult option" where
  "existing_build_result k db =
    (case find (step_of k ''build'') (run_steps db) of None \<Rightarrow> None | Some s \<Rightarrow> load_result (rs_result s))"

definition installed_initrd_ref :: "uuid \<Rightarrow> Db \<Rightarrow> string option" where
  "installed_initrd_ref k db = Option.bind (existing_build_result k db) br_initrd_ref"

definition REQUIRED_BASE_CMDLINE :: string where
  "REQUIRED_BASE_CMDLINE = ''console=ttyS0 root=/dev/vda''"

definition KDUMP_CRASHKERNEL :: string where
  "KDUMP_CRASHKERNEL = ''crashkernel=256M''"

definition system_required_cmdline :: "CaptureMethod \<Rightarrow> string" where
  "system_required_cmdline m =
    (if m = KDUMP then REQUIRED_BASE_CMDLINE @ '' '' @ KDUMP_CRASHKERNEL else REQUIRED_BASE_CMDLINE)"

definition cmdline_for :: "uuid \<Rightarrow> CaptureMethod \<Rightarrow> Db \<Rightarrow> string" where
  "cmdline_for k m db =
    (case Option.bind (existing_build_result k db) br_cmdline of
       None \<Rightarrow> system_required_cmdline m
     | Some c \<Rightarrow> if py_strip c = [] then system_required_cmdline m
                 else system_required_cmdline m @ '' '' @ py_strip c)"

definition install_method_for :: "System \<Rightarrow> ProfilePolicy \<Rightarrow> exn + CaptureMethod" where
  "install_method_for system policy =
    rbind (parse_profile (provisioning_profile system)) (capture_method policy)"

text \<open>
  A step is claimed, completed or abandoned.  \<open>Waiting\<close> says that another session's claim was
  still running at the last of the polls.
\<close>

datatype StepClaim =
    Claimed
  | Replayed json
  | Waiting

definition STALE_RUNNING_INTERVAL :: int where "STALE_RUNNING_INTERVAL = 30 * 60 * USEC"

definition new_step :: "uuid \<Rightarrow> string \<Rightarrow> string \<Rightarrow> json \<Rightarrow> time \<Rightarrow> RunStep" where
  "new_step k step state result clk =
    \<lparr>rs_run_id = k, rs_step = step, rs_state = state, rs_result = result, rs_updated_at = clk\<rparr>"

definition insert_step :: "RunStep \<Rightarrow> Db \<Rightarrow> exn + Db" where
  "insert_step s db =
    rbind (guard (rs_run_id s \<in> oid ` set (runs db)) ForeignKeyViolation)
      (\<lambda>_. Inr (db\<lparr>run_steps := run_steps db @ [s]\<rparr>))"

definition claim_once :: "uuid \<Rightarrow> string \<Rightarrow> Db \<Rightarrow> exn + (Db \<times> StepClaim)" where
  "claim_once k step db =
    (let db = db\<lparr>run_steps := filter (\<lambda>s. \<not> (step_of k step s \<and> rs_state s = ''running'' \<and>
                  rs_updated_at s < db_clock db - STALE_RUNNING_INTERVAL)) (run_steps db)\<rparr>
     in case find (step_of k step) (run_steps db) of
          None \<Rightarrow> rbind (insert_step (new_step k step ''running'' JNull (db_clock db)) db) (\<lambda>db. Inr (db, Claimed))
        | Some s \<Rightarrow> Inr (db, if rs_state s = ''succeeded'' then Replayed (rs_result s) else Waiting))"

definition complete_run_step :: "uuid \<Rightarrow> string \<Rightarrow> json \<Rightarrow> Db \<Rightarrow> exn + Db" where
  "complete_run_step k step result db =
    rbind (guard (list_ex (\<lambda>s. step_of k step s \<and> rs_state s = ''running'') (run_steps db)) RuntimeError) (\<lambda>_.
      Inr (db\<lparr>run_steps := map (\<lambda>s. if step_of k step s \<and> rs_state s = ''running''
             then s\<lparr>rs_state := ''succeeded'', rs_result := result, rs_updated_at := db_clock db\<rparr> else s) (run_steps db)\<rparr>))"

definition abandon_run_step :: "uuid \<Rightarrow> string \<Rightarrow> Db \<Rightarrow> Db" where
  "abandon_run_step k step db =
    db\<lparr>run_steps := filter (\<lambda>s. \<not> (step_of k step s \<and> rs_state s = ''running'')) (run_steps db)\<rparr>"


section \<open>What the handlers run with\<close>

record BuildOutput =
  bo_kernel_ref :: string
  bo_debuginfo_ref :: string
  bo_build_id :: string

record InstallRequest =
  ir_system_id :: uuid
  ir_run_id :: uuid
  ir_kernel_ref :: string
  ir_cmdline :: string
  ir_method :: CaptureMethod
  ir_initrd_ref :: "string option"

datatype RunCall =
    Build uuid uuid
  | Poll nat
  | Install InstallRequest
  | Boot uuid
  | ReadConsole uuid
  | StoreConsole uuid

record RunRuntime =
  run_profile_policy :: ProfilePolicy
  rt_build :: "BuildHost \<Rightarrow> uuid \<Rightarrow> ServerBuildProfile \<Rightarrow> exn + BuildOutput"
  rt_install :: "InstallRequest \<Rightarrow> exn + unit"
  rt_boot :: "uuid \<Rightarrow> exn + unit"

text \<open>
  \<open>read_console\<close> is the redacted console log, or \<open>None\<close> when reading it fails;
  \<open>store_console\<close> gives the key and tag of the stored object; \<open>polls\<close> bounds the wait for
  another session's claim.
\<close>

record RunEnv =
  run_resolver :: "ResourceKind \<Rightarrow> RunRuntime option"
  run_others :: "RunCall \<Rightarrow> Db \<Rightarrow> Db"
  read_console :: "uuid \<Rightarrow> string option"
  store_console :: "uuid \<Rightarrow> string \<Rightarrow> exn + (string \<times> string)"
  console_row_id :: uuid
  polls :: nat

definition runtime_for_run :: "RunEnv \<Rightarrow> uuid \<Rightarrow> Db \<Rightarrow> exn + RunRuntime" where
  "runtime_for_run env k db = resolve (run_resolver env) (kind_for_run k db)"

definition run_call :: "RunEnv \<Rightarrow> RunCall \<Rightarrow> exn + 'a \<Rightarrow> (RunCall, 'a) action" where
  "run_call env = call_provider (run_others env)"

fun claim_run_step :: "RunEnv \<Rightarrow> nat \<Rightarrow> uuid \<Rightarrow> string \<Rightarrow> (RunCall, StepClaim) action" where
  "claim_run_step env 0 k step = transaction (execute (claim_once k step))"
| "claim_run_step env (Suc n) k step =
    andthen (transaction (execute (claim_once k step))) (\<lambda>claim.
      if claim = Waiting then andthen (run_call env (Poll n) (Inr ())) (\<lambda>_. claim_run_step env n k step)
      else lift (Inr claim))"

definition the_run :: "ErrorCategory \<Rightarrow> uuid \<Rightarrow> Db \<Rightarrow> exn + Run" where
  "the_run missing k db = (case RUNS_get k db of None \<Rightarrow> Inl (CategorizedError missing) | Some r \<Rightarrow> Inr r)"

definition run_of_job :: "PayloadClass \<Rightarrow> Job \<Rightarrow> exn + (PayloadModel \<times> uuid)" where
  "run_of_job c job =
    rbind (load_payload (job_kind job) (payload job) c) (\<lambda>p. rbind (UUID (payload_run_id p)) (\<lambda>k. Inr (p, k)))"

definition audit_run :: "Job \<Rightarrow> Run \<Rightarrow> string \<Rightarrow> string \<Rightarrow> Db \<Rightarrow> exn + Db" where
  "audit_run job run tool transition db =
    audit_record (context_from_job job (project run)) (run_event tool (oid run) transition (project run)) db"


section \<open>Builds\<close>

fun payload_build_host :: "PayloadModel \<Rightarrow> string" where
  "payload_build_host (BuildPayload _ _ h) = h"
| "payload_build_host _ = []"

fun payload_cmdline :: "PayloadModel \<Rightarrow> string option" where
  "payload_cmdline (BuildPayload _ c _) = c"
| "payload_cmdline _ = None"

definition record_build_failure :: "Job \<Rightarrow> Run \<Rightarrow> ErrorCategory \<Rightarrow> Db \<Rightarrow> exn + (Db \<times> unit)" where
  "record_build_failure job run c db =
    (let db = set_run (oid run) RunState.RUNNING
                (\<lambda>r. r\<lparr>run_state := RunState.FAILED, run_failure_category := Some c\<rparr>) db
     in rbind (guard (map_option run_state (RUNS_get (oid run) db) = Some RunState.FAILED) IllegalTransition) (\<lambda>_.
        rbind (audit_run job run ''runs.build'' ''running->failed'' db) (\<lambda>db. Inr (db, ()))))"

definition fail_build :: "Job \<Rightarrow> Run \<Rightarrow> ErrorCategory \<Rightarrow> (RunCall, unit) action" where
  "fail_build job run cat c =
    (case transaction (execute (record_build_failure job run cat)) c of
       (c', Inl IllegalTransition) \<Rightarrow> (c', Inr ())
     | r \<Rightarrow> r)"

definition resolve_build_host :: "PayloadModel \<Rightarrow> Db \<Rightarrow> exn + BuildHost" where
  "resolve_build_host p db =
    rbind (UUID (payload_build_host p)) (\<lambda>k.
      case get_by_id k db of None \<Rightarrow> Inl (CategorizedError INFRASTRUCTURE_FAILURE) | Some h \<Rightarrow> Inr h)"

definition run_build :: "RunEnv \<Rightarrow> Run \<Rightarrow> ServerBuildProfile \<Rightarrow> PayloadModel \<Rightarrow> (RunCall, BuildOutput) action" where
  "run_build env run parsed p =
    andthen (query (resolve_build_host p)) (\<lambda>host.
    andthen (query (runtime_for_run env (oid run))) (\<lambda>runtime.
      run_call env (Build (bh_id host) (oid run)) (rt_build runtime host (oid run) parsed)))"

definition build_and_record ::
  "RunEnv \<Rightarrow> Job \<Rightarrow> Run \<Rightarrow> ServerBuildProfile \<Rightarrow> PayloadModel \<Rightarrow> (RunCall, BuildStepResult) action" where
  "build_and_record env job run parsed p c =
    (case run_build env run parsed p c of
       (c', Inl (CategorizedError cat)) \<Rightarrow>
         andthen (fail_build job run cat) (\<lambda>_. andthen commit (\<lambda>_. lift (Inl (CategorizedError cat)))) c'
     | (c', Inl e) \<Rightarrow> (c', Inl e)
     | (c', Inr out) \<Rightarrow>
         (c', Inr \<lparr>br_kernel_ref = Some (bo_kernel_ref out), br_debuginfo_ref = Some (bo_debuginfo_ref out),
                   br_build_id = Some (bo_build_id out), br_initrd_ref = None, br_cmdline = payload_cmdline p\<rparr>))"

definition record_build_step :: "uuid \<Rightarrow> BuildStepResult \<Rightarrow> Db \<Rightarrow> exn + Db" where
  "record_build_step k result db =
    (if list_ex (step_of k ''build'') (run_steps db) then Inr db
     else insert_step (new_step k ''build'' ''succeeded'' (dump_result result) (db_clock db)) db)"

definition finalize_build :: "Job \<Rightarrow> Run \<Rightarrow> BuildStepResult \<Rightarrow> Db \<Rightarrow> exn + (Db \<times> unit)" where
  "finalize_build job run result db =
    rbind (record_build_step (oid run) result db) (\<lambda>db.
      if map_option run_state (RUNS_get (oid run) db) \<noteq> Some RunState.RUNNING then Inr (db, ())
      else rbind (audit_run job run ''runs.build'' ''running->succeeded''
                   (set_run (oid run) RunState.RUNNING (\<lambda>r. r\<lparr>kernel_ref := br_kernel_ref result,
                      debuginfo_ref := br_debuginfo_ref result, run_state := RunState.SUCCEEDED\<rparr>) db))
             (\<lambda>db. Inr (db, ())))"

definition release_build_lease :: "uuid \<Rightarrow> (RunCall, unit) action" where
  "release_build_lease k = best_effort (transaction (execute (\<lambda>db. Inr (release_lease k db, ()))))"

definition build_handler :: "RunEnv \<Rightarrow> Job \<Rightarrow> (RunCall, string option) action" where
  "build_handler env job =
    andthen (lift (run_of_job BuildC job)) (\<lambda>(p, k).
    andthen (query (the_run INFRASTRUCTURE_FAILURE k)) (\<lambda>run.
    andthen (lift (parse_build_profile (build_profile run))) (\<lambda>parsed.
      case parsed of
        ExternalBuild _ \<Rightarrow> lift (Inl config_error)
      | ServerBuild profile \<Rightarrow>
          andthen (transaction (query (\<lambda>db. Inr (existing_build_result k db)))) (\<lambda>existing.
          andthen (case existing of Some r \<Rightarrow> lift (Inr r) | None \<Rightarrow> build_and_record env job run profile p) (\<lambda>result.
          andthen (transaction (execute (finalize_build job run result))) (\<lambda>_.
          andthen (release_build_lease k) (\<lambda>_. lift (Inr (Some (uuid_str k))))))))))"


section \<open>Installs\<close>

datatype StepOutcome =
    Returned "string option"
  | StillWaiting

definition abandon_best_effort :: "uuid \<Rightarrow> string \<Rightarrow> (RunCall, unit) action" where
  "abandon_best_effort k step = best_effort (transaction (execute (\<lambda>db. Inr (abandon_run_step k step db, ()))))"

text \<open>\<open>except Exception\<close>: clean up and raise again.\<close>

definition on_exception :: "('p, 'a) action \<Rightarrow> (exn \<Rightarrow> ('p, unit) action) \<Rightarrow> ('p, 'a) action" where
  "on_exception m cleanup c =
    (case m c of
       (c', Inl e) \<Rightarrow> andthen (cleanup e) (\<lambda>_. lift (Inl e)) c'
     | (c', Inr a) \<Rightarrow> (c', Inr a))"

definition system_json :: "uuid \<Rightarrow> string \<times> json" where
  "system_json k = (''system_id'', JStr (uuid_str k))"

definition with_claim ::
  "RunEnv \<Rightarrow> uuid \<Rightarrow> string \<Rightarrow> (RunCall, unit) action \<Rightarrow> (RunCall, StepOutcome) action" where
  "with_claim env k step work =
    andthen (claim_run_step env (polls env) k step) (\<lambda>claim.
      case claim of
        Waiting \<Rightarrow> lift (Inr StillWaiting)
      | Replayed _ \<Rightarrow> lift (Inr (Returned (Some (uuid_str k))))
      | Claimed \<Rightarrow> andthen work (\<lambda>_. lift (Inr (Returned (Some (uuid_str k))))))"

definition complete_install :: "Job \<Rightarrow> Run \<Rightarrow> Db \<Rightarrow> exn + (Db \<times> unit)" where
  "complete_install job run db =
    rbind (complete_run_step (oid run) ''install'' (JObj [system_json (system_id run)]) db) (\<lambda>db.
    rbind (audit_run job run ''runs.install'' ''install'' db) (\<lambda>db. Inr (db, ())))"

definition install_request :: "RunEnv \<Rightarrow> uuid \<Rightarrow> Db \<Rightarrow> exn + (Run \<times> RunRuntime \<times> CaptureMethod \<times> string)" where
  "install_request env k db =
    (case RUNS_get k db of
       None \<Rightarrow> Inl config_error
     | Some run \<Rightarrow>
         (case kernel_ref run of
            None \<Rightarrow> Inl config_error
          | Some ref \<Rightarrow>
              (case SYSTEMS_get (system_id run) db of
                 None \<Rightarrow> Inl config_error
               | Some system \<Rightarrow>
                   rbind (resolve (run_resolver env) (kind_for_system (system_id run) db)) (\<lambda>runtime.
                   rbind (install_method_for system (run_profile_policy runtime)) (\<lambda>m.
                     Inr (run, runtime, m, ref))))))"

definition install_handler :: "RunEnv \<Rightarrow> Job \<Rightarrow> (RunCall, StepOutcome) action" where
  "install_handler env job =
    andthen (lift (run_of_job RunC job)) (\<lambda>(_, k).
    andthen (query (install_request env k)) (\<lambda>(run, runtime, m, ref).
    andthen (transaction (query (\<lambda>db. Inr (cmdline_for k m db)))) (\<lambda>cmdline.
    andthen (transaction (query (\<lambda>db. Inr (installed_initrd_ref k db)))) (\<lambda>initrd.
      let request = \<lparr>ir_system_id = system_id run, ir_run_id = k, ir_kernel_ref = ref, ir_cmdline = cmdline,
                     ir_method = m, ir_initrd_ref = initrd\<rparr>
      in with_claim env k ''install''
           (andthen (on_exception (run_call env (Install request) (rt_install runtime request))
                      (\<lambda>_. abandon_best_effort k ''install'')) (\<lambda>_.
              transaction (execute (complete_install job run))))))))"


section \<open>Boots\<close>

fun split_on :: "(char \<Rightarrow> bool) \<Rightarrow> string \<Rightarrow> string list" where
  "split_on sep [] = [[]]"
| "split_on sep (c # cs) =
    (case split_on sep cs of
       [] \<Rightarrow> [[c]]
     | w # ws \<Rightarrow> if sep c then [] # w # ws else (c # w) # ws)"

definition parse_literal_terms :: "string \<Rightarrow> string list option" where
  "parse_literal_terms pat =
    (let terms = split_on (\<lambda>c. c = CHR ''|'') pat
     in if pat = [] \<or> 256 < length pat \<or> CHR 0x00 \<in> set pat \<or> [] \<in> set terms \<or> 16 < length terms then None
        else Some terms)"

definition line_boundary :: "char \<Rightarrow> bool" where
  "line_boundary c \<longleftrightarrow> (of_char c :: nat) \<in> set [10, 11, 12, 13, 28, 29, 30, 133]"

text \<open>A match exists when a line contains a term; blank lines contain none.\<close>

definition search_matches :: "string \<Rightarrow> string list \<Rightarrow> bool" where
  "search_matches text terms = list_ex (\<lambda>line. list_ex (\<lambda>t. sublist t line) terms) (split_on line_boundary text)"

definition expected_crash_matches :: "Run \<Rightarrow> string \<Rightarrow> bool" where
  "expected_crash_matches run text =
    (case expected_boot_failure run of
       None \<Rightarrow> False
     | Some e \<Rightarrow>
         if json_get ''kind'' e \<noteq> Some (JStr ''console_crash'') then False
         else case json_get ''pattern'' e of
                Some (JStr pat) \<Rightarrow>
                  (case parse_literal_terms pat of None \<Rightarrow> False | Some terms \<Rightarrow> search_matches text terms)
              | _ \<Rightarrow> False)"

definition console_row :: "uuid \<Rightarrow> Artifact \<Rightarrow> bool" where
  "console_row k a \<longleftrightarrow> art_owner_kind a = ''systems'' \<and> art_owner_id a = k \<and> suffix ''/console'' (object_key a)"

definition upsert_console_artifact_row ::
  "uuid \<Rightarrow> uuid \<Rightarrow> string \<Rightarrow> string \<Rightarrow> Db \<Rightarrow> exn + (Db \<times> uuid)" where
  "upsert_console_artifact_row aid k key tag db =
    (case find (console_row k) (artifacts db) of
       None \<Rightarrow> rbind (ARTIFACTS_insert (register_artifact_row aid key tag REDACTED ''console'' ''systems'' k) db)
                 (\<lambda>db. Inr (db, aid))
     | Some a \<Rightarrow>
         Inr (if etag a \<noteq> tag
              then db\<lparr>artifacts := tbl_update oid (oid a) (touch (db_clock db) (etag_update (\<lambda>_. tag))) (artifacts db)\<rparr>
              else db, oid a))"

definition swallow :: "('p, 'a option) action \<Rightarrow> ('p, 'a option) action" where
  "swallow m c = (case m c of (c', Inl e) \<Rightarrow> (c', Inr None) | r \<Rightarrow> r)"

definition capture_console_artifact :: "RunEnv \<Rightarrow> uuid \<Rightarrow> (RunCall, (uuid \<times> string) option) action" where
  "capture_console_artifact env k =
    andthen (run_call env (ReadConsole k)
       (case read_console env k of None \<Rightarrow> Inl (CategorizedError INFRASTRUCTURE_FAILURE) | Some t \<Rightarrow> Inr t)) (\<lambda>text.
      if text = [] then lift (Inr None)
      else swallow (andthen (run_call env (StoreConsole k) (store_console env k text)) (\<lambda>(key, tag).
             andthen (transaction (execute (upsert_console_artifact_row (console_row_id env) k key tag)))
               (\<lambda>i. lift (Inr (Some (i, text)))))))"

definition record_boot_audit :: "Job \<Rightarrow> Run \<Rightarrow> (RunCall, unit) action" where
  "record_boot_audit job run = execute (\<lambda>db. rbind (audit_run job run ''runs.boot'' ''boot'' db) (\<lambda>db. Inr (db, ())))"

definition expected_crash_result :: "Run \<Rightarrow> uuid \<Rightarrow> json" where
  "expected_crash_result run i =
    JObj [system_json (system_id run), (''boot_outcome'', JStr ''expected_crash_observed''),
          (''expectation_matched'', JBool True), (''evidence_kind'', JStr ''console''),
          (''evidence_artifact_id'', JStr (uuid_str i))]"

definition ready_result :: "Run \<Rightarrow> (uuid \<times> string) option \<Rightarrow> json" where
  "ready_result run art =
    JObj ([system_json (system_id run), (''boot_outcome'', JStr ''ready'')] @
          if_some ''evidence_artifact_id'' (map_option (\<lambda>(i, _). JStr (uuid_str i)) art))"

definition boot_failed :: "RunEnv \<Rightarrow> Job \<Rightarrow> Run \<Rightarrow> ErrorCategory \<Rightarrow> (RunCall, json) action" where
  "boot_failed env job run cat =
    andthen (if cat = READINESS_FAILURE \<and> expected_boot_failure run \<noteq> None
             then capture_console_artifact env (system_id run) else lift (Inr None)) (\<lambda>art.
      case art of
        None \<Rightarrow> lift (Inl (CategorizedError cat))
      | Some (i, text) \<Rightarrow>
          if text \<noteq> [] \<and> expected_crash_matches run text
          then andthen (record_boot_audit job run) (\<lambda>_. lift (Inr (expected_crash_result run i)))
          else lift (Inl (CategorizedError cat)))"

definition run_boot_and_capture_outcome :: "RunEnv \<Rightarrow> Job \<Rightarrow> Run \<Rightarrow> RunRuntime \<Rightarrow> (RunCall, json) action" where
  "run_boot_and_capture_outcome env job run runtime c =
    (case run_call env (Boot (system_id run)) (rt_boot runtime (system_id run)) c of
       (c', Inl (CategorizedError cat)) \<Rightarrow> boot_failed env job run cat c'
     | (c', Inl e) \<Rightarrow> (c', Inl e)
     | (c', Inr _) \<Rightarrow>
         andthen (capture_console_artifact env (system_id run)) (\<lambda>art.
         andthen (record_boot_audit job run) (\<lambda>_. lift (Inr (ready_result run art)))) c')"

definition boot_cleanup :: "RunEnv \<Rightarrow> Run \<Rightarrow> exn \<Rightarrow> (RunCall, unit) action" where
  "boot_cleanup env run e =
    andthen (abandon_best_effort (oid run) ''boot'') (\<lambda>_.
      case e of
        CategorizedError _ \<Rightarrow> andthen (capture_console_artifact env (system_id run)) (\<lambda>_. lift (Inr ()))
      | _ \<Rightarrow> lift (Inr ()))"

definition boot_handler :: "RunEnv \<Rightarrow> Job \<Rightarrow> (RunCall, StepOutcome) action" where
  "boot_handler env job =
    andthen (lift (run_of_job RunC job)) (\<lambda>(_, k).
    andthen (query (the_run INFRASTRUCTURE_FAILURE k)) (\<lambda>run.
      with_claim env k ''boot''
        (andthen (query (runtime_for_run env k)) (\<lambda>runtime.
         andthen (on_exception (run_boot_and_capture_outcome env job run runtime) (boot_cleanup env run)) (\<lambda>result.
           transaction (execute (\<lambda>db. rbind (complete_run_step k ''boot'' result db) (\<lambda>db. Inr (db, ())))))))))"

end
