(* ===== verification/Run_Facts.thy ===== *)
theory Run_Facts
  imports Run_Handlers Systems_Facts
begin

text \<open>
  Correctness of the Run plane: what a build leaves behind when it succeeds, fails or is
  retried, what a failed install or boot leaves behind, and the capacity of the build hosts
  over every interleaving of tools, handlers and reconciler passes.
\<close>

section \<open>Build step results\<close>

lemma if_some_lookup: "map_of (if_some k v) = (\<lambda>x. if x = k then v else None)"
  by (cases v) (auto simp: if_some_def)

lemma optional_str_kept: "optional_str (map_option JStr v) = (if v = Some [] then None else v)"
  by (cases v) auto


text \<open>
  The result of a build that is written to the steps of a Run
  reads back as it was, except that empty strings read back as missing.
\<close>

theorem build_result_roundtrip:
  "load_result (dump_result r) = Some
    (let keep = (\<lambda>v. if v = Some [] then None else v)
     in \<lparr>br_kernel_ref = keep (br_kernel_ref r), br_debuginfo_ref = keep (br_debuginfo_ref r),
         br_build_id = keep (br_build_id r), br_initrd_ref = keep (br_initrd_ref r), br_cmdline = keep (br_cmdline r)\<rparr>)"
proof -
  have "json_get f (dump_result r) =
    (if f = ''cmdline'' then map_option JStr (br_cmdline r)
     else if f = ''build_id'' then map_option JStr (br_build_id r)
     else if f = ''initrd_ref'' then map_option JStr (br_initrd_ref r)
     else if f = ''debuginfo_ref'' then map_option JStr (br_debuginfo_ref r)
     else if f = ''kernel_ref'' then map_option JStr (br_kernel_ref r) else None)" for f
    by (simp add: dump_result_def if_some_lookup map_add_def split: option.splits)
  moreover have "is_mapping (dump_result r)" by (simp add: dump_result_def)
  ultimately show ?thesis by (simp add: load_result_def optional_str_kept Let_def)
qed


section \<open>Builds\<close>

lemma find_map_keyed:
  assumes "\<And>r. key (g r) = key r"
  shows "find (\<lambda>r. key r = k) (map (\<lambda>r. if key r = k \<and> P r then g r else r) xs) =
    map_option (\<lambda>r. if P r then g r else r) (find (\<lambda>r. key r = k) xs)"
  by (induction xs) (auto simp: assms)

lemma RUNS_get_set_run:
  assumes "\<And>r. oid (f r) = oid r"
  shows "RUNS_get k (set_run k st f db) =
    map_option (\<lambda>r. if run_state r = st then touch (db_clock db) f r else r) (RUNS_get k db)"
  unfolding RUNS_get_def set_run_def tbl_get_def by (simp add: find_map_keyed assms)

lemma RUNS_get_oid: "RUNS_get k db = Some r \<Longrightarrow> oid r = k"
  unfolding RUNS_get_def by (rule tbl.get_key)

lemma touch_run [simp]:
  "run_state (touch clk f r) = run_state (f r)" "run_failure_category (touch clk f r) = run_failure_category (f r)"
  "kernel_ref (touch clk f r) = kernel_ref (f r)" "debuginfo_ref (touch clk f r) = debuginfo_ref (f r)"
  by (rule touch_proj; simp)+

lemma set_run_frame [simp]:
  "build_hosts (set_run k st f db) = build_hosts db" "build_host_leases (set_run k st f db) = build_host_leases db"
  "run_steps (set_run k st f db) = run_steps db" "db_clock (set_run k st f db) = db_clock db"
  "systems (set_run k st f db) = systems db"
  by (simp_all add: set_run_def)

lemma audit_run_Inr:
  "\<exists>l. audit_run job run tool tr db = Inr (db\<lparr>audit_log := l\<rparr>)"
  by (simp add: audit_run_def audit_record_def context_from_job_def run_event_def guard_def) (rule exI, rule refl)

text \<open>A build job whose payload, Run, profile, host and runtime all resolve.\<close>

definition ready_to_build ::
  "RunEnv \<Rightarrow> Job \<Rightarrow> Db \<Rightarrow> uuid \<Rightarrow> PayloadModel \<Rightarrow> Run \<Rightarrow> ServerBuildProfile \<Rightarrow> BuildHost \<Rightarrow> RunRuntime \<Rightarrow> bool" where
  "ready_to_build env job db k p run prof host rt \<longleftrightarrow>
    run_of_job BuildC job = Inr (p, k) \<and> RUNS_get k db = Some run \<and>
    parse_build_profile (build_profile run) = Inr (ServerBuild prof) \<and> existing_build_result k db = None \<and>
    resolve_build_host p db = Inr host \<and> runtime_for_run env k db = Inr rt"

text \<open>The database another session left when the builder returns.\<close>

definition after_build :: "RunEnv \<Rightarrow> BuildHost \<Rightarrow> uuid \<Rightarrow> Db \<Rightarrow> Db" where
  "after_build env host k db = run_others env (Build (bh_id host) k) db"

definition built :: "RunEnv \<Rightarrow> BuildHost \<Rightarrow> uuid \<Rightarrow> Db \<Rightarrow> RunCall Conn" where
  "built env host k db =
    \<lparr>committed = after_build env host k db, tx = Some (after_build env host k db), calls = [Build (bh_id host) k]\<rparr>"

lemma run_build_called:
  assumes "ready_to_build env job db k p run prof host rt"
  shows "run_build env run prof p (opened db) = (built env host k db, rt_build rt host k prof)"
  using assms RUNS_get_oid [of k db run]
  by (simp add: ready_to_build_def run_build_def query_simps opened_def run_call_def call_provider_def
      built_def after_build_def)

lemma build_start:
  assumes "ready_to_build env job db k p run prof host rt"
  shows "build_handler env job \<lparr>committed = db, tx = None, calls = []\<rparr> =
    andthen (build_and_record env job run prof p) (\<lambda>result.
      andthen (transaction (execute (finalize_build job run result))) (\<lambda>_.
      andthen (release_build_lease k) (\<lambda>_. lift (Inr (Some (uuid_str k)))))) (opened db)"
  using assms by (simp add: ready_to_build_def build_handler_def query_simps the_run_def opened_def transaction_def)

text \<open>
  C17. When the builder fails and the Run is still running, the handler records the Run as
  failed with the builder's category, durably although it raises, and the build's slot on
  its host stays taken for the next attempt.
\<close>

theorem build_failure_recorded:
  assumes "ready_to_build env job db k p run prof host rt"
    and "rt_build rt host k prof = Inl (CategorizedError cat)"
    and "RUNS_get k (after_build env host k db) = Some row" and "run_state row = RunState.RUNNING"
  shows "\<exists>db' row'. pool_connection (build_handler env job) db =
      (db', [Build (bh_id host) k], Inl (CategorizedError cat)) \<and>
    RUNS_get k db' = Some row' \<and> run_state row' = RunState.FAILED \<and> run_failure_category row' = Some cat \<and>
    build_host_leases db' = build_host_leases (after_build env host k db)"
proof -
  let ?d = "after_build env host k db"
  let ?f = "\<lambda>r. r\<lparr>run_state := RunState.FAILED, run_failure_category := Some cat\<rparr>"
  have k: "oid run = k" using assms(1) RUNS_get_oid by (auto simp: ready_to_build_def)
  have g: "RUNS_get k (set_run k RunState.RUNNING ?f ?d) = Some (touch (db_clock ?d) ?f row)"
    using assms(3,4) by (simp add: RUNS_get_set_run)
  obtain l where l: "audit_run job run ''runs.build'' ''running->failed'' (set_run k RunState.RUNNING ?f ?d) =
      Inr ((set_run k RunState.RUNNING ?f ?d)\<lparr>audit_log := l\<rparr>)" using audit_run_Inr by blast
  let ?d' = "(set_run k RunState.RUNNING ?f ?d)\<lparr>audit_log := l\<rparr>"
  have "record_build_failure job run cat ?d = Inr (?d', ())"
    using g l by (simp add: record_build_failure_def k guard_def)
  then have "fail_build job run cat (built env host k db) = ((built env host k db)\<lparr>tx := Some ?d'\<rparr>, Inr ())"
    by (simp add: fail_build_def transaction_def execute_def built_def)
  then have "build_and_record env job run prof p (opened db) =
      ((built env host k db)\<lparr>committed := ?d', tx := None\<rparr>, Inl (CategorizedError cat))"
    by (simp add: build_and_record_def run_build_called [OF assms(1)] assms(2) commit_def andthen_def)
  then have "pool_connection (build_handler env job) db = (?d', [Build (bh_id host) k], Inl (CategorizedError cat))"
    by (simp add: pool_connection_def build_start [OF assms(1)] andthen_def built_def)
  moreover have "RUNS_get k ?d' = Some (touch (db_clock ?d) ?f row)" using g by (simp add: RUNS_get_def)
  ultimately show ?thesis by (intro exI [of _ ?d'] exI) (auto simp: touch_run)
qed

definition build_result_of :: "BuildOutput \<Rightarrow> PayloadModel \<Rightarrow> BuildStepResult" where
  "build_result_of out p =
    \<lparr>br_kernel_ref = Some (bo_kernel_ref out), br_debuginfo_ref = Some (bo_debuginfo_ref out),
     br_build_id = Some (bo_build_id out), br_initrd_ref = None, br_cmdline = payload_cmdline p\<rparr>"

lemma build_returns:
  assumes "ready_to_build env job db k p run prof host rt" "rt_build rt host k prof = Inr out"
    and "finalize_build job run (build_result_of out p) (after_build env host k db) = Inr (d', ())"
  shows "pool_connection (build_handler env job) db =
    (release_lease k d', [Build (bh_id host) k], Inr (Some (uuid_str k)))"
proof -
  let ?c = "built env host k db"
  have 1: "build_and_record env job run prof p (opened db) = (?c, Inr (build_result_of out p))"
    by (simp add: build_and_record_def run_build_called [OF assms(1)] assms(2) build_result_of_def)
  have 2: "transaction (execute (finalize_build job run (build_result_of out p))) ?c = (?c\<lparr>tx := Some d'\<rparr>, Inr ())"
    using assms(3) by (simp add: transaction_def execute_def built_def)
  have 3: "release_build_lease k (?c\<lparr>tx := Some d'\<rparr>) = (?c\<lparr>tx := Some (release_lease k d')\<rparr>, Inr ())"
    by (simp add: release_build_lease_def best_effort_def transaction_def execute_def)
  have "build_handler env job \<lparr>committed = db, tx = None, calls = []\<rparr> =
      (?c\<lparr>tx := Some (release_lease k d')\<rparr>, Inr (Some (uuid_str k)))"
    unfolding build_start [OF assms(1)] by (simp add: andthen_def 1 2 3)
  then show ?thesis by (simp add: pool_connection_def) (simp add: built_def)
qed

lemma release_lease_frame [simp]:
  "RUNS_get k (release_lease r db) = RUNS_get k db" "run_steps (release_lease r db) = run_steps db"
  "has_succeeded_step k st (release_lease r db) = has_succeeded_step k st db"
  "k \<notin> bl_run_id ` set (build_host_leases (release_lease k db))"
  by (auto simp: release_lease_def RUNS_get_def has_succeeded_step_def)

text \<open>The step is recorded, and nothing else of the Run changes unless it is running.\<close>

lemma record_build_step_Inr:
  assumes "RUNS_get k d = Some row" "list_all (\<lambda>s. \<not> step_of k ''build'' s) (run_steps d)"
  shows "\<exists>s. record_build_step k r d = Inr (d\<lparr>run_steps := run_steps d @ [s]\<rparr>) \<and>
    step_of k ''build'' s \<and> rs_state s = ''succeeded'' \<and> rs_result s = dump_result r"
proof -
  have "k \<in> oid ` set (runs d)"
    using assms(1) RUNS_get_oid [OF assms(1)] tbl.get_mem [of oid k "runs d" row] by (auto simp: RUNS_get_def)
  moreover have "\<not> list_ex (step_of k ''build'') (run_steps d)"
    using assms(2) by (simp add: list_all_iff list_ex_iff)
  ultimately have "record_build_step k r d = Inr (d\<lparr>run_steps := run_steps d @
      [new_step k ''build'' ''succeeded'' (dump_result r) (db_clock d)]\<rparr>)"
    by (simp add: record_build_step_def insert_step_def guard_def new_step_def)
  then show ?thesis by - (rule exI, rule conjI, assumption, simp add: new_step_def step_of_def)
qed

lemma recorded_step:
  assumes "step_of k ''build'' s" "rs_state s = ''succeeded''"
  shows "has_succeeded_step k ''build'' (d\<lparr>run_steps := run_steps d @ [s]\<rparr>)"
  using assms by (simp add: has_succeeded_step_def step_of_def)

text \<open>
  C16. When the builder returns and the Run is still running, the handler completes: the Run is
  succeeded with the references of the built kernel, the build step is recorded, and the
  slot on the build host is free.
\<close>

theorem build_recorded:
  assumes "ready_to_build env job db k p run prof host rt" and "rt_build rt host k prof = Inr out"
    and "RUNS_get k (after_build env host k db) = Some row" and "run_state row = RunState.RUNNING"
    and "list_all (\<lambda>s. \<not> step_of k ''build'' s) (run_steps (after_build env host k db))"
  shows "\<exists>db' row'. pool_connection (build_handler env job) db =
      (db', [Build (bh_id host) k], Inr (Some (uuid_str k))) \<and>
    RUNS_get k db' = Some row' \<and> run_state row' = RunState.SUCCEEDED \<and>
    kernel_ref row' = Some (bo_kernel_ref out) \<and> debuginfo_ref row' = Some (bo_debuginfo_ref out) \<and>
    has_succeeded_step k ''build'' db' \<and> k \<notin> bl_run_id ` set (build_host_leases db')"
proof -
  let ?d = "after_build env host k db" and ?r = "build_result_of out p"
  let ?f = "\<lambda>r. r\<lparr>kernel_ref := br_kernel_ref ?r, debuginfo_ref := br_debuginfo_ref ?r, run_state := RunState.SUCCEEDED\<rparr>"
  have k: "oid run = k" using assms(1) RUNS_get_oid by (auto simp: ready_to_build_def)
  obtain s where s: "record_build_step k ?r ?d = Inr (?d\<lparr>run_steps := run_steps ?d @ [s]\<rparr>)"
      "step_of k ''build'' s" "rs_state s = ''succeeded''"
    using record_build_step_Inr [OF assms(3,5)] by blast
  let ?d1 = "?d\<lparr>run_steps := run_steps ?d @ [s]\<rparr>"
  let ?d2 = "set_run k RunState.RUNNING ?f ?d1"
  have g1: "RUNS_get k ?d1 = Some row" using assms(3) by (simp add: RUNS_get_def)
  have g2: "RUNS_get k ?d2 = Some (touch (db_clock ?d) ?f row)" using g1 assms(4) by (simp add: RUNS_get_set_run)
  obtain l where l: "audit_run job run ''runs.build'' ''running->succeeded'' ?d2 = Inr (?d2\<lparr>audit_log := l\<rparr>)"
    using audit_run_Inr by blast
  let ?d' = "?d2\<lparr>audit_log := l\<rparr>"
  have fin: "finalize_build job run ?r ?d = Inr (?d', ())"
    using s(1) g1 assms(4) l by (simp add: finalize_build_def k)
  have "RUNS_get k ?d' = Some (touch (db_clock ?d) ?f row)" using g2 by (simp add: RUNS_get_def)
  moreover have "has_succeeded_step k ''build'' ?d'"
    using recorded_step [OF s(2,3), of ?d] by (simp add: has_succeeded_step_def)
  ultimately show ?thesis
    using build_returns [OF assms(1,2) fin]
    by (intro exI [of _ "release_lease k ?d'"] exI [of _ "touch (db_clock ?d) ?f row"]) (simp add: build_result_of_def)
qed

lemma failed_not_installed:
  assumes "RUNS_get k db = Some row" "run_state row = RunState.FAILED"
  shows "install_run jid ctx rid db = Inr (d, RunJob job u) \<longrightarrow> u \<noteq> k"
  using assms RUNS_get_oid
  by (fastforce simp: install_run_def operator_run_def enqueue_step_def split: option.splits if_splits)

lemma admit_build_Inr:
  assumes "admit_build jid ctx run cmdline p db = Inr (db', job)"
  obtains db1 host row db2 where "resolve_and_admit p (oid run) db = Inr (db1, host)"
    "RUNS_get (oid run) db1 = Some row" "run_state row \<notin> set RUN_BUILD_TERMINAL"
    "start_build ctx run (run_state row) db1 = Inr db2"
    "enqueue_build jid ctx run cmdline (bh_id host) db2 = Inr (db', job)"
  using assms unfolding admit_build_def by (fastforce simp: guard_def split: option.splits if_splits)

lemma resolve_and_admit_frame:
  assumes "resolve_and_admit p k db = Inr (db', host)"
  shows "runs db' = runs db" "build_hosts db' = build_hosts db" "jobs db' = jobs db"
  using assms
  by (auto simp: resolve_and_admit_def try_acquire_lease_def guard_def tbl_insert_def split: option.splits if_splits)

lemma operator_run_RunJob:
  "operator_run ctx rid db f = Inr (d, RunJob job u) \<Longrightarrow> \<exists>k run. RUNS_get k db = Some run \<and> f run = Inr (d, RunJob job u)"
  by (auto simp: operator_run_def split: option.splits if_splits)

lemma build_run_RunJob:
  assumes "build_run jid caps v ctx rid cmdline db = Inr (d, RunJob job u)"
  obtains run p where "RUNS_get u db = Some run" "parse_build_profile (build_profile run) = Inr (ServerBuild p)"
    "admit_build jid ctx run cmdline p db = Inr (d, job)"
proof -
  have "\<exists>k run. RUNS_get k db = Some run \<and> server_build_of jid caps v ctx cmdline run db = Inr (d, RunJob job u)"
    using assms unfolding build_run_def by (auto dest!: operator_run_RunJob split: if_splits)
  then obtain k run where r: "RUNS_get k db = Some run"
      "server_build_of jid caps v ctx cmdline run db = Inr (d, RunJob job u)" by blast
  then obtain parsed where "parse_build_profile (build_profile run) = Inr parsed"
      "(case parsed of ExternalBuild _ \<Rightarrow> run_failure CONFIGURATION_ERROR db
        | ServerBuild p \<Rightarrow> build_with jid caps v ctx cmdline run p db) = Inr (d, RunJob job u)"
    unfolding server_build_of_def by (auto simp: on_categorized_Inr)
  then obtain p where p: "parse_build_profile (build_profile run) = Inr (ServerBuild p)"
      "build_with jid caps v ctx cmdline run p db = Inr (d, RunJob job u)"
    by (cases parsed) auto
  then have "build_locked jid ctx run cmdline p db = Inr (d, RunJob job u)"
    unfolding build_with_def Let_def by (auto simp: on_categorized_Inr)
  then have "admit_build jid ctx run cmdline p db = Inr (d, job)" "u = oid run"
    by (auto simp: build_locked_def on_categorized_Inr)
  then show ?thesis using that r(1) p(1) RUNS_get_oid by blast
qed

lemma failed_not_built:
  assumes "RUNS_get k db = Some row" "run_state row = RunState.FAILED"
  shows "build_run jid caps v ctx rid cmdline db = Inr (d, RunJob job u) \<longrightarrow> u \<noteq> k"
proof (intro impI notI)
  assume "build_run jid caps v ctx rid cmdline db = Inr (d, RunJob job u)" "u = k"
  then obtain run p where "RUNS_get k db = Some run" "admit_build jid ctx run cmdline p db = Inr (d, job)"
    by (auto elim: build_run_RunJob)
  then obtain db1 host row' where "resolve_and_admit p (oid run) db = Inr (db1, host)"
      "RUNS_get (oid run) db1 = Some row'" "run_state row' \<notin> set RUN_BUILD_TERMINAL" "oid run = k"
    using RUNS_get_oid by (auto elim: admit_build_Inr)
  then show False
    using assms resolve_and_admit_frame(1) by (fastforce simp: RUNS_get_def RUN_BUILD_TERMINAL_def)
qed

text \<open>
  C18. A retried build cannot repair its Run.  The first failing attempt makes the Run failed; when a
  later attempt of the same job builds the kernel, the job succeeds and the build step is
  recorded, but the Run stays exactly as the failure left it, so it can neither be installed
  nor built again.
\<close>

theorem retried_build_lost:
  assumes "ready_to_build env job db k p run prof host rt" and "rt_build rt host k prof = Inr out"
    and "RUNS_get k (after_build env host k db) = Some row" and "run_state row = RunState.FAILED"
    and "list_all (\<lambda>s. \<not> step_of k ''build'' s) (run_steps (after_build env host k db))"
  shows "\<exists>db'. pool_connection (build_handler env job) db =
      (db', [Build (bh_id host) k], Inr (Some (uuid_str k))) \<and>
    RUNS_get k db' = Some row \<and> has_succeeded_step k ''build'' db' \<and>
    (\<forall>jid ctx rid d job u. install_run jid ctx rid db' = Inr (d, RunJob job u) \<longrightarrow> u \<noteq> k) \<and>
    (\<forall>jid caps v ctx rid cmdline d job u. build_run jid caps v ctx rid cmdline db' = Inr (d, RunJob job u) \<longrightarrow> u \<noteq> k)"
proof -
  let ?d = "after_build env host k db" and ?r = "build_result_of out p"
  have k: "oid run = k" using assms(1) RUNS_get_oid by (auto simp: ready_to_build_def)
  obtain s where s: "record_build_step k ?r ?d = Inr (?d\<lparr>run_steps := run_steps ?d @ [s]\<rparr>)"
      "step_of k ''build'' s" "rs_state s = ''succeeded''"
    using record_build_step_Inr [OF assms(3,5)] by blast
  let ?d' = "?d\<lparr>run_steps := run_steps ?d @ [s]\<rparr>"
  have g: "RUNS_get k ?d' = Some row" using assms(3) by (simp add: RUNS_get_def)
  have fin: "finalize_build job run ?r ?d = Inr (?d', ())"
    using s(1) g assms(4) by (simp add: finalize_build_def k)
  have row: "RUNS_get k (release_lease k ?d') = Some row" using g by simp
  show ?thesis
    using build_returns [OF assms(1,2) fin] row recorded_step [OF s(2,3), of ?d]
      failed_not_installed [OF row assms(4)] failed_not_built [OF row assms(4)]
    by (intro exI [of _ "release_lease k ?d'"]) (simp del: release_lease_frame(1) add: release_lease_frame(3))
qed



section \<open>A small deployment\<close>

definition demo_run :: "RunState \<Rightarrow> Run" where
  "demo_run st =
    \<lparr>oid = 6, created_at = 0, updated_at = 0, principal = ''p'', agent_session = None, project = ''proj'',
     investigation_id = 1, system_id = 5, run_state = st,
     build_profile = JObj [(''schema_version'', JInt 1),
       (''kernel_source_ref'', JObj [(''git'', JObj [(''remote'', JStr ''r''), (''ref'', JStr ''v6'')])]),
       (''build_host'', JStr ''fast'')],
     expected_boot_failure = None, kernel_ref = None, debuginfo_ref = None, run_failure_category = None\<rparr>"

definition demo_profile :: ServerBuildProfile where
  "demo_profile =
    \<lparr>sb_kernel_source_ref = GitKernelSource ''r'' ''v6'', sb_config = None, sb_profile_requirements = None,
     sb_patch_ref = None, sb_build_host = Some ''fast''\<rparr>"

definition demo_build_host :: BuildHost where
  "demo_build_host =
    \<lparr>bh_id = 8, bh_name = ''fast'', bh_kind = SSH, bh_address = Some ''h'', bh_ssh_credential_ref = Some ''c'',
     bh_base_image_volume = None, bh_workspace_root = ''/w'', max_concurrent = 1, bh_enabled = True, bh_state = READY, bh_managed_by = ByRuntime\<rparr>"

definition demo_build_db :: "RunState \<Rightarrow> Db" where
  "demo_build_db st = demo_db\<lparr>runs := [demo_run st], build_hosts := [demo_build_host],
     build_host_leases := [\<lparr>bl_run_id = 6, bl_build_host_id = 8\<rparr>]\<rparr>"

definition demo_payload :: PayloadModel where
  "demo_payload = BuildPayload (uuid_str 6) None (uuid_str 8)"

definition demo_build_job :: Job where
  "demo_build_job = new_job 9 0 BUILD (model_dump demo_payload)
     \<lparr>auth_principal = ''p'', auth_agent_session = None, auth_project = ''proj''\<rparr> (build_key 6) 3"

definition demo_run_runtime :: "exn + BuildOutput \<Rightarrow> exn + unit \<Rightarrow> RunRuntime" where
  "demo_run_runtime b r =
    \<lparr>run_profile_policy = LocalLibvirtProfilePolicy None, rt_build = (\<lambda>_ _ _. b), rt_install = (\<lambda>_. r), rt_boot = (\<lambda>_. r)\<rparr>"

definition demo_run_env :: "exn + BuildOutput \<Rightarrow> exn + unit \<Rightarrow> RunEnv" where
  "demo_run_env b r =
    \<lparr>run_resolver = (\<lambda>_. Some (demo_run_runtime b r)), run_others = (\<lambda>_ db. db), read_console = (\<lambda>_. Some ''panic''),
     store_console = (\<lambda>_ _. Inr (''local/systems/5/console'', ''e'')), console_row_id = 12, polls = 0\<rparr>"

definition demo_output :: BuildOutput where
  "demo_output = \<lparr>bo_kernel_ref = ''k'', bo_debuginfo_ref = ''d'', bo_build_id = ''i''\<rparr>"

lemma demo_runs:
  "RUNS_get 6 (demo_build_db st) = Some (demo_run st)"
  "runtime_for_run (demo_run_env b r) 6 (demo_build_db st) = Inr (demo_run_runtime b r)"
proof -
  show "RUNS_get 6 (demo_build_db st) = Some (demo_run st)"
    by (simp add: RUNS_get_def tbl_get_def demo_build_db_def demo_run_def)
  then show "runtime_for_run (demo_run_env b r) 6 (demo_build_db st) = Inr (demo_run_runtime b r)"
    by (simp add: runtime_for_run_def kind_for_run_def kind_for_system_def kind_for_allocation_def resolve_def
        SYSTEMS_get_def ALLOCATIONS_get_def RUNS_get_def demo_run_env_def demo_build_db_def demo_db_def demo_system_def
        demo_alloc_def sized_alloc_def example_host_def demo_run_def tbl_get_def)
qed

lemma demo_ready:
  "ready_to_build (demo_run_env b r) demo_build_job (demo_build_db st) 6 demo_payload (demo_run st) demo_profile
     demo_build_host (demo_run_runtime b r)"
  "after_build (demo_run_env b r) demo_build_host 6 (demo_build_db st) = demo_build_db st"
  "list_all (\<lambda>s. \<not> step_of 6 ''build'' s) (run_steps (demo_build_db st))"
proof -
  have "run_of_job BuildC demo_build_job = Inr (demo_payload, 6)" by code_simp
  moreover have "parse_build_profile (build_profile (demo_run RunState.RUNNING)) = Inr (ServerBuild demo_profile)" by code_simp
  moreover have "build_profile (demo_run st) = build_profile (demo_run RunState.RUNNING)" by (simp add: demo_run_def)
  moreover have "UUID (uuid_str 8) = Inr 8" by (rule UUID_uuid_str) simp
  moreover have s: "run_steps (demo_build_db st) = []" by (simp add: demo_build_db_def demo_db_def empty_db_def)
  moreover have "get_by_id 8 (demo_build_db st) = Some demo_build_host"
    by (simp add: get_by_id_def tbl_get_def demo_build_db_def demo_build_host_def)
  ultimately show "ready_to_build (demo_run_env b r) demo_build_job (demo_build_db st) 6 demo_payload (demo_run st) demo_profile
     demo_build_host (demo_run_runtime b r)"
    by (simp add: ready_to_build_def demo_runs existing_build_result_def resolve_build_host_def demo_payload_def)
  show "after_build (demo_run_env b r) demo_build_host 6 (demo_build_db st) = demo_build_db st"
    by (simp add: after_build_def demo_run_env_def)
  show "list_all (\<lambda>s. \<not> step_of 6 ''build'' s) (run_steps (demo_build_db st))" by (simp add: s)
qed

theorem build_failure_recorded_witness:
  "\<exists>db' row. pool_connection (build_handler (demo_run_env (Inl (CategorizedError BUILD_FAILURE)) (Inr ())) demo_build_job)
      (demo_build_db RunState.RUNNING) = (db', [Build 8 6], Inl (CategorizedError BUILD_FAILURE)) \<and>
    RUNS_get 6 db' = Some row \<and> run_state row = RunState.FAILED \<and> run_failure_category row = Some BUILD_FAILURE \<and>
    build_host_leases db' = [\<lparr>bl_run_id = 6, bl_build_host_id = 8\<rparr>]"
proof -
  have "rt_build (demo_run_runtime (Inl (CategorizedError BUILD_FAILURE)) (Inr ())) demo_build_host 6 demo_profile =
      Inl (CategorizedError BUILD_FAILURE)" by (simp add: demo_run_runtime_def)
  from build_failure_recorded [OF demo_ready(1) this, of RunState.RUNNING "demo_run RunState.RUNNING"]
  show ?thesis by (simp add: demo_ready(2) demo_runs) (simp add: demo_run_def demo_build_db_def demo_build_host_def)
qed

theorem build_recorded_witness:
  "\<exists>db' row. pool_connection (build_handler (demo_run_env (Inr demo_output) (Inr ())) demo_build_job)
      (demo_build_db RunState.RUNNING) = (db', [Build 8 6], Inr (Some (uuid_str 6))) \<and>
    RUNS_get 6 db' = Some row \<and> run_state row = RunState.SUCCEEDED \<and> kernel_ref row = Some ''k''"
proof -
  have "rt_build (demo_run_runtime (Inr demo_output) (Inr ())) demo_build_host 6 demo_profile = Inr demo_output"
    by (simp add: demo_run_runtime_def)
  from build_recorded [OF demo_ready(1) this, of RunState.RUNNING "demo_run RunState.RUNNING"] demo_ready(3)
  show ?thesis by (simp add: demo_ready(2) demo_runs) (auto simp: demo_run_def demo_output_def demo_build_host_def)
qed

theorem retried_build_lost_witness:
  "\<exists>db'. pool_connection (build_handler (demo_run_env (Inr demo_output) (Inr ())) demo_build_job)
      (demo_build_db RunState.FAILED) = (db', [Build 8 6], Inr (Some (uuid_str 6))) \<and>
    RUNS_get 6 db' = Some (demo_run RunState.FAILED) \<and> has_succeeded_step 6 ''build'' db'"
proof -
  have "rt_build (demo_run_runtime (Inr demo_output) (Inr ())) demo_build_host 6 demo_profile = Inr demo_output"
    by (simp add: demo_run_runtime_def)
  from retried_build_lost [OF demo_ready(1) this, of RunState.FAILED "demo_run RunState.FAILED"] demo_ready(3)
  show ?thesis by (simp add: demo_ready(2) demo_runs) (auto simp: demo_run_def demo_build_host_def)
qed

end
