(* ===== verification/Host_Inventory.thy ===== *)
theory Host_Inventory
  imports Build_Hosts
begin

text \<open>
  The pass that merges the \<open>[[build_host]]\<close> declarations of the inventory file into the
  table of build hosts (\<open>inventory/reconcile_build_hosts.py\<close> and the build-host part of
  \<open>inventory/reconcile.py\<close>).  The declarations are those of a parsed file; log lines are left
  out.  The connection is not in autocommit mode and the first statement, the session lock,
  opens its transaction, so the blocks below are savepoints of one transaction: an exception
  undoes the whole pass.
\<close>

section \<open>Declarations\<close>

record BuildHostInstance =
  in_name :: string
  in_kind :: string
  in_base_image_volume :: "string option"
  in_workspace_root :: string
  in_max_concurrent :: int

fun BuildHostKind_value :: "BuildHostKind \<Rightarrow> string" where
  "BuildHostKind_value LOCAL = ''local''"
| "BuildHostKind_value SSH = ''ssh''"
| "BuildHostKind_value EPHEMERAL_LIBVIRT = ''ephemeral_libvirt''"

definition BuildHostKind_of :: "string \<Rightarrow> exn + BuildHostKind" where
  "BuildHostKind_of s =
    (case find (\<lambda>k. BuildHostKind_value k = s) [LOCAL, SSH, EPHEMERAL_LIBVIRT] of
       None \<Rightarrow> Inl ValueError | Some k \<Rightarrow> Inr k)"

definition CONFIG_EXPRESSIBLE_KINDS :: "BuildHostKind list" where
  "CONFIG_EXPRESSIBLE_KINDS = [LOCAL, EPHEMERAL_LIBVIRT]"

datatype UnexpressibleReason = KindNotExpressible | BaseImageRequired | BaseImageNotValid

definition unexpressible_reason :: "BuildHostInstance \<Rightarrow> UnexpressibleReason option" where
  "unexpressible_reason inst =
    (case BuildHostKind_of (in_kind inst) of
       Inl _ \<Rightarrow> Some KindNotExpressible
     | Inr kind \<Rightarrow>
         if kind \<notin> set CONFIG_EXPRESSIBLE_KINDS then Some KindNotExpressible
         else if kind = EPHEMERAL_LIBVIRT \<and> \<not> nonblank (in_base_image_volume inst) then Some BaseImageRequired
         else if kind = LOCAL \<and> nonempty (in_base_image_volume inst) then Some BaseImageNotValid
         else None)"

text \<open>What a pass did, by the names of the hosts.\<close>

record ReconcileDiff =
  rd_created :: "string list"
  rd_updated :: "string list"
  rd_pruned :: "string list"
  rd_cordoned :: "string list"
  rd_warned :: "string list"

definition empty_diff :: ReconcileDiff where
  "empty_diff = \<lparr>rd_created = [], rd_updated = [], rd_pruned = [], rd_cordoned = [], rd_warned = []\<rparr>"


section \<open>Upserts\<close>

text \<open>The constraints of the table: a positive capacity, and the columns of each kind.\<close>

definition build_hosts_check :: "BuildHost \<Rightarrow> bool" where
  "build_hosts_check h \<longleftrightarrow> 0 < max_concurrent h \<and>
    (case bh_kind h of
       LOCAL \<Rightarrow> bh_address h = None \<and> bh_ssh_credential_ref h = None \<and> bh_base_image_volume h = None
     | SSH \<Rightarrow> bh_address h \<noteq> None \<and> bh_ssh_credential_ref h \<noteq> None \<and> bh_base_image_volume h = None
     | EPHEMERAL_LIBVIRT \<Rightarrow> bh_address h = None \<and> bh_ssh_credential_ref h = None \<and> bh_base_image_volume h \<noteq> None)"

definition check_host :: "BuildHost \<Rightarrow> exn + unit" where
  "check_host h =
    rbind (guard (int4 (Some (max_concurrent h))) NumericOutOfRange) (\<lambda>_. guard (build_hosts_check h) CheckViolation)"

text \<open>The columns the file owns.  Address and credential of an adopted row are not among them.\<close>

definition configured :: "BuildHostInstance \<Rightarrow> BuildHostKind \<Rightarrow> BuildHost \<Rightarrow> BuildHost" where
  "configured inst kind h =
    h\<lparr>bh_kind := kind, bh_base_image_volume := (if kind = EPHEMERAL_LIBVIRT then in_base_image_volume inst else None),
      bh_workspace_root := in_workspace_root inst, max_concurrent := in_max_concurrent inst,
      bh_enabled := True, bh_managed_by := ByConfig\<rparr>"

definition blank_host :: "uuid \<Rightarrow> string \<Rightarrow> BuildHost" where
  "blank_host k name =
    \<lparr>bh_id = k, bh_name = name, bh_kind = LOCAL, bh_address = None, bh_ssh_credential_ref = None,
     bh_base_image_volume = None, bh_workspace_root = [], max_concurrent = 1, bh_enabled = True, bh_state = READY,
     bh_managed_by = ByRuntime\<rparr>"

definition upsert_one :: "uuid \<Rightarrow> BuildHostInstance \<Rightarrow> Db \<times> ReconcileDiff \<Rightarrow> exn + (Db \<times> ReconcileDiff)" where
  "upsert_one k inst s =
    (case s of (db, diff) \<Rightarrow>
     rbind (BuildHostKind_of (in_kind inst)) (\<lambda>kind.
       case get_by_name (in_name inst) db of
         None \<Rightarrow>
           (let h = configured inst kind (blank_host k (in_name inst))
            in rbind (check_host h) (\<lambda>_.
               rbind (tbl_insert bh_id h (build_hosts db)) (\<lambda>t.
                 Inr (db\<lparr>build_hosts := t\<rparr>, diff\<lparr>rd_created := rd_created diff @ [in_name inst]\<rparr>))))
       | Some h \<Rightarrow>
           if configured inst kind h = h then Inr (db, diff)
           else rbind (check_host (configured inst kind h)) (\<lambda>_.
             Inr (db\<lparr>build_hosts := tbl_update bh_id (bh_id h) (configured inst kind) (build_hosts db)\<rparr>,
                  diff\<lparr>rd_updated := rd_updated diff @ [in_name inst]\<rparr>))))"

text \<open>\<open>ids\<close> gives the identifier of a new row.\<close>

fun upsert_config_build_hosts ::
  "(string \<Rightarrow> uuid) \<Rightarrow> BuildHostInstance list \<Rightarrow> Db \<times> ReconcileDiff \<Rightarrow> exn + (Db \<times> ReconcileDiff)" where
  "upsert_config_build_hosts ids [] s = Inr s"
| "upsert_config_build_hosts ids (inst # doc) s =
    (case unexpressible_reason inst of
       Some _ \<Rightarrow>
         upsert_config_build_hosts ids doc (fst s, snd s\<lparr>rd_warned := rd_warned (snd s) @ [in_name inst]\<rparr>)
     | None \<Rightarrow> rbind (upsert_one (ids (in_name inst)) inst s) (upsert_config_build_hosts ids doc))"


section \<open>Departed hosts\<close>

record PruneOutcome =
  po_pruned :: bool
  po_cordoned :: bool

definition build_host_has_live_lease :: "uuid \<Rightarrow> Db \<Rightarrow> bool" where
  "build_host_has_live_lease k db = list_ex (\<lambda>l. bl_build_host_id l = k) (build_host_leases db)"

definition prune_or_cordon_build_host :: "uuid \<Rightarrow> Db \<Rightarrow> Db \<times> PruneOutcome" where
  "prune_or_cordon_build_host k db =
    (if \<not> list_ex (\<lambda>h. bh_id h = k \<and> bh_managed_by h = ByConfig) (build_hosts db)
     then (db, \<lparr>po_pruned = False, po_cordoned = False\<rparr>)
     else if build_host_has_live_lease k db
     then (db\<lparr>build_hosts := tbl_update bh_id k (bh_enabled_update (\<lambda>_. False)) (build_hosts db)\<rparr>,
           \<lparr>po_pruned = False, po_cordoned = True\<rparr>)
     else (db\<lparr>build_hosts := filter (\<lambda>h. bh_id h \<noteq> k) (build_hosts db)\<rparr>,
           \<lparr>po_pruned = True, po_cordoned = False\<rparr>))"

text \<open>\<open>others\<close> is what other sessions commit before the rows are read, and before each row is locked.\<close>

fun prune_rows ::
  "(uuid option \<Rightarrow> Db \<Rightarrow> Db) \<Rightarrow> string list \<Rightarrow> (uuid \<times> string) list \<Rightarrow> Db \<times> ReconcileDiff \<Rightarrow> Db \<times> ReconcileDiff" where
  "prune_rows others declared [] s = s"
| "prune_rows others declared ((k, name) # rows) s =
    (if name \<in> set declared then prune_rows others declared rows s
     else case prune_or_cordon_build_host k (others (Some k) (fst s)) of (db, outcome) \<Rightarrow>
       prune_rows others declared rows
         (db, if po_cordoned outcome then snd s\<lparr>rd_cordoned := rd_cordoned (snd s) @ [name]\<rparr>
              else if po_pruned outcome then snd s\<lparr>rd_pruned := rd_pruned (snd s) @ [name]\<rparr>
              else snd s))"

definition prune_departed ::
  "(uuid option \<Rightarrow> Db \<Rightarrow> Db) \<Rightarrow> BuildHostInstance list \<Rightarrow> Db \<times> ReconcileDiff \<Rightarrow> Db \<times> ReconcileDiff" where
  "prune_departed others doc s =
    (let declared = map in_name (filter (\<lambda>inst. unexpressible_reason inst = None) doc);
         db = others None (fst s);
         rows = map (\<lambda>h. (bh_id h, bh_name h)) (filter (\<lambda>h. bh_managed_by h = ByConfig) (build_hosts db))
     in prune_rows others declared rows (db, snd s))"

definition reconcile_build_hosts ::
  "(string \<Rightarrow> uuid) \<Rightarrow> (uuid option \<Rightarrow> Db \<Rightarrow> Db) \<Rightarrow> BuildHostInstance list \<Rightarrow> Db \<Rightarrow> exn + (Db \<times> ReconcileDiff)" where
  "reconcile_build_hosts ids others doc db =
    rbind (upsert_config_build_hosts ids doc (db, empty_diff)) (\<lambda>s. Inr (prune_departed others doc s))"


section \<open>Properties of the pass\<close>

text \<open>
  Declaring a host that was registered for ssh adopts a row whose address the pass does
  not clear: every declaration the file can express violates the table's constraint, and
  the pass fails as a whole.
\<close>

lemma adopting_ssh_fails:
  assumes "get_by_name (in_name inst) db = Some h" "bh_kind h = SSH" "bh_address h \<noteq> None"
    and "unexpressible_reason inst = None" "int4 (Some (in_max_concurrent inst))"
  shows "reconcile_build_hosts ids others (inst # doc) db = Inl CheckViolation"
proof -
  obtain kind where kind: "BuildHostKind_of (in_kind inst) = Inr kind" "kind \<in> {LOCAL, EPHEMERAL_LIBVIRT}"
    using assms(4) by (auto simp: unexpressible_reason_def CONFIG_EXPRESSIBLE_KINDS_def split: sum.splits if_splits)
  have "\<not> build_hosts_check (configured inst kind h)"
    using kind(2) assms(3) by (auto simp: build_hosts_check_def configured_def)
  moreover have "configured inst kind h \<noteq> h"
  proof
    have "bh_kind (configured inst kind h) = kind" by (simp add: configured_def)
    moreover assume "configured inst kind h = h"
    ultimately show False using kind(2) assms(2) by auto
  qed
  moreover have "max_concurrent (configured inst kind h) = in_max_concurrent inst" by (simp add: configured_def)
  ultimately have "upsert_one k inst (db, diff) = Inl CheckViolation" for k diff
    using assms(1,5) kind(1) by (simp add: upsert_one_def check_host_def guard_def)
  then show ?thesis using assms(4) by (simp add: reconcile_build_hosts_def)
qed

end
