(* ===== verification/Lease_Slots.thy ===== *)
theory Lease_Slots
  imports Build_Hosts
begin

text \<open>
  The contract of the capacity leases of build hosts: a bounded pool of slots per host, each
  held by one Run, and the proof that the table of leases implements it.
\<close>

section \<open>Slots\<close>

text \<open>
  Which Run holds a slot of which host.  A Run that holds a slot of the host keeps it; a full
  host refuses; a Run that holds a slot of another host is in error; else the Run gets a slot.
\<close>

type_synonym slots = "uuid \<rightharpoonup> uuid"

definition taken :: "uuid \<Rightarrow> slots \<Rightarrow> nat" where
  "taken host m = card {r. m r = Some host}"

definition take_slot :: "int \<Rightarrow> uuid \<Rightarrow> uuid \<Rightarrow> slots \<Rightarrow> exn + (slots \<times> bool)" where
  "take_slot capacity host r m =
    (if m r = Some host then Inr (m, True)
     else if capacity \<le> int (taken host m) then Inr (m, False)
     else if m r \<noteq> None then Inl UniqueViolation
     else Inr (m(r \<mapsto> host), True))"

definition give_back :: "uuid \<Rightarrow> slots \<Rightarrow> slots" where
  "give_back r m = m(r := None)"

definition keep_slots :: "(uuid \<Rightarrow> bool) \<Rightarrow> slots \<Rightarrow> slots" where
  "keep_slots live m = m |` {r. live r}"

lemma take_slot_bound:
  assumes "take_slot capacity host r m = Inr (m', True)" "m r \<noteq> Some host" "finite (dom m)"
  shows "int (taken host m') \<le> capacity" "taken host m' = Suc (taken host m)"
proof -
  have m': "m' = m(r \<mapsto> host)" and room: "int (taken host m) < capacity"
    using assms(1,2) by (auto simp: take_slot_def split: if_splits)
  have "{x. m' x = Some host} = insert r {x. m x = Some host}" by (auto simp: m')
  moreover have "finite {x. m x = Some host}" using assms(3) by (rule finite_subset [rotated]) auto
  ultimately show s: "taken host m' = Suc (taken host m)" using assms(2) by (simp add: taken_def)
  then show "int (taken host m') \<le> capacity" using room by simp
qed


section \<open>The table\<close>

definition holders :: "Db \<Rightarrow> slots" where
  "holders db = map_of (map (\<lambda>l. (bl_run_id l, bl_build_host_id l)) (build_host_leases db))"

definition leases_ok :: "Db \<Rightarrow> bool" where
  "leases_ok db = distinct (map bl_run_id (build_host_leases db))"

lemma holders_Some:
  "leases_ok db \<Longrightarrow> holders db r = Some h \<longleftrightarrow> (\<exists>l\<in>set (build_host_leases db). bl_run_id l = r \<and> bl_build_host_id l = h)"
  unfolding holders_def leases_ok_def by (subst map_of_eq_Some_iff) (auto simp: comp_def)

lemma holders_None: "holders db r = None \<longleftrightarrow> r \<notin> bl_run_id ` set (build_host_leases db)"
  by (force simp: holders_def map_of_eq_None_iff)

lemma taken_holders:
  assumes "leases_ok db"
  shows "taken h (holders db) = lease_count h db"
proof -
  let ?ls = "filter (\<lambda>l. bl_build_host_id l = h) (build_host_leases db)"
  have "{r. holders db r = Some h} = set (map bl_run_id ?ls)" by (auto simp: holders_Some [OF assms])
  moreover have "distinct (map bl_run_id ?ls)" using assms by (simp add: leases_ok_def distinct_map_filter)
  ultimately have "card {r. holders db r = Some h} = length ?ls" by (metis distinct_card length_map)
  then show ?thesis by (simp add: taken_def lease_count_def count_rows_def)
qed

lemma holders_append:
  assumes "r \<notin> bl_run_id ` set (build_host_leases db)"
  shows "holders (db\<lparr>build_host_leases := build_host_leases db @ [\<lparr>bl_run_id = r, bl_build_host_id = h\<rparr>]\<rparr>) = (holders db)(r \<mapsto> h)"
proof
  fix x
  have "holders db r = None" using assms by (simp add: holders_None)
  then show "holders (db\<lparr>build_host_leases := build_host_leases db @ [\<lparr>bl_run_id = r, bl_build_host_id = h\<rparr>]\<rparr>) x =
      ((holders db)(r \<mapsto> h)) x"
    by (auto simp: holders_def map_of_append map_add_def split: option.splits)
qed

lemma holders_filter:
  "holders (db\<lparr>build_host_leases := filter (\<lambda>l. P (bl_run_id l)) (build_host_leases db)\<rparr>) = keep_slots P (holders db)"
proof
  fix x
  have f: "map_of (map (\<lambda>l. (bl_run_id l, bl_build_host_id l)) (filter (\<lambda>l. P (bl_run_id l)) ls)) x =
      (if P x then map_of (map (\<lambda>l. (bl_run_id l, bl_build_host_id l)) ls) x else None)" for ls
    by (induction ls) auto
  show "holders (db\<lparr>build_host_leases := filter (\<lambda>l. P (bl_run_id l)) (build_host_leases db)\<rparr>) x = keep_slots P (holders db) x"
    by (simp add: holders_def keep_slots_def restrict_map_def f)
qed

lemma acquire_refines:
  assumes "leases_ok db" "bh_id host \<in> bh_id ` set (build_hosts db)"
  shows "map_sum id (apfst holders) (try_acquire_lease host r db) = take_slot (max_concurrent host) (bh_id host) r (holders db)"
proof -
  have held: "list_ex (\<lambda>l. bl_run_id l = r \<and> bl_build_host_id l = bh_id host) (build_host_leases db) \<longleftrightarrow>
      holders db r = Some (bh_id host)" by (auto simp: holders_Some [OF assms(1)] list_ex_iff)
  have taken: "r \<in> bl_run_id ` set (build_host_leases db) \<longleftrightarrow> holders db r \<noteq> None" by (simp add: holders_None)
  show ?thesis
    using assms(2) holders_append [of r db "bh_id host"]
    by (cases "holders db r")
      (simp_all add: try_acquire_lease_def take_slot_def held taken_holders [OF assms(1)] tbl_insert_def guard_def taken)
qed

text \<open>
  C23. The table of leases implements a bounded pool of slots per host.  Taking a lease on a
  registered host, giving it back and reclaiming the leases without a live build job are the
  three operations of the pool on the map from Runs to hosts that the rows denote: the number
  of rows of a host is the number of Runs that hold a slot of it, a Run holds at most one slot,
  and a slot is granted only when that leaves the host within its capacity.
\<close>

theorem leases_refine_slots:
  assumes "leases_ok db" "bh_id host \<in> bh_id ` set (build_hosts db)"
  shows "map_sum id (apfst holders) (try_acquire_lease host r db) =
      take_slot (max_concurrent host) (bh_id host) r (holders db) \<and>
    holders (release_lease r db) = give_back r (holders db) \<and>
    holders (fst (reclaim_orphan_build_host_leases db)) = keep_slots (\<lambda>r. build_job_is_live r db) (holders db) \<and>
    (\<forall>db' ok. try_acquire_lease host r db = Inr (db', ok) \<longrightarrow> leases_ok db' \<and>
      (db' \<noteq> db \<longrightarrow> int (lease_count (bh_id host) db') \<le> max_concurrent host)) \<and>
    leases_ok (release_lease r db) \<and> leases_ok (fst (reclaim_orphan_build_host_leases db))"
proof (intro conjI allI impI)
  show "map_sum id (apfst holders) (try_acquire_lease host r db) =
      take_slot (max_concurrent host) (bh_id host) r (holders db)" using assms by (rule acquire_refines)
  have "keep_slots (\<lambda>x. x \<noteq> r) (holders db) = give_back r (holders db)"
    by (rule ext) (simp add: keep_slots_def give_back_def restrict_map_def)
  then show "holders (release_lease r db) = give_back r (holders db)"
    using holders_filter [of "\<lambda>x. x \<noteq> r" db] by (simp add: release_lease_def)
  show "holders (fst (reclaim_orphan_build_host_leases db)) = keep_slots (\<lambda>r. build_job_is_live r db) (holders db)"
    unfolding reclaim_orphan_build_host_leases_def fst_conv by (rule holders_filter)
  show "leases_ok (release_lease r db)" "leases_ok (fst (reclaim_orphan_build_host_leases db))"
    using assms(1) by (simp_all add: leases_ok_def release_lease_def reclaim_orphan_build_host_leases_def distinct_map_filter)
  fix db' ok assume a: "try_acquire_lease host r db = Inr (db', ok)"
  show ok': "leases_ok db'"
    using a assms(1) unfolding try_acquire_lease_def leases_ok_def by (auto simp: tbl_insert_def guard_def split: if_splits)
  assume "db' \<noteq> db"
  then have new: "holders db r \<noteq> Some (bh_id host)" "ok"
    using a by (auto simp: try_acquire_lease_def holders_Some [OF assms(1)] list_ex_iff guard_def split: if_splits)
  have "take_slot (max_concurrent host) (bh_id host) r (holders db) = Inr (holders db', True)"
    using acquire_refines [OF assms, of r] a new(2) by simp
  moreover have "finite (dom (holders db))" by (simp add: holders_def finite_dom_map_of)
  ultimately show "int (lease_count (bh_id host) db') \<le> max_concurrent host"
    using take_slot_bound(1) new(1) taken_holders [OF ok'] by metis
qed

definition two_runs_db :: "int \<Rightarrow> Db" where
  "two_runs_db n = empty_db\<lparr>
     build_hosts := [new_host 8 \<lparr>hr_kind = SSH, hr_name = ''fast'', hr_address = Some ''h'', hr_ssh_credential_ref = Some ''c'',
       hr_base_image_volume = None, hr_workspace_root = ''/w'', hr_max_concurrent = n\<rparr>],
     build_host_leases := [\<lparr>bl_run_id = 4, bl_build_host_id = 8\<rparr>]\<rparr>"

text \<open>A host with one slot taken, of one or of two: a second Run is refused or gets the other.\<close>

theorem leases_refine_slots_witness:
  "map_sum id (apfst holders) (try_acquire_lease (hd (build_hosts (two_runs_db 1))) 6 (two_runs_db 1)) = Inr ([4 \<mapsto> 8], False) \<and>
   map_sum id (apfst holders) (try_acquire_lease (hd (build_hosts (two_runs_db 2))) 6 (two_runs_db 2)) =
     Inr ([4 \<mapsto> 8, 6 \<mapsto> 8], True)"
proof -
  have h: "holders (two_runs_db n) = [4 \<mapsto> 8]" "leases_ok (two_runs_db n)"
    "bh_id (hd (build_hosts (two_runs_db n))) = 8" "max_concurrent (hd (build_hosts (two_runs_db n))) = n"
    "bh_id (hd (build_hosts (two_runs_db n))) \<in> bh_id ` set (build_hosts (two_runs_db n))" for n
    by (simp_all add: holders_def leases_ok_def two_runs_db_def new_host_def)
  have "{r. (if r = 4 then Some 8 else None) = Some 8} = {4 :: uuid}" by auto
  then have t: "taken 8 [4 \<mapsto> 8] = 1" by (simp add: taken_def fun_upd_def)
  show ?thesis
    using leases_refine_slots [OF h(2) h(5), of 1 6, THEN conjunct1]
      leases_refine_slots [OF h(2) h(5), of 2 6, THEN conjunct1]
    by (simp add: h t take_slot_def)
qed

end
