(* ===== verification/Run_Machine.thy ===== *)
theory Run_Machine
  imports Run_Facts Systems_Machine Job_Queue_Facts Host_Inventory Lease_Slots
begin

text \<open>
  Handlers that raise leave no trace, and the build hosts as a state machine: the tools, the
  Run handlers with everything other sessions do meanwhile, and the reconciler's passes.
\<close>

section \<open>Handlers that raise\<close>

text \<open>
  An action in an open transaction rolls back when the only changes it commits are those of
  other sessions during its calls.
\<close>

definition rolls_back :: "('p \<Rightarrow> Db \<Rightarrow> Db) \<Rightarrow> ('p, 'a) action \<Rightarrow> bool" where
  "rolls_back ot m \<longleftrightarrow> (\<forall>c w. tx c = Some w \<longrightarrow>
     (\<exists>cs. calls (fst (m c)) = calls c @ cs \<and> committed (fst (m c)) = fold ot cs (committed c) \<and> tx (fst (m c)) \<noteq> None))"

lemma rolls_backD:
  assumes "rolls_back ot m" "tx c = Some w" "m c = (c', r)"
  obtains cs w' where "calls c' = calls c @ cs" "committed c' = fold ot cs (committed c)" "tx c' = Some w'"
  using assms unfolding rolls_back_def by fastforce

lemma rolls_backI:
  assumes "\<And>c w c' r. tx c = Some w \<Longrightarrow> m c = (c', r) \<Longrightarrow>
    \<exists>cs. calls c' = calls c @ cs \<and> committed c' = fold ot cs (committed c) \<and> tx c' \<noteq> None"
  shows "rolls_back ot m"
  unfolding rolls_back_def using assms by (metis prod.collapse)

lemma rolls_back_uncommitting: "uncommitting m \<Longrightarrow> rolls_back ot m"
  unfolding rolls_back_def uncommitting_def by (metis append_Nil2 fold_simps(1))

lemma rolls_back_then:
  assumes "rolls_back ot m" "\<And>c' r. rolls_back ot (f r)" "tx c = Some w" "m c = (c1, r)" "f r c1 = (c', r')"
  shows "\<exists>cs. calls c' = calls c @ cs \<and> committed c' = fold ot cs (committed c) \<and> tx c' \<noteq> None"
proof -
  obtain cs w1 where 1: "calls c1 = calls c @ cs" "committed c1 = fold ot cs (committed c)" "tx c1 = Some w1"
    using assms(1,3,4) by (rule rolls_backD)
  obtain cs' w2 where "calls c' = calls c1 @ cs'" "committed c' = fold ot cs' (committed c1)" "tx c' = Some w2"
    using assms(2) 1(3) assms(5) by (rule rolls_backD)
  then show ?thesis using 1 by (intro exI [of _ "cs @ cs'"]) simp
qed

text \<open>An action followed by what its outcome selects: the shape of every handler combinator.\<close>

lemma rolls_back_bind:
  assumes "rolls_back ot m" "\<And>r. rolls_back ot (f r)" "\<And>c. g c = (case m c of (c', r) \<Rightarrow> f r c')"
  shows "rolls_back ot g"
proof (rule rolls_backI)
  fix c w c' r assume c: "tx c = Some w" "g c = (c', r)"
  obtain c1 r1 where "m c = (c1, r1)" by fastforce
  then show "\<exists>cs. calls c' = calls c @ cs \<and> committed c' = fold ot cs (committed c) \<and> tx c' \<noteq> None"
    using rolls_back_then [OF assms(1) assms(2) c(1)] c(2) assms(3) [of c] by fastforce
qed

lemma rolls_back_lift: "rolls_back ot (lift r)"
  by (rule rolls_back_uncommitting) (rule uncommitting_lift)

lemma rolls_back_execute: "rolls_back ot (execute f)" "rolls_back ot (query q)"
  by (auto simp: query_def intro: rolls_back_uncommitting uncommitting_execute)

lemma rolls_back_block: "rolls_back ot (transaction (execute f))" "rolls_back ot (transaction (query q))"
  by (auto simp: query_def intro!: rolls_back_uncommitting uncommitting_transaction uncommitting_execute)

lemma rolls_back_call: "rolls_back ot (call_provider ot p r)"
  by (rule rolls_backI) (auto simp: call_provider_def intro!: exI [of _ "[p]"])

lemma rolls_back_andthen: "rolls_back ot m \<Longrightarrow> (\<And>a. rolls_back ot (f a)) \<Longrightarrow> rolls_back ot (andthen m f)"
  by (rule rolls_back_bind [of ot m "\<lambda>r. case r of Inl e \<Rightarrow> lift (Inl e) | Inr a \<Rightarrow> f a"])
    (auto simp: andthen_def rolls_back_lift split: sum.splits prod.splits)

lemma rolls_back_on_exception:
  assumes "rolls_back ot m" "\<And>e. rolls_back ot (cleanup e)"
  shows "rolls_back ot (on_exception m cleanup)"
  by (rule rolls_back_bind [OF assms(1), of "\<lambda>r. case r of Inl e \<Rightarrow> andthen (cleanup e) (\<lambda>_. lift (Inl e)) | Inr a \<Rightarrow> lift (Inr a)"])
    (auto simp: on_exception_def intro: rolls_back_lift rolls_back_andthen assms(2) split: sum.splits prod.splits)

lemma rolls_back_swallow: "rolls_back ot m \<Longrightarrow> rolls_back ot (swallow m)"
  by (rule rolls_back_bind [of ot m "\<lambda>r. case r of Inl e \<Rightarrow> lift (Inr None) | Inr a \<Rightarrow> lift (Inr a)"])
    (auto simp: swallow_def intro: rolls_back_lift split: sum.splits prod.splits)

lemma rolls_back_best_effort: "rolls_back ot m \<Longrightarrow> rolls_back ot (best_effort m)"
  by (rule rolls_back_bind [of ot m "\<lambda>_. lift (Inr ())"]) (auto simp: best_effort_def rolls_back_lift split: prod.splits)

lemmas rolls_back_intros =
  rolls_back_lift rolls_back_execute rolls_back_block rolls_back_call rolls_back_andthen rolls_back_on_exception
  rolls_back_swallow rolls_back_best_effort

lemma claim_rolls_back: "rolls_back (run_others env) (claim_run_step env n k step)"
  by (induction n) (auto simp: run_call_def intro!: rolls_back_intros)

lemma with_claim_rolls_back:
  "rolls_back (run_others env) work \<Longrightarrow> rolls_back (run_others env) (with_claim env k step work)"
  unfolding with_claim_def
  by (rule rolls_back_andthen) (auto intro: rolls_back_intros claim_rolls_back split: StepClaim.splits)

lemma console_rolls_back: "rolls_back (run_others env) (capture_console_artifact env k)"
  unfolding capture_console_artifact_def run_call_def
  by (rule rolls_back_andthen) (auto intro!: rolls_back_intros split: prod.splits)

lemma boot_failed_rolls_back: "rolls_back (run_others env) (boot_failed env job run cat)"
  unfolding boot_failed_def record_boot_audit_def
  by (rule rolls_back_andthen) (auto intro!: rolls_back_intros console_rolls_back split: option.splits)

lemma boot_outcome_rolls_back: "rolls_back (run_others env) (run_boot_and_capture_outcome env job run rt)"
  by (rule rolls_back_bind [of _ "run_call env (Boot (system_id run)) (rt_boot rt (system_id run))"
        "\<lambda>r. case r of Inl e \<Rightarrow> (case e of CategorizedError cat \<Rightarrow> boot_failed env job run cat | _ \<Rightarrow> lift (Inl e))
         | Inr _ \<Rightarrow> andthen (capture_console_artifact env (system_id run)) (\<lambda>art.
              andthen (record_boot_audit job run) (\<lambda>_. lift (Inr (ready_result run art))))"])
    (auto simp: run_call_def run_boot_and_capture_outcome_def record_boot_audit_def
      intro!: rolls_back_intros console_rolls_back boot_failed_rolls_back split: sum.splits exn.splits prod.splits)

lemma boot_cleanup_rolls_back: "rolls_back (run_others env) (boot_cleanup env run e)"
  unfolding boot_cleanup_def abandon_best_effort_def
  by (rule rolls_back_andthen) (auto intro!: rolls_back_intros console_rolls_back split: exn.splits)

text \<open>A handler opens its transaction with its first read.\<close>

lemma tx_opened: "tx (opened db) = Some db"
  by (simp add: opened_def)

lemma raising_pool:
  assumes "\<And>x a. rolls_back ot (f x a)"
    and "pool_connection (andthen (lift r) (\<lambda>x. andthen (query (q x)) (f x))) db = (db', cs, Inl e)"
  shows "db' = fold ot cs db"
proof (cases r)
  case (Inl e')
  then show ?thesis using assms(2) by (simp add: pool_connection_def andthen_def)
next
  case (Inr x)
  show ?thesis
  proof (cases "q x db")
    case (Inl e')
    then show ?thesis using assms(2) Inr by (auto simp: pool_connection_def andthen_def query_def execute_def)
  next
    case (Inr a)
    obtain c r' where c: "f x a (opened db) = (c, r')" by fastforce

    obtain cs' where cs': "calls c = cs'" "committed c = fold ot cs' db"
      by (rule rolls_backD [OF assms(1) tx_opened c]) (simp add: opened_def)
    have "pool_connection (andthen (lift r) (\<lambda>x. andthen (query (q x)) (f x))) db =
        (case r' of Inr a \<Rightarrow> (view c, calls c, Inr a) | Inl e \<Rightarrow> (committed c, calls c, Inl e))"
      using c Inr \<open>r = Inr x\<close> by (simp add: pool_connection_def query_simps opened_def [symmetric] split: sum.splits)
    then show ?thesis using assms(2) cs' by (auto simp: opened_def split: sum.splits)
  qed
qed

text \<open>
  C19. An install or a boot that raises commits nothing of its own: the
  database is what other sessions made of it during the handler's calls.  In particular the
  console log that a failed boot has just stored as evidence gets no artifact row.
\<close>

theorem failed_step_traceless:
  assumes "pool_connection (install_handler env job) db = (db', cs, Inl e) \<or>
    pool_connection (boot_handler env job) db = (db', cs, Inl e)"
  shows "db' = fold (run_others env) cs db"
  using assms
proof
  assume "pool_connection (install_handler env job) db = (db', cs, Inl e)"
  then show ?thesis
    unfolding install_handler_def case_prod_beta Let_def
    by (rule raising_pool [rotated])
      (auto simp: run_call_def abandon_best_effort_def intro!: rolls_back_intros with_claim_rolls_back)
next
  assume "pool_connection (boot_handler env job) db = (db', cs, Inl e)"
  then show ?thesis
    unfolding boot_handler_def case_prod_beta
    by (rule raising_pool [rotated])
      (auto intro!: rolls_back_intros with_claim_rolls_back boot_outcome_rolls_back boot_cleanup_rolls_back)
qed


section \<open>Invariants of the Run handlers\<close>

text \<open>
  The Run handlers write Runs, steps, artifacts and the audit log, and give up leases.  An
  invariant that such writes keep holds through the handlers, provided other sessions keep it.
\<close>

definition overlay :: "Db \<Rightarrow> Db \<Rightarrow> Db" where
  "overlay d e = d\<lparr>runs := runs e, run_steps := run_steps e, audit_log := audit_log e, artifacts := artifacts e\<rparr>"

definition run_write :: "(Db \<Rightarrow> exn + (Db \<times> 'a)) \<Rightarrow> bool" where
  "run_write f \<longleftrightarrow> (\<forall>d d' a. f d = Inr (d', a) \<longrightarrow> d' = overlay d d')"

lemma overlay_overlay [simp]: "overlay (overlay d e) e' = overlay d e'"
  by (simp add: overlay_def)

lemma overlay_simps [simp]:
  "overlay d (d\<lparr>run_steps := s\<rparr>) = d\<lparr>run_steps := s\<rparr>" "overlay d (d\<lparr>audit_log := l\<rparr>) = d\<lparr>audit_log := l\<rparr>"
  "overlay d (d\<lparr>artifacts := t\<rparr>) = d\<lparr>artifacts := t\<rparr>" "overlay d (d\<lparr>runs := r\<rparr>) = d\<lparr>runs := r\<rparr>" "overlay d d = d"
  by (simp_all add: overlay_def)

lemma overlay_trans: "d' = overlay d d' \<Longrightarrow> d'' = overlay d' d'' \<Longrightarrow> d'' = overlay d d''"
  by (metis overlay_overlay)

lemma overlay_set_run: "set_run k st f d = overlay d (set_run k st f d)"
  by (simp add: set_run_def)

lemma overlay_audit_run: "audit_run job run tool tr d = Inr d' \<Longrightarrow> d' = overlay d d'"
  using audit_run_Inr [of job run tool tr d] by auto

lemma overlay_insert_step: "insert_step s d = Inr d' \<Longrightarrow> d' = overlay d d'"
  by (auto simp: insert_step_def guard_def split: if_splits)

lemma overlay_complete_run_step: "complete_run_step k step r d = Inr d' \<Longrightarrow> d' = overlay d d'"
  by (auto simp: complete_run_step_def guard_def split: if_splits)

lemma run_writeI: "(\<And>d d' a. f d = Inr (d', a) \<Longrightarrow> d' = overlay d d') \<Longrightarrow> run_write f"
  unfolding run_write_def by blast

lemma overlay_run_audit:
  "audit_run job run tool tr (set_run k st f d) = Inr d' \<Longrightarrow> d' = overlay d d'"
  by (rule overlay_trans [OF overlay_set_run overlay_audit_run])

lemma write_build_failure: "run_write (record_build_failure job run cat)"
proof (rule run_writeI)
  fix d d' :: Db and a assume "record_build_failure job run cat d = Inr (d', a)"
  then have "\<exists>k st f. audit_run job run ''runs.build'' ''running->failed'' (set_run k st f d) = Inr d'"
    unfolding record_build_failure_def Let_def by (auto simp: guard_def simp del: map_option_eq_Some split: if_splits)
  then show "d' = overlay d d'" using overlay_run_audit by blast
qed

lemma overlay_record_build_step: "record_build_step k r d = Inr d' \<Longrightarrow> d' = overlay d d'"
  unfolding record_build_step_def by (cases "list_ex (step_of k ''build'') (run_steps d)") (simp, simp add: overlay_insert_step)

lemma write_finalize: "run_write (finalize_build job run r)"
proof (rule run_writeI)
  fix d d' :: Db and a assume "finalize_build job run r d = Inr (d', a)"
  then obtain d1 where d1: "record_build_step (oid run) r d = Inr d1"
    and d': "d' = d1 \<or> (\<exists>k st f. audit_run job run ''runs.build'' ''running->succeeded'' (set_run k st f d1) = Inr d')"
    unfolding finalize_build_def rbind_Inr_iff by (auto simp del: map_option_eq_Some split: if_splits)
  have "d' = d1 \<or> d' = overlay d1 d'" using d' overlay_run_audit by blast
  then show "d' = overlay d d'" using overlay_record_build_step [OF d1] overlay_trans by blast
qed

lemma write_claim: "run_write (claim_once k step)"
proof (rule run_writeI)
  fix d d' :: Db and a assume "claim_once k step d = Inr (d', a)"
  then have "\<exists>l. d' = d\<lparr>run_steps := l\<rparr> \<or> (\<exists>s. insert_step s (d\<lparr>run_steps := l\<rparr>) = Inr d')"
    unfolding claim_once_def Let_def by (auto split: option.splits)
  then show "d' = overlay d d'"
    using overlay_trans [of "d\<lparr>run_steps := l\<rparr>" d d' for l] overlay_insert_step overlay_simps(1) by metis
qed

lemma write_complete:
  "run_write (complete_install job run)"
  "run_write (\<lambda>d. rbind (complete_run_step k step r d) (\<lambda>d. Inr (d, ())))"
proof -
  show "run_write (complete_install job run)"
  proof (rule run_writeI)
    fix d d' :: Db and a assume "complete_install job run d = Inr (d', a)"
    then obtain d1 where "complete_run_step (oid run) ''install'' (JObj [system_json (system_id run)]) d = Inr d1"
        "audit_run job run ''runs.install'' ''install'' d1 = Inr d'" unfolding complete_install_def by auto
    then show "d' = overlay d d'" using overlay_trans [OF overlay_complete_run_step overlay_audit_run] by blast
  qed
  show "run_write (\<lambda>d. rbind (complete_run_step k step r d) (\<lambda>d. Inr (d, ())))"
    by (rule run_writeI) (simp add: overlay_complete_run_step)
qed


lemma write_abandon: "run_write (\<lambda>d. Inr (abandon_run_step k step d, ()))"
  by (simp add: run_write_def abandon_run_step_def)

lemma write_boot_audit: "run_write (\<lambda>d. rbind (audit_run job run tool tr d) (\<lambda>d. Inr (d, ())))"
  by (rule run_writeI) (simp add: overlay_audit_run)

lemma write_console: "run_write (upsert_console_artifact_row aid k key tag)"
proof (rule run_writeI)
  fix d d' :: Db and a assume "upsert_console_artifact_row aid k key tag d = Inr (d', a)"
  then have "\<exists>t. d' = d\<lparr>artifacts := t\<rparr> \<or> d' = d"
    unfolding upsert_console_artifact_row_def ARTIFACTS_insert_def
    by (cases "find (console_row k) (artifacts d)") (auto split: if_splits)
  then show "d' = overlay d d'" using overlay_simps(3,5) by metis
qed

lemmas run_writes =
  write_build_failure write_finalize write_claim write_complete write_abandon write_boot_audit write_console


lemma safe_commit: "safe I commit"
  by (auto simp: safe_def holds_def commit_def)

lemma safe_outcome:
  assumes "safe I m" "\<And>r. safe I (f r)" "\<And>c. g c = (case m c of (c', r) \<Rightarrow> f r c')"
  shows "safe I g"
  unfolding safe_def
proof (intro allI impI)
  fix c :: "'a Conn" assume "holds I c"
  then have "holds I (fst (m c))" using assms(1) by (simp add: safe_def)
  then show "holds I (fst (g c))" using assms(2,3) by (cases "m c") (simp add: safe_def)
qed

lemma safe_on_exception:
  assumes "safe I m" "\<And>e. safe I (cleanup e)"
  shows "safe I (on_exception m cleanup)"
  by (rule safe_outcome [OF assms(1), of "\<lambda>r. case r of Inl e \<Rightarrow> andthen (cleanup e) (\<lambda>_. lift (Inl e)) | Inr a \<Rightarrow> lift (Inr a)"])
    (auto simp: on_exception_def intro: safe_lift safe_andthen assms(2) split: sum.splits prod.splits)

lemma safe_swallow: "safe I m \<Longrightarrow> safe I (swallow m)"
  by (rule safe_outcome [of I m "\<lambda>r. case r of Inl e \<Rightarrow> lift (Inr None) | Inr a \<Rightarrow> lift (Inr a)"])
    (auto simp: swallow_def intro: safe_lift split: sum.splits prod.splits)

locale run_plane_invariant =
  fixes I :: "Db \<Rightarrow> bool"
  assumes writes: "I d \<Longrightarrow> I (overlay d e)"
    and release: "I d \<Longrightarrow> I (release_lease k d)"
begin

lemma safe_write: "run_write f \<Longrightarrow> safe I (execute f)"
  by (rule safe_execute) (metis run_write_def writes)

lemmas write_intros =
  safe_intros safe_on_exception safe_swallow safe_write [OF write_finalize] safe_write [OF write_claim]
  safe_write [OF write_complete(1)] safe_write [OF write_complete(2)] safe_write [OF write_abandon]
  safe_write [OF write_boot_audit] safe_write [OF write_console]

lemma safe_call_run: "(\<And>p d. I d \<Longrightarrow> I (run_others env p d)) \<Longrightarrow> safe I (run_call env p r)"
  unfolding run_call_def by (rule safe_call) blast

lemma safe_fail_build: "safe I (fail_build job run cat)"
proof (rule safe_outcome)
  let ?m = "transaction (execute (record_build_failure job run cat)) :: (RunCall, unit) action"
  show "safe I ?m" by (intro safe_transaction safe_write write_build_failure)
  show "safe I (lift (if r = Inl IllegalTransition then Inr () else r))" for r :: "exn + unit" by (rule safe_lift)
  show "fail_build job run cat c = (case ?m c of (c', r) \<Rightarrow> lift (if r = Inl IllegalTransition then Inr () else r) c')" for c
    unfolding fail_build_def by (cases "?m c") (auto split: sum.splits exn.splits)
qed

lemma safe_build_and_record:
  assumes "\<And>p d. I d \<Longrightarrow> I (run_others env p d)"
  shows "safe I (build_and_record env job run prof p)"
proof (rule safe_outcome)
  show "safe I (run_build env run prof p)"
    unfolding run_build_def by (intro safe_andthen safe_query safe_call_run assms)
  show "safe I (case r of
        Inl e \<Rightarrow> (case e of CategorizedError cat \<Rightarrow>
            andthen (fail_build job run cat) (\<lambda>_. andthen commit (\<lambda>_. lift (Inl (CategorizedError cat))))
          | _ \<Rightarrow> lift (Inl e))
      | Inr out \<Rightarrow> lift (Inr (build_result_of out p)))" for r
    by (auto intro!: safe_andthen safe_fail_build safe_commit safe_lift split: sum.splits exn.splits)
  show "build_and_record env job run prof p c = (case run_build env run prof p c of (c', r) \<Rightarrow> (case r of
        Inl e \<Rightarrow> (case e of CategorizedError cat \<Rightarrow>
            andthen (fail_build job run cat) (\<lambda>_. andthen commit (\<lambda>_. lift (Inl (CategorizedError cat))))
          | _ \<Rightarrow> lift (Inl e))
      | Inr out \<Rightarrow> lift (Inr (build_result_of out p))) c')" for c
    by (auto simp: build_and_record_def build_result_of_def split: sum.splits exn.splits prod.splits)
qed

lemma safe_release: "safe I (release_build_lease k)"
  unfolding release_build_lease_def by (intro safe_best_effort safe_transaction safe_execute) (auto intro: release)

lemma build_handler_safe:
  assumes "\<And>p d. I d \<Longrightarrow> I (run_others env p d)"
  shows "safe I (build_handler env job)"
proof -
  have "safe I (case parsed of ExternalBuild _ \<Rightarrow> lift (Inl config_error)
      | ServerBuild prof \<Rightarrow> andthen (transaction (query (\<lambda>db. Inr (existing_build_result k db)))) (\<lambda>existing.
          andthen (case existing of Some r \<Rightarrow> lift (Inr r) | None \<Rightarrow> build_and_record env job run prof p) (\<lambda>result.
          andthen (transaction (execute (finalize_build job run result))) (\<lambda>_.
          andthen (release_build_lease k) (\<lambda>_. lift (Inr (Some (uuid_str k))))))))" for parsed k run p
    by (cases parsed) (auto intro!: write_intros safe_release safe_build_and_record assms split: option.splits)
  then show ?thesis
    unfolding build_handler_def case_prod_beta by (intro safe_andthen safe_lift safe_query)
qed

lemma claim_safe:
  assumes "\<And>p d. I d \<Longrightarrow> I (run_others env p d)"
  shows "safe I (claim_run_step env n k step)"
  by (induction n) (auto intro!: write_intros safe_call_run assms)

lemma with_claim_safe:
  assumes "\<And>p d. I d \<Longrightarrow> I (run_others env p d)" "safe I work"
  shows "safe I (with_claim env k step work)"
proof -
  have "safe I (case claim of Waiting \<Rightarrow> lift (Inr StillWaiting)
      | Replayed _ \<Rightarrow> lift (Inr (Returned (Some (uuid_str k))))
      | Claimed \<Rightarrow> andthen work (\<lambda>_. lift (Inr (Returned (Some (uuid_str k))))))" for claim
    by (cases claim) (auto intro!: safe_lift safe_andthen assms(2))
  then show ?thesis unfolding with_claim_def by (intro safe_andthen claim_safe assms(1))
qed

lemma install_handler_safe:
  assumes "\<And>p d. I d \<Longrightarrow> I (run_others env p d)"
  shows "safe I (install_handler env job)"
  unfolding install_handler_def case_prod_beta Let_def abandon_best_effort_def
  by (intro write_intros with_claim_safe safe_call_run assms)

lemma console_safe:
  assumes "\<And>p d. I d \<Longrightarrow> I (run_others env p d)"
  shows "safe I (capture_console_artifact env k)"
  unfolding capture_console_artifact_def case_prod_beta
  by (rule safe_andthen) (auto intro!: write_intros safe_call_run assms)

lemma boot_outcome_safe:
  assumes "\<And>p d. I d \<Longrightarrow> I (run_others env p d)"
  shows "safe I (run_boot_and_capture_outcome env job run rt)"
proof (rule safe_outcome)
  show "safe I (run_call env (Boot (system_id run)) (rt_boot rt (system_id run)))" by (intro safe_call_run assms)
  have failed: "safe I (boot_failed env job run cat)" for cat
    unfolding boot_failed_def record_boot_audit_def
    by (rule safe_andthen) (auto intro!: write_intros console_safe assms split: option.splits)
  show "safe I (case r of Inl e \<Rightarrow> (case e of CategorizedError cat \<Rightarrow> boot_failed env job run cat | _ \<Rightarrow> lift (Inl e))
         | Inr _ \<Rightarrow> andthen (capture_console_artifact env (system_id run)) (\<lambda>art.
              andthen (record_boot_audit job run) (\<lambda>_. lift (Inr (ready_result run art)))))" for r :: "exn + unit"
    unfolding record_boot_audit_def
    by (auto intro!: write_intros console_safe assms failed split: sum.splits exn.splits)
  show "run_boot_and_capture_outcome env job run rt c =
      (case run_call env (Boot (system_id run)) (rt_boot rt (system_id run)) c of (c', r) \<Rightarrow>
        (case r of Inl e \<Rightarrow> (case e of CategorizedError cat \<Rightarrow> boot_failed env job run cat | _ \<Rightarrow> lift (Inl e))
         | Inr _ \<Rightarrow> andthen (capture_console_artifact env (system_id run)) (\<lambda>art.
              andthen (record_boot_audit job run) (\<lambda>_. lift (Inr (ready_result run art))))) c')" for c
    by (auto simp: run_boot_and_capture_outcome_def split: sum.splits exn.splits prod.splits)
qed

lemma boot_handler_safe:
  assumes "\<And>p d. I d \<Longrightarrow> I (run_others env p d)"
  shows "safe I (boot_handler env job)"
proof -
  have "safe I (boot_cleanup env run e)" for run e
    unfolding boot_cleanup_def abandon_best_effort_def
    by (rule safe_andthen) (auto intro!: write_intros console_safe assms split: exn.splits)
  then show ?thesis
    unfolding boot_handler_def case_prod_beta
    by (intro write_intros with_claim_safe boot_outcome_safe assms)
qed

end


section \<open>Capacity of the build hosts\<close>

text \<open>
  With \<open>cap\<close> a bound on the capacities ever configured for each host name: no host
  has a larger capacity or holds more leases, every lease is held by one Run on a host that
  exists, and identifiers and names are unique.
\<close>

definition hosts_ok :: "(string \<Rightarrow> int) \<Rightarrow> Db \<Rightarrow> bool" where
  "hosts_ok cap db \<longleftrightarrow>
    distinct (map bh_id (build_hosts db)) \<and> distinct (map bh_name (build_hosts db)) \<and>
    distinct (map bl_run_id (build_host_leases db)) \<and>
    bl_build_host_id ` set (build_host_leases db) \<subseteq> bh_id ` set (build_hosts db) \<and>
    (\<forall>h\<in>set (build_hosts db). max_concurrent h \<le> cap (bh_name h) \<and> int (lease_count (bh_id h) db) \<le> cap (bh_name h))"

lemma hosts_ok_frame:
  "build_hosts db' = build_hosts db \<Longrightarrow> build_host_leases db' = build_host_leases db \<Longrightarrow> hosts_ok cap db \<Longrightarrow> hosts_ok cap db'"
  by (simp add: hosts_ok_def lease_count_def)

lemma hosts_unique:
  "hosts_ok cap db \<Longrightarrow> h \<in> set (build_hosts db) \<Longrightarrow> g \<in> set (build_hosts db) \<Longrightarrow> bh_id h = bh_id g \<Longrightarrow> h = g"
  unfolding hosts_ok_def by (metis distinct_map inj_onD)

text \<open>Fewer leases are no harm.\<close>

lemma count_rows_filter: "count_rows P (filter Q xs) \<le> count_rows P xs"
  by (induction xs) (auto simp: count_rows_def)

lemma hosts_ok_fewer:
  assumes "hosts_ok cap db"
  shows "hosts_ok cap (db\<lparr>build_host_leases := filter P (build_host_leases db)\<rparr>)"
proof -
  have "lease_count k (db\<lparr>build_host_leases := filter P (build_host_leases db)\<rparr>) \<le> lease_count k db" for k
    unfolding lease_count_def by (simp add: count_rows_filter)
  then have "int (lease_count (bh_id h) (db\<lparr>build_host_leases := filter P (build_host_leases db)\<rparr>)) \<le> cap (bh_name h)"
    if "h \<in> set (build_hosts db)" for h
    using assms that unfolding hosts_ok_def by (meson of_nat_mono order_trans)
  then show ?thesis using assms unfolding hosts_ok_def by (auto simp: distinct_map_filter)
qed

interpretation capacity: run_plane_invariant "hosts_ok cap" for cap
proof
  show "hosts_ok cap d \<Longrightarrow> hosts_ok cap (overlay d e)" for d e by (rule hosts_ok_frame [rotated 2]) (simp_all add: overlay_def)
  show "hosts_ok cap d \<Longrightarrow> hosts_ok cap (release_lease k d)" for d k by (simp add: release_lease_def hosts_ok_fewer)
qed

interpretation run_typed: run_plane_invariant systems_ok
  by unfold_locales (simp_all add: systems_ok_def overlay_def release_lease_def)

lemma lease_count_append:
  "lease_count k (db\<lparr>build_host_leases := build_host_leases db @ [l]\<rparr>) =
    lease_count k db + (if bl_build_host_id l = k then 1 else 0)"
  by (simp add: lease_count_def count_rows_def)

lemma acquire_Inr:
  assumes "try_acquire_lease host k db = Inr (db', ok)"
  obtains (same) "db' = db"
    | (taken) "db' = db\<lparr>build_host_leases := build_host_leases db @ [\<lparr>bl_run_id = k, bl_build_host_id = bh_id host\<rparr>]\<rparr>"
      "k \<notin> bl_run_id ` set (build_host_leases db)" "int (lease_count (bh_id host) db) < max_concurrent host"
proof (cases "db' = db")
  case False
  have "db' = db\<lparr>build_host_leases := build_host_leases db @ [\<lparr>bl_run_id = k, bl_build_host_id = bh_id host\<rparr>]\<rparr>"
    "k \<notin> bl_run_id ` set (build_host_leases db)" "int (lease_count (bh_id host) db) < max_concurrent host"
    using assms False unfolding try_acquire_lease_def by (auto simp: tbl_insert_def guard_def split: if_splits)
  then show thesis by (rule taken)
qed (rule same)

text \<open>The row of the host that the admission read may be an older version of the present one.\<close>

lemma acquire_ok:
  assumes "hosts_ok cap db" "g \<in> set (build_hosts db)" "bh_id g = bh_id host" "bh_name g = bh_name host"
    "max_concurrent host \<le> cap (bh_name host)" "try_acquire_lease host k db = Inr (db', ok)"
  shows "hosts_ok cap db'"
  using assms(6)
proof (cases rule: acquire_Inr)
  case taken
  have "int (lease_count (bh_id h) db') \<le> cap (bh_name h)" if "h \<in> set (build_hosts db)" for h
  proof (cases "bh_id h = bh_id host")
    case True
    then have "h = g" using that assms(1,2,3) hosts_unique by metis
    then show ?thesis using taken(3) assms(3-5) by (simp add: taken(1) lease_count_append)
  next
    case False
    then show ?thesis using that assms(1) by (simp add: taken(1) lease_count_append hosts_ok_def)
  qed
  moreover have "bh_id host \<in> bh_id ` set (build_hosts db)" using assms(2,3) by (metis imageI)
  ultimately show ?thesis using assms(1) taken(2) unfolding hosts_ok_def by (auto simp: taken(1))
qed (use assms(1) in simp)

lemma get_by_name_mem: "get_by_name n db = Some h \<Longrightarrow> h \<in> set (build_hosts db)"
  by (auto simp: get_by_name_def find_Some_iff)

text \<open>An admitted build takes at most one lease, on a host that has room.\<close>

definition admits_lease :: "Db \<Rightarrow> Db \<Rightarrow> bool" where
  "admits_lease db db' \<longleftrightarrow> build_hosts db' = build_hosts db \<and> (build_host_leases db' = build_host_leases db \<or>
    (\<exists>h\<in>set (build_hosts db). \<exists>k. k \<notin> bl_run_id ` set (build_host_leases db) \<and>
      int (lease_count (bh_id h) db) < max_concurrent h \<and>
      build_host_leases db' = build_host_leases db @ [\<lparr>bl_run_id = k, bl_build_host_id = bh_id h\<rparr>]))"

lemma resolve_admits:
  assumes "resolve_and_admit p k db = Inr (db', host)"
  shows "admits_lease db db'"
proof -
  obtain n h where h: "get_by_name n db = Some h" "db' = db \<or> (\<exists>ok. try_acquire_lease h k db = Inr (db', ok))"
    using assms unfolding resolve_and_admit_def by (auto simp: guard_def split: option.splits if_splits)
  have "admits_lease db db'" if "try_acquire_lease h k db = Inr (db', ok)" for ok
    using that by (cases rule: acquire_Inr) (use get_by_name_mem [OF h(1)] in \<open>auto simp: admits_lease_def\<close>)
  then show ?thesis using h(2) by (auto simp: admits_lease_def)
qed

lemma queue_enqueue_hosts:
  "queue_enqueue jid kind p auth key n db = Inr (db', job) \<Longrightarrow>
    build_hosts db' = build_hosts db \<and> build_host_leases db' = build_host_leases db"
  by (auto simp: queue_enqueue_def Let_def tbl_insert_def split: option.splits if_splits)

lemma audit_record_hosts:
  "audit_record ctx ev db = Inr db' \<Longrightarrow> build_hosts db' = build_hosts db \<and> build_host_leases db' = build_host_leases db"
  by (auto simp: audit_record_def guard_def split: if_splits)

lemma admit_build_admits:
  assumes "admit_build jid ctx run cmdline p db = Inr (db', job)"
  shows "admits_lease db db'"
proof -
  obtain db1 host and row :: Run and db2 where 1: "resolve_and_admit p (oid run) db = Inr (db1, host)"
      "start_build ctx run (run_state row) db1 = Inr db2"
      "enqueue_build jid ctx run cmdline (bh_id host) db2 = Inr (db', job)"
    by (rule admit_build_Inr [OF assms]) blast
  have "build_hosts db2 = build_hosts db1 \<and> build_host_leases db2 = build_host_leases db1"
    using 1(2) unfolding start_build_def by (auto simp: set_run_def dest: audit_record_hosts split: if_splits)
  moreover have "build_hosts db' = build_hosts db2 \<and> build_host_leases db' = build_host_leases db2"
    using 1(3) unfolding enqueue_build_def by (auto dest: queue_enqueue_hosts split: sum.splits)
  ultimately show ?thesis using resolve_admits [OF 1(1)] by (simp add: admits_lease_def)
qed

lemma build_run_admits:
  assumes "build_run jid caps v ctx rid cmdline db = Inr (db', r)"
  shows "admits_lease db db'"
proof (cases r)
  case (RunJob job u)
  then show ?thesis using assms by (auto elim: build_run_RunJob intro: admit_build_admits)
next
  case (RunFailure c)
  have locked: "db' = db" if "build_locked jid ctx run cmdline p db = Inr (db', RunFailure c)" for run p
    using that by (auto simp: build_locked_def on_categorized_Inr)
  have built: "db' = db" if "build_with jid caps v ctx cmdline run p db = Inr (db', RunFailure c)" for run p
    using that locked unfolding build_with_def Let_def by (auto simp: on_categorized_Inr)
  have "db' = db" if s: "server_build_of jid caps v ctx cmdline run db = Inr (db', RunFailure c)" for run
  proof (cases "parse_build_profile (build_profile run)")
    case (Inl e)
    then show ?thesis using s by (auto simp: server_build_of_def split: exn.splits)
  next
    case (Inr parsed)
    then show ?thesis using s built by (cases parsed) (auto simp: server_build_of_def)
  qed
  then have "db' = db"
    using assms RunFailure unfolding build_run_def operator_run_def
    by (auto split: option.splits if_splits)
  then show ?thesis by (simp add: admits_lease_def)
qed

lemma lease_count_leases:
  "build_host_leases db' = build_host_leases db @ [l] \<Longrightarrow> lease_count k db' = lease_count k db + (if bl_build_host_id l = k then 1 else 0)"
  by (simp add: lease_count_def count_rows_def)

lemma admits_ok:
  assumes "hosts_ok cap db" "admits_lease db db'"
  shows "hosts_ok cap db'"
proof (cases "build_host_leases db' = build_host_leases db")
  case True
  then show ?thesis using assms by (auto simp: admits_lease_def intro: hosts_ok_frame)
next
  case False
  then obtain h k where h: "h \<in> set (build_hosts db)" "k \<notin> bl_run_id ` set (build_host_leases db)"
      "int (lease_count (bh_id h) db) < max_concurrent h"
    and l: "build_host_leases db' = build_host_leases db @ [\<lparr>bl_run_id = k, bl_build_host_id = bh_id h\<rparr>]"
    and hosts: "build_hosts db' = build_hosts db"
    using assms(2) unfolding admits_lease_def by blast
  have "int (lease_count (bh_id g) db') \<le> cap (bh_name g)" if g: "g \<in> set (build_hosts db)" for g
  proof (cases "bh_id g = bh_id h")
    case True
    then have "g = h" using g h(1) assms(1) hosts_unique by blast
    then show ?thesis using h(1,3) assms(1) by (auto simp: lease_count_leases [OF l] hosts_ok_def)
  qed (use g assms(1) in \<open>simp add: lease_count_leases [OF l] hosts_ok_def\<close>)
  then show ?thesis using assms(1) h(1,2) unfolding hosts_ok_def by (auto simp: l hosts)
qed

lemma admits_within:
  assumes "hosts_ok cap db" "admits_lease db db'" "host \<in> set (build_hosts db')"
    "lease_count (bh_id host) db < lease_count (bh_id host) db'"
  shows "int (lease_count (bh_id host) db') \<le> max_concurrent host"
proof -
  have "build_host_leases db' \<noteq> build_host_leases db" using assms(4) by (auto simp: lease_count_def)
  then obtain h k where h: "h \<in> set (build_hosts db)" "int (lease_count (bh_id h) db) < max_concurrent h"
    and l: "build_host_leases db' = build_host_leases db @ [\<lparr>bl_run_id = k, bl_build_host_id = bh_id h\<rparr>]"
    and hosts: "build_hosts db' = build_hosts db"
    using assms(2) unfolding admits_lease_def by blast
  have "bh_id h = bh_id host" using assms(4) by (auto simp: lease_count_leases [OF l] split: if_splits)
  then have "h = host" using h(1) assms(1,3) hosts hosts_unique by metis
  then show ?thesis using h(2) by (simp add: lease_count_leases [OF l])
qed

text \<open>Neither does a change of a host that keeps its name and capacity.\<close>

lemma hosts_ok_map:
  assumes "hosts_ok cap db" "\<And>h. bh_id (f h) = bh_id h" "\<And>h. bh_name (f h) = bh_name h"
    "\<And>h. h \<in> set (build_hosts db) \<Longrightarrow> max_concurrent (f h) \<le> cap (bh_name h)"
  shows "hosts_ok cap (db\<lparr>build_hosts := map f (build_hosts db)\<rparr>)"
  using assms(1,4) unfolding hosts_ok_def lease_count_def by (simp add: comp_def assms(2,3) image_image)

lemma hosts_ok_capacity: "hosts_ok cap db \<Longrightarrow> h \<in> set (build_hosts db) \<Longrightarrow> max_concurrent h \<le> cap (bh_name h)"
  by (simp add: hosts_ok_def)

lemma mark_state_ok:
  assumes "hosts_ok cap db"
  shows "hosts_ok cap (fst (mark_state k new old db))"
  unfolding mark_state_def fst_conv by (rule hosts_ok_map [OF assms]) (auto intro: hosts_ok_capacity [OF assms])

lemma probe_ok:
  assumes "\<And>h d. hosts_ok cap d \<Longrightarrow> hosts_ok cap (ot h d)"
  shows "hosts_ok cap db \<Longrightarrow> hosts_ok cap (fst (probe_all ot prober hs db))"
proof (induction hs arbitrary: db)
  case (Cons h hs)
  have "hosts_ok cap (fst (probe_one ot prober h db))"
    unfolding probe_one_def Let_def using assms Cons.prems by (auto intro: mark_state_ok split: sum.splits)
  then have "hosts_ok cap (fst (probe_all ot prober hs (fst (probe_one ot prober h db))))" by (rule Cons.IH)
  then show ?case by (simp add: case_prod_beta)
qed simp

lemma record_platform_hosts [simp]:
  "build_hosts (record_host_event cli ctx tool scope db) = build_hosts db"
  "build_host_leases (record_host_event cli ctx tool scope db) = build_host_leases db"
  by (simp_all add: record_host_event_def record_platform_def)

lemma hosts_ok_event: "hosts_ok cap db \<Longrightarrow> hosts_ok cap (record_host_event cli ctx tool scope db)"
  by (rule hosts_ok_frame [rotated 2]) simp_all

lemma as_admin_Inr:
  assumes "as_platform_admin cli ctx tool name db f = Inr (db', r)" "hosts_ok cap db"
  shows "hosts_ok cap db' \<or> f () = Inr (db', r)"
proof -
  have "hosts_ok cap (audit_platform_denial cli ctx tool scope db)" for scope
    using assms(2) by (auto simp: audit_platform_denial_def intro: hosts_ok_frame)
  then show ?thesis using assms(1) by (auto simp: as_platform_admin_def split: sum.splits exn.splits)
qed

lemma unprotected_host_Inr:
  assumes "unprotected_host name db f = Inr (db', r)"
  shows "db' = db \<or> (\<exists>h\<in>set (build_hosts db). f h = Inr (db', r))"
  using assms unfolding unprotected_host_def get_by_name_def
  by (auto simp: find_Some_iff split: option.splits if_splits)

text \<open>A new row is on no lease yet.\<close>

lemma hosts_ok_new:
  assumes "hosts_ok cap db" "build_hosts db' = build_hosts db @ [h]" "build_host_leases db' = build_host_leases db"
    "bh_id h \<notin> bh_id ` set (build_hosts db)" "bh_name h \<notin> bh_name ` set (build_hosts db)"
    "0 < max_concurrent h" "max_concurrent h \<le> cap (bh_name h)"
  shows "hosts_ok cap db'"
proof -
  have "bl_build_host_id l \<noteq> bh_id h" if "l \<in> set (build_host_leases db)" for l
    using assms(1,4) that unfolding hosts_ok_def by (metis image_eqI subsetD)
  then have "lease_count (bh_id h) db = 0" by (simp add: lease_count_def count_rows_def filter_empty_conv)
  then show ?thesis using assms unfolding hosts_ok_def lease_count_def by auto
qed

lemma register_ok:
  assumes "hosts_ok cap db" "hr_max_concurrent r \<le> cap (hr_name r)" "register_build_host cli k ctx tool r db = Inr (db', x)"
  shows "hosts_ok cap db'"
proof -
  have "hosts_ok cap db'" if "insert_build_host (new_host k r) db = Inr db1"
    "db' = record_host_event cli ctx tool scope db1" "0 < hr_max_concurrent r" for db1 scope
  proof -
    have "build_hosts db1 = build_hosts db @ [new_host k r]" "build_host_leases db1 = build_host_leases db"
      "bh_id (new_host k r) \<notin> bh_id ` set (build_hosts db)" "bh_name (new_host k r) \<notin> bh_name ` set (build_hosts db)"
      using that(1) unfolding insert_build_host_def
      by (auto simp: tbl_insert_def guard_def new_host_def split: if_splits)
    then have "hosts_ok cap db1"
      by (rule hosts_ok_new [OF assms(1)]) (use assms(2) that(3) in \<open>simp_all add: new_host_def\<close>)
    then show ?thesis using that(2) by (auto intro: hosts_ok_frame)
  qed
  then show ?thesis
    using as_admin_Inr [OF assms(3) [unfolded register_build_host_def] assms(1)] assms(1)
    by (auto split: if_splits sum.splits exn.splits)
qed

lemma disabled_ok:
  assumes "hosts_ok cap db"
  shows "hosts_ok cap (db\<lparr>build_hosts := tbl_update bh_id k (bh_enabled_update (\<lambda>_. False)) (build_hosts db)\<rparr>)"
  unfolding tbl_update_def by (rule hosts_ok_map [OF assms]) (auto intro: hosts_ok_capacity [OF assms])

lemma removed_ok:
  assumes "hosts_ok cap db" "k \<notin> bl_build_host_id ` set (build_host_leases db)"
  shows "hosts_ok cap (db\<lparr>build_hosts := filter (\<lambda>g. bh_id g \<noteq> k) (build_hosts db)\<rparr>)"
proof -
  have "bl_build_host_id l \<in> bh_id ` set (filter (\<lambda>g. bh_id g \<noteq> k) (build_hosts db))" if l: "l \<in> set (build_host_leases db)" for l
  proof -
    have "bl_build_host_id l \<in> bh_id ` set (build_hosts db)" "bl_build_host_id l \<noteq> k"
      using assms l unfolding hosts_ok_def by blast+
    then show ?thesis by auto
  qed
  then show ?thesis using assms(1) unfolding hosts_ok_def lease_count_def by (simp add: distinct_map_filter image_subset_iff)
qed

lemma disable_ok:
  assumes "hosts_ok cap db" "disable_build_host cli ctx name db = Inr (db', x)"
  shows "hosts_ok cap db'"
  using as_admin_Inr [OF assms(2) [unfolded disable_build_host_def] assms(1)] assms(1)
  by (auto dest!: unprotected_host_Inr intro: hosts_ok_event disabled_ok)

lemma remove_ok:
  assumes "hosts_ok cap db" "remove_build_host cli ctx name db = Inr (db', x)"
  shows "hosts_ok cap db'"
proof -
  have "hosts_ok cap (record_host_event cli ctx tool scope (db\<lparr>build_hosts := filter (\<lambda>g. bh_id g \<noteq> k) (build_hosts db)\<rparr>))"
    if "k \<notin> bl_build_host_id ` set (build_host_leases db)" for tool scope k
    by (intro hosts_ok_event removed_ok assms(1) that)
  then show ?thesis
    using as_admin_Inr [OF assms(2) [unfolded remove_build_host_def] assms(1)] assms(1)
    by (auto dest!: unprotected_host_Inr split: if_splits)
qed


subsection \<open>The inventory file\<close>

lemma upsert_one_ok:
  assumes "hosts_ok cap db" "in_max_concurrent inst \<le> cap (in_name inst)" "upsert_one k inst (db, diff) = Inr (db', diff')"
  shows "hosts_ok cap db'"
proof -
  obtain kind where u: "(case get_by_name (in_name inst) db of
         None \<Rightarrow>
           (let h = configured inst kind (blank_host k (in_name inst))
            in rbind (check_host h) (\<lambda>_.
               rbind (tbl_insert bh_id h (build_hosts db)) (\<lambda>t.
                 Inr (db\<lparr>build_hosts := t\<rparr>, diff\<lparr>rd_created := rd_created diff @ [in_name inst]\<rparr>))))
       | Some h \<Rightarrow>
           if configured inst kind h = h then Inr (db, diff)
           else rbind (check_host (configured inst kind h)) (\<lambda>_.
             Inr (db\<lparr>build_hosts := tbl_update bh_id (bh_id h) (configured inst kind) (build_hosts db)\<rparr>,
                  diff\<lparr>rd_updated := rd_updated diff @ [in_name inst]\<rparr>))) = Inr (db', diff')"
    using assms(3) by (auto simp: upsert_one_def)
  show ?thesis
  proof (cases "get_by_name (in_name inst) db")
    case None
    let ?h = "configured inst kind (blank_host k (in_name inst))"
    have "check_host ?h = Inr ()" and t: "tbl_insert bh_id ?h (build_hosts db) = Inr (build_hosts db')"
      and l: "build_host_leases db' = build_host_leases db"
      using u by (auto simp: None Let_def)
    then have "0 < max_concurrent ?h" by (auto simp: check_host_def build_hosts_check_def guard_def split: if_splits)
    moreover have "build_hosts db' = build_hosts db @ [?h]" "bh_id ?h \<notin> bh_id ` set (build_hosts db)"
      using t by (auto simp: tbl_insert_def split: if_splits)
    moreover have "bh_name ?h \<notin> bh_name ` set (build_hosts db)"
      using None by (auto simp: get_by_name_def find_None_iff configured_def blank_host_def)
    moreover have "max_concurrent ?h \<le> cap (bh_name ?h)" using assms(2) by (simp add: configured_def blank_host_def)
    ultimately show ?thesis using hosts_ok_new [OF assms(1) _ l] by blast
  next
    case (Some h)
    have h: "h \<in> set (build_hosts db)" "bh_name h = in_name inst"
      using Some by (auto simp: get_by_name_def find_Some_iff)
    have "max_concurrent (if bh_id g = bh_id h then configured inst kind g else g) \<le> cap (bh_name g)"
      if g: "g \<in> set (build_hosts db)" for g
    proof (cases "bh_id g = bh_id h")
      case True
      then have "g = h" using g h(1) assms(1) hosts_unique by blast
      then show ?thesis using assms(2) h(2) by (simp add: configured_def)
    qed (use g assms(1) hosts_ok_capacity in simp)
    then have "hosts_ok cap (db\<lparr>build_hosts := tbl_update bh_id (bh_id h) (configured inst kind) (build_hosts db)\<rparr>)"
      unfolding tbl_update_def by (intro hosts_ok_map [OF assms(1)]) (auto simp: configured_def)
    then show ?thesis using u assms(1) by (auto simp: Some split: if_splits)
  qed
qed

lemma upsert_all_ok:
  assumes "upsert_config_build_hosts ids doc s = Inr s'" "\<And>inst. inst \<in> set doc \<Longrightarrow> in_max_concurrent inst \<le> cap (in_name inst)"
    "hosts_ok cap (fst s)"
  shows "hosts_ok cap (fst s')"
  using assms
proof (induction doc arbitrary: s)
  case (Cons inst doc)
  note doc = Cons.prems(2) [OF list.set_intros(2)]
  show ?case
  proof (cases "unexpressible_reason inst")
    case (Some reason)
    let ?s = "(fst s, snd s\<lparr>rd_warned := rd_warned (snd s) @ [in_name inst]\<rparr>)"
    have "upsert_config_build_hosts ids doc ?s = Inr s'" "hosts_ok cap (fst ?s)" using Cons.prems(1,3) Some by simp_all
    then show ?thesis using Cons.IH doc by blast
  next
    case None
    then obtain s1 where s1: "upsert_one (ids (in_name inst)) inst s = Inr s1" "upsert_config_build_hosts ids doc s1 = Inr s'"
      using Cons.prems(1) by auto
    have "hosts_ok cap (fst s1)"
      using upsert_one_ok [of cap "fst s" inst "ids (in_name inst)" "snd s" "fst s1" "snd s1"] s1(1) Cons.prems(2,3) by simp
    then show ?thesis using Cons.IH s1(2) doc by blast
  qed
qed simp

lemma prune_or_cordon_ok:
  assumes "hosts_ok cap db"
  shows "hosts_ok cap (fst (prune_or_cordon_build_host k db))"
proof -
  have "k \<notin> bl_build_host_id ` set (build_host_leases db)" if "\<not> build_host_has_live_lease k db"
    using that by (auto simp: build_host_has_live_lease_def list_ex_iff)
  then show ?thesis
    using removed_ok [OF assms] disabled_ok [OF assms] assms by (simp add: prune_or_cordon_build_host_def)
qed

lemma prune_rows_ok:
  assumes "\<And>k d. hosts_ok cap d \<Longrightarrow> hosts_ok cap (ot k d)"
  shows "hosts_ok cap (fst s) \<Longrightarrow> hosts_ok cap (fst (prune_rows ot declared rows s))"
proof (induction rows arbitrary: s)
  case (Cons row rows)
  obtain k n where row: "row = (k, n)" by (cases row)
  have "hosts_ok cap (fst (prune_or_cordon_build_host k (ot (Some k) (fst s))))"
    using Cons.prems assms prune_or_cordon_ok by blast
  then show ?case using Cons by (auto simp: row split: prod.split)
qed simp

lemma inventory_ok:
  assumes "\<And>k d. hosts_ok cap d \<Longrightarrow> hosts_ok cap (ot k d)"
    and "\<And>inst. inst \<in> set doc \<Longrightarrow> in_max_concurrent inst \<le> cap (in_name inst)"
    and "reconcile_build_hosts ids ot doc db = Inr (db', diff)" "hosts_ok cap db"
  shows "hosts_ok cap db'"
proof -
  obtain s where s: "upsert_config_build_hosts ids doc (db, empty_diff) = Inr s" "prune_departed ot doc s = (db', diff)"
    using assms(3) unfolding reconcile_build_hosts_def rbind_Inr_iff by blast
  have "hosts_ok cap (fst s)" using upsert_all_ok [OF s(1) assms(2)] assms(4) by simp
  then have "hosts_ok cap (fst (prune_departed ot doc s))"
    unfolding prune_departed_def Let_def by (intro prune_rows_ok) (simp_all add: assms(1))
  then show ?thesis using s(2) by simp
qed


subsection \<open>Steps\<close>

text \<open>
  What can happen to hosts and leases, where \<open>cap\<close> bounds the capacities that are configured: a
  build is admitted, possibly on a row of the host that another session has changed since it
  was read; a Run handler runs, with other such steps while it calls out; the reconciler
  reclaims leases, probes hosts or merges the inventory file, in the last two cases with other
  such steps in between; an operator registers, disables or removes a host; or another part
  of the system writes other tables.
\<close>

inductive build_step :: "(string \<Rightarrow> int) \<Rightarrow> Db \<Rightarrow> Db \<Rightarrow> bool" for cap where
  admit: "build_run jid caps v ctx rid cmdline db = Inr (db', r) \<Longrightarrow> build_step cap db db'"
| admit_late: "h \<in> set (build_hosts db) \<Longrightarrow> bh_id h = bh_id host \<Longrightarrow> bh_name h = bh_name host \<Longrightarrow>
    max_concurrent host \<le> cap (bh_name host) \<Longrightarrow> try_acquire_lease host k db = Inr (db', ok) \<Longrightarrow> build_step cap db db'"
| build: "\<forall>p d. (build_step cap)\<^sup>*\<^sup>* d (run_others env p d) \<Longrightarrow>
    pool_connection (build_handler env job) db = (db', cs, r) \<Longrightarrow> build_step cap db db'"
| install: "\<forall>p d. (build_step cap)\<^sup>*\<^sup>* d (run_others env p d) \<Longrightarrow>
    pool_connection (install_handler env job) db = (db', cs, s) \<Longrightarrow> build_step cap db db'"
| boot: "\<forall>p d. (build_step cap)\<^sup>*\<^sup>* d (run_others env p d) \<Longrightarrow>
    pool_connection (boot_handler env job) db = (db', cs, s) \<Longrightarrow> build_step cap db db'"
| reclaim: "build_step cap db (fst (reclaim_orphan_build_host_leases db))"
| probe: "\<forall>h d. (build_step cap)\<^sup>*\<^sup>* d (ot h d) \<Longrightarrow>
    build_step cap db (fst (probe_build_host_reachability by_name ot prober db))"
| inventory: "\<forall>k d. (build_step cap)\<^sup>*\<^sup>* d (ot k d) \<Longrightarrow> \<forall>inst\<in>set doc. in_max_concurrent inst \<le> cap (in_name inst) \<Longrightarrow>
    reconcile_build_hosts ids ot doc db = Inr (db', diff) \<Longrightarrow> build_step cap db db'"
| register: "hr_max_concurrent r \<le> cap (hr_name r) \<Longrightarrow> register_build_host cli k ctx tool r db = Inr (db', x) \<Longrightarrow>
    build_step cap db db'"
| disable: "disable_build_host cli ctx name db = Inr (db', x) \<Longrightarrow> build_step cap db db'"
| remove: "remove_build_host cli ctx name db = Inr (db', x) \<Longrightarrow> build_step cap db db'"
| elsewhere: "build_hosts db' = build_hosts db \<Longrightarrow> build_host_leases db' = build_host_leases db \<Longrightarrow> build_step cap db db'"
monos rtranclp_mono

lemma rtranclp_keeps: "(\<lambda>x y. r x y \<and> (P x \<longrightarrow> P y))\<^sup>*\<^sup>* d d' \<Longrightarrow> P d \<Longrightarrow> P d'"
  by (induction rule: rtranclp_induct) auto

lemma build_step_ok: "build_step cap db db' \<Longrightarrow> hosts_ok cap db \<Longrightarrow> hosts_ok cap db'"
proof (induction rule: build_step.induct)
  case (admit jid caps v ctx rid cmdline db db' r)
  then show ?case using admits_ok build_run_admits by blast
next
  case (admit_late h db host k db' ok)
  show ?case by (rule acquire_ok [OF admit_late(6,1-5)])
next
  case (build env job db db' cs r)
  have "hosts_ok cap (run_others env p d)" if "hosts_ok cap d" for p d by (rule rtranclp_keeps [OF build(1) [THEN spec, THEN spec] that])
  then show ?case using safe_pool [OF capacity.build_handler_safe build(3,2)] by blast
next
  case (install env job db db' cs s)
  have "hosts_ok cap (run_others env p d)" if "hosts_ok cap d" for p d by (rule rtranclp_keeps [OF install(1) [THEN spec, THEN spec] that])
  then show ?case using safe_pool [OF capacity.install_handler_safe install(3,2)] by blast
next
  case (boot env job db db' cs s)
  have "hosts_ok cap (run_others env p d)" if "hosts_ok cap d" for p d by (rule rtranclp_keeps [OF boot(1) [THEN spec, THEN spec] that])
  then show ?case using safe_pool [OF capacity.boot_handler_safe boot(3,2)] by blast
next
  case (probe ot db by_name prober)
  have "hosts_ok cap (ot h d)" if "hosts_ok cap d" for h d by (rule rtranclp_keeps [OF probe(1) [THEN spec, THEN spec] that])
  then show ?case unfolding probe_build_host_reachability_def using probe(2) by (rule probe_ok)
next
  case (inventory ot doc ids db db' diff)
  have ot: "hosts_ok cap (ot k d)" if "hosts_ok cap d" for k d by (rule rtranclp_keeps [OF inventory(1) [THEN spec, THEN spec] that])
  show ?case by (rule inventory_ok [OF ot _ inventory(3,4)]) (use inventory(2) in blast)+
next
  case (reclaim db)
  then show ?case by (simp add: reclaim_orphan_build_host_leases_def hosts_ok_fewer)
next
  case (register r cli k ctx tool db db' x)
  show ?case by (rule register_ok [OF register(3,1,2)])
next
  case (elsewhere db' db)
  then show ?case by (rule hosts_ok_frame)
qed (erule (1) disable_ok remove_ok [rotated])+

text \<open>The hosts of a new installation: the local one.\<close>

definition worker_local :: BuildHost where
  "worker_local =
    \<lparr>bh_id = WORKER_LOCAL_ID, bh_name = ''worker-local'', bh_kind = LOCAL, bh_address = None,
     bh_ssh_credential_ref = None, bh_base_image_volume = None, bh_workspace_root = ''/var/lib/kdive/build'',
     max_concurrent = 1000, bh_enabled = True, bh_state = READY, bh_managed_by = ByRuntime\<rparr>"

text \<open>
  C3. From a new installation, whatever tools, job handlers, reconciler passes and
  inventory files do in any order, no build host ever holds more leases than the largest
  capacity configured for its name, a Run holds at most one lease, and every lease is on a host
  that exists.  An admission that takes a lease in such a state leaves the host within the
  capacity it has then.  (A file may lower the capacity of a host that holds more leases.)
\<close>

theorem host_capacity:
  assumes "build_hosts db = [worker_local]" "build_host_leases db = []" "1000 \<le> cap ''worker-local''"
    and "(build_step cap)\<^sup>*\<^sup>* db db'"
  shows "(\<forall>host\<in>set (build_hosts db'). int (lease_count (bh_id host) db') \<le> cap (bh_name host)) \<and>
    distinct (map bl_run_id (build_host_leases db')) \<and>
    bl_build_host_id ` set (build_host_leases db') \<subseteq> bh_id ` set (build_hosts db') \<and>
    (build_run jid caps v ctx rid cmdline db' = Inr (db'', r) \<and> host \<in> set (build_hosts db'') \<and>
     lease_count (bh_id host) db' < lease_count (bh_id host) db'' \<longrightarrow>
       int (lease_count (bh_id host) db'') \<le> max_concurrent host)"
proof -
  have "hosts_ok cap db"
    using assms(1-3) by (simp add: hosts_ok_def lease_count_def count_rows_def worker_local_def)
  with assms(4) have ok: "hosts_ok cap db'" by (induction rule: rtranclp_induct) (auto intro: build_step_ok)
  have "distinct (map bl_run_id (build_host_leases db'))"
    "bl_build_host_id ` set (build_host_leases db') \<subseteq> bh_id ` set (build_hosts db')"
    "\<forall>host\<in>set (build_hosts db'). int (lease_count (bh_id host) db') \<le> cap (bh_name host)"
    using ok by (simp_all add: hosts_ok_def)
  moreover have "build_run jid caps v ctx rid cmdline db' = Inr (db'', r) \<and> host \<in> set (build_hosts db'') \<and>
     lease_count (bh_id host) db' < lease_count (bh_id host) db'' \<longrightarrow>
       int (lease_count (bh_id host) db'') \<le> max_concurrent host"
    by (intro impI, elim conjE) (rule admits_within [OF ok build_run_admits])
  ultimately show ?thesis by (intro conjI)
qed


section \<open>Builds that are already done\<close>



section \<open>Witnesses\<close>



definition demo_ctx :: RequestContext where
  "demo_ctx = \<lparr>ctx_principal = ''p'', ctx_agent_session = None, ctx_projects = [''proj''], ctx_roles = [],
     ctx_platform_roles = [PLATFORM_ADMIN], ctx_client_id = None\<rparr>"


definition new_installation :: Db where
  "new_installation = empty_db\<lparr>build_hosts := [worker_local]\<rparr>"

definition demo_registration :: HostRegistration where
  "demo_registration =
    \<lparr>hr_kind = SSH, hr_name = ''fast'', hr_address = Some ''h'', hr_ssh_credential_ref = Some ''c'',
     hr_base_image_volume = None, hr_workspace_root = ''/w'', hr_max_concurrent = 1\<rparr>"

text \<open>Another part of the system has created a Run since.\<close>

definition created_db :: Db where
  "created_db = new_installation\<lparr>build_hosts := [worker_local, demo_build_host], runs := [demo_run RunState.CREATED]\<rparr>"

definition demo_caps :: "string \<Rightarrow> int" where
  "demo_caps name = (if name = ''worker-local'' then 1000 else 1)"

lemma created_db_reachable: "(build_step demo_caps)\<^sup>*\<^sup>* new_installation created_db"
proof -
  let ?db = "new_installation\<lparr>build_hosts := [worker_local, demo_build_host]\<rparr>"
  let ?db' = "record_host_event ''cli'' demo_ctx ''t'' (''build_host:'' @ uuid_str 8) ?db"
  have "new_host 8 demo_registration = demo_build_host"
    by (simp add: new_host_def demo_registration_def demo_build_host_def)
  moreover have "insert_build_host demo_build_host new_installation = Inr ?db"
    by (simp add: insert_build_host_def guard_def int4_def INT32_MAX_def tbl_insert_def new_installation_def
        worker_local_def demo_build_host_def WORKER_LOCAL_ID_def)
  moreover have "require_platform_role demo_ctx PLATFORM_ADMIN = Inr ()" "registration_plan demo_registration"
      "hr_max_concurrent demo_registration = 1" by code_simp+
  ultimately have "register_build_host ''cli'' 8 demo_ctx ''t'' demo_registration new_installation =
      Inr (?db', HostDone 8 ''registered'')"
    by (simp add: register_build_host_def as_platform_admin_def)
  moreover have "hr_max_concurrent demo_registration \<le> demo_caps (hr_name demo_registration)" by code_simp
  ultimately have "build_step demo_caps new_installation ?db'" by (intro build_step.register)
  moreover have "build_step demo_caps ?db' created_db"
    by (rule build_step.elsewhere) (simp_all add: created_db_def)
  ultimately show ?thesis by (meson rtranclp.rtrancl_into_rtrancl rtranclp.rtrancl_refl)
qed

lemma created_db_facts:
  "build_hosts created_db = [worker_local, demo_build_host]" "build_host_leases created_db = []"
  "runs created_db = [demo_run RunState.CREATED]" "jobs created_db = []" "db_clock created_db = 0"
  by (simp_all add: created_db_def new_installation_def empty_db_def)

abbreviation demo_build :: "Db \<Rightarrow> exn + (Db \<times> RunResult)" where
  "demo_build \<equiv> build_run 20 [(''config'', [''catalog''])] (\<lambda>_. Inr ()) operator_ctx (uuid_str 6) None"

lemma demo_build_admits:
  "\<exists>db' r. demo_build created_db = Inr (db', r) \<and> build_hosts db' = [worker_local, demo_build_host] \<and>
    build_host_leases db' = [\<lparr>bl_run_id = 6, bl_build_host_id = 8\<rparr>]"
proof -
  let ?run = "demo_run RunState.CREATED"
  let ?db = "created_db\<lparr>build_host_leases := [\<lparr>bl_run_id = 6, bl_build_host_id = 8\<rparr>]\<rparr>"
  have run: "oid ?run = 6" "run_state ?run = RunState.CREATED" "project ?run = ''proj''" by (simp_all add: demo_run_def)
  have host: "get_by_name ''fast'' created_db = Some demo_build_host"
    by (simp add: get_by_name_def created_db_facts worker_local_def demo_build_host_def)
  have prof: "sb_build_host demo_profile = Some ''fast''" "is_git_source demo_profile" "sb_config demo_profile = None"
    by (simp_all add: demo_profile_def is_git_source_def)
  have "try_acquire_lease demo_build_host 6 created_db = Inr (?db, True)"
    by (simp add: try_acquire_lease_def created_db_facts lease_count_def count_rows_def tbl_insert_def guard_def demo_build_host_def)
  then have res: "resolve_and_admit demo_profile 6 created_db = Inr (?db, demo_build_host)"
    by (simp add: resolve_and_admit_def prof host guard_def) (simp add: demo_build_host_def)
  have pay: "dump_payload BUILD (BuildPayload (uuid_str 6) None (uuid_str 8)) = Inr (model_dump demo_payload)" by code_simp
  have "\<exists>db' job. admit_build 20 operator_ctx ?run None demo_profile created_db = Inr (db', job) \<and>
      build_hosts db' = [worker_local, demo_build_host] \<and> build_host_leases db' = [\<lparr>bl_run_id = 6, bl_build_host_id = 8\<rparr>]"
    using pay
    by (simp add: admit_build_def run res RUNS_get_def tbl_get_def created_db_facts guard_def RUN_BUILD_TERMINAL_def start_build_def
        audit_record_def run_event_def operator_ctx_def set_run_def enqueue_build_def nonblank_cmdline_def queue_enqueue_def
        DEFAULT_MAX_ATTEMPTS_def int4_def INT32_MAX_def job_by_dedup_def Let_def tbl_insert_def demo_build_host_def)
  then obtain db' job where a: "admit_build 20 operator_ctx ?run None demo_profile created_db = Inr (db', job)"
      "build_hosts db' = [worker_local, demo_build_host]" "build_host_leases db' = [\<lparr>bl_run_id = 6, bl_build_host_id = 8\<rparr>]" by blast
  have cfg: "reject_unsupported_config [(''config'', [''catalog''])] DEFAULT_CONFIG_REF = Inr ()" by code_simp
  have parse: "parse_build_profile (build_profile ?run) = Inr (ServerBuild demo_profile)" by code_simp
  have u: "as_uuid (uuid_str 6) = Some 6" and role: "require_role operator_ctx ''proj'' Role.OPERATOR = Inr ()" by code_simp+
  have "demo_build created_db = Inr (db', RunJob job 6)"
    by (simp add: build_run_def u platform_owned_cmdline_token_def operator_run_def RUNS_get_def tbl_get_def created_db_facts run
        role server_build_of_def parse build_with_def prof cfg build_locked_def a(1) Let_def) (simp add: operator_ctx_def)
  then show ?thesis using a(2,3) by blast
qed

theorem host_capacity_witness:
  "\<exists>db' r. (build_step demo_caps)\<^sup>*\<^sup>* new_installation created_db \<and> demo_build created_db = Inr (db', r) \<and>
    int (lease_count 8 created_db) \<le> demo_caps ''fast'' \<and> build_host_leases db' = [\<lparr>bl_run_id = 6, bl_build_host_id = 8\<rparr>] \<and>
    int (lease_count (bh_id demo_build_host) db') \<le> max_concurrent demo_build_host"
proof -
  obtain db' r where d: "demo_build created_db = Inr (db', r)" "build_hosts db' = [worker_local, demo_build_host]"
      "build_host_leases db' = [\<lparr>bl_run_id = 6, bl_build_host_id = 8\<rparr>]" using demo_build_admits by blast
  have i: "build_hosts new_installation = [worker_local]" "build_host_leases new_installation = []"
    "1000 \<le> demo_caps ''worker-local''" by (simp_all add: new_installation_def empty_db_def demo_caps_def)
  note c = host_capacity [OF i created_db_reachable]
  have h: "bh_id demo_build_host = 8" "bh_name demo_build_host = ''fast''" by (simp_all add: demo_build_host_def)
  have "lease_count (bh_id demo_build_host) created_db < lease_count (bh_id demo_build_host) db'"
    by (simp add: lease_count_def count_rows_def created_db_facts d(3) h)
  then have "int (lease_count (bh_id demo_build_host) db') \<le> max_concurrent demo_build_host"
    using c [THEN conjunct2, THEN conjunct2, THEN conjunct2, THEN mp, OF conjI [OF d(1)]] d(2) by simp
  moreover have "int (lease_count (bh_id demo_build_host) created_db) \<le> demo_caps (bh_name demo_build_host)"
    using c [THEN conjunct1] by (simp add: created_db_facts)
  ultimately show ?thesis using created_db_reachable d(1,3) unfolding h(2) h(1) by blast
qed

definition demo_boot_job :: Job where
  "demo_boot_job = new_job 9 0 BOOT (model_dump (RunPayload (uuid_str 6)))
     \<lparr>auth_principal = ''p'', auth_agent_session = None, auth_project = ''proj''\<rparr> ''k'' 3"

abbreviation failing_boot :: RunEnv where
  "failing_boot \<equiv> demo_run_env (Inr demo_output) (Inl (CategorizedError READINESS_FAILURE))"

definition booting_db :: Db where
  "booting_db = (demo_build_db RunState.SUCCEEDED)\<lparr>run_steps := [new_step 6 ''boot'' ''running'' JNull 0]\<rparr>"

definition booting :: "RunCall Conn" where
  "booting = \<lparr>committed = demo_build_db RunState.SUCCEEDED, tx = Some booting_db, calls = []\<rparr>"

lemma boot_claimed:
  "claim_run_step failing_boot 0 6 ''boot'' (opened (demo_build_db RunState.SUCCEEDED)) = (booting, Inr Claimed)"
  by (simp add: transaction_def execute_def opened_def claim_once_def Let_def insert_step_def guard_def booting_def
      booting_db_def demo_build_db_def demo_db_def empty_db_def new_step_def demo_run_def)

lemma boot_runtime:
  "runtime_for_run failing_boot 6 booting_db = Inr (demo_run_runtime (Inr demo_output) (Inl (CategorizedError READINESS_FAILURE)))"
  using demo_runs(2) [of "Inr demo_output" "Inl (CategorizedError READINESS_FAILURE)" RunState.SUCCEEDED]
  by (simp add: booting_db_def runtime_for_run_def kind_for_run_def kind_for_system_def kind_for_allocation_def
      SYSTEMS_get_def ALLOCATIONS_get_def)

lemma console_calls:
  "\<exists>c' x. capture_console_artifact failing_boot k c = (c', Inr x) \<and> calls c' = calls c @ [ReadConsole k, StoreConsole k]"

  unfolding capture_console_artifact_def swallow_def run_call_def call_provider_def andthen_def
  by (auto simp: demo_run_env_def transaction_def execute_def split: option.splits sum.splits prod.splits)

lemma boot_fails:
  "snd (pool_connection (boot_handler failing_boot demo_boot_job) (demo_build_db RunState.SUCCEEDED)) =
    ([Boot 5, ReadConsole 5, StoreConsole 5], Inl (CategorizedError READINESS_FAILURE))"
proof -
  let ?run = "demo_run RunState.SUCCEEDED"
  let ?rt = "demo_run_runtime (Inr demo_output) (Inl (CategorizedError READINESS_FAILURE))"
  let ?B = "booting\<lparr>calls := [Boot 5]\<rparr>"
  have job: "run_of_job RunC demo_boot_job = Inr (RunPayload (uuid_str 6), 6)" by code_simp
  have boot: "run_boot_and_capture_outcome failing_boot demo_boot_job ?run ?rt booting = (?B, Inl (CategorizedError READINESS_FAILURE))"
    by (simp add: run_boot_and_capture_outcome_def run_call_def call_provider_def demo_run_env_def demo_run_runtime_def
        boot_failed_def booting_def demo_run_def)
  obtain B' where ab: "abandon_best_effort 6 ''boot'' ?B = (B', Inr ())" "calls B' = [Boot 5]"
    by (simp add: abandon_best_effort_def best_effort_def transaction_def execute_def booting_def)
  obtain C x where con: "capture_console_artifact failing_boot 5 B' = (C, Inr x)" "calls C = [Boot 5, ReadConsole 5, StoreConsole 5]"
    using console_calls [of 5 B'] ab(2) by auto
  have run: "oid ?run = 6" "system_id ?run = 5" by (simp_all add: demo_run_def)
  have exc: "on_exception (run_boot_and_capture_outcome failing_boot demo_boot_job ?run ?rt) (boot_cleanup failing_boot ?run) booting =
      (C, Inl (CategorizedError READINESS_FAILURE))"
    by (simp add: on_exception_def boot boot_cleanup_def run ab(1) con(1))
  have rt: "query (runtime_for_run failing_boot 6) booting = (booting, Inr ?rt)"
    using boot_runtime by (simp add: query_simps booting_def)
  have "boot_handler failing_boot demo_boot_job \<lparr>committed = demo_build_db RunState.SUCCEEDED, tx = None, calls = []\<rparr> =
      (C, Inl (CategorizedError READINESS_FAILURE))"
    using job boot_claimed rt exc
    by (simp add: boot_handler_def query_simps the_run_def demo_runs(1) with_claim_def opened_def demo_run_env_def)
  then show ?thesis using con(2) by (simp add: pool_connection_def)
qed

theorem failed_step_traceless_witness:
  "pool_connection (boot_handler failing_boot demo_boot_job) (demo_build_db RunState.SUCCEEDED) =
    (demo_build_db RunState.SUCCEEDED, [Boot 5, ReadConsole 5, StoreConsole 5], Inl (CategorizedError READINESS_FAILURE))"
proof -
  obtain db' where r: "pool_connection (boot_handler failing_boot demo_boot_job) (demo_build_db RunState.SUCCEEDED) =
      (db', [Boot 5, ReadConsole 5, StoreConsole 5], Inl (CategorizedError READINESS_FAILURE))"
    using boot_fails by (metis prod.collapse)
  then have "db' = fold (run_others failing_boot) [Boot 5, ReadConsole 5, StoreConsole 5] (demo_build_db RunState.SUCCEEDED)"
    by (intro failed_step_traceless disjI2)
  then show ?thesis using r by (simp add: demo_run_env_def)
qed


section \<open>A worker with the handlers of Systems and builds\<close>

text \<open>
  The handlers the worker is given: those of Systems and of builds, and \<open>rest\<close> for the
  other kinds.  An install or a boot may wait for another worker's without end.
\<close>

definition worker_registry ::
  "HandlerEnv \<Rightarrow> RunEnv \<Rightarrow> (JobKind \<Rightarrow> JobHandler option) \<Rightarrow> JobKind \<Rightarrow> JobHandler option" where
  "worker_registry env renv rest kind =
    (case system_registry env kind of
       Some h \<Rightarrow> Some h
     | None \<Rightarrow>
         if kind = BUILD
         then Some (\<lambda>job db. case pool_connection (build_handler renv job) db of (db', _, r) \<Rightarrow> (db', r))
         else rest kind)"

text \<open>No handler touches the queue.\<close>

interpretation system_jobs: handler_invariant "\<lambda>db. jobs db = js" for js
  by unfold_locales (auto simp: open_billing_interval_def audit_record_def guard_def split: if_splits)

interpretation run_jobs: run_plane_invariant "\<lambda>db. jobs db = js" for js
  by unfold_locales (simp_all add: overlay_def release_lease_def)

lemma worker_registry_jobs:
  assumes "\<And>p d. jobs (others env p d) = jobs d" "\<And>p d. jobs (run_others renv p d) = jobs d"
    and "\<And>kind h j d. rest kind = Some h \<Longrightarrow> jobs (fst (h j d)) = jobs d"
    and "worker_registry env renv rest kind = Some h"
  shows "jobs (fst (h j db)) = jobs db"
proof (cases "system_handlers env kind")
  case (Some g)
  obtain db' cs r where p: "pool_connection (g j) db = (db', cs, r)" by (metis prod_cases3)
  have "jobs db' = jobs db"
    by (rule system_jobs.handler_keeps [OF _ Some p refl]) (simp add: assms(1))
  then show ?thesis using assms(4) Some p by (auto simp: worker_registry_def system_registry_def)
next
  case None
  show ?thesis
  proof (cases "kind = BUILD")
    case True
    obtain db' cs r where p: "pool_connection (build_handler renv j) db = (db', cs, r)" by (metis prod_cases3)
    have "jobs db' = jobs db"
      by (rule safe_pool [OF run_jobs.build_handler_safe refl p]) (simp add: assms(2))
    then show ?thesis using assms(4) None p True by (auto simp: worker_registry_def system_registry_def)
  next
    case False
    then show ?thesis using assms(3,4) None by (simp add: worker_registry_def system_registry_def)
  qed
qed

text \<open>
  C21. A worker drains the queue.  When no other session writes jobs meanwhile and the
  handlers of the other kinds leave them alone, a worker with the handlers of Systems and
  builds goes idle after at most as many claims as the jobs have attempts left, whatever the
  handlers return or raise; and, if it is ready and the queue is not paused, it then leaves no
  job it could claim.
\<close>

theorem worker_drains:
  assumes "\<And>p d. jobs (others env p d) = jobs d" "\<And>p d. jobs (run_others renv p d) = jobs d"
    and "\<And>kind h j d. rest kind = Some h \<Longrightarrow> jobs (fst (h j d)) = jobs d"
  shows "\<exists>n \<le> claims_left db. \<exists>db'.
    db' = ((\<lambda>db. fst (run_once ready locked w lease context (worker_registry env renv rest) db)) ^^ n) db \<and>
    snd (run_once ready locked w lease context (worker_registry env renv rest) db') = None \<and>
    (ready \<and> \<not> queue_paused db' \<longrightarrow> (\<forall>j\<in>set (jobs db'). oid j \<notin> locked \<longrightarrow> \<not> claimable (db_clock db') j))"
proof (rule drains_to_idle)
  fix kind h j d assume "worker_registry env renv rest kind = Some h"
  then show "jobs (fst (h j d)) = jobs d" by (rule worker_registry_jobs [rotated 3]) (rule assms, assumption?)+
qed

definition queued_db :: Db where
  "queued_db = demo_db\<lparr>jobs := [demo_job]\<rparr>"

abbreviation demo_worker :: "Db \<Rightarrow> Db \<times> Job option" where
  "demo_worker \<equiv> run_once True {} ''w'' 60 (\<lambda>_. [])
     (worker_registry (demo_env (Inr ''kdive-5'') (\<lambda>_ db. db)) (demo_run_env (Inr demo_output) (Inr ())) (\<lambda>_. None))"

text \<open>A queued provisioning job is claimed, and after at most three claims the worker is idle.\<close>

theorem worker_drains_witness:
  "snd (demo_worker queued_db) \<noteq> None \<and>
   (\<exists>n db'. n \<le> 3 \<and> db' = ((\<lambda>db. fst (demo_worker db)) ^^ n) queued_db \<and> snd (demo_worker db') = None)"
proof
  have "claimable 0 demo_job" by (simp add: claimable_def demo_job_def new_job_def)
  then show "snd (demo_worker queued_db) \<noteq> None"
    by (auto simp: run_once_def dequeue_def queued_db_def demo_db_def empty_db_def Let_def split: option.splits)
  have c: "claims_left queued_db = 3" by (simp add: claims_left_def queued_db_def demo_job_def new_job_def)
  have o: "jobs (others (demo_env (Inr ''kdive-5'') (\<lambda>_ db. db)) p d) = jobs d"
    "jobs (run_others (demo_run_env (Inr demo_output) (Inr ())) q d) = jobs d" for p q d
    by (simp_all add: demo_env_def demo_run_env_def)
  show "\<exists>n db'. n \<le> 3 \<and> db' = ((\<lambda>db. fst (demo_worker db)) ^^ n) queued_db \<and> snd (demo_worker db') = None"
    using worker_drains [of "demo_env (Inr ''kdive-5'') (\<lambda>_ db. db)" "demo_run_env (Inr demo_output) (Inr ())" "\<lambda>_. None"
        queued_db True "{}" "''w''" 60 "\<lambda>_. []"] o unfolding c by blast
qed

end
