(* ===== verification/Reconciler_Passes.thy ===== *)
theory Reconciler_Passes
  imports System_Handlers Ledger
begin

text \<open>
  Two reconciler passes that act outside the database: the repair of abandoned uploads
  (\<open>reconciler/uploads.py\<close>), which deletes objects of the store, and of dead debug
  sessions (\<open>reconciler/debug_sessions.py\<close>), which resets transports.  The store and the
  resetter are arguments; what they were asked to do is part of the result.
\<close>

section \<open>Abandoned uploads\<close>

record UploadStore =
  us_list_prefix :: "string \<Rightarrow> exn + string list"
  us_delete :: "string \<Rightarrow> exn + unit"

definition owner_pre_finalize :: "string \<Rightarrow> uuid \<Rightarrow> Db \<Rightarrow> exn + bool" where
  "owner_pre_finalize kind k db =
    (if kind = ''runs'' then Inr (list_ex (\<lambda>r. oid r = k \<and> run_state r = RunState.CREATED) (runs db))
     else if kind = ''systems'' then Inr (list_ex (\<lambda>s. oid s = k \<and> sys_state s = SystemState.DEFINED) (systems db))
     else Inl ValueError)"

text \<open>The keys deleted so far, and the exception of the store that ended the loop.\<close>

fun reap_keys :: "UploadStore \<Rightarrow> Db \<Rightarrow> string list \<Rightarrow> string list \<times> exn option" where
  "reap_keys store db [] = ([], None)"
| "reap_keys store db (key # keys) =
    (if list_ex (\<lambda>a. object_key a = key) (artifacts db) then reap_keys store db keys
     else case us_delete store key of
            Inl e \<Rightarrow> ([], Some e)
          | Inr _ \<Rightarrow> (case reap_keys store db keys of (ks, e) \<Rightarrow> (key # ks, e)))"

definition past_deadline :: "string \<Rightarrow> uuid \<Rightarrow> Db \<Rightarrow> UploadManifestRow option" where
  "past_deadline kind k db = find (\<lambda>m. owned_by kind k m \<and> um_deadline m < db_clock db) (upload_manifests db)"

text \<open>One owner: the database after the transaction, whether it was reaped, the deleted keys.\<close>

definition reap_one_owner ::
  "UploadStore \<Rightarrow> string \<Rightarrow> uuid \<Rightarrow> Db \<Rightarrow> string list \<times> (exn + (Db \<times> bool))" where
  "reap_one_owner store kind k db =
    (case past_deadline kind k db of
       None \<Rightarrow> ([], Inr (db, False))
     | Some row \<Rightarrow>
         (case (if kind = ''systems'' then owner_pre_finalize kind k db else Inr True) of
            Inl e \<Rightarrow> ([], Inl e)
          | Inr False \<Rightarrow> ([], Inr (db, False))
          | Inr True \<Rightarrow>
              (case us_list_prefix store (um_prefix row) of
                 Inl e \<Rightarrow> ([], Inl e)
               | Inr keys \<Rightarrow>
                   (case reap_keys store db keys of
                      (ks, Some e) \<Rightarrow> (ks, Inl e)
                    | (ks, None) \<Rightarrow> (ks, Inr (delete_manifest kind k db, True))))))"

definition abandoned_owner :: "Db \<Rightarrow> UploadManifestRow \<Rightarrow> bool" where
  "abandoned_owner db m \<longleftrightarrow> um_deadline m < db_clock db \<and>
    (um_owner_kind m = ''runs'' \<or>
     um_owner_kind m = ''systems'' \<and>
       list_ex (\<lambda>s. oid s = um_owner_id m \<and> sys_state s = SystemState.DEFINED) (systems db))"

text \<open>\<open>ot\<close> is what other sessions commit before each owner is locked.\<close>

fun reap_owners ::
  "UploadStore \<Rightarrow> (Db \<Rightarrow> Db) \<Rightarrow> (string \<times> uuid) list \<Rightarrow> Db \<Rightarrow> string list \<times> Db \<times> (exn + nat)" where
  "reap_owners store ot [] db = ([], db, Inr 0)"
| "reap_owners store ot ((kind, k) # cs) db =
    (let db = ot db
     in case reap_one_owner store kind k db of
          (ks, Inl e) \<Rightarrow> (ks, db, Inl e)
        | (ks, Inr (db', reaped)) \<Rightarrow>
            (case reap_owners store ot cs db' of
               (ks', db'', r) \<Rightarrow> (ks @ ks', db'', rbind r (\<lambda>n. Inr (if reaped then Suc n else n)))))"

definition repair_abandoned_uploads :: "UploadStore \<Rightarrow> (Db \<Rightarrow> Db) \<Rightarrow> Db \<Rightarrow> string list \<times> Db \<times> (exn + nat)" where
  "repair_abandoned_uploads store ot db =
    reap_owners store ot
      (map (\<lambda>m. (um_owner_kind m, um_owner_id m)) (filter (abandoned_owner db) (upload_manifests db))) db"


section \<open>Dead debug sessions\<close>

definition dead_session :: "int \<Rightarrow> time \<Rightarrow> DebugSession \<Rightarrow> bool" where
  "dead_session stale_after clk d \<longleftrightarrow> ds_state d = DebugSessionState.LIVE \<and>
    (case worker_heartbeat_at d of None \<Rightarrow> False | Some t \<Rightarrow> t < clk - stale_after)"

definition resolve_system :: "uuid \<Rightarrow> Db \<Rightarrow> (uuid \<times> string option) option" where
  "resolve_system run_id db =
    Option.bind (tbl_get oid run_id (runs db)) (\<lambda>r.
      map_option (\<lambda>s. (oid s, domain_name s)) (SYSTEMS_get (system_id r) db))"

definition has_live_gdbstub_holder :: "uuid \<Rightarrow> Db \<Rightarrow> bool" where
  "has_live_gdbstub_holder k db =
    list_ex (\<lambda>d. transport d = ''gdbstub'' \<and> ds_state d = DebugSessionState.LIVE \<and>
      ds_run_id d \<in> oid ` set (filter (\<lambda>r. system_id r = k) (runs db))) (debug_sessions db)"

record TransportReset =
  tr_transport :: string
  tr_transport_handle :: "string option"
  tr_domain_name :: "string option"

text \<open>The reset asked for, if any; a failure of the resetter is dropped.\<close>

definition reset_dead_transport :: "DebugSession \<Rightarrow> Db \<Rightarrow> TransportReset option" where
  "reset_dead_transport d db =
    (let found = resolve_system (ds_run_id d) db
     in if (case found of None \<Rightarrow> False | Some (k, _) \<Rightarrow> has_live_gdbstub_holder k db) then None
        else Some \<lparr>tr_transport = transport d, tr_transport_handle = transport_handle d,
                   tr_domain_name = Option.bind found snd\<rparr>)"

definition detach_dead :: "int \<Rightarrow> Db \<Rightarrow> Db \<times> DebugSession list" where
  "detach_dead stale_after db =
    (let f = touch (db_clock db) (ds_state_update (\<lambda>_. DebugSessionState.DETACHED))
     in (db\<lparr>debug_sessions := map (\<lambda>d. if dead_session stale_after (db_clock db) d then f d else d) (debug_sessions db)\<rparr>,
         map f (filter (dead_session stale_after (db_clock db)) (debug_sessions db))))"

fun reset_all :: "(DebugSession \<Rightarrow> Db \<Rightarrow> Db) \<Rightarrow> DebugSession list \<Rightarrow> Db \<Rightarrow> Db \<times> TransportReset list" where
  "reset_all ot [] db = (db, [])"
| "reset_all ot (d # ds) db =
    (let r = reset_dead_transport d db
     in case reset_all ot ds (ot d db) of
          (db', rs) \<Rightarrow> (db', (case r of None \<Rightarrow> rs | Some x \<Rightarrow> x # rs)))"

text \<open>\<open>ot\<close> is what other sessions commit while a transport is reset.\<close>

definition repair_dead_sessions ::
  "int \<Rightarrow> (DebugSession \<Rightarrow> Db \<Rightarrow> Db) \<Rightarrow> Db \<Rightarrow> Db \<times> TransportReset list \<times> nat" where
  "repair_dead_sessions stale_after ot db =
    (case detach_dead stale_after db of (db', rows) \<Rightarrow>
      (case reset_all ot rows db' of (db'', rs) \<Rightarrow> (db'', rs, length rows)))"


section \<open>What the passes keep\<close>

lemma reap_keys_unreferenced:
  "reap_keys store db keys = (ks, e) \<Longrightarrow> key \<in> set ks \<Longrightarrow> key \<in> set keys \<and> key \<notin> object_key ` set (artifacts db)"
proof (induction keys arbitrary: ks e)
  case (Cons k keys)
  show ?case
  proof (cases "list_ex (\<lambda>a. object_key a = k) (artifacts db)")
    case True
    then show ?thesis using Cons.IH [of ks e] Cons.prems by simp
  next
    case False
    then have k: "k \<notin> object_key ` set (artifacts db)" by (auto simp: list_ex_iff)
    obtain ks' e' where r: "reap_keys store db keys = (ks', e')" by fastforce
    have "key = k \<or> key \<in> set ks'" using Cons.prems False r by (cases "us_delete store k") auto
    then show ?thesis using k Cons.IH [OF r] by auto
  qed
qed simp

lemma reap_one_owner_sound:
  assumes "reap_one_owner store kind k db = (ks, r)"
  shows "key \<in> set ks \<Longrightarrow> key \<notin> object_key ` set (artifacts db)"
    and "r = Inr (db', b) \<Longrightarrow> artifacts db' = artifacts db"
proof -
  show "key \<notin> object_key ` set (artifacts db)" if key: "key \<in> set ks"
  proof -
    obtain keys e where "reap_keys store db keys = (ks, e)"
      using assms key unfolding reap_one_owner_def by (auto split: option.splits sum.splits bool.splits prod.splits if_splits)
    then show ?thesis using reap_keys_unreferenced key by blast
  qed
  show "artifacts db' = artifacts db" if "r = Inr (db', b)"
    using assms that unfolding reap_one_owner_def
    by (auto simp: delete_manifest_def split: option.splits sum.splits bool.splits prod.splits if_splits)
qed

lemma reap_owners_spare:
  assumes "\<And>d. object_key ` set (artifacts d) \<subseteq> object_key ` set (artifacts (ot d))"
  shows "reap_owners store ot cs db = (ks, db', r) \<Longrightarrow> key \<in> object_key ` set (artifacts db) \<Longrightarrow> key \<notin> set ks"
proof (induction cs arbitrary: db ks db' r)
  case (Cons c cs)
  obtain kind k where c: "c = (kind, k)" by fastforce
  obtain ks1 r1 where one: "reap_one_owner store kind k (ot db) = (ks1, r1)" by fastforce
  have key: "key \<in> object_key ` set (artifacts (ot db))" using assms Cons.prems(2) by blast
  then have k1: "key \<notin> set ks1" using reap_one_owner_sound(1) [OF one] by blast
  show ?case
  proof (cases r1)
    case (Inl e)
    then show ?thesis using Cons.prems(1) k1 by (simp add: c one Let_def)
  next
    case (Inr x)
    obtain db1 b where x: "x = (db1, b)" by fastforce
    obtain ks2 db2 r2 where rest: "reap_owners store ot cs db1 = (ks2, db2, r2)" by (metis prod_cases3)
    have "artifacts db1 = artifacts (ot db)" using reap_one_owner_sound(2) [OF one] Inr x by blast
    then have "key \<notin> set ks2" using Cons.IH [OF rest] key by simp
    then show ?thesis using Cons.prems(1) k1 Inr x by (auto simp: c one rest Let_def)
  qed
qed simp

text \<open>
  C22. The repair of abandoned uploads never deletes an object that an artifact row refers to
  when the pass starts, whatever else the store lists under the abandoned prefixes and
  whatever other sessions commit between the owners, as long as they keep their artifact rows.
\<close>

theorem upload_reaper_spares:
  assumes "\<And>d. object_key ` set (artifacts d) \<subseteq> object_key ` set (artifacts (ot d))"
    and "repair_abandoned_uploads store ot db = (ks, db', r)" "key \<in> object_key ` set (artifacts db)"
  shows "key \<notin> set ks"
  using assms(2,3) unfolding repair_abandoned_uploads_def by (rule reap_owners_spare [OF assms(1)])

definition demo_artifact :: Artifact where
  "demo_artifact =
    \<lparr>oid = 1, created_at = 0, updated_at = 0, art_owner_kind = ''runs'', art_owner_id = 6, object_key = ''p/kernel'',
     etag = ''e'', sensitivity = SENSITIVE, retention_class = ''build''\<rparr>"

definition demo_uploads :: "Db \<Rightarrow> Db" where
  "demo_uploads db = db\<lparr>db_clock := 10, artifacts := [demo_artifact], upload_manifests :=
     [\<lparr>um_owner_kind = ''runs'', um_owner_id = 6, um_prefix = ''p/'', um_manifest = JNull, um_deadline = 5\<rparr>]\<rparr>"

definition demo_store :: UploadStore where
  "demo_store = \<lparr>us_list_prefix = (\<lambda>_. Inr [''p/chunk'', ''p/kernel'']), us_delete = (\<lambda>_. Inr ())\<rparr>"

theorem upload_reaper_spares_witness:
  "fst (repair_abandoned_uploads demo_store (\<lambda>d. d) (demo_uploads empty_db)) = [''p/chunk''] \<and>
   ''p/kernel'' \<notin> set (fst (repair_abandoned_uploads demo_store (\<lambda>d. d) (demo_uploads empty_db)))"
proof
  show "fst (repair_abandoned_uploads demo_store (\<lambda>d. d) (demo_uploads empty_db)) = [''p/chunk'']"
    by (simp add: repair_abandoned_uploads_def demo_uploads_def demo_store_def demo_artifact_def abandoned_owner_def
        reap_one_owner_def past_deadline_def owned_by_def Let_def)
  obtain ks db' r where e: "repair_abandoned_uploads demo_store (\<lambda>d. d) (demo_uploads empty_db) = (ks, db', r)" by (metis prod_cases3)
  have "''p/kernel'' \<in> object_key ` set (artifacts (demo_uploads empty_db))" by (simp add: demo_uploads_def demo_artifact_def)
  from upload_reaper_spares [OF _ e this]
  show "''p/kernel'' \<notin> set (fst (repair_abandoned_uploads demo_store (\<lambda>d. d) (demo_uploads empty_db)))" by (simp add: e)
qed

text \<open>After the pass no session is live with a stale heartbeat, and only live ones changed.\<close>

lemma detach_dead_complete:
  assumes "detach_dead stale_after db = (db', rows)"
  shows "list_all (\<lambda>d. \<not> dead_session stale_after (db_clock db) d) (debug_sessions db')"
    "length rows = count_rows (dead_session stale_after (db_clock db)) (debug_sessions db)"
proof -
  have "ds_state (touch clk (ds_state_update (\<lambda>_. DebugSessionState.DETACHED)) d) = DebugSessionState.DETACHED"
    for clk and d :: DebugSession
    by (rule touch_proj [THEN trans]) simp_all
  then show "list_all (\<lambda>d. \<not> dead_session stale_after (db_clock db) d) (debug_sessions db')"
    using assms by (auto simp: detach_dead_def Let_def list_all_iff dead_session_def)
  show "length rows = count_rows (dead_session stale_after (db_clock db)) (debug_sessions db)"
    using assms by (auto simp: detach_dead_def Let_def count_rows_def)
qed

end
