(* ===== verification/Spec2Isabelle.thy ===== *)
theory Spec2Isabelle
  imports Alloc_Service Job_Queue_Facts Run_Machine Reconciler_Passes
begin

text \<open>
  Verification of kdive, a control plane that leases hosts to projects, provisions target
  systems on them and runs jobs on those systems (builds, boots, crashes, captures).  The
  sources are the Python package under \<open>src/src/kdive\<close>; file names below are relative
  to it.

  \<^bold>\<open>The program.\<close>  MCP tools (\<open>mcp/tools\<close>) call services (\<open>services\<close>) that write
  a PostgreSQL database (\<open>db\<close>) under advisory locks, one transaction per call.  Slow
  work is queued as jobs (\<open>jobs/queue.py\<close>), claimed by workers (\<open>jobs/worker.py\<close>)
  and done by handlers (\<open>jobs/handlers\<close>) that call providers (\<open>providers\<close>).  A
  reconciler (\<open>reconciler\<close>) repairs what crashes, leaks and timeouts leave behind.

  \<^bold>\<open>The model.\<close>  The database is the record \<open>Db\<close> of tables (lists of rows in insertion
  order) with the database clock; an operation is a function of it to \<open>exn + (Db \<times> 'a)\<close>,
  where \<open>Inl\<close> is the exception and means rollback.  Fresh identifiers, the client's
  clock, settings, hashes, the object store and the providers are arguments.  Decimals are
  rationals with the rounding of the decimal context written out, instants are integers
  of microseconds, and 32-bit columns are checked where the code writes them.

  \<^bold>\<open>The theories.\<close>

  \<^item> \<open>Kdive_Prelude\<close>: results, guards, searches and counts over tables, JSON values.

  \<^item> \<open>Domain_State\<close>: \<open>domain/state.py\<close> and \<open>domain/errors.py\<close>: the lifecycles, their
    transition tables and guard.  Locales \<open>lifecycle\<close> and \<open>forward_lifecycle\<close> state what
    a table promises (terminal states are final, forward ones terminate).

  \<^item> \<open>Decimal_Arith\<close>, \<open>Cost_Lease\<close>: decimal arithmetic, prices (\<open>domain/cost.py\<close>),
    sizes (\<open>domain/sizing.py\<close>, \<open>domain/shapes.py\<close>) and leases (\<open>domain/lease.py\<close>).
    Locale \<open>rounding\<close>; bounds, monotonicity and exactness on the accounting grid.

  \<^item> \<open>Pcie\<close>: \<open>domain/pcie.py\<close>.  The matcher of device specifications agrees with a
    reference definition (locale \<open>distinct_matcher\<close>).

  \<^item> \<open>Kdive_Models\<close>, \<open>Kdive_Db\<close>: \<open>domain/models.py\<close>, \<open>db/repositories.py\<close>,
    \<open>security/audit.py\<close>.  Locale \<open>keyed_table\<close> gives the laws of a table, interpreted
    for every key column; the repository refines a finite map.

  \<^item> \<open>Authz\<close>: tokens, roles and the destructive-operation gate (\<open>security/authz\<close>).

  \<^item> \<open>Ledger\<close>: \<open>services/accounting\<close>: reservations, reconciliation, running spend.

  \<^item> \<open>Admission\<close>, \<open>Admission_Facts\<close>: allocation requests (\<open>services/allocation\<close>):
    placement, quota, budget, capacity, devices, idempotency keys, queueing.

  \<^item> \<open>Alloc_Lifecycle\<close>, \<open>Alloc_Invariants\<close>: release, renewal, promotion, expiry and
    the reconciler's allocation sweeps.  Locales \<open>audit_writer\<close> and \<open>preserving\<close>: a
    sweep keeps what each of its transactions keeps.

  \<^item> \<open>Job_Payloads\<close>, \<open>Job_Queue\<close>, \<open>Job_Queue_Facts\<close>: payload classes and the
    text of a UUID; the queue, the worker, cancellation and job repair; the queue as a
    state machine (\<open>queue_step\<close>), its invariant, finality and progress.  Locale
    \<open>job_write\<close> is what a fenced write keeps.

  \<^item> \<open>Profiles\<close>, \<open>Profiles_Facts\<close>: \<open>profiles/provisioning.py\<close>, component
    references and the providers' profile policies; stored profiles parse back.

  \<^item> \<open>Systems\<close>, \<open>Db_Connection\<close>, \<open>System_Handlers\<close>: admission of Systems, the
    destructive tools, repair; a pooled connection with its implicit transaction,
    savepoints and rollback; the five System handlers as actions on it, with what other
    sessions commit during a provider call.

  \<^item> \<open>Systems_Facts\<close>, \<open>Systems_Machine\<close>: outcomes of the handlers and tools; the
    System plane as a state machine (\<open>system_step\<close>) and the typing of its table.
    Locale \<open>handler_invariant\<close> is what an invariant needs to survive the handlers; it is
    interpreted for the System table and for the accounts.

  \<^item> \<open>Alloc_Service\<close>: the writers of allocations and accounts as one state machine
    (\<open>service_step\<close>): requests, release and renewal, the System plane, promotion, the
    reconciler's sweeps as a whole and candidate by candidate, budget settings and their
    seeding, and the break-glass release (\<open>mcp/tools/ops/breakglass.py\<close>, modelled here);
    the accounts balance in every reachable state.

  \<^item> \<open>Build_Hosts\<close>: \<open>profiles/build.py\<close>, \<open>db/build_hosts.py\<close>,
    \<open>services/runs/build_host_selection.py\<close>, the tools that admit builds, installs and
    boots, the operators' tools for build hosts and \<open>reconciler/build_hosts.py\<close>.

  \<^item> \<open>Host_Inventory\<close>: \<open>inventory/reconcile_build_hosts.py\<close>: the merge of the declared
    build hosts into the table, with adoption, pruning and cordoning.

  \<^item> \<open>Lease_Slots\<close>: the leases of build hosts refine a pool of slots per host, a map from
    Runs to hosts.

  \<^item> \<open>Run_Handlers\<close>: \<open>jobs/handlers/runs.py\<close> with the recorded steps of a Run
    (\<open>db/idempotency.py\<close>, \<open>services/runs/steps.py\<close>): build, install and boot as
    actions on a connection.

  \<^item> \<open>Run_Facts\<close>, \<open>Run_Machine\<close>: outcomes of builds and of retries; handlers that
    raise commit nothing (\<open>rolls_back\<close>); the build hosts as a state machine
    (\<open>build_step\<close>), whose leases stay within the capacities ever configured for a host and
    whose admissions stay within the present one; the worker with the handlers of Systems
    and builds (\<open>worker_registry\<close>) drains its queue.  Locale \<open>run_plane_invariant\<close> is what
    an invariant needs to survive the Run handlers; it is interpreted for the capacity of
    the hosts and for the System table.

  \<^item> \<open>Reconciler_Passes\<close>: the repair of abandoned uploads and of dead debug sessions
    (\<open>reconciler/uploads.py\<close>, \<open>reconciler/debug_sessions.py\<close>).

  \<^bold>\<open>Termination and fuel.\<close>  Every definition is total.  Loops of the code are structural
  recursions over the rows they read; the worker's loop is iterated by a number of claims,
  and \<open>worker_drains\<close> shows how many are enough for a worker with the handlers of Systems
  and builds; the wait for another session's
  claim of a step is bounded by a number of polls, after which the model says that the
  handler is still waiting.

  \<^bold>\<open>Interleaving.\<close>  A transaction is atomic, as the advisory and row locks make it; the
  state machines interleave transactions freely, and a handler is interrupted at each of
  its provider calls.  Sweeps are modelled with one snapshot of their candidates and a
  fresh read per candidate, as in the code.  Since the code commits after each candidate,
  the machine of allocations also takes every candidate as a step of its own, so that other
  transactions come between two of them.

  \<^bold>\<open>Not modelled.\<close>  The providers and their drivers (\<open>providers\<close>: libvirt, ssh, qemu,
  gdb) and the object store client (\<open>store\<close>) are effects on machines outside the
  database; they are arguments here.  The command line (\<open>cli\<close>), process health
  (\<open>health\<close>, \<open>process_health\<close>), telemetry (\<open>observability\<close>), configuration and
  prerequisites (\<open>config\<close>, \<open>prereqs\<close>), tool registration and response rendering
  (\<open>mcp\<close>), diagnostics, the image builder (\<open>images\<close>) and the loader, the
  image and the resource passes of the inventory file (\<open>inventory\<close>) are input, output and
  wiring.  The forced teardown of \<open>mcp/tools/ops\<close> is left out.  Creation of Runs and completion of
  external builds need the investigations table and multipart uploads; debug sessions and
  core capture (\<open>mcp/tools/debug\<close>, \<open>jobs/handlers/vmcore.py\<close>) drive gdb and ssh.  They
  are not modelled; their jobs, rows and states are.
  Argument digests of audit rows, log lines and error details are left out throughout.
\<close>

end
